(* ===== verification/Dnfs_Prelude.thy ===== *)
theory Dnfs_Prelude
  imports Main "HOL-Library.Word"
begin

text \<open>
  Shared vocabulary of the development: the machine types of the C++ sources
  (\<open>uint8_t\<close>, \<open>uint32_t\<close>, \<open>uint64_t\<close>, \<open>bool_t\<close>), the bytes of a big-endian
  32-bit unit, the overwriting of a stretch of a buffer, and the fact
  collections the component theories fill.
\<close>

unbundle bit_operations_syntax

type_synonym byte = "8 word"
type_synonym uint16 = "16 word"
type_synonym uint32 = "32 word"
type_synonym uint64 = "64 word"

text \<open>
  C \<open>enum\<close>s and \<open>bool_t\<close> are 32-bit integers: a value read from the network
  need not be one of the enumerators, so they stay words.
\<close>

type_synonym enum_t = "32 word"
type_synonym bool_t = "32 word"

text \<open>
  A C string or byte buffer behind a \<open>char *\<close>: \<open>None\<close> is the null pointer,
  \<open>Some bs\<close> a block of memory holding the bytes \<open>bs\<close>.
\<close>

type_synonym char_ptr = "byte list option"

named_theorems xdr_defs \<open>definitions of the XDR routines\<close>
named_theorems nfs_consts \<open>numeric constants of the NFS and RPC headers\<close>
named_theorems wire_defs \<open>definitions of the wire formats\<close>

lemma unat_uint32_bound [simp]: "unat (n :: uint32) < 4294967296"
  using unsigned_less [of n, where ?'a = nat] by simp

lemma unat_ucast_uint32 [simp]: "unat (ucast (n :: uint32) :: uint64) = unat n"
  by (simp add: unsigned_ucast_eq take_bit_nat_eq_self_iff order_less_trans [OF unat_uint32_bound])

section \<open>Overwriting a stretch of a list\<close>

definition overwrite :: "nat \<Rightarrow> 'a list \<Rightarrow> 'a list \<Rightarrow> 'a list" where
  "overwrite i bs xs = take i xs @ bs @ drop (i + length bs) xs"

lemma length_overwrite [simp]:
  "i + length bs \<le> length xs \<Longrightarrow> length (overwrite i bs xs) = length xs"
  by (simp add: overwrite_def)

lemma overwrite_Nil [simp]: "overwrite i [] xs = xs"
  by (simp add: overwrite_def)

lemma overwrite_append:
  "i + length (as @ bs) \<le> length xs \<Longrightarrow>
   overwrite (i + length as) bs (overwrite i as xs) = overwrite i (as @ bs) xs"
  by (cases as) (auto simp: overwrite_def min_def add_ac)

lemma take_overwrite_before:
  "j \<le> i \<Longrightarrow> i \<le> length xs \<Longrightarrow> take j (overwrite i bs xs) = take j xs"
  by (simp add: overwrite_def min_def)

lemma drop_overwrite_after:
  "i + length bs \<le> j \<Longrightarrow> i \<le> length xs \<Longrightarrow> drop j (overwrite i bs xs) = drop j xs"
  by (simp add: overwrite_def min_def)

lemma take_overwrite_end:
  "i \<le> length xs \<Longrightarrow> take (i + length bs) (overwrite i bs xs) = take i xs @ bs"
  by (simp add: overwrite_def min_def)

section \<open>Big-endian 32-bit units\<close>

text \<open>
  \<open>htonl\<close> followed by a store, and a load followed by \<open>ntohl\<close>: on every host
  the four bytes in memory are the big-endian ones.
\<close>

definition htonl_bytes :: "uint32 \<Rightarrow> byte list" where
  "htonl_bytes v =
     [ucast (drop_bit 24 v), ucast (drop_bit 16 v), ucast (drop_bit 8 v), ucast v]"

fun ntohl_bytes :: "byte list \<Rightarrow> uint32" where
  "ntohl_bytes (a # b # c # d # _) =
     push_bit 24 (ucast a) OR push_bit 16 (ucast b) OR push_bit 8 (ucast c) OR ucast d"
| "ntohl_bytes _ = 0"

lemma length_htonl_bytes [simp]: "length (htonl_bytes v) = 4"
  by (simp add: htonl_bytes_def)

lemma ntohl_htonl_bytes [simp]: "ntohl_bytes (htonl_bytes v @ xs) = v"
proof (rule bit_word_eqI)
  fix n assume "n < LENGTH(32)"
  then consider "n < 8" | "8 \<le> n" "n < 16" | "16 \<le> n" "n < 24" | "24 \<le> n" "n < 32"
    by (cases "n < 8"; cases "n < 16"; cases "n < 24") auto
  then show "bit (ntohl_bytes (htonl_bytes v @ xs)) n \<longleftrightarrow> bit v n"
    by cases (auto simp: htonl_bytes_def bit_simps)
qed

lemma byte_bit_beyond [simp]: "8 \<le> n \<Longrightarrow> \<not> bit (b :: byte) n"
  using bit_imp_le_length [of b n] by auto

lemma htonl_ntohl_bytes:
  "length bs = 4 \<Longrightarrow> htonl_bytes (ntohl_bytes bs) = bs"
proof -
  assume "length bs = 4"
  then obtain a b c d where bs: "bs = [a, b, c, d]"
    by (auto simp: numeral_eq_Suc length_Suc_conv)
  show ?thesis
    unfolding bs htonl_bytes_def
    by (auto simp: bit_simps intro!: bit_word_eqI)
qed

lemma htonl_bytes_inject [simp]: "htonl_bytes v = htonl_bytes w \<longleftrightarrow> v = w"
  by (metis ntohl_htonl_bytes)

lemma unat_word_plus: "unat a + unat b < 2 ^ LENGTH('a) \<Longrightarrow> unat (a + b) = unat a + unat (b :: 'a :: len word)"
  by (simp add: unat_word_ariths)

lemma unat_plus_of_nat:
  "unat a + n < 2 ^ LENGTH('a) \<Longrightarrow> unat (a + of_nat n :: 'a :: len word) = unat a + n"
  by (simp add: unat_word_ariths unsigned_of_nat take_bit_eq_mod mod_add_right_eq)

end
