(* ===== verification/Xdr_Stream.thy ===== *)
theory Xdr_Stream
  imports Dnfs_Prelude "HOL-Library.Sublist"
begin

text \<open>
  XDR streams over one contiguous memory buffer: the \<open>XDR\<close> handle and the inline
  accessors of \<open>libntirpc/ntirpc/rpc/xdr.h\<close>, with the stream operations of
  \<open>libntirpc/src/xdr_mem.c\<close> behind the \<open>x_ops\<close> table.  A pointer into the buffer
  is its offset from the buffer's start.  The second half holds the two
  contracts every XDR routine is held to: \<open>xdr_safe\<close> (whatever the bytes, a
  routine stays inside the buffer) and \<open>xdr_codec\<close> (a routine implements a wire
  format in both directions), with their closure under sequencing.
\<close>

section \<open>Handles\<close>

datatype xdr_op = XDR_ENCODE | XDR_DECODE | XDR_FREE

definition BYTES_PER_XDR_UNIT :: nat where
  "BYTES_PER_XDR_UNIT = 4"

definition RNDUP :: "uint32 \<Rightarrow> uint32" where
  "RNDUP x = (x + 4 - 1) AND NOT (4 - 1)"

record xdr_vio =
  vio_base :: nat
  vio_head :: nat
  vio_tail :: nat
  vio_wrap :: nat

text \<open>The look-ahead block that \<open>x_public\<close> points to while NFS arguments are decoded.\<close>

record nfs_request_lookahead =
  lkhd_flags :: uint32
  lkhd_read :: uint16
  lkhd_write :: uint16

record XDR =
  x_op :: xdr_op
  x_buf :: "byte list"
  x_data :: nat
  x_v :: xdr_vio
  x_public :: "nfs_request_lookahead option"

type_synonym 'a xdrproc = "XDR \<Rightarrow> 'a \<Rightarrow> bool \<times> XDR \<times> 'a"

abbreviation xv_tail :: "XDR \<Rightarrow> nat" where
  "xv_tail xdrs \<equiv> vio_tail (x_v xdrs)"

abbreviation xv_wrap :: "XDR \<Rightarrow> nat" where
  "xv_wrap xdrs \<equiv> vio_wrap (x_v xdrs)"

definition xdr_size_inline :: "XDR \<Rightarrow> nat" where
  "xdr_size_inline xdrs = xv_wrap xdrs - x_data xdrs"

definition xdr_tail_inline :: "XDR \<Rightarrow> nat" where
  "xdr_tail_inline xdrs = xv_tail xdrs - x_data xdrs"

definition xdr_tail_update :: "XDR \<Rightarrow> XDR" where
  "xdr_tail_update xdrs =
     (if xv_tail xdrs < x_data xdrs
      then xdrs\<lparr>x_v := (x_v xdrs)\<lparr>vio_tail := x_data xdrs\<rparr>\<rparr>
      else xdrs)"

section \<open>The memory stream (xdr\_mem.c)\<close>

text \<open>
  \<open>xdrmem_ncreate\<close> aborts on a buffer that is not 4-byte aligned and on the
  operation \<open>XDR_FREE\<close>; an abort is the value \<open>None\<close>.
\<close>

definition xdrmem_ncreate :: "nat \<Rightarrow> byte list \<Rightarrow> nat \<Rightarrow> xdr_op \<Rightarrow> XDR option" where
  "xdrmem_ncreate addr buf sz op =
     (if addr mod 4 \<noteq> 0 then None
      else case op of
        XDR_ENCODE \<Rightarrow>
          Some \<lparr>x_op = op, x_buf = buf, x_data = 0,
                x_v = \<lparr>vio_base = 0, vio_head = 0, vio_tail = 0, vio_wrap = sz\<rparr>,
                x_public = None\<rparr>
      | XDR_DECODE \<Rightarrow>
          Some \<lparr>x_op = op, x_buf = buf, x_data = 0,
                x_v = \<lparr>vio_base = 0, vio_head = 0, vio_tail = sz, vio_wrap = sz\<rparr>,
                x_public = None\<rparr>
      | XDR_FREE \<Rightarrow> None)"

definition xdrmem_getunit :: "XDR \<Rightarrow> uint32 \<Rightarrow> bool \<times> XDR \<times> uint32" where
  "xdrmem_getunit xdrs p = (False, xdrs, p)"

definition xdrmem_putunit :: "XDR \<Rightarrow> uint32 \<Rightarrow> bool \<times> XDR" where
  "xdrmem_putunit xdrs v = (False, xdrs)"

definition xdrmem_getbytes :: "XDR \<Rightarrow> byte list \<Rightarrow> nat \<Rightarrow> bool \<times> XDR \<times> byte list" where
  "xdrmem_getbytes xdrs addr len =
     (let future = x_data xdrs + len in
      if future > xv_tail xdrs then (False, xdrs, addr)
      else (True, xdrs\<lparr>x_data := future\<rparr>,
            overwrite 0 (take len (drop (x_data xdrs) (x_buf xdrs))) addr))"

definition xdrmem_putbytes :: "XDR \<Rightarrow> byte list \<Rightarrow> nat \<Rightarrow> bool \<times> XDR" where
  "xdrmem_putbytes xdrs addr len =
     (let future = x_data xdrs + len in
      if future > xv_wrap xdrs then (False, xdrs)
      else (True, xdrs\<lparr>x_buf := overwrite (x_data xdrs) (take len addr) (x_buf xdrs),
                       x_data := future\<rparr>))"

definition xdrmem_getpos :: "XDR \<Rightarrow> nat \<times> XDR" where
  "xdrmem_getpos xdrs =
     (let xdrs = xdr_tail_update xdrs in (x_data xdrs - vio_head (x_v xdrs), xdrs))"

definition xdrmem_setpos :: "XDR \<Rightarrow> nat \<Rightarrow> bool \<times> XDR" where
  "xdrmem_setpos xdrs pos =
     (let future = vio_head (x_v xdrs) + pos;
          xdrs = xdr_tail_update xdrs in
      if future > xv_wrap xdrs then (False, xdrs)
      else (True, xdrs\<lparr>x_data := future\<rparr>))"

section \<open>Inline accessors (xdr.h)\<close>

text \<open>
  A \<open>long\<close> has 64 bits.  The fast path of \<open>xdr_getlong\<close> zero-extends the unit,
  the \<open>x_getunit\<close> path sign-extends it; the memory stream only has the former.
\<close>

definition xdr_getlong :: "XDR \<Rightarrow> uint64 \<Rightarrow> bool \<times> XDR \<times> uint64" where
  "xdr_getlong xdrs lp =
     (let future = x_data xdrs + 4 in
      if future \<le> xv_tail xdrs
      then (True, xdrs\<lparr>x_data := future\<rparr>, ucast (ntohl_bytes (drop (x_data xdrs) (x_buf xdrs))))
      else (case xdrmem_getunit xdrs 0 of
              (b, xdrs', u) \<Rightarrow> (b, xdrs', if b then scast u else lp)))"

definition xdr_putlong :: "XDR \<Rightarrow> uint64 \<Rightarrow> bool \<times> XDR" where
  "xdr_putlong xdrs lp =
     (let future = x_data xdrs + 4 in
      if future \<le> xv_wrap xdrs
      then (True, xdrs\<lparr>x_buf := overwrite (x_data xdrs) (htonl_bytes (ucast lp)) (x_buf xdrs),
                       x_data := future\<rparr>)
      else xdrmem_putunit xdrs (ucast lp))"

definition xdr_getuint32 :: "XDR \<Rightarrow> uint32 \<Rightarrow> bool \<times> XDR \<times> uint32" where
  "xdr_getuint32 xdrs ip =
     (let future = x_data xdrs + 4 in
      if future \<le> xv_tail xdrs
      then (True, xdrs\<lparr>x_data := future\<rparr>, ntohl_bytes (drop (x_data xdrs) (x_buf xdrs)))
      else xdrmem_getunit xdrs ip)"

definition xdr_putuint32 :: "XDR \<Rightarrow> uint32 \<Rightarrow> bool \<times> XDR" where
  "xdr_putuint32 xdrs v =
     (let future = x_data xdrs + 4 in
      if future \<le> xv_wrap xdrs
      then (True, xdrs\<lparr>x_buf := overwrite (x_data xdrs) (htonl_bytes v) (x_buf xdrs),
                       x_data := future\<rparr>)
      else xdrmem_putunit xdrs v)"

definition xdr_getint32 :: "XDR \<Rightarrow> uint32 \<Rightarrow> bool \<times> XDR \<times> uint32" where
  "xdr_getint32 xdrs ip = xdr_getuint32 xdrs ip"

definition xdr_putint32 :: "XDR \<Rightarrow> uint32 \<Rightarrow> bool \<times> XDR" where
  "xdr_putint32 xdrs v = xdr_putuint32 xdrs v"

definition xdr_getuint16 :: "XDR \<Rightarrow> uint16 \<Rightarrow> bool \<times> XDR \<times> uint16" where
  "xdr_getuint16 xdrs ip =
     (let future = x_data xdrs + 4 in
      if future \<le> xv_tail xdrs
      then (True, xdrs\<lparr>x_data := future\<rparr>, ucast (ntohl_bytes (drop (x_data xdrs) (x_buf xdrs))))
      else (case xdrmem_getunit xdrs 0 of
              (b, xdrs', u) \<Rightarrow> (b, xdrs', if b then ucast u else ip)))"

definition xdr_putuint16 :: "XDR \<Rightarrow> uint32 \<Rightarrow> bool \<times> XDR" where
  "xdr_putuint16 xdrs v =
     (let future = x_data xdrs + 4 in
      if future \<le> xv_wrap xdrs
      then (True, xdrs\<lparr>x_buf := overwrite (x_data xdrs) (htonl_bytes v) (x_buf xdrs),
                       x_data := future\<rparr>)
      else xdrmem_putunit xdrs v)"

definition xdr_getuint8 :: "XDR \<Rightarrow> byte \<Rightarrow> bool \<times> XDR \<times> byte" where
  "xdr_getuint8 xdrs ip =
     (let future = x_data xdrs + 4 in
      if future \<le> xv_tail xdrs
      then (True, xdrs\<lparr>x_data := future\<rparr>, ucast (ntohl_bytes (drop (x_data xdrs) (x_buf xdrs))))
      else (case xdrmem_getunit xdrs 0 of
              (b, xdrs', u) \<Rightarrow> (b, xdrs', if b then ucast u else ip)))"

definition xdr_putuint8 :: "XDR \<Rightarrow> uint32 \<Rightarrow> bool \<times> XDR" where
  "xdr_putuint8 xdrs v =
     (let future = x_data xdrs + 4 in
      if future \<le> xv_wrap xdrs
      then (True, xdrs\<lparr>x_buf := overwrite (x_data xdrs) (htonl_bytes v) (x_buf xdrs),
                       x_data := future\<rparr>)
      else xdrmem_putunit xdrs v)"

definition xdr_getenum :: "XDR \<Rightarrow> enum_t \<Rightarrow> bool \<times> XDR \<times> enum_t" where
  "xdr_getenum xdrs ip = xdr_getint32 xdrs ip"

definition xdr_putenum :: "XDR \<Rightarrow> enum_t \<Rightarrow> bool \<times> XDR" where
  "xdr_putenum xdrs enumv = xdr_putint32 xdrs enumv"

definition xdr_getbool :: "XDR \<Rightarrow> bool_t \<Rightarrow> bool \<times> XDR \<times> bool_t" where
  "xdr_getbool xdrs ip =
     (case xdr_getint32 xdrs 0 of
        (False, xdrs', lv) \<Rightarrow> (False, xdrs', ip)
      | (True, xdrs', lv) \<Rightarrow> (True, xdrs', if lv \<noteq> 0 then 1 else 0))"

definition xdr_putbool :: "XDR \<Rightarrow> bool_t \<Rightarrow> bool \<times> XDR" where
  "xdr_putbool xdrs boolv = xdr_putint32 xdrs (if boolv \<noteq> 0 then 1 else 0)"

definition xdr_inline_decode :: "XDR \<Rightarrow> nat \<Rightarrow> nat option \<times> XDR" where
  "xdr_inline_decode xdrs count =
     (let buf = x_data xdrs; future = x_data xdrs + count in
      if future \<le> xv_tail xdrs then (Some buf, xdrs\<lparr>x_data := future\<rparr>) else (None, xdrs))"

definition xdr_inline_encode :: "XDR \<Rightarrow> nat \<Rightarrow> nat option \<times> XDR" where
  "xdr_inline_encode xdrs count =
     (let buf = x_data xdrs; future = x_data xdrs + count in
      if future \<le> xv_wrap xdrs then (Some buf, xdr_tail_update (xdrs\<lparr>x_data := future\<rparr>))
      else (None, xdrs))"

section \<open>Stream invariant and movement\<close>

text \<open>
  The ordering the header states for the buffer descriptor, the bound of the
  current position, and, for a decoding stream, that the whole buffer holds data.
\<close>

definition xdr_wf :: "XDR \<Rightarrow> bool" where
  "xdr_wf xdrs \<longleftrightarrow>
     vio_base (x_v xdrs) \<le> vio_head (x_v xdrs) \<and> vio_head (x_v xdrs) \<le> xv_tail xdrs \<and>
     xv_tail xdrs \<le> xv_wrap xdrs \<and> xv_wrap xdrs \<le> length (x_buf xdrs) \<and>
     vio_head (x_v xdrs) \<le> x_data xdrs \<and> x_data xdrs \<le> xv_wrap xdrs \<and>
     (x_op xdrs = XDR_DECODE \<longrightarrow> xv_tail xdrs = xv_wrap xdrs)"

text \<open>
  What a routine may do to a stream: move forward inside the buffer, write only
  between the old and the new position, and write only when encoding.
\<close>

definition xdr_moves :: "XDR \<Rightarrow> XDR \<Rightarrow> bool" where
  "xdr_moves xdrs xdrs' \<longleftrightarrow>
     xdr_wf xdrs' \<and> x_op xdrs' = x_op xdrs \<and> x_v xdrs' = x_v xdrs \<and>
     length (x_buf xdrs') = length (x_buf xdrs) \<and> x_data xdrs \<le> x_data xdrs' \<and>
     take (x_data xdrs) (x_buf xdrs') = take (x_data xdrs) (x_buf xdrs) \<and>
     drop (x_data xdrs') (x_buf xdrs') = drop (x_data xdrs') (x_buf xdrs) \<and>
     (x_op xdrs \<noteq> XDR_ENCODE \<longrightarrow> x_buf xdrs' = x_buf xdrs)"

lemma xdr_moves_refl [simp]: "xdr_wf xdrs \<Longrightarrow> xdr_moves xdrs xdrs"
  by (simp add: xdr_moves_def)

lemma xdr_moves_public [simp]: "xdr_moves xdrs (xdrs'\<lparr>x_public := l\<rparr>) \<longleftrightarrow> xdr_moves xdrs xdrs'"
  by (simp add: xdr_moves_def xdr_wf_def)

lemma xdr_moves_wf: "xdr_moves xdrs xdrs' \<Longrightarrow> xdr_wf xdrs'"
  by (simp add: xdr_moves_def)

lemma xdr_moves_trans:
  assumes "xdr_moves a b" and "xdr_moves b c"
  shows "xdr_moves a c"
proof -
  have le: "x_data a \<le> x_data b" "x_data b \<le> x_data c"
    using assms by (auto simp: xdr_moves_def)
  have "take (x_data a) (x_buf c) = take (x_data a) (take (x_data b) (x_buf c))"
    using le by (simp add: min_absorb1)
  also have "\<dots> = take (x_data a) (x_buf a)"
    using assms le by (simp add: xdr_moves_def min_absorb1)
  finally have t: "take (x_data a) (x_buf c) = take (x_data a) (x_buf a)" .
  have "drop (x_data c) (x_buf b) = drop (x_data c - x_data b) (drop (x_data b) (x_buf b))"
    using le by simp
  also have "\<dots> = drop (x_data c) (x_buf a)"
    using assms le by (simp add: xdr_moves_def)
  finally have "drop (x_data c) (x_buf c) = drop (x_data c) (x_buf a)"
    using assms by (simp add: xdr_moves_def)
  with t le assms show ?thesis
    by (auto simp: xdr_moves_def)
qed

text \<open>
  The two views clients have of a stream: the bytes still to be read, and the
  number of bytes that can still be written; and the two elementary movements.
\<close>

definition unread :: "XDR \<Rightarrow> byte list" where
  "unread xdrs = take (xv_tail xdrs - x_data xdrs) (drop (x_data xdrs) (x_buf xdrs))"

definition room :: "XDR \<Rightarrow> nat" where
  "room xdrs = xv_wrap xdrs - x_data xdrs"

definition skip :: "nat \<Rightarrow> XDR \<Rightarrow> XDR" where
  "skip n xdrs = xdrs\<lparr>x_data := x_data xdrs + n\<rparr>"

definition emit :: "byte list \<Rightarrow> XDR \<Rightarrow> XDR" where
  "emit bs xdrs =
     xdrs\<lparr>x_buf := overwrite (x_data xdrs) bs (x_buf xdrs), x_data := x_data xdrs + length bs\<rparr>"

lemma length_unread: "xdr_wf xdrs \<Longrightarrow> length (unread xdrs) = xv_tail xdrs - x_data xdrs"
  by (auto simp: unread_def xdr_wf_def)

lemma skip_select [simp]:
  "x_op (skip n xdrs) = x_op xdrs" "x_buf (skip n xdrs) = x_buf xdrs"
  "x_v (skip n xdrs) = x_v xdrs" "x_data (skip n xdrs) = x_data xdrs + n"
  "x_public (skip n xdrs) = x_public xdrs"
  by (simp_all add: skip_def)

lemma skip_0 [simp]: "skip 0 xdrs = xdrs"
  by (simp add: skip_def)

lemma skip_skip [simp]: "skip m (skip n xdrs) = skip (n + m) xdrs"
  by (simp add: skip_def add_ac)

lemma unread_skip [simp]: "unread (skip n xdrs) = drop n (unread xdrs)"
  by (simp add: unread_def drop_take add_ac)

lemma emit_select [simp]:
  "x_op (emit bs xdrs) = x_op xdrs" "x_v (emit bs xdrs) = x_v xdrs"
  "x_data (emit bs xdrs) = x_data xdrs + length bs" "x_public (emit bs xdrs) = x_public xdrs"
  "x_buf (emit bs xdrs) = overwrite (x_data xdrs) bs (x_buf xdrs)"
  by (simp_all add: emit_def)

lemma emit_Nil [simp]: "emit [] xdrs = xdrs"
  by (simp add: emit_def)

lemma room_emit [simp]: "room (emit bs xdrs) = room xdrs - length bs"
  by (simp add: room_def)

lemma emit_emit:
  assumes "xdr_wf xdrs" and "length (as @ bs) \<le> room xdrs"
  shows "emit bs (emit as xdrs) = emit (as @ bs) xdrs"
proof -
  have "x_data xdrs + length (as @ bs) \<le> length (x_buf xdrs)"
    using assms by (auto simp: room_def xdr_wf_def)
  from overwrite_append [OF this] show ?thesis
    by (simp add: emit_def add.assoc)
qed

lemma skip_moves:
  "xdr_wf xdrs \<Longrightarrow> x_op xdrs = XDR_DECODE \<Longrightarrow> n \<le> length (unread xdrs) \<Longrightarrow>
   xdr_moves xdrs (skip n xdrs)"
  by (auto simp: xdr_moves_def xdr_wf_def length_unread unread_def)

lemma emit_moves:
  "xdr_wf xdrs \<Longrightarrow> x_op xdrs = XDR_ENCODE \<Longrightarrow> length bs \<le> room xdrs \<Longrightarrow>
   xdr_moves xdrs (emit bs xdrs)"
  by (auto simp: xdr_moves_def xdr_wf_def room_def take_overwrite_before drop_overwrite_after)

lemmas skip_wf = skip_moves [THEN xdr_moves_wf]
lemmas emit_wf = emit_moves [THEN xdr_moves_wf]

section \<open>Building blocks of composite routines\<close>

text \<open>
  A routine for a \<open>struct\<close> calls the routine of each member on the address of
  that member (\<open>xdr_field\<close>), stops at the first that fails (\<open>xdr_seq\<close>), and
  switches on a member that has just been handled (\<open>xdr_switch\<close>).  \<open>xdr_all\<close> is
  a body that calls its routines in order and returns true at the end.
\<close>

definition xdr_ok :: "'a xdrproc" where
  "xdr_ok xdrs v = (True, xdrs, v)"

definition xdr_fail :: "'a xdrproc" where
  "xdr_fail xdrs v = (False, xdrs, v)"

definition xdr_field :: "('r \<Rightarrow> 'a) \<Rightarrow> (('a \<Rightarrow> 'a) \<Rightarrow> 'r \<Rightarrow> 'r) \<Rightarrow> 'a xdrproc \<Rightarrow> 'r xdrproc" where
  "xdr_field get upd p xdrs r =
     (case p xdrs (get r) of (ok, xdrs', v) \<Rightarrow> (ok, xdrs', upd (\<lambda>_. v) r))"

definition xdr_seq :: "'r xdrproc \<Rightarrow> 'r xdrproc \<Rightarrow> 'r xdrproc" where
  "xdr_seq p q xdrs r =
     (case p xdrs r of
        (True, xdrs', r') \<Rightarrow> q xdrs' r'
      | (False, xdrs', r') \<Rightarrow> (False, xdrs', r'))"

definition xdr_switch :: "('r \<Rightarrow> 't) \<Rightarrow> ('t \<Rightarrow> 'r xdrproc) \<Rightarrow> 'r xdrproc" where
  "xdr_switch sel arm xdrs r = arm (sel r) xdrs r"

primrec xdr_all :: "'r xdrproc list \<Rightarrow> 'r xdrproc" where
  "xdr_all [] = xdr_ok"
| "xdr_all (p # ps) = xdr_seq p (xdr_all ps)"

text \<open>A discriminated union: a tag member, then the arm the tag selects.\<close>

definition xdr_tagged ::
  "('r \<Rightarrow> 't) \<Rightarrow> (('t \<Rightarrow> 't) \<Rightarrow> 'r \<Rightarrow> 'r) \<Rightarrow> 't xdrproc \<Rightarrow> ('t \<Rightarrow> 'r xdrproc) \<Rightarrow> 'r xdrproc" where
  "xdr_tagged get upd p arm = xdr_seq (xdr_field get upd p) (xdr_switch get arm)"

section \<open>Contract: a routine stays inside its buffer\<close>

locale xdr_safe =
  fixes proc :: "'a xdrproc"
  assumes moves: "xdr_wf xdrs \<Longrightarrow> xdr_moves xdrs (fst (snd (proc xdrs v)))"
begin

lemma movesD:
  "xdr_wf xdrs \<Longrightarrow> proc xdrs v = (ok, xdrs', v') \<Longrightarrow> xdr_moves xdrs xdrs'"
  using moves [of xdrs v] by simp

lemma stays_wf:
  "xdr_wf xdrs \<Longrightarrow> proc xdrs v = (ok, xdrs', v') \<Longrightarrow> xdr_wf xdrs'"
  using movesD xdr_moves_wf by blast

lemma buffer_frame:
  assumes "xdr_wf xdrs" and "proc xdrs v = (ok, xdrs', v')"
    and "i < x_data xdrs \<or> x_data xdrs' \<le> i" and "i < length (x_buf xdrs)"
  shows "x_buf xdrs' ! i = x_buf xdrs ! i"
proof -
  note m = movesD [OF assms(1,2)]
  from assms(3) show ?thesis
  proof
    assume "i < x_data xdrs"
    moreover have "take (x_data xdrs) (x_buf xdrs') ! i = take (x_data xdrs) (x_buf xdrs) ! i"
      using m by (simp add: xdr_moves_def)
    ultimately show ?thesis
      by simp
  next
    assume i: "x_data xdrs' \<le> i"
    have "drop (x_data xdrs') (x_buf xdrs') ! (i - x_data xdrs') =
          drop (x_data xdrs') (x_buf xdrs) ! (i - x_data xdrs')"
      and "length (x_buf xdrs') = length (x_buf xdrs)"
      using m by (simp_all only: xdr_moves_def)
    with i assms(4) show ?thesis
      by simp
  qed
qed

end

named_theorems xdr_safe_intros \<open>routines known to stay inside their buffer\<close>

lemma xdr_safe_ok [xdr_safe_intros]: "xdr_safe xdr_ok"
  by unfold_locales (simp add: xdr_ok_def)

lemma xdr_safe_fail [xdr_safe_intros]: "xdr_safe xdr_fail"
  by unfold_locales (simp add: xdr_fail_def)

lemma xdr_field_stream [simp]:
  "fst (xdr_field get upd p xdrs r) = fst (p xdrs (get r))"
  "fst (snd (xdr_field get upd p xdrs r)) = fst (snd (p xdrs (get r)))"
  by (simp_all add: xdr_field_def split: prod.split)

lemma xdr_safe_field [xdr_safe_intros]: "xdr_safe p \<Longrightarrow> xdr_safe (xdr_field get upd p)"
  by (simp add: xdr_safe_def)

lemma xdr_safe_seq [xdr_safe_intros]:
  assumes "xdr_safe p" and "xdr_safe q"
  shows "xdr_safe (xdr_seq p q)"
proof
  fix xdrs v assume wf: "xdr_wf xdrs"
  obtain ok xdrs' v' where p: "p xdrs v = (ok, xdrs', v')"
    by (cases "p xdrs v") auto
  note m = xdr_safe.movesD [OF assms(1) wf p]
  with p show "xdr_moves xdrs (fst (snd (xdr_seq p q xdrs v)))"
    using xdr_safe.moves [OF assms(2) xdr_moves_wf [OF m]] xdr_moves_trans [OF m]
    by (cases ok) (simp_all add: xdr_seq_def)
qed

lemma xdr_safe_switch [xdr_safe_intros]:
  "(\<And>t. xdr_safe (arm t)) \<Longrightarrow> xdr_safe (xdr_switch sel arm)"
  by (simp add: xdr_safe_def xdr_switch_def)

lemma xdr_safe_if [xdr_safe_intros]:
  "xdr_safe p \<Longrightarrow> xdr_safe q \<Longrightarrow> xdr_safe (if b then p else q)"
  by simp

section \<open>Contract: a routine implements a wire format\<close>

text \<open>
  \<open>enc v\<close> is the wire format of a \<open>valid\<close> object, and \<open>dec v w\<close> what the target
  \<open>w\<close> holds after \<open>v\<close> has been read into it: a union arm that is not selected, or
  a pointer no data is read for, keeps what memory had there.
\<close>

locale xdr_codec = xdr_safe proc
  for proc :: "'a xdrproc" +
  fixes enc :: "'a \<Rightarrow> byte list"
    and valid :: "'a \<Rightarrow> bool"
    and dec :: "'a \<Rightarrow> 'a \<Rightarrow> 'a"
  assumes encode_fits:
      "xdr_wf xdrs \<Longrightarrow> x_op xdrs = XDR_ENCODE \<Longrightarrow> valid v \<Longrightarrow> length (enc v) \<le> room xdrs \<Longrightarrow>
       proc xdrs v = (True, emit (enc v) xdrs, v)"
    and encode_full:
      "xdr_wf xdrs \<Longrightarrow> x_op xdrs = XDR_ENCODE \<Longrightarrow> valid v \<Longrightarrow> room xdrs < length (enc v) \<Longrightarrow>
       \<not> fst (proc xdrs v)"
    and decode:
      "xdr_wf xdrs \<Longrightarrow> x_op xdrs = XDR_DECODE \<Longrightarrow> valid v \<Longrightarrow> unread xdrs = enc v @ rest \<Longrightarrow>
       proc xdrs w = (True, skip (length (enc v)) xdrs, dec v w)"
    and decode_short:
      "xdr_wf xdrs \<Longrightarrow> x_op xdrs = XDR_DECODE \<Longrightarrow> valid v \<Longrightarrow>
       strict_prefix (unread xdrs) (enc v) \<Longrightarrow> \<not> fst (proc xdrs w)"
begin

text \<open>Encoding succeeds exactly when the wire format fits.\<close>

lemma encode_iff:
  "xdr_wf xdrs \<Longrightarrow> x_op xdrs = XDR_ENCODE \<Longrightarrow> valid v \<Longrightarrow>
   fst (proc xdrs v) \<longleftrightarrow> length (enc v) \<le> room xdrs"
  using encode_fits encode_full by (cases "length (enc v) \<le> room xdrs") auto

text \<open>What is encoded into a fresh buffer is decoded from it again.\<close>

lemma round_trip:
  assumes "valid v" and "length (enc v) \<le> sz" and "sz \<le> length buf" and "addr mod 4 = 0"
    and E: "xdrmem_ncreate addr buf sz XDR_ENCODE = Some E"
    and D: "xdrmem_ncreate addr (x_buf (fst (snd (proc E v)))) (length (enc v)) XDR_DECODE = Some D"
  shows "proc E v = (True, emit (enc v) E, v) \<and>
         take (length (enc v)) (x_buf (fst (snd (proc E v)))) = enc v \<and>
         proc D w = (True, skip (length (enc v)) D, dec v w)"
proof -
  have E': "xdr_wf E" "x_op E = XDR_ENCODE" "room E = sz" "x_buf E = buf" "x_data E = 0"
    using E assms(3,4) by (auto simp: xdrmem_ncreate_def xdr_wf_def room_def)
  then have e: "proc E v = (True, emit (enc v) E, v)"
    using assms by (intro encode_fits) auto
  have D': "xdr_wf D" "x_op D = XDR_DECODE" "unread D = enc v @ []"
    using D assms(2,3,4) E' e
    by (auto simp: xdrmem_ncreate_def xdr_wf_def unread_def overwrite_def)
  then show ?thesis
    using e E' decode [OF D'(1,2) assms(1) D'(3)] by (simp add: overwrite_def)
qed

text \<open>No wire format is a proper prefix of another, and equal ones decode alike.\<close>

lemma prefix_free:
  assumes "valid v" and "valid v'" and "enc v @ r = enc v' @ r'"
  shows "r = r' \<and> dec v w = dec v' w"
proof -
  define n where "n = length (enc v @ r)"
  define D where "D = \<lparr>x_op = XDR_DECODE, x_buf = enc v @ r, x_data = 0,
    x_v = \<lparr>vio_base = 0, vio_head = 0, vio_tail = n, vio_wrap = n\<rparr>, x_public = None\<rparr>"
  have D: "xdr_wf D" "x_op D = XDR_DECODE" "unread D = enc v @ r" "unread D = enc v' @ r'"
    using assms(3) by (auto simp: D_def n_def xdr_wf_def unread_def)
  then have "skip (length (enc v)) D = skip (length (enc v')) D \<and> dec v w = dec v' w"
    using decode [OF D(1,2) assms(1) D(3), of w] decode [OF D(1,2) assms(2) D(4), of w] by simp
  then show ?thesis
    using assms(3) by (auto simp: skip_def D_def)
qed

end

section \<open>Wire formats compose\<close>

named_theorems xdr_codec_intros \<open>routines known to implement a wire format\<close>

lemma xdr_codec_eqI:
  assumes "xdr_codec p e va d"
    and "\<And>v. va' v \<Longrightarrow> va v" and "\<And>v. va' v \<Longrightarrow> e' v = e v" and "\<And>v w. va' v \<Longrightarrow> d' v w = d v w"
  shows "xdr_codec p e' va' d'"
proof (intro xdr_codec.intro xdr_codec_axioms.intro)
  show "xdr_safe p"
    using assms(1) by (simp add: xdr_codec_def)
next
  fix xdrs v w
  assume "xdr_wf xdrs" "x_op xdrs = XDR_DECODE" "va' v" "strict_prefix (unread xdrs) (e' v)"
  then show "\<not> fst (p xdrs w)"
    using xdr_codec.decode_short [OF assms(1), of xdrs v w] assms(2,3) [of v] by simp
qed (use xdr_codec.encode_fits [OF assms(1)] xdr_codec.encode_full [OF assms(1)]
       xdr_codec.decode [OF assms(1)] assms(2-4)
     in simp_all)

lemma xdr_codec_ok [xdr_codec_intros]: "xdr_codec xdr_ok (\<lambda>_. []) (\<lambda>_. True) (\<lambda>v w. w)"
  using xdr_safe_ok by (simp add: xdr_codec_def xdr_codec_axioms_def xdr_ok_def)

lemma xdr_field_result:
  "p xdrs (get r) = (ok, xdrs', v) \<Longrightarrow> xdr_field get upd p xdrs r = (ok, xdrs', upd (\<lambda>_. v) r)"
  by (simp add: xdr_field_def)

lemma xdr_codec_field [xdr_codec_intros]:
  assumes "xdr_codec p e va d" and "\<And>r. upd (\<lambda>_. get r) r = r"
  shows "xdr_codec (xdr_field get upd p) (\<lambda>v. e (get v)) (\<lambda>v. va (get v))
           (\<lambda>v w. upd (\<lambda>_. d (get v) (get w)) w)"
proof (intro xdr_codec.intro xdr_codec_axioms.intro)
  show "xdr_safe (xdr_field get upd p)"
    using assms(1) by (simp add: xdr_codec_def xdr_safe_field)
qed (use xdr_codec.encode_fits [OF assms(1)] xdr_codec.encode_full [OF assms(1)]
       xdr_codec.decode [OF assms(1)] xdr_codec.decode_short [OF assms(1)] assms(2)
     in \<open>simp_all add: xdr_field_result\<close>)

lemma xdr_seq_continue:
  "p xdrs r = (True, xdrs', r') \<Longrightarrow> xdr_seq p q xdrs r = q xdrs' r'"
  by (simp add: xdr_seq_def)

lemma xdr_seq_stop: "\<not> fst (p xdrs r) \<Longrightarrow> \<not> fst (xdr_seq p q xdrs r)"
  by (cases "p xdrs r") (simp add: xdr_seq_def)

lemma strict_prefix_appendE:
  assumes "strict_prefix u (a @ b)"
  obtains "strict_prefix u a" | t where "u = a @ t" and "strict_prefix t b"
  using assms by (cases "u = a") (auto simp: strict_prefix_def prefix_append)

text \<open>
  Two routines in sequence, where what the second does may depend on members the
  first has handled: \<open>q' v\<close> is the second routine as it behaves on \<open>v\<close>.
\<close>

lemma xdr_codec_seq_dep:
  assumes p: "xdr_codec p ep vp dp" and q: "xdr_safe q"
    and vp: "\<And>v. va v \<Longrightarrow> vp v"
    and q': "\<And>v. va v \<Longrightarrow> xdr_codec (q' v) (eq v) (vq v) (dq v)"
    and vq: "\<And>v. va v \<Longrightarrow> vq v v"
    and enc: "\<And>xdrs v. va v \<Longrightarrow> q xdrs v = q' v xdrs v"
    and dec: "\<And>xdrs v w. va v \<Longrightarrow> q xdrs (dp v w) = q' v xdrs (dp v w)"
  shows "xdr_codec (xdr_seq p q) (\<lambda>v. ep v @ eq v v) va (\<lambda>v w. dq v v (dp v w))"
proof (intro xdr_codec.intro xdr_codec_axioms.intro)
  show "xdr_safe (xdr_seq p q)"
    using p q by (simp add: xdr_codec_def xdr_safe_seq)
next
  fix xdrs v assume s: "xdr_wf xdrs" "x_op xdrs = XDR_ENCODE" "va v"
    and fits: "length (ep v @ eq v v) \<le> room xdrs"
  have "xdr_seq p q xdrs v = q' v (emit (ep v) xdrs) v"
    using xdr_codec.encode_fits [OF p s(1,2) vp [OF s(3)]] fits s(3)
    by (simp add: xdr_seq_continue enc)
  also have "\<dots> = (True, emit (eq v v) (emit (ep v) xdrs), v)"
    using s fits by (intro xdr_codec.encode_fits [OF q'] vq) (auto intro: emit_wf)
  finally show "xdr_seq p q xdrs v = (True, emit (ep v @ eq v v) xdrs, v)"
    using emit_emit [OF s(1) fits] by simp
next
  fix xdrs v assume s: "xdr_wf xdrs" "x_op xdrs = XDR_ENCODE" "va v"
    and full: "room xdrs < length (ep v @ eq v v)"
  show "\<not> fst (xdr_seq p q xdrs v)"
  proof (cases "length (ep v) \<le> room xdrs")
    case True
    then have "xdr_seq p q xdrs v = q' v (emit (ep v) xdrs) v"
      using xdr_codec.encode_fits [OF p s(1,2) vp [OF s(3)]] s(3)
      by (simp add: xdr_seq_continue enc)
    moreover have "\<not> fst (q' v (emit (ep v) xdrs) v)"
      using s full True by (intro xdr_codec.encode_full [OF q'] vq) (auto intro: emit_wf)
    ultimately show ?thesis
      by simp
  next
    case False
    then show ?thesis
      using xdr_codec.encode_full [OF p s(1,2) vp [OF s(3)]] by (simp add: xdr_seq_stop)
  qed
next
  fix xdrs v rest w assume s: "xdr_wf xdrs" "x_op xdrs = XDR_DECODE" "va v"
    and u: "unread xdrs = (ep v @ eq v v) @ rest"
  have "xdr_seq p q xdrs w = q' v (skip (length (ep v)) xdrs) (dp v w)"
    using xdr_codec.decode [OF p s(1,2) vp [OF s(3)]] u s(3)
    by (simp add: xdr_seq_continue dec)
  also have "\<dots> = (True, skip (length (eq v v)) (skip (length (ep v)) xdrs), dq v v (dp v w))"
    using s u by (intro xdr_codec.decode [OF q', where rest = rest] vq) (auto intro: skip_wf)
  finally show "xdr_seq p q xdrs w =
      (True, skip (length (ep v @ eq v v)) xdrs, dq v v (dp v w))"
    by simp
next
  fix xdrs v w assume s: "xdr_wf xdrs" "x_op xdrs = XDR_DECODE" "va v"
    and short: "strict_prefix (unread xdrs) (ep v @ eq v v)"
  from short show "\<not> fst (xdr_seq p q xdrs w)"
  proof (cases rule: strict_prefix_appendE)
    case 1
    then show ?thesis
      using xdr_codec.decode_short [OF p s(1,2) vp [OF s(3)]] by (simp add: xdr_seq_stop)
  next
    case (2 t)
    then have "xdr_seq p q xdrs w = q' v (skip (length (ep v)) xdrs) (dp v w)"
      using xdr_codec.decode [OF p s(1,2) vp [OF s(3)]] s(3)
      by (simp add: xdr_seq_continue dec)
    moreover have "\<not> fst (q' v (skip (length (ep v)) xdrs) (dp v w))"
      using s 2 vq by (intro xdr_codec.decode_short [OF q' [OF s(3)], of _ v]) (auto intro: skip_wf)
    ultimately show ?thesis
      by simp
  qed
qed

lemma xdr_codec_seq [xdr_codec_intros]:
  assumes "xdr_codec p ep vp dp" and "xdr_codec q eq vq dq"
  shows "xdr_codec (xdr_seq p q) (\<lambda>v. ep v @ eq v) (\<lambda>v. vp v \<and> vq v) (\<lambda>v w. dq v (dp v w))"
  by (rule xdr_codec_seq_dep [OF assms(1), where q' = "\<lambda>_. q" and eq = "\<lambda>_. eq"
        and vq = "\<lambda>_. vq" and dq = "\<lambda>_. dq"])
     (use assms in \<open>auto dest: xdr_codec.axioms(1)\<close>)

lemma xdr_codec_all_Nil [xdr_codec_intros]:
  "xdr_codec (xdr_all []) (\<lambda>_. []) (\<lambda>_. True) (\<lambda>v w. w)"
  by (simp add: xdr_codec_ok)

lemma xdr_codec_all_Cons [xdr_codec_intros]:
  "xdr_codec p ep vp dp \<Longrightarrow> xdr_codec (xdr_all ps) eq vq dq \<Longrightarrow>
   xdr_codec (xdr_all (p # ps)) (\<lambda>v. ep v @ eq v) (\<lambda>v. vp v \<and> vq v) (\<lambda>v w. dq v (dp v w))"
  by (simp add: xdr_codec_seq)

lemma xdr_codec_fail [xdr_codec_intros]:
  "xdr_codec xdr_fail (\<lambda>_. []) (\<lambda>_. False) (\<lambda>v w. w)"
  using xdr_safe_fail by (simp add: xdr_codec_def xdr_codec_axioms_def)

lemma xdr_codec_if [xdr_codec_intros]:
  "xdr_codec p e va d \<Longrightarrow> xdr_codec q e' va' d' \<Longrightarrow>
   xdr_codec (if b then p else q) (\<lambda>v. if b then e v else e' v)
     (\<lambda>v. if b then va v else va' v) (\<lambda>v w. if b then d v w else d' v w)"
  by simp

lemma xdr_codec_tagged [xdr_codec_intros]:
  assumes "xdr_codec p e va (\<lambda>a b. a)"
    and "\<And>r. upd (\<lambda>_. get r) r = r" and "\<And>f r. get (upd f r) = f (get r)"
    and "\<And>t. xdr_codec (arm t) (ea t) (aa t) (da t)"
  shows "xdr_codec (xdr_tagged get upd p arm)
           (\<lambda>v. e (get v) @ ea (get v) v) (\<lambda>v. va (get v) \<and> aa (get v) v)
           (\<lambda>v w. da (get v) v (upd (\<lambda>_. get v) w))"
proof -
  have "xdr_safe (arm t)" for t
    using assms(4) by (rule xdr_codec.axioms(1))
  then show ?thesis
    unfolding xdr_tagged_def
    by (intro xdr_codec_seq_dep [where q' = "\<lambda>v. arm (get v)" and vq = "\<lambda>v. aa (get v)"
          and eq = "\<lambda>v. ea (get v)" and dq = "\<lambda>v. da (get v)",
          OF xdr_codec_field [OF assms(1), of upd get]] xdr_safe_switch)
       (use assms in \<open>auto simp: xdr_switch_def\<close>)
qed

lemma xdr_safe_tagged [xdr_safe_intros]:
  "xdr_safe p \<Longrightarrow> (\<And>t. xdr_safe (arm t)) \<Longrightarrow> xdr_safe (xdr_tagged get upd p arm)"
  unfolding xdr_tagged_def by (intro xdr_safe_intros)

end
