(* ===== verification/Xdr_Prims.thy ===== *)
theory Xdr_Prims
  imports Xdr_Stream
begin

text \<open>
  The XDR routines of the basic types, from \<open>libntirpc/ntirpc/rpc/xdr_inline.h\<close>,
  \<open>libntirpc/src/xdr.c\<close> and \<open>libntirpc/src/xdr_reference.c\<close>: integers of every
  width, booleans, enumerations, fixed and counted opaque data, C strings and
  optional pointers, each followed by its wire format and the proof that the
  routine implements it.
\<close>

section \<open>Integers\<close>

definition xdr_void :: "'a xdrproc" where
  "xdr_void xdrs unused = (True, xdrs, unused)"

definition xdr_int :: "uint32 xdrproc" where
  "xdr_int xdrs ip =
     (case x_op xdrs of
        XDR_ENCODE \<Rightarrow> (case xdr_putlong xdrs (scast ip) of (b, xdrs') \<Rightarrow> (b, xdrs', ip))
      | XDR_DECODE \<Rightarrow>
          (case xdr_getlong xdrs 0 of (b, xdrs', l) \<Rightarrow> (b, xdrs', if b then ucast l else ip))
      | XDR_FREE \<Rightarrow> (True, xdrs, ip))"

definition xdr_u_int :: "uint32 xdrproc" where
  "xdr_u_int xdrs up =
     (case x_op xdrs of
        XDR_ENCODE \<Rightarrow> (case xdr_putlong xdrs (ucast up) of (b, xdrs') \<Rightarrow> (b, xdrs', up))
      | XDR_DECODE \<Rightarrow>
          (case xdr_getlong xdrs 0 of (b, xdrs', l) \<Rightarrow> (b, xdrs', if b then ucast l else up))
      | XDR_FREE \<Rightarrow> (True, xdrs, up))"

definition xdr_u_long :: "uint64 xdrproc" where
  "xdr_u_long xdrs ulp =
     (case x_op xdrs of
        XDR_ENCODE \<Rightarrow> (case xdr_putlong xdrs ulp of (b, xdrs') \<Rightarrow> (b, xdrs', ulp))
      | XDR_DECODE \<Rightarrow> xdr_getlong xdrs ulp
      | XDR_FREE \<Rightarrow> (True, xdrs, ulp))"

definition xdr_uint32_t :: "uint32 xdrproc" where
  "xdr_uint32_t xdrs p =
     (case x_op xdrs of
        XDR_ENCODE \<Rightarrow> (case xdr_putuint32 xdrs p of (b, xdrs') \<Rightarrow> (b, xdrs', p))
      | XDR_DECODE \<Rightarrow> xdr_getuint32 xdrs p
      | XDR_FREE \<Rightarrow> (True, xdrs, p))"

definition xdr_int32_t :: "uint32 xdrproc" where
  "xdr_int32_t xdrs p =
     (case x_op xdrs of
        XDR_ENCODE \<Rightarrow> (case xdr_putint32 xdrs p of (b, xdrs') \<Rightarrow> (b, xdrs', p))
      | XDR_DECODE \<Rightarrow> xdr_getint32 xdrs p
      | XDR_FREE \<Rightarrow> (True, xdrs, p))"

definition xdr_uint16_t :: "uint16 xdrproc" where
  "xdr_uint16_t xdrs p =
     (case x_op xdrs of
        XDR_ENCODE \<Rightarrow> (case xdr_putuint16 xdrs (ucast p) of (b, xdrs') \<Rightarrow> (b, xdrs', p))
      | XDR_DECODE \<Rightarrow> xdr_getuint16 xdrs p
      | XDR_FREE \<Rightarrow> (True, xdrs, p))"

definition xdr_uint8_t :: "byte xdrproc" where
  "xdr_uint8_t xdrs p =
     (case x_op xdrs of
        XDR_ENCODE \<Rightarrow> (case xdr_putuint8 xdrs (ucast p) of (b, xdrs') \<Rightarrow> (b, xdrs', p))
      | XDR_DECODE \<Rightarrow> xdr_getuint8 xdrs p
      | XDR_FREE \<Rightarrow> (True, xdrs, p))"

definition xdr_uint64_t :: "uint64 xdrproc" where
  "xdr_uint64_t xdrs p =
     (case x_op xdrs of
        XDR_ENCODE \<Rightarrow>
          (let u0 = (ucast (drop_bit 32 p) :: uint32) AND 0xffffffff;
               u1 = (ucast p :: uint32) AND 0xffffffff in
           case xdr_putuint32 xdrs u0 of
             (False, xdrs') \<Rightarrow> (False, xdrs', p)
           | (True, xdrs') \<Rightarrow> (case xdr_putuint32 xdrs' u1 of (b, xdrs'') \<Rightarrow> (b, xdrs'', p)))
      | XDR_DECODE \<Rightarrow>
          (case xdr_getuint32 xdrs 0 of
             (False, xdrs', u0) \<Rightarrow> (False, xdrs', p)
           | (True, xdrs', u0) \<Rightarrow>
               (case xdr_getuint32 xdrs' 0 of
                  (False, xdrs'', u1) \<Rightarrow> (False, xdrs'', p)
                | (True, xdrs'', u1) \<Rightarrow> (True, xdrs'', push_bit 32 (ucast u0) OR ucast u1)))
      | XDR_FREE \<Rightarrow> (True, xdrs, p))"

definition xdr_u_int64_t :: "uint64 xdrproc" where
  "xdr_u_int64_t xdrs p = xdr_uint64_t xdrs p"

definition xdr_u_longlong_t :: "uint64 xdrproc" where
  "xdr_u_longlong_t xdrs ullp = xdr_u_int64_t xdrs ullp"

definition xdr_bool :: "bool_t xdrproc" where
  "xdr_bool xdrs bp =
     (case x_op xdrs of
        XDR_ENCODE \<Rightarrow> (case xdr_putbool xdrs bp of (b, xdrs') \<Rightarrow> (b, xdrs', bp))
      | XDR_DECODE \<Rightarrow> xdr_getbool xdrs bp
      | XDR_FREE \<Rightarrow> (True, xdrs, bp))"

definition xdr_enum :: "enum_t xdrproc" where
  "xdr_enum xdrs ep =
     (case x_op xdrs of
        XDR_ENCODE \<Rightarrow> (case xdr_putenum xdrs ep of (b, xdrs') \<Rightarrow> (b, xdrs', ep))
      | XDR_DECODE \<Rightarrow> xdr_getenum xdrs ep
      | XDR_FREE \<Rightarrow> (True, xdrs, ep))"

lemmas xdr_access_defs =
  xdr_getlong_def xdr_putlong_def xdr_getuint32_def xdr_putuint32_def xdr_getint32_def
  xdr_putint32_def xdr_getuint16_def xdr_putuint16_def xdr_getuint8_def xdr_putuint8_def
  xdr_getenum_def xdr_putenum_def xdr_getbool_def xdr_putbool_def
  xdrmem_getunit_def xdrmem_putunit_def

lemmas xdr_int_defs =
  xdr_int_def xdr_u_int_def xdr_u_long_def xdr_uint32_t_def xdr_int32_t_def xdr_uint16_t_def
  xdr_uint8_t_def xdr_bool_def xdr_enum_def

text \<open>
  Every routine that moves one 32-bit unit has the same shape; \<open>f\<close> is the unit
  it stores for a value, \<open>g\<close> the value it makes of a unit.
\<close>

lemma ntohl_unread:
  assumes "unread xdrs = htonl_bytes x @ rest"
  shows "ntohl_bytes (drop (x_data xdrs) (x_buf xdrs)) = x"
    and "x_data xdrs + 4 \<le> xv_tail xdrs"
proof -
  have "drop (x_data xdrs) (x_buf xdrs) = unread xdrs @ drop (xv_tail xdrs - x_data xdrs) (drop (x_data xdrs) (x_buf xdrs))"
    by (simp add: unread_def del: drop_drop)
  then show "ntohl_bytes (drop (x_data xdrs) (x_buf xdrs)) = x"
    using assms by simp
  have "4 \<le> length (unread xdrs)"
    using assms by simp
  then show "x_data xdrs + 4 \<le> xv_tail xdrs"
    by (auto simp: unread_def)
qed

lemma strict_prefix_unread:
  "strict_prefix (unread xdrs) bs \<Longrightarrow> xdr_wf xdrs \<Longrightarrow> xv_tail xdrs < x_data xdrs + length bs"
  using prefix_length_less [of "unread xdrs" bs] by (simp add: length_unread)

lemma xdr_unit_codec:
  assumes e: "\<And>xdrs v. x_op xdrs = XDR_ENCODE \<Longrightarrow> proc xdrs v =
      (if x_data xdrs + 4 \<le> xv_wrap xdrs then (True, emit (htonl_bytes (f v)) xdrs, v)
       else (False, xdrs, v))"
    and d: "\<And>xdrs v. x_op xdrs = XDR_DECODE \<Longrightarrow> proc xdrs v =
      (if x_data xdrs + 4 \<le> xv_tail xdrs
       then (True, skip 4 xdrs, g (ntohl_bytes (drop (x_data xdrs) (x_buf xdrs))))
       else (False, xdrs, v))"
    and fr: "\<And>xdrs v. x_op xdrs = XDR_FREE \<Longrightarrow> proc xdrs v = (True, xdrs, v)"
    and gf: "\<And>v. valid v \<Longrightarrow> g (f v) = v"
  shows "xdr_codec proc (\<lambda>v. htonl_bytes (f v)) valid (\<lambda>v w. v)"
proof (intro xdr_codec.intro xdr_codec_axioms.intro xdr_safe.intro)
  fix xdrs v assume wf: "xdr_wf xdrs"
  show "xdr_moves xdrs (fst (snd (proc xdrs v)))"
    using wf by (cases "x_op xdrs")
      (auto simp: e d fr room_def length_unread intro!: emit_moves skip_moves)
next
  fix xdrs v w assume "xdr_wf xdrs" "x_op xdrs = XDR_DECODE"
    "strict_prefix (unread xdrs) (htonl_bytes (f v))"
  then show "\<not> fst (proc xdrs w)"
    using strict_prefix_unread [of xdrs "htonl_bytes (f v)"] by (simp add: d)
qed (auto simp: e d gf room_def ntohl_unread)

lemma htonl_word_casts [simp]:
  "ucast (ucast (v :: uint32) :: uint64) = v" "ucast (scast (v :: uint32) :: uint64) = v"
  "ucast (ucast (h :: uint16) :: uint32) = h" "ucast (ucast (b :: byte) :: uint32) = b"
  by (auto simp: bit_simps intro!: bit_word_eqI)

text \<open>Integers of at most 32 bits travel as one big-endian unit.\<close>

interpretation int: xdr_codec xdr_int htonl_bytes "\<lambda>_. True" "\<lambda>v w. v"
  by (rule xdr_unit_codec [where g = "\<lambda>u. u"])
     (auto simp: xdr_int_defs xdr_access_defs emit_def skip_def Let_def)

interpretation u_int: xdr_codec xdr_u_int htonl_bytes "\<lambda>_. True" "\<lambda>v w. v"
  by (rule xdr_unit_codec [where g = "\<lambda>u. u"])
     (auto simp: xdr_int_defs xdr_access_defs emit_def skip_def Let_def)

interpretation uint32_t: xdr_codec xdr_uint32_t htonl_bytes "\<lambda>_. True" "\<lambda>v w. v"
  by (rule xdr_unit_codec [where g = "\<lambda>u. u"])
     (auto simp: xdr_int_defs xdr_access_defs emit_def skip_def Let_def)

interpretation int32_t: xdr_codec xdr_int32_t htonl_bytes "\<lambda>_. True" "\<lambda>v w. v"
  by (rule xdr_unit_codec [where g = "\<lambda>u. u"])
     (auto simp: xdr_int_defs xdr_access_defs emit_def skip_def Let_def)

interpretation enum: xdr_codec xdr_enum htonl_bytes "\<lambda>_. True" "\<lambda>v w. v"
  by (rule xdr_unit_codec [where g = "\<lambda>u. u"])
     (auto simp: xdr_int_defs xdr_access_defs emit_def skip_def Let_def)

interpretation uint16_t: xdr_codec xdr_uint16_t "\<lambda>v. htonl_bytes (ucast v)" "\<lambda>_. True" "\<lambda>v w. v"
  by (rule xdr_unit_codec [where g = ucast])
     (auto simp: xdr_int_defs xdr_access_defs emit_def skip_def Let_def)

interpretation uint8_t: xdr_codec xdr_uint8_t "\<lambda>v. htonl_bytes (ucast v)" "\<lambda>_. True" "\<lambda>v w. v"
  by (rule xdr_unit_codec [where g = ucast])
     (auto simp: xdr_int_defs xdr_access_defs emit_def skip_def Let_def)

text \<open>
  An \<open>unsigned long\<close> has 64 bits but travels in one unit: only values below
  \<open>2 ^ 32\<close> survive.
\<close>

definition fits_unit :: "uint64 \<Rightarrow> bool" where
  "fits_unit v \<longleftrightarrow> ucast (ucast v :: uint32) = v"

interpretation u_long: xdr_codec xdr_u_long "\<lambda>v. htonl_bytes (ucast v)" fits_unit "\<lambda>v w. v"
  by (rule xdr_unit_codec [where g = ucast])
     (auto simp: xdr_int_defs xdr_access_defs emit_def skip_def Let_def fits_unit_def)

text \<open>A boolean travels as 0 or 1; any other C truth value is sent as 1.\<close>

definition wire_bool :: "bool_t \<Rightarrow> byte list" where
  "wire_bool b = htonl_bytes (if b \<noteq> 0 then 1 else 0)"

definition is_bool :: "bool_t \<Rightarrow> bool" where
  "is_bool b \<longleftrightarrow> b = 0 \<or> b = 1"

lemma length_wire_bool [simp]: "length (wire_bool b) = 4"
  by (simp add: wire_bool_def)

interpretation bool: xdr_codec xdr_bool wire_bool is_bool "\<lambda>v w. v"
  unfolding wire_bool_def
  by (rule xdr_unit_codec [where g = "\<lambda>u. if u \<noteq> 0 then 1 else 0"])
     (auto simp: xdr_int_defs xdr_access_defs emit_def skip_def Let_def is_bool_def)

text \<open>A 64-bit integer travels as its high unit followed by its low unit.\<close>

definition wire_uint64 :: "uint64 \<Rightarrow> byte list" where
  "wire_uint64 v = htonl_bytes (ucast (drop_bit 32 v)) @ htonl_bytes (ucast v)"

lemma length_wire_uint64 [simp]: "length (wire_uint64 v) = 8"
  by (simp add: wire_uint64_def)

lemma and_ones [simp]: "v AND 0xffffffff = (v :: uint32)"
proof -
  have "(0xffffffff :: uint32) = - 1"
    by simp
  then show ?thesis
    by (simp only: and.right_neutral)
qed

text \<open>
  The 64-bit routine is the 32-bit routine on the high half, then on the low
  half; the members of the pair play the role of the local array \<open>u[2]\<close>.
\<close>

definition xdr_halves :: "(uint32 \<times> uint32) xdrproc" where
  "xdr_halves = xdr_seq (xdr_field fst apfst xdr_uint32_t) (xdr_field snd apsnd xdr_uint32_t)"

fun join_halves :: "uint32 \<times> uint32 \<Rightarrow> uint64" where
  "join_halves (u0, u1) = push_bit 32 (ucast u0) OR ucast u1"

definition halves :: "uint64 \<Rightarrow> uint32 \<times> uint32" where
  "halves v = (ucast (drop_bit 32 v), ucast v)"

lemma join_halves [simp]: "join_halves (halves v) = v"
  by (auto simp: halves_def bit_simps intro!: bit_word_eqI)

lemma xdr_codec_image:
  assumes c: "xdr_codec p e va (\<lambda>v w. v)"
    and eq: "\<And>xdrs v. proc xdrs v = (case p xdrs (f v) of
      (b, xdrs', u) \<Rightarrow> (b, xdrs', if b \<and> x_op xdrs = XDR_DECODE then g u else v))"
    and gf: "\<And>v. g (f v) = v"
  shows "xdr_codec proc (\<lambda>v. e (f v)) (\<lambda>v. va (f v)) (\<lambda>v w. v)"
proof (intro xdr_codec.intro xdr_codec_axioms.intro xdr_safe.intro)
  have st: "fst (proc xdrs v) = fst (p xdrs (f v))"
    "fst (snd (proc xdrs v)) = fst (snd (p xdrs (f v)))" for xdrs v
    by (simp_all add: eq split: prod.split)
  show "xdr_moves xdrs (fst (snd (proc xdrs v)))" if "xdr_wf xdrs" for xdrs v
    using that xdr_safe.moves [OF xdr_codec.axioms(1) [OF c]] by (simp add: st)
  show "\<not> fst (proc xdrs v)"
    if "xdr_wf xdrs" "x_op xdrs = XDR_ENCODE" "va (f v)" "room xdrs < length (e (f v))" for xdrs v
    using xdr_codec.encode_full [OF c that] by (simp add: st)
  show "\<not> fst (proc xdrs w)"
    if "xdr_wf xdrs" "x_op xdrs = XDR_DECODE" "va (f v)" "strict_prefix (unread xdrs) (e (f v))"
    for xdrs v w
    using xdr_codec.decode_short [OF c that] by (simp add: st)
qed (use gf in \<open>auto simp: eq xdr_codec.encode_fits [OF c] xdr_codec.decode [OF c]\<close>)

interpretation halves: xdr_codec xdr_halves
    "\<lambda>u. htonl_bytes (fst u) @ htonl_bytes (snd u)" "\<lambda>_. True" "\<lambda>v w. v"
  unfolding xdr_halves_def
  by (rule xdr_codec_eqI, (rule xdr_codec_intros uint32_t.xdr_codec_axioms | (simp add: prod_eq_iff; fail))+)

interpretation uint64_t: xdr_codec xdr_uint64_t wire_uint64 "\<lambda>_. True" "\<lambda>v w. v"
proof -
  have "xdr_codec xdr_uint64_t (\<lambda>v. htonl_bytes (fst (halves v)) @ htonl_bytes (snd (halves v)))
          (\<lambda>_. True) (\<lambda>v w. v)"
    by (rule xdr_codec_image [OF halves.xdr_codec_axioms _ join_halves])
       (auto simp: xdr_uint64_t_def xdr_halves_def xdr_seq_def xdr_field_def xdr_uint32_t_def
          halves_def xdr_access_defs Let_def split: xdr_op.split prod.split bool.split)
  then show "xdr_codec xdr_uint64_t wire_uint64 (\<lambda>_. True) (\<lambda>v w. v)"
    by (simp add: halves_def wire_uint64_def [abs_def])
qed

interpretation u_longlong_t: xdr_codec xdr_u_longlong_t wire_uint64 "\<lambda>_. True" "\<lambda>v w. v"
proof -
  have "xdr_u_longlong_t = xdr_uint64_t"
    by (simp add: fun_eq_iff xdr_u_longlong_t_def xdr_u_int64_t_def)
  then show "xdr_codec xdr_u_longlong_t wire_uint64 (\<lambda>_. True) (\<lambda>v w. v)"
    using uint64_t.xdr_codec_axioms by simp
qed

lemmas xdr_int_codecs [xdr_codec_intros] =
  int.xdr_codec_axioms u_int.xdr_codec_axioms uint32_t.xdr_codec_axioms int32_t.xdr_codec_axioms
  enum.xdr_codec_axioms uint16_t.xdr_codec_axioms uint8_t.xdr_codec_axioms u_long.xdr_codec_axioms
  bool.xdr_codec_axioms uint64_t.xdr_codec_axioms u_longlong_t.xdr_codec_axioms

lemmas xdr_int_safe [xdr_safe_intros] =
  int.xdr_safe_axioms u_int.xdr_safe_axioms uint32_t.xdr_safe_axioms int32_t.xdr_safe_axioms
  enum.xdr_safe_axioms uint16_t.xdr_safe_axioms uint8_t.xdr_safe_axioms u_long.xdr_safe_axioms
  bool.xdr_safe_axioms uint64_t.xdr_safe_axioms u_longlong_t.xdr_safe_axioms

lemma xdr_safe_void [xdr_safe_intros]: "xdr_safe xdr_void"
  by unfold_locales (simp add: xdr_void_def)

end
