(* ===== verification/Xdr_Opaque.thy ===== *)
theory Xdr_Opaque
  imports Xdr_Prims
begin

text \<open>
  Byte strings in XDR, from \<open>xdr_inline.h\<close> and \<open>xdr_reference.c\<close>: fixed opaque
  data padded to whole units, counted opaque data behind a pointer, C strings,
  and optional pointers.
\<close>

section \<open>Fixed opaque data\<close>

definition xdr_opaque_decode :: "XDR \<Rightarrow> byte list \<Rightarrow> uint32 \<Rightarrow> bool \<times> XDR \<times> byte list" where
  "xdr_opaque_decode xdrs cp cnt =
     (if cnt = 0 then (True, xdrs, cp)
      else case xdrmem_getbytes xdrs cp (unat cnt) of
        (False, xdrs', cp') \<Rightarrow> (False, xdrs', cp')
      | (True, xdrs', cp') \<Rightarrow>
          (let rndup = cnt AND 3 in
           if rndup > 0
           then case xdrmem_getbytes xdrs' [0, 0, 0, 0] (unat (4 - rndup)) of
                  (b, xdrs'', crud) \<Rightarrow> (b, xdrs'', cp')
           else (True, xdrs', cp')))"

definition xdr_opaque_encode :: "XDR \<Rightarrow> byte list \<Rightarrow> uint32 \<Rightarrow> bool \<times> XDR" where
  "xdr_opaque_encode xdrs cp cnt =
     (if cnt = 0 then (True, xdrs)
      else case xdrmem_putbytes xdrs cp (unat cnt) of
        (False, xdrs') \<Rightarrow> (False, xdrs')
      | (True, xdrs') \<Rightarrow>
          (let rndup = cnt AND 3 in
           if rndup > 0 then xdrmem_putbytes xdrs' [0, 0, 0, 0] (unat (4 - rndup))
           else (True, xdrs')))"

definition xdr_opaque :: "uint32 \<Rightarrow> byte list xdrproc" where
  "xdr_opaque cnt xdrs cp =
     (case x_op xdrs of
        XDR_DECODE \<Rightarrow> xdr_opaque_decode xdrs cp cnt
      | XDR_ENCODE \<Rightarrow> (case xdr_opaque_encode xdrs cp cnt of (b, xdrs') \<Rightarrow> (b, xdrs', cp))
      | XDR_FREE \<Rightarrow> (True, xdrs, cp))"

section \<open>Counted opaque data\<close>

text \<open>
  The object is the pair of the pointer \<open>*cpp\<close> and the count \<open>*sizep\<close>.  Fresh
  memory from \<open>mem_alloc\<close> is overwritten in full before it is published.
\<close>

text \<open>
  The block of memory a pointer designates; nothing for the null pointer.
\<close>

definition block :: "char_ptr \<Rightarrow> byte list" where
  "block p = (case p of None \<Rightarrow> [] | Some bs \<Rightarrow> bs)"

definition mem_alloc :: "uint32 \<Rightarrow> byte list" where
  "mem_alloc n = replicate (unat n) 0"

definition xdr_bytes_decode ::
  "XDR \<Rightarrow> char_ptr \<Rightarrow> uint32 \<Rightarrow> uint32 \<Rightarrow> bool \<times> XDR \<times> char_ptr \<times> uint32" where
  "xdr_bytes_decode xdrs cpp sizep maxsize =
     (case xdr_getuint32 xdrs 0 of
        (False, xdrs', sz) \<Rightarrow> (False, xdrs', cpp, sizep)
      | (True, xdrs', sz) \<Rightarrow>
          if sz > maxsize then (False, xdrs', cpp, sizep)
          else if sz = 0 then (True, xdrs', cpp, sz)
          else (let sp = (case cpp of None \<Rightarrow> mem_alloc sz | Some sp \<Rightarrow> sp) in
                case xdr_opaque_decode xdrs' sp sz of
                  (False, xdrs'', sp') \<Rightarrow> (False, xdrs'', map_option (\<lambda>_. sp') cpp, sz)
                | (True, xdrs'', sp') \<Rightarrow> (True, xdrs'', Some sp', sz)))"

definition xdr_bytes_encode ::
  "XDR \<Rightarrow> char_ptr \<Rightarrow> uint32 \<Rightarrow> uint32 \<Rightarrow> bool \<times> XDR" where
  "xdr_bytes_encode xdrs cpp sizep maxsize =
     (let sp = block cpp; sz = sizep in
      if sizep > maxsize then (False, xdrs)
      else if sizep > sz then (False, xdrs)
      else case xdr_putuint32 xdrs sz of
        (False, xdrs') \<Rightarrow> (False, xdrs')
      | (True, xdrs') \<Rightarrow> xdr_opaque_encode xdrs' sp sz)"

definition xdr_bytes_free :: "XDR \<Rightarrow> char_ptr \<Rightarrow> bool \<times> XDR \<times> char_ptr" where
  "xdr_bytes_free xdrs cpp = (True, xdrs, None)"

fun xdr_bytes :: "uint32 \<Rightarrow> (char_ptr \<times> uint32) xdrproc" where
  "xdr_bytes maxsize xdrs (cpp, sizep) =
     (case x_op xdrs of
        XDR_DECODE \<Rightarrow> xdr_bytes_decode xdrs cpp sizep maxsize
      | XDR_ENCODE \<Rightarrow>
          (case xdr_bytes_encode xdrs cpp sizep maxsize of (b, xdrs') \<Rightarrow> (b, xdrs', cpp, sizep))
      | XDR_FREE \<Rightarrow>
          (case xdr_bytes_free xdrs cpp of (b, xdrs', cpp') \<Rightarrow> (b, xdrs', cpp', sizep)))"

section \<open>C strings\<close>

text \<open>
  A block holding a C string; the string ends at the first zero byte.
\<close>

definition c_str :: "byte list \<Rightarrow> byte list" where
  "c_str bs = takeWhile (\<lambda>b. b \<noteq> 0) bs"

definition strlen :: "byte list \<Rightarrow> uint64" where
  "strlen bs = of_nat (length (c_str bs))"

definition xdr_string_decode :: "XDR \<Rightarrow> char_ptr \<Rightarrow> uint32 \<Rightarrow> bool \<times> XDR \<times> char_ptr" where
  "xdr_string_decode xdrs cpp maxsize =
     (case xdr_getuint32 xdrs 0 of
        (False, xdrs', sz) \<Rightarrow> (False, xdrs', cpp)
      | (True, xdrs', sz) \<Rightarrow>
          if sz > maxsize then (False, xdrs', cpp)
          else (let nodesize = sz + 1 in
            if nodesize < sz + 1 then (False, xdrs', cpp)
            else (let sp = (case cpp of None \<Rightarrow> mem_alloc nodesize | Some sp \<Rightarrow> sp) in
                  case xdr_opaque_decode xdrs' sp sz of
                    (False, xdrs'', sp') \<Rightarrow> (False, xdrs'', map_option (\<lambda>_. sp') cpp)
                  | (True, xdrs'', sp') \<Rightarrow> (True, xdrs'', Some (overwrite (unat sz) [0] sp')))))"

definition xdr_string_encode :: "XDR \<Rightarrow> char_ptr \<Rightarrow> uint32 \<Rightarrow> bool \<times> XDR" where
  "xdr_string_encode xdrs cpp maxsize =
     (case cpp of
        None \<Rightarrow> (False, xdrs)
      | Some sp \<Rightarrow>
          (let sz = strlen sp in
           if sz > ucast maxsize then (False, xdrs)
           else (let nodesize = (ucast (sz + 1) :: uint32) in
             if ucast nodesize < sz + 1 then (False, xdrs)
             else case xdr_putuint32 xdrs (ucast sz) of
               (False, xdrs') \<Rightarrow> (False, xdrs')
             | (True, xdrs') \<Rightarrow> xdr_opaque_encode xdrs' sp (ucast sz))))"

definition xdr_string_free :: "XDR \<Rightarrow> char_ptr \<Rightarrow> bool \<times> XDR \<times> char_ptr" where
  "xdr_string_free xdrs cpp = (True, xdrs, None)"

definition xdr_string :: "uint32 \<Rightarrow> char_ptr xdrproc" where
  "xdr_string maxsize xdrs cpp =
     (case x_op xdrs of
        XDR_DECODE \<Rightarrow> xdr_string_decode xdrs cpp maxsize
      | XDR_ENCODE \<Rightarrow> (case xdr_string_encode xdrs cpp maxsize of (b, xdrs') \<Rightarrow> (b, xdrs', cpp))
      | XDR_FREE \<Rightarrow> xdr_string_free xdrs cpp)"

section \<open>Optional pointers\<close>

text \<open>
  \<open>zero\<close> is the object \<open>mem_zalloc\<close> returns.  \<open>xdr_reference\<close> on a null pointer
  while encoding would dereference it; \<open>xdr_pointer\<close> never asks for that, and
  the model answers false.
\<close>

definition xdr_reference :: "'a \<Rightarrow> 'a xdrproc \<Rightarrow> 'a option xdrproc" where
  "xdr_reference zero proc xdrs pp =
     (case pp of
        None \<Rightarrow>
          (case x_op xdrs of
             XDR_FREE \<Rightarrow> (True, xdrs, None)
           | XDR_DECODE \<Rightarrow> (case proc xdrs zero of (b, xdrs', v) \<Rightarrow> (b, xdrs', Some v))
           | XDR_ENCODE \<Rightarrow> (False, xdrs, None))
      | Some loc \<Rightarrow>
          (case proc xdrs loc of
             (b, xdrs', v) \<Rightarrow> (b, xdrs', if x_op xdrs = XDR_FREE then None else Some v)))"

definition xdr_pointer :: "'a \<Rightarrow> 'a xdrproc \<Rightarrow> 'a option xdrproc" where
  "xdr_pointer zero xdr_obj xdrs objpp =
     (case xdr_bool xdrs (if objpp \<noteq> None then 1 else 0) of
        (False, xdrs', more_data) \<Rightarrow> (False, xdrs', objpp)
      | (True, xdrs', more_data) \<Rightarrow>
          if more_data = 0 then (True, xdrs', None)
          else xdr_reference zero xdr_obj xdrs' objpp)"

section \<open>The wire format of opaque data\<close>

definition pad_len :: "nat \<Rightarrow> nat" where
  "pad_len n = (4 - n mod 4) mod 4"

definition wire_opaque :: "byte list \<Rightarrow> byte list" where
  "wire_opaque bs = bs @ replicate (pad_len (length bs)) 0"

lemma length_wire_opaque: "length (wire_opaque bs) = length bs + pad_len (length bs)"
  by (simp add: wire_opaque_def)

lemma pad_len_0 [simp]: "pad_len 0 = 0"
  by (simp add: pad_len_def)

lemma wire_opaque_Nil [simp]: "wire_opaque [] = []"
  by (simp add: wire_opaque_def)

lemma pad_len_cases:
  "n mod 4 = 0 \<and> pad_len n = 0 \<or> n mod 4 = 1 \<and> pad_len n = 3 \<or>
   n mod 4 = 2 \<and> pad_len n = 2 \<or> n mod 4 = 3 \<and> pad_len n = 1"
proof -
  have "n mod 4 < 4"
    by simp
  then consider "n mod 4 = 0" | "n mod 4 = 1" | "n mod 4 = 2" | "n mod 4 = 3"
    by linarith
  then show ?thesis
    by cases (simp_all add: pad_len_def)
qed

lemma wire_opaque_units: "length (wire_opaque bs) mod 4 = 0"
  using pad_len_cases [of "length bs"] unfolding length_wire_opaque by presburger

lemma unat_and_3: "unat ((cnt :: uint32) AND 3) = unat cnt mod 4"
proof -
  have "cnt AND 3 = take_bit 2 cnt"
    by (simp add: take_bit_eq_mask mask_eq_exp_minus_1)
  then show ?thesis
    by (simp add: take_bit_eq_mod unat_mod)
qed

lemma rndup_pad:
  fixes cnt :: uint32
  shows "cnt AND 3 > 0 \<longleftrightarrow> pad_len (unat cnt) \<noteq> 0"
    and "cnt AND 3 > 0 \<Longrightarrow> unat (4 - (cnt AND 3)) = pad_len (unat cnt)"
proof -
  show "cnt AND 3 > 0 \<longleftrightarrow> pad_len (unat cnt) \<noteq> 0"
    using pad_len_cases [of "unat cnt"] by (auto simp: word_less_nat_alt unat_and_3)
  have "(cnt AND 3) \<le> 4"
    by (simp add: word_le_nat_alt unat_and_3)
  then show "unat (4 - (cnt AND 3)) = pad_len (unat cnt)" if "cnt AND 3 > 0"
    using that pad_len_cases [of "unat cnt"] by (auto simp: word_less_nat_alt unat_sub unat_and_3)
qed

section \<open>Elementary accesses as movements\<close>

lemma xdrmem_putbytes_emit:
  "len \<le> length addr \<Longrightarrow> xdr_wf xdrs \<Longrightarrow>
   xdrmem_putbytes xdrs addr len =
     (if len \<le> room xdrs then (True, emit (take len addr) xdrs) else (False, xdrs))"
  by (auto simp: xdrmem_putbytes_def emit_def room_def xdr_wf_def Let_def)

lemma xdrmem_getbytes_skip:
  "xdr_wf xdrs \<Longrightarrow> x_op xdrs = XDR_DECODE \<Longrightarrow>
   xdrmem_getbytes xdrs addr len =
     (if len \<le> length (unread xdrs)
      then (True, skip len xdrs, overwrite 0 (take len (unread xdrs)) addr)
      else (False, xdrs, addr))"
  by (auto simp: xdrmem_getbytes_def length_unread skip_def xdr_wf_def Let_def unread_def min_def)

lemma xdr_putuint32_emit:
  "xdr_wf xdrs \<Longrightarrow> xdr_putuint32 xdrs v =
     (if 4 \<le> room xdrs then (True, emit (htonl_bytes v) xdrs) else (False, xdrs))"
  by (auto simp: xdr_putuint32_def xdrmem_putunit_def emit_def room_def xdr_wf_def Let_def)

lemma xdr_getuint32_skip:
  "xdr_wf xdrs \<Longrightarrow> x_op xdrs = XDR_DECODE \<Longrightarrow>
   xdr_getuint32 xdrs w =
     (if 4 \<le> length (unread xdrs) then (True, skip 4 xdrs, ntohl_bytes (drop (x_data xdrs) (x_buf xdrs)))
      else (False, xdrs, w))"
  by (auto simp: xdr_getuint32_def xdrmem_getunit_def length_unread skip_def xdr_wf_def Let_def)

lemma unread_room: "xdr_wf xdrs \<Longrightarrow> x_op xdrs = XDR_DECODE \<Longrightarrow> length (unread xdrs) = room xdrs"
  by (simp add: length_unread room_def xdr_wf_def)

section \<open>Opaque data implements its wire format\<close>

lemma xdrmem_putbytes_moves:
  "xdr_wf xdrs \<Longrightarrow> x_op xdrs = XDR_ENCODE \<Longrightarrow> xdr_moves xdrs (snd (xdrmem_putbytes xdrs addr len))"
  by (auto simp: xdrmem_putbytes_def xdr_moves_def xdr_wf_def Let_def
      take_overwrite_before drop_overwrite_after)

lemma xdrmem_getbytes_moves:
  "xdr_wf xdrs \<Longrightarrow> x_op xdrs = XDR_DECODE \<Longrightarrow>
   xdr_moves xdrs (fst (snd (xdrmem_getbytes xdrs addr len)))"
  by (simp add: xdrmem_getbytes_skip skip_moves)

lemma xdr_opaque_encode_moves:
  assumes "xdr_wf xdrs" and "x_op xdrs = XDR_ENCODE"
  shows "xdr_moves xdrs (snd (xdr_opaque_encode xdrs cp cnt))"
proof -
  obtain b xdrs' where p: "xdrmem_putbytes xdrs cp (unat cnt) = (b, xdrs')"
    by (cases "xdrmem_putbytes xdrs cp (unat cnt)")
  have m: "xdr_moves xdrs xdrs'"
    using xdrmem_putbytes_moves [OF assms, of cp "unat cnt"] p by simp
  moreover have "x_op xdrs' = XDR_ENCODE"
    using m assms by (simp add: xdr_moves_def)
  ultimately show ?thesis
    using p assms xdr_moves_trans [OF m] xdrmem_putbytes_moves [of xdrs'] xdr_moves_wf [OF m]
    by (cases b) (simp_all add: xdr_opaque_encode_def Let_def)
qed

lemma xdr_opaque_decode_moves:
  assumes "xdr_wf xdrs" and "x_op xdrs = XDR_DECODE"
  shows "xdr_moves xdrs (fst (snd (xdr_opaque_decode xdrs cp cnt)))"
proof -
  obtain b xdrs' cp' where p: "xdrmem_getbytes xdrs cp (unat cnt) = (b, xdrs', cp')"
    by (cases "xdrmem_getbytes xdrs cp (unat cnt)") auto
  have m: "xdr_moves xdrs xdrs'"
    using xdrmem_getbytes_moves [OF assms, of cp "unat cnt"] p by simp
  moreover have "x_op xdrs' = XDR_DECODE"
    using m assms by (simp add: xdr_moves_def)
  ultimately show ?thesis
    using p assms xdr_moves_trans [OF m] xdrmem_getbytes_moves [of xdrs'] xdr_moves_wf [OF m]
    by (cases b) (simp_all add: xdr_opaque_decode_def Let_def case_prod_unfold)
qed

lemma xdr_opaque_encode_padded:
  "cnt \<noteq> 0 \<Longrightarrow> xdr_opaque_encode xdrs cp cnt =
     (case xdrmem_putbytes xdrs cp (unat cnt) of
        (False, xdrs') \<Rightarrow> (False, xdrs')
      | (True, xdrs') \<Rightarrow>
          if pad_len (unat cnt) \<noteq> 0 then xdrmem_putbytes xdrs' [0, 0, 0, 0] (pad_len (unat cnt))
          else (True, xdrs'))"
  using rndup_pad [of cnt]
  by (cases "cnt AND 3 > 0") (simp_all add: xdr_opaque_encode_def Let_def split: prod.split bool.split)

lemma xdr_opaque_decode_padded:
  "cnt \<noteq> 0 \<Longrightarrow> xdr_opaque_decode xdrs cp cnt =
     (case xdrmem_getbytes xdrs cp (unat cnt) of
        (False, xdrs', cp') \<Rightarrow> (False, xdrs', cp')
      | (True, xdrs', cp') \<Rightarrow>
          if pad_len (unat cnt) \<noteq> 0
          then case xdrmem_getbytes xdrs' [0, 0, 0, 0] (pad_len (unat cnt)) of
                 (b, xdrs'', crud) \<Rightarrow> (b, xdrs'', cp')
          else (True, xdrs', cp'))"
  using rndup_pad [of cnt]
  by (cases "cnt AND 3 > 0") (simp_all add: xdr_opaque_decode_def Let_def split: prod.split bool.split)

lemma take_zeros: "take (pad_len n) [0, 0, 0, 0] = replicate (pad_len n) (0 :: byte)"
proof -
  have "[0, 0, 0, 0] = replicate 4 (0 :: byte)"
    by (simp add: numeral_eq_Suc)
  moreover have "min (pad_len n) 4 = pad_len n"
    using pad_len_cases [of n] by auto
  ultimately show ?thesis
    by (simp only: take_replicate)
qed

lemma xdr_opaque_encode_emit:
  assumes wf: "xdr_wf xdrs" and op: "x_op xdrs = XDR_ENCODE" and n: "unat cnt \<le> length cp"
  defines "bs \<equiv> take (unat cnt) cp"
  shows "xdr_opaque_encode xdrs cp cnt =
      (if length (wire_opaque bs) \<le> room xdrs then (True, emit (wire_opaque bs) xdrs)
       else if length bs \<le> room xdrs then (False, emit bs xdrs) else (False, xdrs))"
proof (cases "cnt = 0 \<or> room xdrs < length bs")
  case True
  then show ?thesis
    using wf n by (auto simp: xdr_opaque_encode_def bs_def xdrmem_putbytes_emit length_wire_opaque)
next
  case False
  then have len: "length bs = unat cnt" "length bs \<le> room xdrs"
    using n by (auto simp: bs_def)
  then have wf': "xdr_wf (emit bs xdrs)"
    using wf op by (intro emit_wf) auto
  have "xdr_opaque_encode xdrs cp cnt =
      (if pad_len (unat cnt) \<noteq> 0
       then xdrmem_putbytes (emit bs xdrs) [0, 0, 0, 0] (pad_len (unat cnt))
       else (True, emit bs xdrs))"
    using False len n by (simp add: xdr_opaque_encode_padded xdrmem_putbytes_emit wf bs_def)
  moreover have "pad_len (unat cnt) \<le> 4"
    using pad_len_cases [of "unat cnt"] by auto
  ultimately show ?thesis
    using len wf emit_emit [OF wf, of bs "replicate (pad_len (unat cnt)) 0"]
    by (auto simp: xdrmem_putbytes_emit [OF _ wf'] take_zeros wire_opaque_def)
qed

lemma xdr_opaque_decode_skip:
  assumes wf: "xdr_wf xdrs" and op: "x_op xdrs = XDR_DECODE"
    and u: "unread xdrs = wire_opaque bs @ rest" and n: "unat cnt = length bs"
  shows "xdr_opaque_decode xdrs cp cnt = (True, skip (length (wire_opaque bs)) xdrs, overwrite 0 bs cp)"
proof (cases "cnt = 0")
  case True
  then show ?thesis
    using n by (simp add: xdr_opaque_decode_def)
next
  case False
  have len: "length bs + pad_len (length bs) \<le> length (unread xdrs)"
    using u by (simp add: length_wire_opaque)
  then have wf': "xdr_wf (skip (length bs) xdrs)"
    using wf op by (intro skip_wf) auto
  show ?thesis
    using False wf op len n u
    by (simp add: xdr_opaque_decode_padded xdrmem_getbytes_skip wf' length_wire_opaque)
       (simp add: wire_opaque_def)
qed

lemma xdr_opaque_decode_short:
  assumes wf: "xdr_wf xdrs" and op: "x_op xdrs = XDR_DECODE"
    and u: "length (unread xdrs) < unat cnt + pad_len (unat cnt)"
  shows "\<not> fst (xdr_opaque_decode xdrs cp cnt)"
proof (cases "unat cnt \<le> length (unread xdrs)")
  case True
  then have wf': "xdr_wf (skip (unat cnt) xdrs)"
    using wf op by (intro skip_wf) auto
  have "cnt \<noteq> 0" "pad_len (unat cnt) \<noteq> 0"
    using u True by (auto simp: pad_len_def)
  then show ?thesis
    using True u wf op
    by (simp add: xdr_opaque_decode_padded xdrmem_getbytes_skip wf')
next
  case False
  then show ?thesis
    using wf op by (auto simp: xdr_opaque_decode_def xdrmem_getbytes_skip)
qed

interpretation opaque: xdr_codec "xdr_opaque cnt" wire_opaque
    "\<lambda>v. length v = unat cnt" "\<lambda>v w. overwrite 0 v w" for cnt
proof (unfold_locales, goal_cases)
  case (1 xdrs v)
  then show ?case
    using xdr_opaque_encode_moves [of xdrs v cnt] xdr_opaque_decode_moves [of xdrs v cnt]
    by (cases "x_op xdrs") (simp_all add: xdr_opaque_def case_prod_unfold)
next
  case (2 xdrs v)
  then show ?case
    by (simp add: xdr_opaque_def xdr_opaque_encode_emit)
next
  case (3 xdrs v)
  then show ?case
    by (simp add: xdr_opaque_def xdr_opaque_encode_emit)
next
  case (4 xdrs v rest w)
  then show ?case
    by (simp add: xdr_opaque_def xdr_opaque_decode_skip)
next
  case (5 xdrs v w)
  then show ?case
    using prefix_length_less [of "unread xdrs" "wire_opaque v"]
    by (simp add: xdr_opaque_def xdr_opaque_decode_short length_wire_opaque)
qed

section \<open>Counted data implements its wire format\<close>

definition wire_counted :: "byte list \<Rightarrow> byte list" where
  "wire_counted bs = htonl_bytes (of_nat (length bs)) @ wire_opaque bs"

lemma length_wire_counted: "length (wire_counted bs) = 4 + length (wire_opaque bs)"
  by (simp add: wire_counted_def)

fun bytes_of :: "char_ptr \<times> uint32 \<Rightarrow> byte list" where
  "bytes_of (p, n) = take (unat n) (block p)"

fun bytes_valid :: "uint32 \<Rightarrow> char_ptr \<times> uint32 \<Rightarrow> bool" where
  "bytes_valid maxsize (p, n) \<longleftrightarrow> n \<le> maxsize \<and> unat n \<le> length (block p)"

fun bytes_dec :: "char_ptr \<times> uint32 \<Rightarrow> char_ptr \<times> uint32 \<Rightarrow> char_ptr \<times> uint32" where
  "bytes_dec (p, n) (q, m) =
     (if n = 0 then q else Some (overwrite 0 (bytes_of (p, n)) (block q)), n)"

lemma overwrite_all: "length bs = length xs \<Longrightarrow> overwrite 0 bs xs = bs"
  by (simp add: overwrite_def)

text \<open>How a count and its padded data are read and written.\<close>

lemma xdr_counted_encode:
  assumes wf: "xdr_wf xdrs" and op: "x_op xdrs = XDR_ENCODE" and n: "unat n \<le> length cp"
  defines "bs \<equiv> take (unat n) cp"
    and "res \<equiv> (case xdr_putuint32 xdrs n of
            (False, xdrs') \<Rightarrow> (False, xdrs')
          | (True, xdrs') \<Rightarrow> xdr_opaque_encode xdrs' cp n)"
  shows "length (wire_counted bs) \<le> room xdrs \<Longrightarrow> res = (True, emit (wire_counted bs) xdrs)"
    and "room xdrs < length (wire_counted bs) \<Longrightarrow> \<not> fst res"
proof -
  have n': "of_nat (length bs) = n"
    using n by (simp add: bs_def min_absorb2)
  have wf': "xdr_wf (emit (htonl_bytes n) xdrs)" if "4 \<le> room xdrs"
    using wf op that by (intro emit_wf) auto
  show "res = (True, emit (wire_counted bs) xdrs)" if fits: "length (wire_counted bs) \<le> room xdrs"
    using fits wf op n wf' emit_emit [OF wf, of "htonl_bytes n" "wire_opaque bs"] n'
    by (simp add: res_def wire_counted_def xdr_putuint32_emit xdr_opaque_encode_emit flip: bs_def)
  show "\<not> fst res" if "room xdrs < length (wire_counted bs)"
    using that wf op n wf'
    by (auto simp: res_def length_wire_counted xdr_putuint32_emit xdr_opaque_encode_emit simp flip: bs_def)
qed

lemma xdr_counted_encode_moves:
  assumes wf: "xdr_wf xdrs" and op: "x_op xdrs = XDR_ENCODE"
  shows "xdr_moves xdrs (snd (case xdr_putuint32 xdrs n of
            (False, xdrs') \<Rightarrow> (False, xdrs')
          | (True, xdrs') \<Rightarrow> xdr_opaque_encode xdrs' cp n))"
proof (cases "4 \<le> room xdrs")
  case True
  then have "xdr_moves xdrs (emit (htonl_bytes n) xdrs)"
    using wf op by (intro emit_moves) auto
  then show ?thesis
    using True wf op xdr_opaque_encode_moves [OF emit_wf [OF wf op], of "htonl_bytes n" cp n]
    by (auto simp: xdr_putuint32_emit intro: xdr_moves_trans)
qed (use wf in \<open>simp add: xdr_putuint32_emit\<close>)

lemma xdr_getuint32_moves:
  assumes "xdr_wf xdrs" and "x_op xdrs = XDR_DECODE"
    and "xdr_getuint32 xdrs x = (b, xdrs', sz)"
  shows "xdr_moves xdrs xdrs'" and "x_op xdrs' = XDR_DECODE" and "xdr_wf xdrs'"
  using assms skip_moves [OF assms(1,2), of 4] skip_wf [OF assms(1,2), of 4]
  by (auto simp: xdr_getuint32_skip split: if_splits)

lemma xdr_counted_decode:
  assumes wf: "xdr_wf xdrs" and op: "x_op xdrs = XDR_DECODE" and n: "length bs < 2 ^ 32"
    and u: "unread xdrs = wire_counted bs @ rest"
  shows "xdr_getuint32 xdrs w = (True, skip 4 xdrs, of_nat (length bs))"
    and "unread (skip 4 xdrs) = wire_opaque bs @ rest" and "xdr_wf (skip 4 xdrs)"
proof -
  have u': "unread xdrs = htonl_bytes (of_nat (length bs)) @ wire_opaque bs @ rest"
    using u by (simp add: wire_counted_def)
  from ntohl_unread [OF u'] show "xdr_getuint32 xdrs w = (True, skip 4 xdrs, of_nat (length bs))"
    using u' wf op by (simp add: xdr_getuint32_skip)
  from u' show "unread (skip 4 xdrs) = wire_opaque bs @ rest" and "xdr_wf (skip 4 xdrs)"
    using skip_wf [OF wf op, of 4] by simp_all
qed

lemma xdr_counted_decode_short:
  assumes wf: "xdr_wf xdrs" and op: "x_op xdrs = XDR_DECODE" and n: "length bs < 2 ^ 32"
    and u: "strict_prefix (unread xdrs) (wire_counted bs)"
  obtains "xdr_getuint32 xdrs 0 = (False, xdrs, 0)"
  | "xdr_getuint32 xdrs 0 = (True, skip 4 xdrs, of_nat (length bs))"
    and "xdr_wf (skip 4 xdrs)" and "length (unread (skip 4 xdrs)) < length (wire_opaque bs)"
proof -
  from u show thesis
    unfolding wire_counted_def
  proof (cases rule: strict_prefix_appendE)
    case 1
    then show thesis
      using prefix_length_less [OF 1] wf op by (intro that(1)) (simp add: xdr_getuint32_skip)
  next
    case (2 t)
    then show thesis
      using ntohl_unread [OF 2(1)] wf op skip_wf [OF wf op, of 4] prefix_length_less [OF 2(2)]
      by (intro that(2)) (simp_all add: xdr_getuint32_skip)
  qed
qed

lemma xdr_bytes_safe:
  assumes wf: "xdr_wf xdrs"
  shows "xdr_moves xdrs (fst (snd (xdr_bytes maxsize xdrs (cpp, sizep))))"
proof (cases "x_op xdrs")
  case XDR_ENCODE
  have "xdr_moves xdrs (snd (xdr_bytes_encode xdrs cpp sizep maxsize))"
    using wf xdr_counted_encode_moves [OF wf XDR_ENCODE, of "block cpp" sizep]
    by (simp add: xdr_bytes_encode_def Let_def)
  then show ?thesis
    using XDR_ENCODE by (simp split: prod.split) auto
next
  case XDR_DECODE
  obtain b xdrs' sz where g: "xdr_getuint32 xdrs 0 = (b, xdrs', sz)"
    by (cases "xdr_getuint32 xdrs 0") auto
  note m = xdr_getuint32_moves [OF wf XDR_DECODE g]
  have "xdr_moves xdrs xdrs''"
    if "xdr_opaque_decode xdrs' sp sz = (c, xdrs'', sp')" for c xdrs'' sp sp'
    using xdr_moves_trans [OF m(1) xdr_opaque_decode_moves [OF m(3,2), of sp sz]] that by simp
  then show ?thesis
    using m(1) XDR_DECODE g
    by (auto simp: xdr_bytes_decode_def Let_def split: bool.split prod.split)
qed (use wf in \<open>simp add: xdr_bytes_free_def\<close>)

lemma bytes_of_length: "bytes_valid maxsize v \<Longrightarrow> of_nat (length (bytes_of v)) = snd v"
  by (cases v) (simp add: min_absorb2)

lemma bytes_of_bound: "length (bytes_of v) < 2 ^ 32"
  by (cases v) (simp add: min_less_iff_disj)

interpretation bytes: xdr_codec "xdr_bytes maxsize" "\<lambda>v. wire_counted (bytes_of v)"
    "bytes_valid maxsize" bytes_dec for maxsize
proof (unfold_locales, goal_cases)
  case (1 xdrs v)
  then show ?case
    using xdr_bytes_safe by (cases v) blast
next
  case (2 xdrs v)
  moreover obtain p n where "v = (p, n)"
    by (cases v)
  ultimately show ?case
    using xdr_counted_encode(1) [of xdrs n "block p"]
    by (auto simp: xdr_bytes_encode_def Let_def)
next
  case (3 xdrs v)
  moreover obtain p n where "v = (p, n)"
    by (cases v)
  ultimately show ?case
    using xdr_counted_encode(2) [of xdrs n "block p"]
    by (auto simp: xdr_bytes_encode_def Let_def split: prod.splits)
next
  case (4 xdrs v rest w)
  obtain p n q m where v: "v = (p, n)" "w = (q, m)"
    by (cases v; cases w)
  define bs where "bs = bytes_of v"
  note c = xdr_counted_decode [OF 4(1,2) bytes_of_bound 4(4), folded bs_def]
  have n: "of_nat (length bs) = n" "length bs = unat n" "n \<le> maxsize"
    using 4(3) bytes_of_length [of maxsize v] v by (auto simp: bs_def)
  have o: "xdr_opaque_decode (skip 4 xdrs) cp n =
      (True, skip (length (wire_opaque bs)) (skip 4 xdrs), overwrite 0 bs cp)" for cp
    using 4(2) c n by (intro xdr_opaque_decode_skip [where rest = rest]) auto
  have "overwrite 0 bs (case q of None \<Rightarrow> mem_alloc n | Some sp \<Rightarrow> sp) = overwrite 0 bs (block q)"
    using n(2) by (simp add: block_def mem_alloc_def overwrite_def split: option.split)
  moreover have "n = 0 \<Longrightarrow> bs = []"
    using n(2) by simp
  moreover have "bytes_dec v w = (if n = 0 then q else Some (overwrite 0 bs (block q)), n)"
    using v by (simp add: bs_def)
  ultimately show ?case
    using 4(2) c(1) n(1,3) o v(2)
    by (auto simp: xdr_bytes_decode_def Let_def length_wire_counted simp flip: bs_def)
next
  case (5 xdrs v w)
  obtain p n q m where v: "v = (p, n)" "w = (q, m)"
    by (cases v; cases w)
  define bs where "bs = bytes_of v"
  have n: "of_nat (length bs) = n" "length bs = unat n"
    using 5(3) bytes_of_length [of maxsize v] v by (auto simp: bs_def)
  from 5(1,2) bytes_of_bound [of v] 5(4) show ?case
    unfolding bs_def [symmetric]
  proof (cases rule: xdr_counted_decode_short)
    case 1
    then show ?thesis
      using 5(2) v by (simp add: xdr_bytes_decode_def)
  next
    case 2
    have o: "\<not> fst (xdr_opaque_decode (skip 4 xdrs) cp n)" for cp
      using 2 5(2) n(2) by (intro xdr_opaque_decode_short) (auto simp: length_wire_opaque)
    have "n \<noteq> 0"
      using 2(3) n(2) by auto
    then show ?thesis
      using 2(1) n(1) o 5(2) v
      by (simp add: xdr_bytes_decode_def Let_def split: prod.split bool.split) (metis fst_conv)
  qed
qed

section \<open>C strings implement the counted format\<close>

definition string_valid :: "uint32 \<Rightarrow> char_ptr \<Rightarrow> bool" where
  "string_valid maxsize p \<longleftrightarrow>
     p \<noteq> None \<and> length (c_str (block p)) \<le> unat maxsize \<and> length (c_str (block p)) + 1 < 2 ^ 32"

definition string_dec :: "char_ptr \<Rightarrow> char_ptr \<Rightarrow> char_ptr" where
  "string_dec p q = Some (overwrite 0 (c_str (block p) @ [0]) (block q))"

text \<open>The length of a string that is sent, at the widths the routine uses.\<close>

lemma strlen_words:
  assumes "string_valid maxsize (Some sp)"
  shows "(ucast (strlen sp) :: uint32) = of_nat (length (c_str sp))"
    and "unat (ucast (strlen sp) :: uint32) = length (c_str sp)"
    and "\<not> strlen sp > ucast maxsize"
    and "\<not> ucast (ucast (strlen sp + 1) :: uint32) < strlen sp + 1"
proof -
  define n where "n = length (c_str sp)"
  have n: "n \<le> unat maxsize" "n + 1 < 4294967296"
    using assms by (auto simp: string_valid_def block_def n_def)
  then have t: "take_bit 32 n = n" "take_bit 64 n = n" "take_bit 32 (Suc n) = Suc n" "take_bit 64 (Suc n) = Suc n"
    by (simp_all add: take_bit_nat_eq_self_iff)
  have s: "strlen sp = of_nat n" "strlen sp + 1 = of_nat (Suc n)"
    by (simp_all add: strlen_def n_def)
  show "(ucast (strlen sp) :: uint32) = of_nat (length (c_str sp))"
    using t by (simp add: s(1) unsigned_of_nat flip: n_def)
  show "unat (ucast (strlen sp) :: uint32) = length (c_str sp)"
    using t by (simp add: s(1) unsigned_of_nat flip: n_def)
  show "\<not> strlen sp > ucast maxsize"
    using t n by (simp add: s(1) not_less word_le_nat_alt unsigned_of_nat)
  show "\<not> ucast (ucast (strlen sp + 1) :: uint32) < strlen sp + 1"
    using t by (simp add: s(2) unsigned_of_nat del: of_nat_Suc)
qed

lemma take_c_str [simp]: "take (length (c_str sp)) sp = c_str sp" "length (c_str sp) \<le> length sp"
  by (simp_all add: c_str_def length_takeWhile_le flip: takeWhile_eq_take)

lemma xdr_string_encode_counted:
  assumes "string_valid maxsize (Some sp)"
  shows "xdr_string_encode xdrs (Some sp) maxsize =
     (case xdr_putuint32 xdrs (of_nat (length (c_str sp))) of
        (False, xdrs') \<Rightarrow> (False, xdrs')
      | (True, xdrs') \<Rightarrow> xdr_opaque_encode xdrs' sp (of_nat (length (c_str sp))))"
  using strlen_words [OF assms]
  by (simp add: xdr_string_encode_def Let_def split: prod.split bool.split)

lemma xdr_string_safe:
  assumes wf: "xdr_wf xdrs"
  shows "xdr_moves xdrs (fst (snd (xdr_string maxsize xdrs cpp)))"
proof (cases "x_op xdrs")
  case XDR_ENCODE
  have "xdr_moves xdrs (snd (xdr_string_encode xdrs cpp maxsize))"
    using wf xdr_counted_encode_moves [OF wf XDR_ENCODE]
    by (simp add: xdr_string_encode_def Let_def split: option.split)
  then show ?thesis
    using XDR_ENCODE by (simp add: xdr_string_def split: prod.split) auto
next
  case XDR_DECODE
  obtain b xdrs' sz where g: "xdr_getuint32 xdrs 0 = (b, xdrs', sz)"
    by (cases "xdr_getuint32 xdrs 0") auto
  note m = xdr_getuint32_moves [OF wf XDR_DECODE g]
  have "xdr_moves xdrs xdrs''"
    if "xdr_opaque_decode xdrs' sp sz = (c, xdrs'', sp')" for c xdrs'' sp sp'
    using xdr_moves_trans [OF m(1) xdr_opaque_decode_moves [OF m(3,2), of sp sz]] that by simp
  then show ?thesis
    using m(1) XDR_DECODE g
    by (auto simp: xdr_string_def xdr_string_decode_def Let_def split: bool.split prod.split)
qed (use wf in \<open>simp add: xdr_string_def xdr_string_free_def\<close>)

interpretation string: xdr_codec "xdr_string maxsize" "\<lambda>p. wire_counted (c_str (block p))"
    "string_valid maxsize" string_dec for maxsize
proof (unfold_locales, goal_cases)
  case (1 xdrs v)
  then show ?case
    by (rule xdr_string_safe)
next
  case (2 xdrs v)
  then obtain sp where v: "v = Some sp"
    by (auto simp: string_valid_def)
  then show ?case
    using 2 strlen_words [of maxsize sp] xdr_counted_encode(1) [of xdrs "of_nat (length (c_str sp))" sp]
    by (simp add: xdr_string_def xdr_string_encode_counted block_def)
next
  case (3 xdrs v)
  then obtain sp where v: "v = Some sp"
    by (auto simp: string_valid_def)
  then show ?case
    using 3 strlen_words [of maxsize sp] xdr_counted_encode(2) [of xdrs "of_nat (length (c_str sp))" sp]
    by (auto simp: xdr_string_def xdr_string_encode_counted block_def split: prod.splits)
next
  case (4 xdrs v rest w)
  define bs where "bs = c_str (block v)"
  define n where "n = (of_nat (length bs) :: uint32)"
  have n: "length bs < 2 ^ 32" "unat n = length bs" "n \<le> maxsize"
    using 4(3) by (auto simp: string_valid_def bs_def n_def unsigned_of_nat take_bit_nat_eq_self
        word_le_nat_alt)
  note c = xdr_counted_decode [OF 4(1,2) n(1) 4(4) [folded bs_def], folded n_def]
  have o: "xdr_opaque_decode (skip 4 xdrs) cp n =
      (True, skip (length (wire_opaque bs)) (skip 4 xdrs), overwrite 0 bs cp)" for cp
    using 4(2) c n by (intro xdr_opaque_decode_skip [where rest = rest]) auto
  have "overwrite (length bs) [0] (overwrite 0 bs (case w of None \<Rightarrow> mem_alloc (n + 1) | Some sp \<Rightarrow> sp)) =
      overwrite 0 (bs @ [0]) (block w)"
    using n(2) unat_word_ariths(1) [of n 1]
    by (auto simp: overwrite_def mem_alloc_def block_def split: option.split)
  then show ?case
    using 4(2) c(1) n o
    by (simp add: xdr_string_def xdr_string_decode_def Let_def length_wire_counted string_dec_def not_less
        flip: bs_def)
next
  case (5 xdrs v w)
  define bs where "bs = c_str (block v)"
  define n where "n = (of_nat (length bs) :: uint32)"
  have n: "length bs < 2 ^ 32" "unat n = length bs" "n \<le> maxsize"
    using 5(3) by (auto simp: string_valid_def bs_def n_def unsigned_of_nat take_bit_nat_eq_self
        word_le_nat_alt)
  from 5(1,2) n(1) 5(4) show ?case
    unfolding bs_def [symmetric]
  proof (cases rule: xdr_counted_decode_short)
    case 1
    then show ?thesis
      using 5(2) by (simp add: xdr_string_def xdr_string_decode_def)
  next
    case 2
    have "\<not> fst (xdr_opaque_decode (skip 4 xdrs) cp n)" for cp
      using 2 5(2) n(2) by (intro xdr_opaque_decode_short) (auto simp: length_wire_opaque)
    then show ?thesis
      using 2(1) 5(2) n_def
      by (simp add: xdr_string_def xdr_string_decode_def Let_def split: prod.split bool.split)
        (metis fst_conv)
  qed
qed

declare opaque.xdr_codec_axioms [xdr_codec_intros] opaque.xdr_safe_axioms [xdr_safe_intros]
declare bytes.xdr_codec_axioms [xdr_codec_intros] bytes.xdr_safe_axioms [xdr_safe_intros]
declare string.xdr_codec_axioms [xdr_codec_intros] string.xdr_safe_axioms [xdr_safe_intros]

end
