(* ===== verification/Nfs_Types.thy ===== *)
theory Nfs_Types
  imports Xdr_Opaque
begin

text \<open>
  The data types of \<open>include/nfs/nfs_args.h\<close> and \<open>include/file/file_handle.h\<close>.
  A \<open>struct\<close> is a record; since record members share one name space, a member
  carries a prefix for its \<open>struct\<close> where two of them use the same name.  A
  \<open>struct\<close> with a tag and a one-armed \<open>union\<close> is a record of the tag and the arm.
  Enumerations are their 32-bit values.
\<close>

section \<open>Constants\<close>

abbreviation C_TRUE :: bool_t where "C_TRUE \<equiv> 1"
abbreviation C_FALSE :: bool_t where "C_FALSE \<equiv> 0"

definition NFS3_FHSIZE :: uint32 where [nfs_consts]: "NFS3_FHSIZE = 64"
definition NFS3_COOKIEVERFSIZE :: uint32 where [nfs_consts]: "NFS3_COOKIEVERFSIZE = 8"
definition XDR_STRING_MAXLEN :: uint32 where [nfs_consts]: "XDR_STRING_MAXLEN = 8 * 1024"
definition XDR_BYTES_MAXLEN_IO :: uint32 where [nfs_consts]: "XDR_BYTES_MAXLEN_IO = 64 * 1024 * 1024"
definition NFS_LOOKAHEAD_READ :: uint32 where [nfs_consts]: "NFS_LOOKAHEAD_READ = 0x0008"
definition NFS_LOOKAHEAD_WRITE :: uint32 where [nfs_consts]: "NFS_LOOKAHEAD_WRITE = 0x0010"
definition NFS_LOOKAHEAD_CREATE :: uint32 where [nfs_consts]: "NFS_LOOKAHEAD_CREATE = 0x0040"

type_synonym nfsstat3 = enum_t

definition NFS3_OK :: nfsstat3 where [nfs_consts]: "NFS3_OK = 0"
definition NFS3ERR_PERM :: nfsstat3 where [nfs_consts]: "NFS3ERR_PERM = 1"
definition NFS3ERR_NOENT :: nfsstat3 where [nfs_consts]: "NFS3ERR_NOENT = 2"
definition NFS3ERR_IO :: nfsstat3 where [nfs_consts]: "NFS3ERR_IO = 5"
definition NFS3ERR_NXIO :: nfsstat3 where [nfs_consts]: "NFS3ERR_NXIO = 6"
definition NFS3ERR_ACCES :: nfsstat3 where [nfs_consts]: "NFS3ERR_ACCES = 13"
definition NFS3ERR_EXIST :: nfsstat3 where [nfs_consts]: "NFS3ERR_EXIST = 17"
definition NFS3ERR_XDEV :: nfsstat3 where [nfs_consts]: "NFS3ERR_XDEV = 18"
definition NFS3ERR_NODEV :: nfsstat3 where [nfs_consts]: "NFS3ERR_NODEV = 19"
definition NFS3ERR_NOTDIR :: nfsstat3 where [nfs_consts]: "NFS3ERR_NOTDIR = 20"
definition NFS3ERR_ISDIR :: nfsstat3 where [nfs_consts]: "NFS3ERR_ISDIR = 21"
definition NFS3ERR_INVAL :: nfsstat3 where [nfs_consts]: "NFS3ERR_INVAL = 22"
definition NFS3ERR_FBIG :: nfsstat3 where [nfs_consts]: "NFS3ERR_FBIG = 27"
definition NFS3ERR_NOSPC :: nfsstat3 where [nfs_consts]: "NFS3ERR_NOSPC = 28"
definition NFS3ERR_ROFS :: nfsstat3 where [nfs_consts]: "NFS3ERR_ROFS = 30"
definition NFS3ERR_MLINK :: nfsstat3 where [nfs_consts]: "NFS3ERR_MLINK = 31"
definition NFS3ERR_NAMETOOLONG :: nfsstat3 where [nfs_consts]: "NFS3ERR_NAMETOOLONG = 63"
definition NFS3ERR_NOTEMPTY :: nfsstat3 where [nfs_consts]: "NFS3ERR_NOTEMPTY = 66"
definition NFS3ERR_DQUOT :: nfsstat3 where [nfs_consts]: "NFS3ERR_DQUOT = 69"
definition NFS3ERR_STALE :: nfsstat3 where [nfs_consts]: "NFS3ERR_STALE = 70"
definition NFS3ERR_REMOTE :: nfsstat3 where [nfs_consts]: "NFS3ERR_REMOTE = 71"
definition NFS3ERR_BADHANDLE :: nfsstat3 where [nfs_consts]: "NFS3ERR_BADHANDLE = 10001"
definition NFS3ERR_NOT_SYNC :: nfsstat3 where [nfs_consts]: "NFS3ERR_NOT_SYNC = 10002"
definition NFS3ERR_BAD_COOKIE :: nfsstat3 where [nfs_consts]: "NFS3ERR_BAD_COOKIE = 10003"
definition NFS3ERR_NOTSUPP :: nfsstat3 where [nfs_consts]: "NFS3ERR_NOTSUPP = 10004"
definition NFS3ERR_TOOSMALL :: nfsstat3 where [nfs_consts]: "NFS3ERR_TOOSMALL = 10005"
definition NFS3ERR_SERVERFAULT :: nfsstat3 where [nfs_consts]: "NFS3ERR_SERVERFAULT = 10006"
definition NFS3ERR_BADTYPE :: nfsstat3 where [nfs_consts]: "NFS3ERR_BADTYPE = 10007"
definition NFS3ERR_JUKEBOX :: nfsstat3 where [nfs_consts]: "NFS3ERR_JUKEBOX = 10008"

lemma NFS3ERR_not_OK [simp]:
  "NFS3ERR_NOENT \<noteq> NFS3_OK" "NFS3_OK \<noteq> NFS3ERR_NOENT"
  "NFS3ERR_IO \<noteq> NFS3_OK" "NFS3_OK \<noteq> NFS3ERR_IO"
  "NFS3ERR_ACCES \<noteq> NFS3_OK" "NFS3_OK \<noteq> NFS3ERR_ACCES"
  "NFS3ERR_NOTDIR \<noteq> NFS3_OK" "NFS3_OK \<noteq> NFS3ERR_NOTDIR"
  "NFS3ERR_ISDIR \<noteq> NFS3_OK" "NFS3_OK \<noteq> NFS3ERR_ISDIR"
  "NFS3ERR_INVAL \<noteq> NFS3_OK" "NFS3_OK \<noteq> NFS3ERR_INVAL"
  "NFS3ERR_FBIG \<noteq> NFS3_OK" "NFS3_OK \<noteq> NFS3ERR_FBIG"
  "NFS3ERR_BADHANDLE \<noteq> NFS3_OK" "NFS3_OK \<noteq> NFS3ERR_BADHANDLE"
  "NFS3ERR_NOT_SYNC \<noteq> NFS3_OK" "NFS3_OK \<noteq> NFS3ERR_NOT_SYNC"
  "NFS3ERR_BAD_COOKIE \<noteq> NFS3_OK" "NFS3_OK \<noteq> NFS3ERR_BAD_COOKIE"
  "NFS3ERR_BADTYPE \<noteq> NFS3_OK" "NFS3_OK \<noteq> NFS3ERR_BADTYPE"
  by (simp_all add: nfs_consts)

type_synonym ftype3 = enum_t

definition NF3REG :: ftype3 where [nfs_consts]: "NF3REG = 1"
definition NF3DIR :: ftype3 where [nfs_consts]: "NF3DIR = 2"
definition NF3BLK :: ftype3 where [nfs_consts]: "NF3BLK = 3"
definition NF3CHR :: ftype3 where [nfs_consts]: "NF3CHR = 4"
definition NF3LNK :: ftype3 where [nfs_consts]: "NF3LNK = 5"
definition NF3SOCK :: ftype3 where [nfs_consts]: "NF3SOCK = 6"
definition NF3FIFO :: ftype3 where [nfs_consts]: "NF3FIFO = 7"

type_synonym time_how = enum_t

definition DONT_CHANGE :: time_how where [nfs_consts]: "DONT_CHANGE = 0"
definition SET_TO_SERVER_TIME :: time_how where [nfs_consts]: "SET_TO_SERVER_TIME = 1"
definition SET_TO_CLIENT_TIME :: time_how where [nfs_consts]: "SET_TO_CLIENT_TIME = 2"

text \<open>What a request handler returns to the dispatcher.\<close>

datatype nfs_req_result =
  NFS_REQ_OK | NFS_REQ_DROP | NFS_REQ_ERROR | NFS_REQ_REPLAY
| NFS_REQ_ASYNC_WAIT | NFS_REQ_XPRT_DIED | NFS_REQ_AUTH_ERR

section \<open>Structures\<close>

type_synonym filename3 = char_ptr
type_synonym nfspath3 = char_ptr
type_synonym cookieverf3 = "byte list"
type_synonym writeverf3 = "byte list"
type_synonym createverf3 = "byte list"

record nfs_fh3 =
  data_len :: uint32
  data_val :: char_ptr

record nfstime3 =
  tv_sec :: uint32
  tv_nsec :: uint32

record specdata3 =
  specdata1 :: uint32
  specdata2 :: uint32

record fattr3 =
  fa_type :: ftype3
  fa_mode :: uint32
  fa_nlink :: uint32
  fa_uid :: uint32
  fa_gid :: uint32
  fa_size :: uint64
  fa_used :: uint64
  fa_rdev :: specdata3
  fa_fsid :: uint64
  fa_fileid :: uint64
  fa_atime :: nfstime3
  fa_mtime :: nfstime3
  fa_ctime :: nfstime3

record post_op_attr =
  poa_attributes_follow :: bool_t
  poa_attributes :: fattr3

record post_op_fh3 =
  handle_follows :: bool_t
  pof_handle :: nfs_fh3

record diropargs3 =
  doa_dir :: nfs_fh3
  doa_name :: filename3

record wcc_attr =
  wa_size :: uint64
  wa_mtime :: nfstime3
  wa_ctime :: nfstime3

record pre_op_attr =
  pra_attributes_follow :: bool_t
  pra_attributes :: wcc_attr

record wcc_data =
  wcc_before :: pre_op_attr
  wcc_after :: post_op_attr

record set_mode3 =
  sm_set_it :: bool_t
  sm_mode :: uint32

record set_uid3 =
  su_set_it :: bool_t
  su_uid :: uint32

record set_gid3 =
  sg_set_it :: bool_t
  sg_gid :: uint32

record set_size3 =
  ss_set_it :: bool_t
  ss_size :: uint64

record set_atime =
  sat_set_it :: time_how
  sat_atime :: nfstime3

record set_mtime =
  smt_set_it :: time_how
  smt_mtime :: nfstime3

record sattr3 =
  sa_mode :: set_mode3
  sa_uid :: set_uid3
  sa_gid :: set_gid3
  sa_size :: set_size3
  sa_atime :: set_atime
  sa_mtime :: set_mtime

section \<open>Zeroed objects\<close>

text \<open>
  Arguments are decoded into zeroed memory: null pointers, zero integers.
\<close>

definition zero_fh3 :: nfs_fh3 where
  "zero_fh3 = \<lparr>data_len = 0, data_val = None\<rparr>"

definition zero_time3 :: nfstime3 where
  "zero_time3 = \<lparr>tv_sec = 0, tv_nsec = 0\<rparr>"

definition zero_sattr3 :: sattr3 where
  "zero_sattr3 =
     \<lparr>sa_mode = \<lparr>sm_set_it = 0, sm_mode = 0\<rparr>, sa_uid = \<lparr>su_set_it = 0, su_uid = 0\<rparr>,
      sa_gid = \<lparr>sg_set_it = 0, sg_gid = 0\<rparr>, sa_size = \<lparr>ss_set_it = 0, ss_size = 0\<rparr>,
      sa_atime = \<lparr>sat_set_it = 0, sat_atime = zero_time3\<rparr>,
      sa_mtime = \<lparr>smt_set_it = 0, smt_mtime = zero_time3\<rparr>\<rparr>"

end
