(* ===== verification/Nfs_Xdr.thy ===== *)
theory Nfs_Xdr
  imports Nfs_Types
begin

text \<open>
  The XDR routines of the shared NFS types (\<open>src/nfs/nfs_xdr.cpp\<close>), one
  definition per C++ function, each with the wire format it implements.
\<close>

section \<open>Routines\<close>

definition xdr_nfs3_uint32 :: "uint32 xdrproc" where
  [xdr_defs]: "xdr_nfs3_uint32 = xdr_u_int"

definition xdr_nfs3_uint64 :: "uint64 xdrproc" where
  [xdr_defs]: "xdr_nfs3_uint64 = xdr_u_longlong_t"

definition xdr_size3 :: "uint64 xdrproc" where
  [xdr_defs]: "xdr_size3 = xdr_nfs3_uint64"

definition xdr_nfstime3 :: "nfstime3 xdrproc" where
  "xdr_nfstime3 = xdr_all
     [xdr_field tv_sec tv_sec_update xdr_nfs3_uint32,
      xdr_field tv_nsec tv_nsec_update xdr_nfs3_uint32]"

definition xdr_nfsstat3 :: "nfsstat3 xdrproc" where
  [xdr_defs]: "xdr_nfsstat3 = xdr_enum"

definition xdr_ftype3 :: "ftype3 xdrproc" where
  [xdr_defs]: "xdr_ftype3 = xdr_enum"

definition xdr_uid3 :: "uint32 xdrproc" where
  [xdr_defs]: "xdr_uid3 = xdr_nfs3_uint32"

definition xdr_gid3 :: "uint32 xdrproc" where
  [xdr_defs]: "xdr_gid3 = xdr_nfs3_uint32"

definition xdr_specdata3 :: "specdata3 xdrproc" where
  "xdr_specdata3 = xdr_all
     [xdr_field specdata1 specdata1_update xdr_nfs3_uint32,
      xdr_field specdata2 specdata2_update xdr_nfs3_uint32]"

definition xdr_fileid3 :: "uint64 xdrproc" where
  [xdr_defs]: "xdr_fileid3 = xdr_nfs3_uint64"

definition xdr_mode3 :: "uint32 xdrproc" where
  [xdr_defs]: "xdr_mode3 = xdr_nfs3_uint32"

definition xdr_fattr3 :: "fattr3 xdrproc" where
  "xdr_fattr3 = xdr_all
     [xdr_field fa_type fa_type_update xdr_ftype3,
      xdr_field fa_mode fa_mode_update xdr_mode3,
      xdr_field fa_nlink fa_nlink_update xdr_nfs3_uint32,
      xdr_field fa_uid fa_uid_update xdr_uid3,
      xdr_field fa_gid fa_gid_update xdr_gid3,
      xdr_field fa_size fa_size_update xdr_size3,
      xdr_field fa_used fa_used_update xdr_size3,
      xdr_field fa_rdev fa_rdev_update xdr_specdata3,
      xdr_field fa_fsid fa_fsid_update xdr_nfs3_uint64,
      xdr_field fa_fileid fa_fileid_update xdr_fileid3,
      xdr_field fa_atime fa_atime_update xdr_nfstime3,
      xdr_field fa_mtime fa_mtime_update xdr_nfstime3,
      xdr_field fa_ctime fa_ctime_update xdr_nfstime3]"

definition xdr_post_op_attr :: "post_op_attr xdrproc" where
  "xdr_post_op_attr = xdr_tagged poa_attributes_follow poa_attributes_follow_update xdr_bool
     (\<lambda>t. if t = C_TRUE then xdr_field poa_attributes poa_attributes_update xdr_fattr3
          else if t = C_FALSE then xdr_ok
          else xdr_fail)"

text \<open>The address of the member pair of a file handle that \<open>xdr_bytes\<close> works on.\<close>

definition fh3_data :: "nfs_fh3 \<Rightarrow> char_ptr \<times> uint32" where
  "fh3_data fh = (data_val fh, data_len fh)"

definition fh3_data_update :: "(char_ptr \<times> uint32 \<Rightarrow> char_ptr \<times> uint32) \<Rightarrow> nfs_fh3 \<Rightarrow> nfs_fh3" where
  "fh3_data_update f fh =
     (case f (fh3_data fh) of (p, n) \<Rightarrow> fh\<lparr>data_val := p, data_len := n\<rparr>)"

definition xdr_nfs_fh3 :: "nfs_fh3 xdrproc" where
  "xdr_nfs_fh3 = xdr_field fh3_data fh3_data_update (xdr_bytes 64)"

definition xdr_cookie3 :: "uint64 xdrproc" where
  [xdr_defs]: "xdr_cookie3 = xdr_nfs3_uint64"

definition xdr_cookieverf3 :: "cookieverf3 xdrproc" where
  [xdr_defs]: "xdr_cookieverf3 = xdr_opaque 8"

definition xdr_count3 :: "uint32 xdrproc" where
  [xdr_defs]: "xdr_count3 = xdr_nfs3_uint32"

definition xdr_filename3 :: "filename3 xdrproc" where
  [xdr_defs]: "xdr_filename3 = xdr_string XDR_STRING_MAXLEN"

definition xdr_post_op_fh3 :: "post_op_fh3 xdrproc" where
  "xdr_post_op_fh3 = xdr_tagged handle_follows handle_follows_update xdr_bool
     (\<lambda>t. if t = C_TRUE then xdr_field pof_handle pof_handle_update xdr_nfs_fh3
          else if t = C_FALSE then xdr_ok
          else xdr_fail)"

definition xdr_diropargs3 :: "diropargs3 xdrproc" where
  "xdr_diropargs3 = xdr_all
     [xdr_field doa_dir doa_dir_update xdr_nfs_fh3,
      xdr_field doa_name doa_name_update xdr_filename3]"

definition xdr_wcc_attr :: "wcc_attr xdrproc" where
  "xdr_wcc_attr = xdr_all
     [xdr_field wa_size wa_size_update xdr_size3,
      xdr_field wa_mtime wa_mtime_update xdr_nfstime3,
      xdr_field wa_ctime wa_ctime_update xdr_nfstime3]"

definition xdr_pre_op_attr :: "pre_op_attr xdrproc" where
  "xdr_pre_op_attr = xdr_tagged pra_attributes_follow pra_attributes_follow_update xdr_bool
     (\<lambda>t. if t = C_TRUE then xdr_field pra_attributes pra_attributes_update xdr_wcc_attr
          else if t = C_FALSE then xdr_ok
          else xdr_fail)"

definition xdr_wcc_data :: "wcc_data xdrproc" where
  "xdr_wcc_data = xdr_all
     [xdr_field wcc_before wcc_before_update xdr_pre_op_attr,
      xdr_field wcc_after wcc_after_update xdr_post_op_attr]"

definition xdr_set_mode3 :: "set_mode3 xdrproc" where
  "xdr_set_mode3 = xdr_tagged sm_set_it sm_set_it_update xdr_bool
     (\<lambda>t. if t = C_TRUE then xdr_field sm_mode sm_mode_update xdr_mode3 else xdr_ok)"

definition xdr_set_uid3 :: "set_uid3 xdrproc" where
  "xdr_set_uid3 = xdr_tagged su_set_it su_set_it_update xdr_bool
     (\<lambda>t. if t = C_TRUE then xdr_field su_uid su_uid_update xdr_uid3 else xdr_ok)"

definition xdr_set_gid3 :: "set_gid3 xdrproc" where
  "xdr_set_gid3 = xdr_tagged sg_set_it sg_set_it_update xdr_bool
     (\<lambda>t. if t = C_TRUE then xdr_field sg_gid sg_gid_update xdr_gid3 else xdr_ok)"

definition xdr_set_size3 :: "set_size3 xdrproc" where
  "xdr_set_size3 = xdr_tagged ss_set_it ss_set_it_update xdr_bool
     (\<lambda>t. if t = C_TRUE then xdr_field ss_size ss_size_update xdr_size3 else xdr_ok)"

definition xdr_time_how :: "time_how xdrproc" where
  [xdr_defs]: "xdr_time_how = xdr_enum"

definition xdr_set_atime :: "set_atime xdrproc" where
  "xdr_set_atime = xdr_tagged sat_set_it sat_set_it_update xdr_time_how
     (\<lambda>t. if t = SET_TO_CLIENT_TIME then xdr_field sat_atime sat_atime_update xdr_nfstime3
          else xdr_ok)"

definition xdr_set_mtime :: "set_mtime xdrproc" where
  "xdr_set_mtime = xdr_tagged smt_set_it smt_set_it_update xdr_time_how
     (\<lambda>t. if t = SET_TO_CLIENT_TIME then xdr_field smt_mtime smt_mtime_update xdr_nfstime3
          else xdr_ok)"

definition xdr_sattr3 :: "sattr3 xdrproc" where
  "xdr_sattr3 = xdr_all
     [xdr_field sa_mode sa_mode_update xdr_set_mode3,
      xdr_field sa_uid sa_uid_update xdr_set_uid3,
      xdr_field sa_gid sa_gid_update xdr_set_gid3,
      xdr_field sa_size sa_size_update xdr_set_size3,
      xdr_field sa_atime sa_atime_update xdr_set_atime,
      xdr_field sa_mtime sa_mtime_update xdr_set_mtime]"

definition xdr_nfspath3 :: "nfspath3 xdrproc" where
  [xdr_defs]: "xdr_nfspath3 = xdr_string XDR_STRING_MAXLEN"

definition xdr_offset3 :: "uint64 xdrproc" where
  [xdr_defs]: "xdr_offset3 = xdr_nfs3_uint64"

definition xdr_writeverf3 :: "writeverf3 xdrproc" where
  [xdr_defs]: "xdr_writeverf3 = xdr_opaque 8"

section \<open>Wire formats\<close>

definition wire_nfstime3 :: "nfstime3 \<Rightarrow> byte list" where
  [wire_defs]: "wire_nfstime3 t = htonl_bytes (tv_sec t) @ htonl_bytes (tv_nsec t)"

definition wire_specdata3 :: "specdata3 \<Rightarrow> byte list" where
  [wire_defs]: "wire_specdata3 s = htonl_bytes (specdata1 s) @ htonl_bytes (specdata2 s)"

definition wire_fattr3 :: "fattr3 \<Rightarrow> byte list" where
  [wire_defs]: "wire_fattr3 a =
     htonl_bytes (fa_type a) @ htonl_bytes (fa_mode a) @ htonl_bytes (fa_nlink a) @
     htonl_bytes (fa_uid a) @ htonl_bytes (fa_gid a) @ wire_uint64 (fa_size a) @
     wire_uint64 (fa_used a) @ wire_specdata3 (fa_rdev a) @ wire_uint64 (fa_fsid a) @
     wire_uint64 (fa_fileid a) @ wire_nfstime3 (fa_atime a) @ wire_nfstime3 (fa_mtime a) @
     wire_nfstime3 (fa_ctime a)"

definition wire_post_op_attr :: "post_op_attr \<Rightarrow> byte list" where
  [wire_defs]: "wire_post_op_attr a =
     wire_bool (poa_attributes_follow a) @
     (if poa_attributes_follow a = C_TRUE then wire_fattr3 (poa_attributes a) else [])"

definition dec_post_op_attr :: "post_op_attr \<Rightarrow> post_op_attr \<Rightarrow> post_op_attr" where
  [wire_defs]: "dec_post_op_attr v w =
     (if poa_attributes_follow v = C_TRUE then v
      else w\<lparr>poa_attributes_follow := poa_attributes_follow v\<rparr>)"

definition wire_nfs_fh3 :: "nfs_fh3 \<Rightarrow> byte list" where
  [wire_defs]: "wire_nfs_fh3 fh = wire_counted (bytes_of (fh3_data fh))"

definition valid_nfs_fh3 :: "nfs_fh3 \<Rightarrow> bool" where
  [wire_defs]: "valid_nfs_fh3 fh \<longleftrightarrow> bytes_valid 64 (fh3_data fh)"

definition dec_nfs_fh3 :: "nfs_fh3 \<Rightarrow> nfs_fh3 \<Rightarrow> nfs_fh3" where
  [wire_defs]: "dec_nfs_fh3 v w = fh3_data_update (\<lambda>_. bytes_dec (fh3_data v) (fh3_data w)) w"

definition wire_filename3 :: "filename3 \<Rightarrow> byte list" where
  [wire_defs]: "wire_filename3 p = wire_counted (c_str (block p))"

definition valid_filename3 :: "filename3 \<Rightarrow> bool" where
  [wire_defs]: "valid_filename3 p \<longleftrightarrow> string_valid XDR_STRING_MAXLEN p"

definition wire_post_op_fh3 :: "post_op_fh3 \<Rightarrow> byte list" where
  [wire_defs]: "wire_post_op_fh3 h =
     wire_bool (handle_follows h) @
     (if handle_follows h = C_TRUE then wire_nfs_fh3 (pof_handle h) else [])"

definition valid_post_op_fh3 :: "post_op_fh3 \<Rightarrow> bool" where
  [wire_defs]: "valid_post_op_fh3 h \<longleftrightarrow>
     is_bool (handle_follows h) \<and> (handle_follows h = C_TRUE \<longrightarrow> valid_nfs_fh3 (pof_handle h))"

definition dec_post_op_fh3 :: "post_op_fh3 \<Rightarrow> post_op_fh3 \<Rightarrow> post_op_fh3" where
  [wire_defs]: "dec_post_op_fh3 v w =
     (if handle_follows v = C_TRUE
      then v\<lparr>pof_handle := dec_nfs_fh3 (pof_handle v) (pof_handle w)\<rparr>
      else w\<lparr>handle_follows := handle_follows v\<rparr>)"

definition wire_diropargs3 :: "diropargs3 \<Rightarrow> byte list" where
  [wire_defs]: "wire_diropargs3 d = wire_nfs_fh3 (doa_dir d) @ wire_filename3 (doa_name d)"

definition valid_diropargs3 :: "diropargs3 \<Rightarrow> bool" where
  [wire_defs]: "valid_diropargs3 d \<longleftrightarrow> valid_nfs_fh3 (doa_dir d) \<and> valid_filename3 (doa_name d)"

definition dec_diropargs3 :: "diropargs3 \<Rightarrow> diropargs3 \<Rightarrow> diropargs3" where
  [wire_defs]: "dec_diropargs3 v w =
     v\<lparr>doa_dir := dec_nfs_fh3 (doa_dir v) (doa_dir w),
       doa_name := string_dec (doa_name v) (doa_name w)\<rparr>"

definition wire_wcc_attr :: "wcc_attr \<Rightarrow> byte list" where
  [wire_defs]: "wire_wcc_attr a =
     wire_uint64 (wa_size a) @ wire_nfstime3 (wa_mtime a) @ wire_nfstime3 (wa_ctime a)"

definition wire_pre_op_attr :: "pre_op_attr \<Rightarrow> byte list" where
  [wire_defs]: "wire_pre_op_attr a =
     wire_bool (pra_attributes_follow a) @
     (if pra_attributes_follow a = C_TRUE then wire_wcc_attr (pra_attributes a) else [])"

definition dec_pre_op_attr :: "pre_op_attr \<Rightarrow> pre_op_attr \<Rightarrow> pre_op_attr" where
  [wire_defs]: "dec_pre_op_attr v w =
     (if pra_attributes_follow v = C_TRUE then v
      else w\<lparr>pra_attributes_follow := pra_attributes_follow v\<rparr>)"

definition wire_wcc_data :: "wcc_data \<Rightarrow> byte list" where
  [wire_defs]: "wire_wcc_data d = wire_pre_op_attr (wcc_before d) @ wire_post_op_attr (wcc_after d)"

definition valid_wcc_data :: "wcc_data \<Rightarrow> bool" where
  [wire_defs]: "valid_wcc_data d \<longleftrightarrow>
     is_bool (pra_attributes_follow (wcc_before d)) \<and> is_bool (poa_attributes_follow (wcc_after d))"

definition dec_wcc_data :: "wcc_data \<Rightarrow> wcc_data \<Rightarrow> wcc_data" where
  [wire_defs]: "dec_wcc_data v w =
     \<lparr>wcc_before = dec_pre_op_attr (wcc_before v) (wcc_before w),
      wcc_after = dec_post_op_attr (wcc_after v) (wcc_after w)\<rparr>"

definition wire_sattr3 :: "sattr3 \<Rightarrow> byte list" where
  "wire_sattr3 s =
     wire_bool (sm_set_it (sa_mode s)) @
       (if sm_set_it (sa_mode s) = C_TRUE then htonl_bytes (sm_mode (sa_mode s)) else []) @
     wire_bool (su_set_it (sa_uid s)) @
       (if su_set_it (sa_uid s) = C_TRUE then htonl_bytes (su_uid (sa_uid s)) else []) @
     wire_bool (sg_set_it (sa_gid s)) @
       (if sg_set_it (sa_gid s) = C_TRUE then htonl_bytes (sg_gid (sa_gid s)) else []) @
     wire_bool (ss_set_it (sa_size s)) @
       (if ss_set_it (sa_size s) = C_TRUE then wire_uint64 (ss_size (sa_size s)) else []) @
     htonl_bytes (sat_set_it (sa_atime s)) @
       (if sat_set_it (sa_atime s) = SET_TO_CLIENT_TIME
        then wire_nfstime3 (sat_atime (sa_atime s)) else []) @
     htonl_bytes (smt_set_it (sa_mtime s)) @
       (if smt_set_it (sa_mtime s) = SET_TO_CLIENT_TIME
        then wire_nfstime3 (smt_mtime (sa_mtime s)) else [])"

definition valid_sattr3 :: "sattr3 \<Rightarrow> bool" where
  "valid_sattr3 s \<longleftrightarrow>
     is_bool (sm_set_it (sa_mode s)) \<and> is_bool (su_set_it (sa_uid s)) \<and>
     is_bool (sg_set_it (sa_gid s)) \<and> is_bool (ss_set_it (sa_size s))"

definition dec_sattr3 :: "sattr3 \<Rightarrow> sattr3 \<Rightarrow> sattr3" where
  "dec_sattr3 v w =
     \<lparr>sa_mode = (if sm_set_it (sa_mode v) = C_TRUE then sa_mode v
                 else (sa_mode w)\<lparr>sm_set_it := sm_set_it (sa_mode v)\<rparr>),
      sa_uid = (if su_set_it (sa_uid v) = C_TRUE then sa_uid v
                else (sa_uid w)\<lparr>su_set_it := su_set_it (sa_uid v)\<rparr>),
      sa_gid = (if sg_set_it (sa_gid v) = C_TRUE then sa_gid v
                else (sa_gid w)\<lparr>sg_set_it := sg_set_it (sa_gid v)\<rparr>),
      sa_size = (if ss_set_it (sa_size v) = C_TRUE then sa_size v
                 else (sa_size w)\<lparr>ss_set_it := ss_set_it (sa_size v)\<rparr>),
      sa_atime = (if sat_set_it (sa_atime v) = SET_TO_CLIENT_TIME then sa_atime v
                  else (sa_atime w)\<lparr>sat_set_it := sat_set_it (sa_atime v)\<rparr>),
      sa_mtime = (if smt_set_it (sa_mtime v) = SET_TO_CLIENT_TIME then sa_mtime v
                  else (sa_mtime w)\<lparr>smt_set_it := smt_set_it (sa_mtime v)\<rparr>)\<rparr>"

section \<open>The routines implement the formats\<close>

interpretation nfstime3: xdr_codec xdr_nfstime3 wire_nfstime3 "\<lambda>_. True" "\<lambda>v w. v"
  unfolding xdr_nfstime3_def xdr_defs
  by (rule xdr_codec_eqI, (rule xdr_codec_intros | (simp; fail))+) (auto simp: wire_defs)

declare nfstime3.xdr_codec_axioms [xdr_codec_intros] nfstime3.xdr_safe_axioms [xdr_safe_intros]

interpretation specdata3: xdr_codec xdr_specdata3 wire_specdata3 "\<lambda>_. True" "\<lambda>v w. v"
  unfolding xdr_specdata3_def xdr_defs
  by (rule xdr_codec_eqI, (rule xdr_codec_intros | (simp; fail))+) (auto simp: wire_defs)

declare specdata3.xdr_codec_axioms [xdr_codec_intros] specdata3.xdr_safe_axioms [xdr_safe_intros]

interpretation fattr3: xdr_codec xdr_fattr3 wire_fattr3 "\<lambda>_. True" "\<lambda>v w. v"
  unfolding xdr_fattr3_def xdr_defs
  by (rule xdr_codec_eqI, (rule xdr_codec_intros | (simp; fail))+) (auto simp: wire_fattr3_def)

declare fattr3.xdr_codec_axioms [xdr_codec_intros] fattr3.xdr_safe_axioms [xdr_safe_intros]

interpretation post_op_attr: xdr_codec xdr_post_op_attr wire_post_op_attr
    "\<lambda>a. is_bool (poa_attributes_follow a)" dec_post_op_attr
  unfolding xdr_post_op_attr_def
  by (rule xdr_codec_eqI, (rule xdr_codec_intros | (simp; fail))+)
     (auto simp: wire_post_op_attr_def dec_post_op_attr_def is_bool_def)

declare post_op_attr.xdr_codec_axioms [xdr_codec_intros] post_op_attr.xdr_safe_axioms [xdr_safe_intros]

lemma fh3_data_lens [simp]:
  "fh3_data_update (\<lambda>_. fh3_data fh) fh = fh"
  "fh3_data (fh3_data_update f fh) = f (fh3_data fh)"
  by (simp_all add: fh3_data_def fh3_data_update_def split: prod.split)

interpretation nfs_fh3: xdr_codec xdr_nfs_fh3 wire_nfs_fh3 valid_nfs_fh3 dec_nfs_fh3
  unfolding xdr_nfs_fh3_def
  by (rule xdr_codec_eqI, (rule xdr_codec_intros | (simp; fail))+)
     (auto simp: wire_nfs_fh3_def valid_nfs_fh3_def dec_nfs_fh3_def)

declare nfs_fh3.xdr_codec_axioms [xdr_codec_intros] nfs_fh3.xdr_safe_axioms [xdr_safe_intros]

interpretation filename3: xdr_codec xdr_filename3 wire_filename3 valid_filename3 string_dec
  unfolding xdr_filename3_def wire_filename3_def valid_filename3_def by (rule xdr_codec_intros)

interpretation post_op_fh3: xdr_codec xdr_post_op_fh3 wire_post_op_fh3 valid_post_op_fh3 dec_post_op_fh3
  unfolding xdr_post_op_fh3_def
  by (rule xdr_codec_eqI, (rule xdr_codec_intros | (simp; fail))+)
     (auto simp: wire_post_op_fh3_def valid_post_op_fh3_def dec_post_op_fh3_def is_bool_def)

declare post_op_fh3.xdr_codec_axioms [xdr_codec_intros] post_op_fh3.xdr_safe_axioms [xdr_safe_intros]

interpretation diropargs3: xdr_codec xdr_diropargs3 wire_diropargs3 valid_diropargs3 dec_diropargs3
  unfolding xdr_diropargs3_def
  by (rule xdr_codec_eqI, (rule xdr_codec_intros filename3.xdr_codec_axioms | (simp; fail))+)
     (auto simp: wire_diropargs3_def valid_diropargs3_def dec_diropargs3_def)

declare diropargs3.xdr_codec_axioms [xdr_codec_intros] diropargs3.xdr_safe_axioms [xdr_safe_intros]

interpretation wcc_attr: xdr_codec xdr_wcc_attr wire_wcc_attr "\<lambda>_. True" "\<lambda>v w. v"
  unfolding xdr_wcc_attr_def xdr_defs
  by (rule xdr_codec_eqI, (rule xdr_codec_intros | (simp; fail))+) (auto simp: wire_wcc_attr_def)

declare wcc_attr.xdr_codec_axioms [xdr_codec_intros] wcc_attr.xdr_safe_axioms [xdr_safe_intros]

interpretation pre_op_attr: xdr_codec xdr_pre_op_attr wire_pre_op_attr
    "\<lambda>a. is_bool (pra_attributes_follow a)" dec_pre_op_attr
  unfolding xdr_pre_op_attr_def
  by (rule xdr_codec_eqI, (rule xdr_codec_intros | (simp; fail))+)
     (auto simp: wire_pre_op_attr_def dec_pre_op_attr_def is_bool_def)

declare pre_op_attr.xdr_codec_axioms [xdr_codec_intros] pre_op_attr.xdr_safe_axioms [xdr_safe_intros]

interpretation wcc_data: xdr_codec xdr_wcc_data wire_wcc_data valid_wcc_data dec_wcc_data
  unfolding xdr_wcc_data_def
  by (rule xdr_codec_eqI, (rule xdr_codec_intros | (simp; fail))+)
     (auto simp: wire_wcc_data_def valid_wcc_data_def dec_wcc_data_def)

declare wcc_data.xdr_codec_axioms [xdr_codec_intros] wcc_data.xdr_safe_axioms [xdr_safe_intros]

interpretation sattr3: xdr_codec xdr_sattr3 wire_sattr3 valid_sattr3 dec_sattr3
  unfolding xdr_sattr3_def xdr_set_mode3_def xdr_set_uid3_def xdr_set_gid3_def xdr_set_size3_def
    xdr_set_atime_def xdr_set_mtime_def xdr_defs
  by (rule xdr_codec_eqI, (rule xdr_codec_intros | (simp; fail))+)
     (simp_all add: wire_sattr3_def valid_sattr3_def dec_sattr3_def is_bool_def)

declare sattr3.xdr_codec_axioms [xdr_codec_intros] sattr3.xdr_safe_axioms [xdr_safe_intros]

end
