(* ===== verification/Posix_Env.thy ===== *)
theory Posix_Env
  imports Dnfs_Prelude
begin

text \<open>
  The operating system under the server.  Its state is the type variable
  \<open>'os\<close>; the system calls the sources make are the fields of a record, which
  the operations of the server take as an argument.  \<open>lstat\<close> and \<open>statvfs\<close>
  observe the state; the other calls return the state after the call.  A call
  that returns 0 or -1 returns a \<open>bool\<close> (\<open>True\<close> for success), a call that returns
  a descriptor an \<open>int\<close> (-1 for failure).  The mode bits, the \<open>errno\<close> values and
  the device number macros are those of the C library on Linux.
\<close>

type_synonym path = "byte list"
type_synonym fd = int
type_synonym mode_t = uint32
type_synonym dev_t = uint64

section \<open>Constants and macros of the C library\<close>

definition S_IFMT :: mode_t where [nfs_consts]: "S_IFMT = 0xF000"
definition S_IFSOCK :: mode_t where [nfs_consts]: "S_IFSOCK = 0xC000"
definition S_IFLNK :: mode_t where [nfs_consts]: "S_IFLNK = 0xA000"
definition S_IFREG :: mode_t where [nfs_consts]: "S_IFREG = 0x8000"
definition S_IFBLK :: mode_t where [nfs_consts]: "S_IFBLK = 0x6000"
definition S_IFDIR :: mode_t where [nfs_consts]: "S_IFDIR = 0x4000"
definition S_IFCHR :: mode_t where [nfs_consts]: "S_IFCHR = 0x2000"
definition S_IFIFO :: mode_t where [nfs_consts]: "S_IFIFO = 0x1000"
definition S_IRWXU :: mode_t where [nfs_consts]: "S_IRWXU = 0x1C0"
definition S_IRWXG :: mode_t where [nfs_consts]: "S_IRWXG = 0x38"
definition S_IRWXO :: mode_t where [nfs_consts]: "S_IRWXO = 0x7"
definition S_BLKSIZE :: uint64 where [nfs_consts]: "S_BLKSIZE = 512"

type_synonym errno = int

definition ENOENT :: errno where [nfs_consts]: "ENOENT = 2"
definition EACCES :: errno where [nfs_consts]: "EACCES = 13"
definition ENOTDIR :: errno where [nfs_consts]: "ENOTDIR = 20"

type_synonym open_flags = uint32

definition O_RDONLY :: open_flags where [nfs_consts]: "O_RDONLY = 0"
definition O_WRONLY :: open_flags where [nfs_consts]: "O_WRONLY = 1"
definition O_CREAT :: open_flags where [nfs_consts]: "O_CREAT = 0x40"
definition O_DIRECTORY :: open_flags where [nfs_consts]: "O_DIRECTORY = 0x10000"

definition dev_major :: "dev_t \<Rightarrow> uint32" where
  "dev_major d = ucast (drop_bit 8 (d AND 0xFFF00) OR drop_bit 32 (d AND 0xFFFFF00000000000))"

definition dev_minor :: "dev_t \<Rightarrow> uint32" where
  "dev_minor d = ucast (d AND 0xFF OR drop_bit 12 (d AND 0xFFFFFF00000))"

definition makedev :: "uint32 \<Rightarrow> uint32 \<Rightarrow> dev_t" where
  "makedev ma mi =
     push_bit 8 (ucast (ma AND 0xFFF)) OR push_bit 32 (ucast (ma AND 0xFFFFF000)) OR
     ucast (mi AND 0xFF) OR push_bit 12 (ucast (mi AND 0xFFFFFF00))"

lemma dev_masks:
  "(0xFFF00 :: uint64) = push_bit 8 (mask 12)"
  "(0xFFFFF00000000000 :: uint64) = push_bit 44 (mask 20)"
  "(0xFF :: uint64) = mask 8"
  "(0xFFFFFF00000 :: uint64) = push_bit 20 (mask 24)"
  "(0xFFF :: uint32) = mask 12" "(0xFFFFF000 :: uint32) = push_bit 12 (mask 20)"
  "(0xFF :: uint32) = mask 8" "(0xFFFFFF00 :: uint32) = push_bit 8 (mask 24)"
  by (simp_all add: mask_eq_exp_minus_1)

lemma bit_dev_major:
  "bit (dev_major d) n \<longleftrightarrow> n < 12 \<and> bit d (n + 8) \<or> 12 \<le> n \<and> n < 32 \<and> bit d (n + 32)"
  unfolding dev_major_def dev_masks
  by (auto simp: bit_simps add.commute)

lemma bit_dev_minor:
  "bit (dev_minor d) n \<longleftrightarrow> n < 8 \<and> bit d n \<or> 8 \<le> n \<and> n < 32 \<and> bit d (n + 12)"
  unfolding dev_minor_def dev_masks
  by (auto simp: bit_simps add.commute)

lemma bit_makedev:
  "bit (makedev ma mi) n \<longleftrightarrow>
     n < 8 \<and> bit mi n \<or> 8 \<le> n \<and> n < 20 \<and> bit ma (n - 8) \<or>
     20 \<le> n \<and> n < 44 \<and> bit mi (n - 12) \<or> 44 \<le> n \<and> n < 64 \<and> bit ma (n - 32)"
proof -
  consider "n < 8" | "8 \<le> n" "n < 20" | "20 \<le> n" "n < 32" | "32 \<le> n" "n < 44"
    | "44 \<le> n" "n < 64" | "64 \<le> n"
    by linarith
  then show ?thesis unfolding makedev_def dev_masks by cases (auto simp: bit_simps)
qed

lemma dev_major_makedev [simp]: "dev_major (makedev ma mi) = ma"
  by (rule bit_word_eqI) (auto simp: bit_dev_major bit_makedev)

lemma dev_minor_makedev [simp]: "dev_minor (makedev ma mi) = mi"
  by (rule bit_word_eqI) (auto simp: bit_dev_minor bit_makedev)

section \<open>Results of the calls\<close>

record timespec =
  ts_sec :: uint64
  ts_nsec :: uint64

record timeval =
  tval_sec :: uint64
  tval_usec :: uint64

record stat =
  st_mode :: mode_t
  st_nlink :: uint64
  st_uid :: uint32
  st_gid :: uint32
  st_size :: uint64
  st_blocks :: uint64
  st_dev :: dev_t
  st_rdev :: dev_t
  st_ino :: uint64
  st_atim :: timespec
  st_mtim :: timespec
  st_ctim :: timespec

record statvfs =
  f_frsize :: uint64
  f_blocks :: uint64
  f_bfree :: uint64
  f_bavail :: uint64
  f_files :: uint64
  f_ffree :: uint64
  f_favail :: uint64

record dirent =
  d_ino :: uint64
  d_name :: path

section \<open>The calls\<close>

text \<open>
  \<open>sys_preadv\<close> reads up to the given number of bytes at an offset, \<open>sys_pwritev\<close>
  writes a block at an offset and returns how much it wrote, \<open>sys_getdents64\<close> fills
  a buffer with raw directory records, \<open>sys_utimes\<close> sets the two time stamps, to the
  current time when it is given a null pointer.
\<close>

record 'os posix =
  sys_lstat :: "'os \<Rightarrow> path \<Rightarrow> errno + stat"
  sys_statvfs :: "'os \<Rightarrow> path \<Rightarrow> statvfs option"
  sys_open :: "'os \<Rightarrow> path \<Rightarrow> open_flags \<Rightarrow> 'os \<times> fd"
  sys_close :: "'os \<Rightarrow> fd \<Rightarrow> 'os"
  sys_preadv :: "'os \<Rightarrow> fd \<Rightarrow> uint64 \<Rightarrow> uint64 \<Rightarrow> 'os \<times> byte list option"
  sys_pwritev :: "'os \<Rightarrow> fd \<Rightarrow> byte list \<Rightarrow> uint64 \<Rightarrow> 'os \<times> uint64 option"
  sys_fsync :: "'os \<Rightarrow> fd \<Rightarrow> 'os \<times> bool"
  sys_lseek :: "'os \<Rightarrow> fd \<Rightarrow> uint64 \<Rightarrow> 'os \<times> uint64"
  sys_getdents64 :: "'os \<Rightarrow> fd \<Rightarrow> uint32 \<Rightarrow> 'os \<times> byte list option"
  sys_scandir :: "'os \<Rightarrow> path \<Rightarrow> 'os \<times> dirent list option"
  sys_readlink :: "'os \<Rightarrow> path \<Rightarrow> uint64 \<Rightarrow> 'os \<times> byte list option"
  sys_mkdir :: "'os \<Rightarrow> path \<Rightarrow> mode_t \<Rightarrow> 'os \<times> bool"
  sys_mknod :: "'os \<Rightarrow> path \<Rightarrow> mode_t \<Rightarrow> dev_t \<Rightarrow> 'os \<times> bool"
  sys_symlink :: "'os \<Rightarrow> path \<Rightarrow> path \<Rightarrow> 'os \<times> bool"
  sys_link :: "'os \<Rightarrow> path \<Rightarrow> path \<Rightarrow> 'os \<times> bool"
  sys_rename :: "'os \<Rightarrow> path \<Rightarrow> path \<Rightarrow> 'os \<times> bool"
  sys_rmdir :: "'os \<Rightarrow> path \<Rightarrow> 'os \<times> bool"
  sys_remove :: "'os \<Rightarrow> path \<Rightarrow> 'os \<times> bool"
  sys_chmod :: "'os \<Rightarrow> path \<Rightarrow> mode_t \<Rightarrow> 'os \<times> bool"
  sys_chown :: "'os \<Rightarrow> path \<Rightarrow> uint32 \<Rightarrow> uint32 \<Rightarrow> 'os \<times> bool"
  sys_utimes :: "'os \<Rightarrow> path \<Rightarrow> (timeval \<times> timeval) option \<Rightarrow> 'os \<times> bool"

end
