(* ===== verification/Nfs_Utils.thy ===== *)
theory Nfs_Utils
  imports Nfs_Xdr Posix_Env "HOL-Library.Signed_Division"
begin

text \<open>
  The helpers the request handlers share (\<open>src/nfs/nfs_utils.cpp\<close>, lines 67--396):
  attributes of a file from \<open>lstat\<close>, file handles that hold a path, weak cache
  consistency data, setting attributes, and raw directory records.
\<close>

section \<open>Attributes\<close>

definition ftype_of_mode :: "mode_t \<Rightarrow> ftype3 option" where
  "ftype_of_mode m =
     (let t = m AND S_IFMT in
      if t = S_IFIFO then Some NF3FIFO
      else if t = S_IFCHR then Some NF3CHR
      else if t = S_IFDIR then Some NF3DIR
      else if t = S_IFBLK then Some NF3BLK
      else if t = S_IFREG \<or> t = S_IFMT then Some NF3REG
      else if t = S_IFLNK then Some NF3LNK
      else if t = S_IFSOCK then Some NF3SOCK
      else None)"

definition status_of_errno :: "errno \<Rightarrow> nfsstat3" where
  "status_of_errno e =
     (if e = ENOENT then NFS3ERR_NOENT
      else if e = ENOTDIR then NFS3ERR_NOTDIR
      else if e = EACCES then NFS3ERR_ACCES
      else NFS3ERR_BADHANDLE)"

text \<open>Seconds and nanoseconds are stored in 32 bits.\<close>

definition time3_of :: "timespec \<Rightarrow> nfstime3" where
  "time3_of t = \<lparr>tv_sec = ucast (ts_sec t), tv_nsec = ucast (ts_nsec t)\<rparr>"

definition fsid_of_dev :: "dev_t \<Rightarrow> uint64" where
  "fsid_of_dev d =
     (let st_dev_major = ucast (dev_major d); st_dev_minor = ucast (dev_minor d)
      in st_dev_major XOR (push_bit 32 st_dev_minor OR drop_bit 32 st_dev_minor))"

text \<open>
  The device number is set for character and block devices only: for another file
  the member keeps what the object held before.
\<close>

definition fattr3_of_stat :: "stat \<Rightarrow> ftype3 \<Rightarrow> fattr3 \<Rightarrow> fattr3" where
  "fattr3_of_stat buf t fa =
     \<lparr>fa_type = t,
      fa_mode = st_mode buf AND (S_IRWXU OR S_IRWXG OR S_IRWXO),
      fa_nlink = ucast (st_nlink buf),
      fa_uid = st_uid buf,
      fa_gid = st_gid buf,
      fa_size = st_size buf,
      fa_used = st_blocks buf * S_BLKSIZE,
      fa_rdev = (if st_mode buf AND S_IFMT = S_IFCHR \<or> st_mode buf AND S_IFMT = S_IFBLK
                 then \<lparr>specdata1 = dev_major (st_rdev buf), specdata2 = dev_minor (st_rdev buf)\<rparr>
                 else fa_rdev fa),
      fa_fsid = fsid_of_dev (st_dev buf),
      fa_fileid = st_ino buf,
      fa_atime = time3_of (st_atim buf),
      fa_mtime = time3_of (st_mtim buf),
      fa_ctime = time3_of (st_ctim buf)\<rparr>"

definition nfs_set_post_op_attr ::
  "'os posix \<Rightarrow> 'os \<Rightarrow> path \<Rightarrow> post_op_attr \<Rightarrow> nfsstat3 \<times> post_op_attr" where
  "nfs_set_post_op_attr P s file_path fattr =
     (case sys_lstat P s file_path of
        Inl errno \<Rightarrow> (status_of_errno errno, fattr)
      | Inr buf \<Rightarrow>
          (case ftype_of_mode (st_mode buf) of
             None \<Rightarrow> (NFS3ERR_BADHANDLE, fattr)
           | Some t \<Rightarrow>
               (NFS3_OK, \<lparr>poa_attributes_follow = C_TRUE,
                          poa_attributes = fattr3_of_stat buf t (poa_attributes fattr)\<rparr>)))"

definition zero_fattr3 :: fattr3 where
  "zero_fattr3 =
     \<lparr>fa_type = 0, fa_mode = 0, fa_nlink = 0, fa_uid = 0, fa_gid = 0, fa_size = 0, fa_used = 0,
      fa_rdev = \<lparr>specdata1 = 0, specdata2 = 0\<rparr>, fa_fsid = 0, fa_fileid = 0,
      fa_atime = zero_time3, fa_mtime = zero_time3, fa_ctime = zero_time3\<rparr>"

definition zero_post_op_attr :: post_op_attr where
  "zero_post_op_attr = \<lparr>poa_attributes_follow = C_FALSE, poa_attributes = zero_fattr3\<rparr>"

definition zero_pre_op_attr :: pre_op_attr where
  "zero_pre_op_attr =
     \<lparr>pra_attributes_follow = C_FALSE,
      pra_attributes = \<lparr>wa_size = 0, wa_mtime = zero_time3, wa_ctime = zero_time3\<rparr>\<rparr>"

definition get_pre_op_attr ::
  "'os posix \<Rightarrow> 'os \<Rightarrow> path \<Rightarrow> pre_op_attr \<Rightarrow> nfsstat3 \<times> pre_op_attr" where
  "get_pre_op_attr P s file_path pre_attr =
     (case nfs_set_post_op_attr P s file_path zero_post_op_attr of
        (status, get_a) \<Rightarrow>
          if status \<noteq> NFS3_OK then (status, pre_attr)
          else (NFS3_OK,
                \<lparr>pra_attributes_follow = C_TRUE,
                 pra_attributes =
                   \<lparr>wa_size = fa_size (poa_attributes get_a),
                    wa_mtime = fa_mtime (poa_attributes get_a),
                    wa_ctime = fa_ctime (poa_attributes get_a)\<rparr>\<rparr>))"

definition get_wcc_data ::
  "'os posix \<Rightarrow> 'os \<Rightarrow> path \<Rightarrow> pre_op_attr \<Rightarrow> wcc_data \<Rightarrow> nfsstat3 \<times> wcc_data" where
  "get_wcc_data P s file_path pre_attr wccData =
     (case nfs_set_post_op_attr P s file_path zero_post_op_attr of
        (status, get_a) \<Rightarrow>
          if status \<noteq> NFS3_OK then (status, wccData)
          else (NFS3_OK, \<lparr>wcc_before = pre_attr, wcc_after = get_a\<rparr>))"

definition judge_file_exit :: "'os posix \<Rightarrow> 'os \<Rightarrow> path \<Rightarrow> mode_t \<Rightarrow> bool" where
  "judge_file_exit P s file_path judge_mode =
     (case sys_lstat P s file_path of
        Inl _ \<Rightarrow> False
      | Inr info \<Rightarrow> st_mode info AND judge_mode \<noteq> 0)"

section \<open>File handles\<close>

text \<open>
  A file handle is the path of the file.  The path a handler uses is the C string
  of the handle: the bytes before the first zero byte, at most \<open>data_len\<close> of them.
  Constructing a \<open>std::string\<close> from a null pointer does not return (\<open>None\<close>).
\<close>

definition get_file_handle :: "nfs_fh3 \<Rightarrow> path option" where
  "get_file_handle request_handle =
     map_option (\<lambda>bs. c_str (take (unat (data_len request_handle)) bs)) (data_val request_handle)"

definition set_file_handle :: "nfs_fh3 \<Rightarrow> path \<Rightarrow> nfs_fh3" where
  "set_file_handle fh file_path =
     (let len = of_nat (length file_path)
      in fh\<lparr>data_len := len, data_val := Some (take (unat len) file_path @ [0])\<rparr>)"

text \<open>\<open>string(dir) + "/" + name\<close>\<close>

definition join_path :: "path \<Rightarrow> char_ptr \<Rightarrow> path option" where
  "join_path dir name = map_option (\<lambda>bs. dir @ 0x2F # c_str bs) name"

definition remove_directory :: "'os posix \<Rightarrow> 'os \<Rightarrow> path \<Rightarrow> 'os \<times> bool" where
  "remove_directory P s p = sys_rmdir P s p"

definition remove_file :: "'os posix \<Rightarrow> 'os \<Rightarrow> path \<Rightarrow> 'os \<times> bool" where
  "remove_file P s p = sys_remove P s p"

section \<open>Setting attributes\<close>

definition UTIME_NOW :: uint64 where [nfs_consts]: "UTIME_NOW = 0x3FFFFFFF"

text \<open>\<open>TIMESPEC_TO_TIMEVAL\<close> divides the nanoseconds, a signed \<open>long\<close>, by 1000.\<close>

definition TIMESPEC_TO_TIMEVAL :: "timespec \<Rightarrow> timeval" where
  "TIMESPEC_TO_TIMEVAL t =
     \<lparr>tval_sec = ts_sec t, tval_usec = word_of_int (sint (ts_nsec t) sdiv 1000)\<rparr>"

definition timespec_to_set :: "time_how \<Rightarrow> nfstime3 \<Rightarrow> timespec option" where
  "timespec_to_set set_it t =
     (if set_it = SET_TO_CLIENT_TIME
      then Some \<lparr>ts_sec = ucast (tv_sec t), ts_nsec = ucast (tv_nsec t)\<rparr>
      else if set_it = SET_TO_SERVER_TIME then Some \<lparr>ts_sec = 0, ts_nsec = UTIME_NOW\<rparr>
      else None)"

text \<open>
  The array \<open>ts\<close> is an uninitialised local variable: \<open>ts0\<close> is what the stack holds,
  which is used for a time stamp the request does not set.
\<close>

definition nfs_set_sattr3 ::
  "'os posix \<Rightarrow> timespec \<times> timespec \<Rightarrow> 'os \<Rightarrow> path \<Rightarrow> sattr3 \<Rightarrow> 'os \<times> nfsstat3" where
  "nfs_set_sattr3 P ts0 s file_path new_attr =
     (let (s, chmod_ok) =
        (if sm_set_it (sa_mode new_attr) \<noteq> 0
         then sys_chmod P s file_path (sm_mode (sa_mode new_attr)) else (s, True)) in
      if \<not> chmod_ok then (s, NFS3ERR_INVAL)
      else
      let new_gid = (if sg_set_it (sa_gid new_attr) \<noteq> 0 then sg_gid (sa_gid new_attr) else - 1);
          new_uid = (if su_set_it (sa_uid new_attr) \<noteq> 0 then su_uid (sa_uid new_attr) else - 1);
          (s, chown_ok) =
            (if sg_set_it (sa_gid new_attr) \<noteq> 0 \<or> su_set_it (sa_uid new_attr) \<noteq> 0
             then sys_chown P s file_path new_uid new_gid else (s, True)) in
      if \<not> chown_ok then (s, NFS3ERR_INVAL)
      else
      let set_atime = sat_set_it (sa_atime new_attr) \<noteq> DONT_CHANGE;
          set_mtime = smt_set_it (sa_mtime new_attr) \<noteq> DONT_CHANGE;
          ts_0 = (if set_atime
                  then timespec_to_set (sat_set_it (sa_atime new_attr)) (sat_atime (sa_atime new_attr))
                  else Some (fst ts0));
          ts_1 = (if set_mtime
                  then timespec_to_set (smt_set_it (sa_mtime new_attr)) (smt_mtime (sa_mtime new_attr))
                  else Some (snd ts0)) in
      case (ts_0, ts_1) of
        (Some ts_0, Some ts_1) \<Rightarrow>
          if set_atime \<or> set_mtime
          then (case sys_utimes P s file_path
                       (if ts_nsec ts_0 = UTIME_NOW \<or> ts_nsec ts_1 = UTIME_NOW then None
                        else Some (TIMESPEC_TO_TIMEVAL ts_0, TIMESPEC_TO_TIMEVAL ts_1)) of
                  (s, utimes_ok) \<Rightarrow> (s, if utimes_ok then NFS3_OK else NFS3ERR_INVAL))
          else (s, NFS3_OK)
      | _ \<Rightarrow> (s, NFS3ERR_INVAL))"

section \<open>Raw directory records\<close>

record vfs_dirent =
  vd_ino :: uint64
  vd_reclen :: uint32
  vd_type :: uint32
  vd_offset :: uint64
  vd_name :: path

primrec le_load :: "byte list \<Rightarrow> uint64" where
  "le_load [] = 0"
| "le_load (b # bs) = ucast b OR push_bit 8 (le_load bs)"

text \<open>
  \<open>struct dirent64\<close>: inode (8 bytes), offset (8 bytes), record length (2 bytes), type
  (1 byte), name.  The type is read from the last byte of a record at the start of
  the buffer; a \<open>char\<close> is signed.
\<close>

definition to_vfs_dirent :: "byte list \<Rightarrow> nat \<Rightarrow> vfs_dirent" where
  "to_vfs_dirent buf bpos =
     (let dp = drop bpos buf;
          d_reclen = le_load (take 2 (drop 16 dp));
          last = (unat d_reclen - 1)
      in \<lparr>vd_ino = le_load (take 8 dp),
          vd_reclen = ucast d_reclen,
          vd_type = (if last < length buf then scast (buf ! last) else 0),
          vd_offset = le_load (take 8 (drop 8 dp)),
          vd_name = c_str (drop 19 dp)\<rparr>)"

definition vfs_readents ::
  "'os posix \<Rightarrow> 'os \<Rightarrow> fd \<Rightarrow> uint32 \<Rightarrow> uint64 \<Rightarrow> 'os \<times> byte list option \<times> uint64" where
  "vfs_readents P s d bcount basep =
     (case sys_getdents64 P s d bcount of
        (s, None) \<Rightarrow> (s, None, basep)
      | (s, Some buf) \<Rightarrow> (s, Some buf, basep + of_nat (length buf)))"

section \<open>What the helpers compute\<close>

lemma status_of_errno_not_OK [simp]: "status_of_errno e \<noteq> NFS3_OK"
  by (simp add: status_of_errno_def nfs_consts)

text \<open>
  \<open>statable\<close>: the attributes of the file can be read.  Then \<open>attr_of\<close>, \<open>pre_of\<close> and
  \<open>wcc_of\<close> are what the helpers return for it.
\<close>

definition statable :: "'os posix \<Rightarrow> 'os \<Rightarrow> path \<Rightarrow> bool" where
  "statable P s p \<longleftrightarrow> (\<exists>st t. sys_lstat P s p = Inr st \<and> ftype_of_mode (st_mode st) = Some t)"

definition attr_of :: "'os posix \<Rightarrow> 'os \<Rightarrow> path \<Rightarrow> post_op_attr \<Rightarrow> post_op_attr" where
  "attr_of P s p a = snd (nfs_set_post_op_attr P s p a)"

definition pre_of :: "'os posix \<Rightarrow> 'os \<Rightarrow> path \<Rightarrow> pre_op_attr" where
  "pre_of P s p = snd (get_pre_op_attr P s p zero_pre_op_attr)"

definition wcc_of :: "'os posix \<Rightarrow> 'os \<Rightarrow> path \<Rightarrow> pre_op_attr \<Rightarrow> wcc_data" where
  "wcc_of P s p b = \<lparr>wcc_before = b, wcc_after = attr_of P s p zero_post_op_attr\<rparr>"

lemma post_op_attr_status [simp]: "fst (nfs_set_post_op_attr P s p a) = NFS3_OK \<longleftrightarrow> statable P s p"
  by (auto simp: nfs_set_post_op_attr_def statable_def split: sum.splits option.splits)

lemma statable_post_op [simp]:
  "statable P s p \<Longrightarrow> nfs_set_post_op_attr P s p a = (NFS3_OK, attr_of P s p a)"
  by (simp add: attr_of_def prod_eq_iff)

lemma statable_pre_op [simp]:
  "statable P s p \<Longrightarrow> get_pre_op_attr P s p a = (NFS3_OK, pre_of P s p)"
  by (simp add: pre_of_def get_pre_op_attr_def)

lemma statable_wcc [simp]:
  "statable P s p \<Longrightarrow> get_wcc_data P s p b w = (NFS3_OK, wcc_of P s p b)"
  by (simp add: wcc_of_def get_wcc_data_def)

lemma attr_of_follows [simp]:
  "statable P s p \<Longrightarrow> poa_attributes_follow (attr_of P s p a) = C_TRUE"
  by (auto simp: attr_of_def nfs_set_post_op_attr_def statable_def simp del: statable_post_op)

lemma pre_of_follows [simp]: "statable P s p \<Longrightarrow> pra_attributes_follow (pre_of P s p) = C_TRUE"
  by (simp add: pre_of_def get_pre_op_attr_def del: statable_pre_op)

lemma wcc_of_valid [simp]:
  "statable P s p \<Longrightarrow> is_bool (pra_attributes_follow b) \<Longrightarrow> valid_wcc_data (wcc_of P s p b)"
  by (simp add: wcc_of_def valid_wcc_data_def is_bool_def)

text \<open>A call that fails leaves its target alone.\<close>

lemma post_op_attr_failed [simp]:
  "\<not> statable P s p \<Longrightarrow> snd (nfs_set_post_op_attr P s p a) = a"
  by (auto simp: nfs_set_post_op_attr_def statable_def split: sum.splits option.splits)

lemma wcc_data_status [simp]: "fst (get_wcc_data P s p b w) = NFS3_OK \<longleftrightarrow> statable P s p"
  using post_op_attr_status [of P s p zero_post_op_attr]
  by (cases "nfs_set_post_op_attr P s p zero_post_op_attr") (auto simp: get_wcc_data_def)

text \<open>What a handle made for a path is read back as.\<close>

lemma c_str_no_zero: "0 \<notin> set p \<Longrightarrow> c_str (p @ 0 # xs) = p"
  by (auto simp: c_str_def takeWhile_append)

lemma c_str_id: "0 \<notin> set p \<Longrightarrow> c_str p = p"
  by (auto simp: c_str_def takeWhile_eq_all_conv)

lemma zero_notin_c_str [simp]: "0 \<notin> set (c_str bs)"
  by (auto simp: c_str_def dest: set_takeWhileD)

lemma zero_notin_handle: "get_file_handle fh = Some p \<Longrightarrow> 0 \<notin> set p"
  by (auto simp: get_file_handle_def)

lemma get_set_file_handle:
  assumes "0 \<notin> set p" "length p < 2 ^ 32"
  shows "get_file_handle (set_file_handle fh p) = Some p"
  using assms
  by (simp add: get_file_handle_def set_file_handle_def Let_def unat_of_nat c_str_id)

lemma valid_set_file_handle:
  assumes "length p < 2 ^ 32"
  shows "valid_nfs_fh3 (set_file_handle fh p) \<longleftrightarrow> length p \<le> 64"
  using assms
  by (auto simp: valid_nfs_fh3_def set_file_handle_def fh3_data_def Let_def unat_of_nat block_def
      word_le_nat_alt)

text \<open>A path below a directory, and the handle the handlers make for it.\<close>

lemma join_path_Some [simp]: "join_path d (Some nm) = Some (d @ 0x2F # c_str nm)"
  by (simp add: join_path_def)

lemma get_set_child_handle:
  assumes "get_file_handle dir = Some d" "length (d @ 0x2F # c_str nm) < 2 ^ 32"
  shows "get_file_handle (set_file_handle fh (d @ 0x2F # c_str nm)) = Some (d @ 0x2F # c_str nm)"
  using assms zero_notin_handle [OF assms(1)] by (intro get_set_file_handle) auto

lemma ftype_of_mode_dir: "ftype_of_mode m = Some NF3DIR \<longleftrightarrow> m AND S_IFMT = S_IFDIR"
  by (auto simp: ftype_of_mode_def Let_def nfs_consts)

text \<open>A directory, as the handlers test for one.\<close>

definition is_dir :: "'os posix \<Rightarrow> 'os \<Rightarrow> path \<Rightarrow> bool" where
  "is_dir P s d \<longleftrightarrow> (\<exists>st. sys_lstat P s d = Inr st \<and> st_mode st AND S_IFMT = S_IFDIR)"

lemma is_dir_statable [simp]: "is_dir P s d \<Longrightarrow> statable P s d"
  by (auto simp: is_dir_def statable_def ftype_of_mode_dir [symmetric])

lemma mode_and_IFMT: "m AND S_IFMT = v \<Longrightarrow> k AND S_IFMT = k \<Longrightarrow> m AND k = v AND k"
  by (metis and.assoc and.commute)

lemma is_dir_judge [simp]: "is_dir P s d \<Longrightarrow> judge_file_exit P s d S_IFDIR"
  using mode_and_IFMT [of _ S_IFDIR S_IFDIR] by (force simp: is_dir_def judge_file_exit_def nfs_consts)

lemma unstatable_judge: "sys_lstat P s p = Inl e \<Longrightarrow> \<not> judge_file_exit P s p m"
  by (simp add: judge_file_exit_def)

lemma zero_handle [simp]: "get_file_handle zero_fh3 = None"
  by (simp add: get_file_handle_def zero_fh3_def)

end
