(* ===== verification/Sample_Fs.thy ===== *)
theory Sample_Fs
  imports Nfs_Utils
begin

text \<open>
  A small concrete operating system, on which the hypotheses of the properties are
  shown to hold: a directory \<open>d\<close> with one regular file \<open>f\<close> that holds the bytes
  \<open>hello\<close>.  Its state is the number of calls of \<open>getdents64\<close> so far: the first returns
  the one record of the directory, the later ones return none.
\<close>

definition sample_dir :: path where
  "sample_dir = [0x64]"

definition sample_file :: path where
  "sample_file = [0x64, 0x2F, 0x66]"

definition sample_stat :: "mode_t \<Rightarrow> stat" where
  "sample_stat m =
     \<lparr>st_mode = m, st_nlink = 1, st_uid = 0, st_gid = 0, st_size = 5, st_blocks = 8,
      st_dev = 0x801, st_rdev = 0, st_ino = 12,
      st_atim = \<lparr>ts_sec = 10, ts_nsec = 0\<rparr>, st_mtim = \<lparr>ts_sec = 20, ts_nsec = 0\<rparr>,
      st_ctim = \<lparr>ts_sec = 30, ts_nsec = 0\<rparr>\<rparr>"

definition sample_record :: "byte list" where
  "sample_record =
     [12, 0, 0, 0, 0, 0, 0, 0,  1, 0, 0, 0, 0, 0, 0, 0,  24, 0,  8,  0x66, 0, 0, 0, 8]"

definition sample_sys :: "nat posix" where
  "sample_sys =
     \<lparr>sys_lstat = (\<lambda>s p. if p = sample_dir then Inr (sample_stat 0x41ED)
                        else if p = sample_file then Inr (sample_stat 0x81A4) else Inl ENOENT),
      sys_statvfs = (\<lambda>s p. Some \<lparr>f_frsize = 4096, f_blocks = 100, f_bfree = 50, f_bavail = 40,
                                  f_files = 30, f_ffree = 20, f_favail = 10\<rparr>),
      sys_open = (\<lambda>s p fl. (s, if p = sample_dir \<or> p = sample_file then 3 else - 1)),
      sys_close = (\<lambda>s d. s),
      sys_preadv = (\<lambda>s d n off.
        (s, Some (take (unat n) (drop (unat off) [0x68, 0x65, 0x6C, 0x6C, 0x6F])))),
      sys_pwritev = (\<lambda>s d bs off. (s, Some (of_nat (length bs)))),
      sys_fsync = (\<lambda>s d. (s, True)),
      sys_lseek = (\<lambda>s d off. (s, off)),
      sys_getdents64 = (\<lambda>s d n. (Suc s, Some (if s = 0 then sample_record else []))),
      sys_scandir = (\<lambda>s p. (s, Some [\<lparr>d_ino = 12, d_name = [0x66]\<rparr>])),
      sys_readlink = (\<lambda>s p n. (s, None)),
      sys_mkdir = (\<lambda>s p m. (s, True)),
      sys_mknod = (\<lambda>s p m dv. (s, True)),
      sys_symlink = (\<lambda>s t p. (s, True)),
      sys_link = (\<lambda>s p q. (s, True)),
      sys_rename = (\<lambda>s p q. (s, False)),
      sys_rmdir = (\<lambda>s p. (s, False)),
      sys_remove = (\<lambda>s p. (s, True)),
      sys_chmod = (\<lambda>s p m. (s, True)),
      sys_chown = (\<lambda>s p u g. (s, True)),
      sys_utimes = (\<lambda>s p t. (s, True))\<rparr>"

definition sample_fh :: "path \<Rightarrow> nfs_fh3" where
  "sample_fh p = set_file_handle zero_fh3 p"

lemma sample_paths: "sample_dir \<noteq> sample_file" "sample_file \<noteq> sample_dir"
  by (simp_all add: sample_dir_def sample_file_def)

lemma sample_get_handle [simp]:
  "get_file_handle (sample_fh sample_dir) = Some sample_dir"
  "get_file_handle (sample_fh sample_file) = Some sample_file"
  by (simp_all add: sample_fh_def get_set_file_handle sample_dir_def sample_file_def)

lemma sample_handle_len [simp]:
  "data_len (sample_fh sample_dir) = 1" "data_len (sample_fh sample_file) = 3"
  by (simp_all add: sample_fh_def set_file_handle_def sample_dir_def sample_file_def)

lemma sample_join [simp]: "join_path sample_dir (Some [0x66, 0]) = Some sample_file"
  by (simp add: join_path_def c_str_def sample_dir_def sample_file_def)

lemma sample_lstat [simp]:
  "sys_lstat sample_sys s sample_dir = Inr (sample_stat 0x41ED)"
  "sys_lstat sample_sys s sample_file = Inr (sample_stat 0x81A4)"
  by (simp_all add: sample_sys_def sample_paths)

lemma sample_st_mode [simp]: "st_mode (sample_stat m) = m"
  by (simp add: sample_stat_def)

lemma sample_ftype [simp]:
  "ftype_of_mode 0x41ED = Some NF3DIR" "ftype_of_mode 0x81A4 = Some NF3REG"
  by (simp_all add: ftype_of_mode_def nfs_consts)

lemma sample_judge [simp]:
  "judge_file_exit sample_sys s sample_dir S_IFDIR"
  "judge_file_exit sample_sys s sample_file S_IFREG"
  "judge_file_exit sample_sys s sample_file (S_IFREG OR S_IFLNK)"
  by (simp_all add: judge_file_exit_def nfs_consts)

lemma sample_post_op [simp]:
  "nfs_set_post_op_attr sample_sys s sample_dir a =
     (NFS3_OK, \<lparr>poa_attributes_follow = 1,
                poa_attributes = fattr3_of_stat (sample_stat 0x41ED) NF3DIR (poa_attributes a)\<rparr>)"
  "nfs_set_post_op_attr sample_sys s sample_file a =
     (NFS3_OK, \<lparr>poa_attributes_follow = 1,
                poa_attributes = fattr3_of_stat (sample_stat 0x81A4) NF3REG (poa_attributes a)\<rparr>)"
  by (simp_all add: nfs_set_post_op_attr_def)

lemma sample_calls [simp]:
  "sys_open sample_sys s sample_dir fl = (s, 3)"
  "sys_open sample_sys s sample_file fl = (s, 3)"
  "sys_close sample_sys s d = s"
  "sys_preadv sample_sys s d n off =
     (s, Some (take (unat n) (drop (unat off) [0x68, 0x65, 0x6C, 0x6C, 0x6F])))"
  "sys_pwritev sample_sys s d bs off = (s, Some (of_nat (length bs)))"
  "sys_fsync sample_sys s d = (s, True)"
  "sys_lseek sample_sys s d off = (s, off)"
  "sys_getdents64 sample_sys s d cnt = (Suc s, Some (if s = 0 then sample_record else []))"
  "sys_scandir sample_sys s p = (s, Some [\<lparr>d_ino = 12, d_name = [0x66]\<rparr>])"
  "sys_mkdir sample_sys s p m = (s, True)"
  "sys_rename sample_sys s p q = (s, False)"
  by (simp_all add: sample_sys_def)

lemma sample_is_dir [simp]: "is_dir sample_sys s sample_dir"
  by (simp add: is_dir_def nfs_consts)

lemma sample_statable [simp]: "statable sample_sys s sample_dir" "statable sample_sys s sample_file"
  by (simp_all add: statable_def)

lemma sample_child [simp]: "sample_dir @ 0x2F # c_str [0x66, 0] = sample_file"
  by (simp add: sample_dir_def sample_file_def c_str_def)

lemma sample_short [simp]: "length sample_dir = 1" "length sample_file = 3"
  by (simp_all add: sample_dir_def sample_file_def)

lemma sample_more_calls [simp]:
  "sys_remove sample_sys s p = (s, True)" "sys_mknod sample_sys s p m dv = (s, True)"
  "sys_chmod sample_sys s p m = (s, True)"
  by (simp_all add: sample_sys_def)

lemma sample_child_handle [simp]:
  "c_str [0x66, 0] \<noteq> []" "get_file_handle (set_file_handle fh sample_file) = Some sample_file"
  by (simp_all add: c_str_def get_set_file_handle sample_file_def)

end
