(* ===== verification/Nfs_Args.thy ===== *)
theory Nfs_Args
  imports Nfs_Xdr
begin

text \<open>
  The arguments of the NFS procedures: their structures (\<open>include/nfs/nfs_*.h\<close>),
  their XDR routines (\<open>src/nfs/nfs_*.cpp\<close>) and the wire formats of RFC 1813 the
  routines implement.  For every structure, \<open>wire\<close> is the format, \<open>valid\<close> says
  which objects can be sent, and \<open>dec v w\<close> is what the memory \<open>w\<close> holds after
  \<open>v\<close> was received into it.
\<close>

lemmas wire_string_defs = wire_filename3_def valid_filename3_def

section \<open>Data blocks of READ and WRITE\<close>

record io_data =
  io_data_len :: uint32
  io_data_val :: char_ptr

definition io_cell :: "io_data \<Rightarrow> char_ptr \<times> uint32" where
  "io_cell d = (io_data_val d, io_data_len d)"

definition io_cell_update :: "(char_ptr \<times> uint32 \<Rightarrow> char_ptr \<times> uint32) \<Rightarrow> io_data \<Rightarrow> io_data" where
  "io_cell_update f d = (case f (io_cell d) of (p, n) \<Rightarrow> d\<lparr>io_data_val := p, io_data_len := n\<rparr>)"

lemma io_cell_lens [simp]:
  "io_cell_update (\<lambda>_. io_cell d) d = d" "io_cell (io_cell_update f d) = f (io_cell d)"
  by (simp_all add: io_cell_def io_cell_update_def split: prod.split)

definition xdr_io_data :: "io_data xdrproc" where
  "xdr_io_data = xdr_field io_cell io_cell_update (xdr_bytes XDR_BYTES_MAXLEN_IO)"

definition wire_io_data :: "io_data \<Rightarrow> byte list" where
  "wire_io_data d = wire_counted (bytes_of (io_cell d))"

definition valid_io_data :: "io_data \<Rightarrow> bool" where
  "valid_io_data d \<longleftrightarrow> bytes_valid XDR_BYTES_MAXLEN_IO (io_cell d)"

definition dec_io_data :: "io_data \<Rightarrow> io_data \<Rightarrow> io_data" where
  "dec_io_data v w = io_cell_update (\<lambda>_. bytes_dec (io_cell v) (io_cell w)) w"

interpretation io_data: xdr_codec xdr_io_data wire_io_data valid_io_data dec_io_data
  unfolding xdr_io_data_def
  by (rule xdr_codec_eqI, (rule xdr_codec_intros | (simp; fail))+)
     (auto simp: wire_io_data_def valid_io_data_def dec_io_data_def)

declare io_data.xdr_codec_axioms [xdr_codec_intros] io_data.xdr_safe_axioms [xdr_safe_intros]

section \<open>Attribute and handle procedures\<close>

record GETATTR3args =
  geta_object :: nfs_fh3

definition xdr_GETATTR3args :: "GETATTR3args xdrproc" where
  "xdr_GETATTR3args = xdr_all
     [xdr_field geta_object geta_object_update xdr_nfs_fh3]"

definition wire_GETATTR3args :: "GETATTR3args \<Rightarrow> byte list" where
  "wire_GETATTR3args v =
    wire_nfs_fh3 (geta_object v)"

definition valid_GETATTR3args :: "GETATTR3args \<Rightarrow> bool" where
  "valid_GETATTR3args v \<longleftrightarrow>
    valid_nfs_fh3 (geta_object v)"

definition dec_GETATTR3args :: "GETATTR3args \<Rightarrow> GETATTR3args \<Rightarrow> GETATTR3args" where
  "dec_GETATTR3args v w =
     v\<lparr>geta_object := dec_nfs_fh3 (geta_object v) (geta_object w)\<rparr>"

interpretation GETATTR3args: xdr_codec xdr_GETATTR3args wire_GETATTR3args valid_GETATTR3args dec_GETATTR3args
  unfolding xdr_GETATTR3args_def xdr_defs
  by (rule xdr_codec_eqI, (rule xdr_codec_intros | (simp; fail))+)
     (auto simp: wire_GETATTR3args_def valid_GETATTR3args_def dec_GETATTR3args_def wire_string_defs)

declare GETATTR3args.xdr_codec_axioms [xdr_codec_intros] GETATTR3args.xdr_safe_axioms [xdr_safe_intros]

record sattrguard3 =
  check :: bool_t
  obj_ctime :: nfstime3

definition xdr_sattrguard3 :: "sattrguard3 xdrproc" where
  "xdr_sattrguard3 = xdr_tagged check check_update xdr_bool
     (\<lambda>t. if t = C_TRUE then xdr_field obj_ctime obj_ctime_update xdr_nfstime3
          else if t = C_FALSE then xdr_ok
          else xdr_fail)"

definition wire_sattrguard3 :: "sattrguard3 \<Rightarrow> byte list" where
  "wire_sattrguard3 v =
     wire_bool (check v) @ (if check v = C_TRUE then wire_nfstime3 (obj_ctime v) else [])"

definition dec_sattrguard3 :: "sattrguard3 \<Rightarrow> sattrguard3 \<Rightarrow> sattrguard3" where
  "dec_sattrguard3 v w = (if check v = C_TRUE then v else w\<lparr>check := check v\<rparr>)"

interpretation sattrguard3: xdr_codec xdr_sattrguard3 wire_sattrguard3
    "\<lambda>g. is_bool (check g)" dec_sattrguard3
  unfolding xdr_sattrguard3_def
  by (rule xdr_codec_eqI, (rule xdr_codec_intros | (simp; fail))+)
     (auto simp: wire_sattrguard3_def dec_sattrguard3_def is_bool_def)

declare sattrguard3.xdr_codec_axioms [xdr_codec_intros] sattrguard3.xdr_safe_axioms [xdr_safe_intros]

record SETATTR3args =
  seta_object :: nfs_fh3
  seta_new_attributes :: sattr3
  seta_guard :: sattrguard3

definition xdr_SETATTR3args :: "SETATTR3args xdrproc" where
  "xdr_SETATTR3args = xdr_all
     [xdr_field seta_object seta_object_update xdr_nfs_fh3,
      xdr_field seta_new_attributes seta_new_attributes_update xdr_sattr3,
      xdr_field seta_guard seta_guard_update xdr_sattrguard3]"

definition wire_SETATTR3args :: "SETATTR3args \<Rightarrow> byte list" where
  "wire_SETATTR3args v =
    wire_nfs_fh3 (seta_object v) @ wire_sattr3 (seta_new_attributes v) @
    wire_sattrguard3 (seta_guard v)"

definition valid_SETATTR3args :: "SETATTR3args \<Rightarrow> bool" where
  "valid_SETATTR3args v \<longleftrightarrow>
    valid_nfs_fh3 (seta_object v) \<and> valid_sattr3 (seta_new_attributes v) \<and>
    is_bool (check (seta_guard v))"

definition dec_SETATTR3args :: "SETATTR3args \<Rightarrow> SETATTR3args \<Rightarrow> SETATTR3args" where
  "dec_SETATTR3args v w =
     v\<lparr>seta_object := dec_nfs_fh3 (seta_object v) (seta_object w),
       seta_new_attributes := dec_sattr3 (seta_new_attributes v) (seta_new_attributes w),
       seta_guard := dec_sattrguard3 (seta_guard v) (seta_guard w)\<rparr>"

interpretation SETATTR3args: xdr_codec xdr_SETATTR3args wire_SETATTR3args valid_SETATTR3args dec_SETATTR3args
  unfolding xdr_SETATTR3args_def xdr_defs
  by (rule xdr_codec_eqI, (rule xdr_codec_intros | (simp; fail))+)
     (auto simp: wire_SETATTR3args_def valid_SETATTR3args_def dec_SETATTR3args_def wire_string_defs)

declare SETATTR3args.xdr_codec_axioms [xdr_codec_intros] SETATTR3args.xdr_safe_axioms [xdr_safe_intros]

record LOOKUP3args =
  look_what :: diropargs3

definition xdr_LOOKUP3args :: "LOOKUP3args xdrproc" where
  "xdr_LOOKUP3args = xdr_all
     [xdr_field look_what look_what_update xdr_diropargs3]"

definition wire_LOOKUP3args :: "LOOKUP3args \<Rightarrow> byte list" where
  "wire_LOOKUP3args v =
    wire_diropargs3 (look_what v)"

definition valid_LOOKUP3args :: "LOOKUP3args \<Rightarrow> bool" where
  "valid_LOOKUP3args v \<longleftrightarrow>
    valid_diropargs3 (look_what v)"

definition dec_LOOKUP3args :: "LOOKUP3args \<Rightarrow> LOOKUP3args \<Rightarrow> LOOKUP3args" where
  "dec_LOOKUP3args v w =
     v\<lparr>look_what := dec_diropargs3 (look_what v) (look_what w)\<rparr>"

interpretation LOOKUP3args: xdr_codec xdr_LOOKUP3args wire_LOOKUP3args valid_LOOKUP3args dec_LOOKUP3args
  unfolding xdr_LOOKUP3args_def xdr_defs
  by (rule xdr_codec_eqI, (rule xdr_codec_intros | (simp; fail))+)
     (auto simp: wire_LOOKUP3args_def valid_LOOKUP3args_def dec_LOOKUP3args_def wire_string_defs)

declare LOOKUP3args.xdr_codec_axioms [xdr_codec_intros] LOOKUP3args.xdr_safe_axioms [xdr_safe_intros]

record ACCESS3args =
  acc_object :: nfs_fh3
  acc_access :: uint32

definition xdr_ACCESS3args :: "ACCESS3args xdrproc" where
  "xdr_ACCESS3args = xdr_all
     [xdr_field acc_object acc_object_update xdr_nfs_fh3,
      xdr_field acc_access acc_access_update xdr_nfs3_uint32]"

definition wire_ACCESS3args :: "ACCESS3args \<Rightarrow> byte list" where
  "wire_ACCESS3args v =
    wire_nfs_fh3 (acc_object v) @ htonl_bytes (acc_access v)"

definition valid_ACCESS3args :: "ACCESS3args \<Rightarrow> bool" where
  "valid_ACCESS3args v \<longleftrightarrow>
    valid_nfs_fh3 (acc_object v)"

definition dec_ACCESS3args :: "ACCESS3args \<Rightarrow> ACCESS3args \<Rightarrow> ACCESS3args" where
  "dec_ACCESS3args v w =
     v\<lparr>acc_object := dec_nfs_fh3 (acc_object v) (acc_object w)\<rparr>"

interpretation ACCESS3args: xdr_codec xdr_ACCESS3args wire_ACCESS3args valid_ACCESS3args dec_ACCESS3args
  unfolding xdr_ACCESS3args_def xdr_defs
  by (rule xdr_codec_eqI, (rule xdr_codec_intros | (simp; fail))+)
     (auto simp: wire_ACCESS3args_def valid_ACCESS3args_def dec_ACCESS3args_def wire_string_defs)

declare ACCESS3args.xdr_codec_axioms [xdr_codec_intros] ACCESS3args.xdr_safe_axioms [xdr_safe_intros]

record READLINK3args =
  rlnk_symlink :: nfs_fh3

definition xdr_READLINK3args :: "READLINK3args xdrproc" where
  "xdr_READLINK3args = xdr_all
     [xdr_field rlnk_symlink rlnk_symlink_update xdr_nfs_fh3]"

definition wire_READLINK3args :: "READLINK3args \<Rightarrow> byte list" where
  "wire_READLINK3args v =
    wire_nfs_fh3 (rlnk_symlink v)"

definition valid_READLINK3args :: "READLINK3args \<Rightarrow> bool" where
  "valid_READLINK3args v \<longleftrightarrow>
    valid_nfs_fh3 (rlnk_symlink v)"

definition dec_READLINK3args :: "READLINK3args \<Rightarrow> READLINK3args \<Rightarrow> READLINK3args" where
  "dec_READLINK3args v w =
     v\<lparr>rlnk_symlink := dec_nfs_fh3 (rlnk_symlink v) (rlnk_symlink w)\<rparr>"

interpretation READLINK3args: xdr_codec xdr_READLINK3args wire_READLINK3args valid_READLINK3args dec_READLINK3args
  unfolding xdr_READLINK3args_def xdr_defs
  by (rule xdr_codec_eqI, (rule xdr_codec_intros | (simp; fail))+)
     (auto simp: wire_READLINK3args_def valid_READLINK3args_def dec_READLINK3args_def wire_string_defs)

declare READLINK3args.xdr_codec_axioms [xdr_codec_intros] READLINK3args.xdr_safe_axioms [xdr_safe_intros]

section \<open>Data procedures\<close>

record READ3args =
  rd_file :: nfs_fh3
  rd_offset :: uint64
  rd_count :: uint32

definition xdr_READ3args :: "READ3args xdrproc" where
  "xdr_READ3args = xdr_all
     [xdr_field rd_file rd_file_update xdr_nfs_fh3,
      xdr_field rd_offset rd_offset_update xdr_offset3,
      xdr_field rd_count rd_count_update xdr_count3]"

definition wire_READ3args :: "READ3args \<Rightarrow> byte list" where
  "wire_READ3args v =
    wire_nfs_fh3 (rd_file v) @ wire_uint64 (rd_offset v) @ htonl_bytes (rd_count v)"

definition valid_READ3args :: "READ3args \<Rightarrow> bool" where
  "valid_READ3args v \<longleftrightarrow>
    valid_nfs_fh3 (rd_file v)"

definition dec_READ3args :: "READ3args \<Rightarrow> READ3args \<Rightarrow> READ3args" where
  "dec_READ3args v w =
     v\<lparr>rd_file := dec_nfs_fh3 (rd_file v) (rd_file w)\<rparr>"

interpretation READ3args: xdr_codec xdr_READ3args wire_READ3args valid_READ3args dec_READ3args
  unfolding xdr_READ3args_def xdr_defs
  by (rule xdr_codec_eqI, (rule xdr_codec_intros | (simp; fail))+)
     (auto simp: wire_READ3args_def valid_READ3args_def dec_READ3args_def wire_string_defs)

declare READ3args.xdr_codec_axioms [xdr_codec_intros] READ3args.xdr_safe_axioms [xdr_safe_intros]

type_synonym stable_how = enum_t

definition UNSTABLE :: stable_how where [nfs_consts]: "UNSTABLE = 0"
definition DATA_SYNC :: stable_how where [nfs_consts]: "DATA_SYNC = 1"
definition FILE_SYNC :: stable_how where [nfs_consts]: "FILE_SYNC = 2"

definition xdr_stable_how :: "stable_how xdrproc" where
  [xdr_defs]: "xdr_stable_how = xdr_enum"

text \<open>
  A request is announced to the dispatcher in the look-ahead block behind
  \<open>x_public\<close>.  When there is none the routine counts in a static dummy that
  nothing reads.
\<close>

record WRITE3args =
  wr_file :: nfs_fh3
  wr_offset :: uint64
  wr_count :: uint32
  wr_stable :: stable_how
  wr_data :: io_data

definition xdr_WRITE3args_members :: "WRITE3args xdrproc" where
  "xdr_WRITE3args_members = xdr_all
     [xdr_field wr_file wr_file_update xdr_nfs_fh3,
      xdr_field wr_offset wr_offset_update xdr_offset3,
      xdr_field wr_count wr_count_update xdr_count3,
      xdr_field wr_stable wr_stable_update xdr_stable_how,
      xdr_field wr_data wr_data_update xdr_io_data]"

definition wire_WRITE3args :: "WRITE3args \<Rightarrow> byte list" where
  "wire_WRITE3args v =
    wire_nfs_fh3 (wr_file v) @ wire_uint64 (wr_offset v) @ htonl_bytes (wr_count v) @
    htonl_bytes (wr_stable v) @ wire_io_data (wr_data v)"

definition valid_WRITE3args :: "WRITE3args \<Rightarrow> bool" where
  "valid_WRITE3args v \<longleftrightarrow>
    valid_nfs_fh3 (wr_file v) \<and> valid_io_data (wr_data v)"

definition dec_WRITE3args :: "WRITE3args \<Rightarrow> WRITE3args \<Rightarrow> WRITE3args" where
  "dec_WRITE3args v w =
     v\<lparr>wr_file := dec_nfs_fh3 (wr_file v) (wr_file w),
       wr_data := dec_io_data (wr_data v) (wr_data w)\<rparr>"

interpretation WRITE3args_members: xdr_codec xdr_WRITE3args_members wire_WRITE3args valid_WRITE3args dec_WRITE3args
  unfolding xdr_WRITE3args_members_def xdr_defs
  by (rule xdr_codec_eqI, (rule xdr_codec_intros | (simp; fail))+)
     (auto simp: wire_WRITE3args_def valid_WRITE3args_def dec_WRITE3args_def wire_string_defs)

declare WRITE3args_members.xdr_codec_axioms [xdr_codec_intros] WRITE3args_members.xdr_safe_axioms [xdr_safe_intros]

definition lookahead_write :: "nfs_request_lookahead \<Rightarrow> nfs_request_lookahead" where
  "lookahead_write l =
     l\<lparr>lkhd_flags := lkhd_flags l OR NFS_LOOKAHEAD_WRITE, lkhd_write := lkhd_write l + 1\<rparr>"

definition xdr_WRITE3args :: "WRITE3args xdrproc" where
  "xdr_WRITE3args xdrs objp =
     (case xdr_WRITE3args_members xdrs objp of
        (False, xdrs', objp') \<Rightarrow> (False, xdrs', objp')
      | (True, xdrs', objp') \<Rightarrow>
          (True, xdrs'\<lparr>x_public := map_option lookahead_write (x_public xdrs')\<rparr>, objp'))"

record COMMIT3args =
  com_file :: nfs_fh3
  com_offset :: uint64
  com_count :: uint32

definition xdr_COMMIT3args :: "COMMIT3args xdrproc" where
  "xdr_COMMIT3args = xdr_all
     [xdr_field com_file com_file_update xdr_nfs_fh3,
      xdr_field com_offset com_offset_update xdr_offset3,
      xdr_field com_count com_count_update xdr_count3]"

definition wire_COMMIT3args :: "COMMIT3args \<Rightarrow> byte list" where
  "wire_COMMIT3args v =
    wire_nfs_fh3 (com_file v) @ wire_uint64 (com_offset v) @ htonl_bytes (com_count v)"

definition valid_COMMIT3args :: "COMMIT3args \<Rightarrow> bool" where
  "valid_COMMIT3args v \<longleftrightarrow>
    valid_nfs_fh3 (com_file v)"

definition dec_COMMIT3args :: "COMMIT3args \<Rightarrow> COMMIT3args \<Rightarrow> COMMIT3args" where
  "dec_COMMIT3args v w =
     v\<lparr>com_file := dec_nfs_fh3 (com_file v) (com_file w)\<rparr>"

interpretation COMMIT3args: xdr_codec xdr_COMMIT3args wire_COMMIT3args valid_COMMIT3args dec_COMMIT3args
  unfolding xdr_COMMIT3args_def xdr_defs
  by (rule xdr_codec_eqI, (rule xdr_codec_intros | (simp; fail))+)
     (auto simp: wire_COMMIT3args_def valid_COMMIT3args_def dec_COMMIT3args_def wire_string_defs)

declare COMMIT3args.xdr_codec_axioms [xdr_codec_intros] COMMIT3args.xdr_safe_axioms [xdr_safe_intros]

section \<open>Procedures that create and remove\<close>

type_synonym createmode3 = enum_t

definition UNCHECKED :: createmode3 where [nfs_consts]: "UNCHECKED = 0"
definition GUARDED :: createmode3 where [nfs_consts]: "GUARDED = 1"
definition EXCLUSIVE :: createmode3 where [nfs_consts]: "EXCLUSIVE = 2"

text \<open>The two arms of the union share no member, so the record has both.\<close>

record createhow3 =
  how_mode :: createmode3
  how_obj_attributes :: sattr3
  how_verf :: createverf3

definition xdr_createmode3 :: "createmode3 xdrproc" where
  [xdr_defs]: "xdr_createmode3 = xdr_enum"

definition xdr_createverf3 :: "createverf3 xdrproc" where
  [xdr_defs]: "xdr_createverf3 = xdr_opaque 8"

definition xdr_createhow3 :: "createhow3 xdrproc" where
  "xdr_createhow3 = xdr_tagged how_mode how_mode_update xdr_createmode3
     (\<lambda>t. if t = UNCHECKED \<or> t = GUARDED
          then xdr_field how_obj_attributes how_obj_attributes_update xdr_sattr3
          else if t = EXCLUSIVE then xdr_field how_verf how_verf_update xdr_createverf3
          else xdr_fail)"

definition wire_createhow3 :: "createhow3 \<Rightarrow> byte list" where
  "wire_createhow3 v = htonl_bytes (how_mode v) @
     (if how_mode v = EXCLUSIVE then wire_opaque (how_verf v) else wire_sattr3 (how_obj_attributes v))"

definition valid_createhow3 :: "createhow3 \<Rightarrow> bool" where
  "valid_createhow3 v \<longleftrightarrow>
     (how_mode v = EXCLUSIVE \<and> length (how_verf v) = 8) \<or>
     ((how_mode v = UNCHECKED \<or> how_mode v = GUARDED) \<and> valid_sattr3 (how_obj_attributes v))"

definition dec_createhow3 :: "createhow3 \<Rightarrow> createhow3 \<Rightarrow> createhow3" where
  "dec_createhow3 v w =
     (if how_mode v = EXCLUSIVE
      then w\<lparr>how_mode := how_mode v, how_verf := overwrite 0 (how_verf v) (how_verf w)\<rparr>
      else w\<lparr>how_mode := how_mode v,
             how_obj_attributes := dec_sattr3 (how_obj_attributes v) (how_obj_attributes w)\<rparr>)"

interpretation createhow3: xdr_codec xdr_createhow3 wire_createhow3 valid_createhow3 dec_createhow3
  unfolding xdr_createhow3_def xdr_defs
  by (rule xdr_codec_eqI, (rule xdr_codec_intros | (simp; fail))+)
     (auto simp: wire_createhow3_def valid_createhow3_def dec_createhow3_def
        UNCHECKED_def GUARDED_def EXCLUSIVE_def)

declare createhow3.xdr_codec_axioms [xdr_codec_intros] createhow3.xdr_safe_axioms [xdr_safe_intros]

record CREATE3args =
  cre_where :: diropargs3
  cre_how :: createhow3

definition xdr_CREATE3args_members :: "CREATE3args xdrproc" where
  "xdr_CREATE3args_members = xdr_all
     [xdr_field cre_where cre_where_update xdr_diropargs3,
      xdr_field cre_how cre_how_update xdr_createhow3]"

definition wire_CREATE3args :: "CREATE3args \<Rightarrow> byte list" where
  "wire_CREATE3args v =
    wire_diropargs3 (cre_where v) @ wire_createhow3 (cre_how v)"

definition valid_CREATE3args :: "CREATE3args \<Rightarrow> bool" where
  "valid_CREATE3args v \<longleftrightarrow>
    valid_diropargs3 (cre_where v) \<and> valid_createhow3 (cre_how v)"

definition dec_CREATE3args :: "CREATE3args \<Rightarrow> CREATE3args \<Rightarrow> CREATE3args" where
  "dec_CREATE3args v w =
     v\<lparr>cre_where := dec_diropargs3 (cre_where v) (cre_where w),
       cre_how := dec_createhow3 (cre_how v) (cre_how w)\<rparr>"

interpretation CREATE3args_members: xdr_codec xdr_CREATE3args_members wire_CREATE3args valid_CREATE3args dec_CREATE3args
  unfolding xdr_CREATE3args_members_def xdr_defs
  by (rule xdr_codec_eqI, (rule xdr_codec_intros | (simp; fail))+)
     (auto simp: wire_CREATE3args_def valid_CREATE3args_def dec_CREATE3args_def wire_string_defs)

declare CREATE3args_members.xdr_codec_axioms [xdr_codec_intros] CREATE3args_members.xdr_safe_axioms [xdr_safe_intros]

definition lookahead_create :: "nfs_request_lookahead \<Rightarrow> nfs_request_lookahead" where
  "lookahead_create l = l\<lparr>lkhd_flags := lkhd_flags l OR NFS_LOOKAHEAD_CREATE\<rparr>"

definition xdr_CREATE3args :: "CREATE3args xdrproc" where
  "xdr_CREATE3args xdrs objp =
     (case xdr_CREATE3args_members xdrs objp of
        (False, xdrs', objp') \<Rightarrow> (False, xdrs', objp')
      | (True, xdrs', objp') \<Rightarrow>
          (True, xdrs'\<lparr>x_public := map_option lookahead_create (x_public xdrs')\<rparr>, objp'))"

record MKDIR3args =
  mkd_where :: diropargs3
  mkd_attributes :: sattr3

definition xdr_MKDIR3args :: "MKDIR3args xdrproc" where
  "xdr_MKDIR3args = xdr_all
     [xdr_field mkd_where mkd_where_update xdr_diropargs3,
      xdr_field mkd_attributes mkd_attributes_update xdr_sattr3]"

definition wire_MKDIR3args :: "MKDIR3args \<Rightarrow> byte list" where
  "wire_MKDIR3args v =
    wire_diropargs3 (mkd_where v) @ wire_sattr3 (mkd_attributes v)"

definition valid_MKDIR3args :: "MKDIR3args \<Rightarrow> bool" where
  "valid_MKDIR3args v \<longleftrightarrow>
    valid_diropargs3 (mkd_where v) \<and> valid_sattr3 (mkd_attributes v)"

definition dec_MKDIR3args :: "MKDIR3args \<Rightarrow> MKDIR3args \<Rightarrow> MKDIR3args" where
  "dec_MKDIR3args v w =
     v\<lparr>mkd_where := dec_diropargs3 (mkd_where v) (mkd_where w),
       mkd_attributes := dec_sattr3 (mkd_attributes v) (mkd_attributes w)\<rparr>"

interpretation MKDIR3args: xdr_codec xdr_MKDIR3args wire_MKDIR3args valid_MKDIR3args dec_MKDIR3args
  unfolding xdr_MKDIR3args_def xdr_defs
  by (rule xdr_codec_eqI, (rule xdr_codec_intros | (simp; fail))+)
     (auto simp: wire_MKDIR3args_def valid_MKDIR3args_def dec_MKDIR3args_def wire_string_defs)

declare MKDIR3args.xdr_codec_axioms [xdr_codec_intros] MKDIR3args.xdr_safe_axioms [xdr_safe_intros]

record symlinkdata3 =
  symlink_attributes :: sattr3
  symlink_data :: nfspath3

definition xdr_symlinkdata3 :: "symlinkdata3 xdrproc" where
  "xdr_symlinkdata3 = xdr_all
     [xdr_field symlink_attributes symlink_attributes_update xdr_sattr3,
      xdr_field symlink_data symlink_data_update xdr_nfspath3]"

definition wire_symlinkdata3 :: "symlinkdata3 \<Rightarrow> byte list" where
  "wire_symlinkdata3 v =
    wire_sattr3 (symlink_attributes v) @ wire_filename3 (symlink_data v)"

definition valid_symlinkdata3 :: "symlinkdata3 \<Rightarrow> bool" where
  "valid_symlinkdata3 v \<longleftrightarrow>
    valid_sattr3 (symlink_attributes v) \<and> valid_filename3 (symlink_data v)"

definition dec_symlinkdata3 :: "symlinkdata3 \<Rightarrow> symlinkdata3 \<Rightarrow> symlinkdata3" where
  "dec_symlinkdata3 v w =
     v\<lparr>symlink_attributes := dec_sattr3 (symlink_attributes v) (symlink_attributes w),
       symlink_data := string_dec (symlink_data v) (symlink_data w)\<rparr>"

interpretation symlinkdata3: xdr_codec xdr_symlinkdata3 wire_symlinkdata3 valid_symlinkdata3 dec_symlinkdata3
  unfolding xdr_symlinkdata3_def xdr_defs
  by (rule xdr_codec_eqI, (rule xdr_codec_intros | (simp; fail))+)
     (auto simp: wire_symlinkdata3_def valid_symlinkdata3_def dec_symlinkdata3_def wire_string_defs)

declare symlinkdata3.xdr_codec_axioms [xdr_codec_intros] symlinkdata3.xdr_safe_axioms [xdr_safe_intros]

record SYMLINK3args =
  sym_where :: diropargs3
  sym_symlink :: symlinkdata3

definition xdr_SYMLINK3args :: "SYMLINK3args xdrproc" where
  "xdr_SYMLINK3args = xdr_all
     [xdr_field sym_where sym_where_update xdr_diropargs3,
      xdr_field sym_symlink sym_symlink_update xdr_symlinkdata3]"

definition wire_SYMLINK3args :: "SYMLINK3args \<Rightarrow> byte list" where
  "wire_SYMLINK3args v =
    wire_diropargs3 (sym_where v) @ wire_symlinkdata3 (sym_symlink v)"

definition valid_SYMLINK3args :: "SYMLINK3args \<Rightarrow> bool" where
  "valid_SYMLINK3args v \<longleftrightarrow>
    valid_diropargs3 (sym_where v) \<and> valid_symlinkdata3 (sym_symlink v)"

definition dec_SYMLINK3args :: "SYMLINK3args \<Rightarrow> SYMLINK3args \<Rightarrow> SYMLINK3args" where
  "dec_SYMLINK3args v w =
     v\<lparr>sym_where := dec_diropargs3 (sym_where v) (sym_where w),
       sym_symlink := dec_symlinkdata3 (sym_symlink v) (sym_symlink w)\<rparr>"

interpretation SYMLINK3args: xdr_codec xdr_SYMLINK3args wire_SYMLINK3args valid_SYMLINK3args dec_SYMLINK3args
  unfolding xdr_SYMLINK3args_def xdr_defs
  by (rule xdr_codec_eqI, (rule xdr_codec_intros | (simp; fail))+)
     (auto simp: wire_SYMLINK3args_def valid_SYMLINK3args_def dec_SYMLINK3args_def wire_string_defs)

declare SYMLINK3args.xdr_codec_axioms [xdr_codec_intros] SYMLINK3args.xdr_safe_axioms [xdr_safe_intros]

record devicedata3 =
  dev_attributes :: sattr3
  dev_spec :: specdata3

text \<open>
  The arm \<open>pipe_attributes\<close> of the union is the first member of the arm
  \<open>device\<close>, at the same address.
\<close>

record mknoddata3 =
  mkn_type :: ftype3
  mkn_device :: devicedata3

definition xdr_devicedata3 :: "devicedata3 xdrproc" where
  "xdr_devicedata3 = xdr_all
     [xdr_field dev_attributes dev_attributes_update xdr_sattr3,
      xdr_field dev_spec dev_spec_update xdr_specdata3]"

definition xdr_mknoddata3 :: "mknoddata3 xdrproc" where
  "xdr_mknoddata3 = xdr_tagged mkn_type mkn_type_update xdr_ftype3
     (\<lambda>t. if t = NF3CHR \<or> t = NF3BLK then xdr_field mkn_device mkn_device_update xdr_devicedata3
          else if t = NF3SOCK \<or> t = NF3FIFO
          then xdr_field mkn_device mkn_device_update
                 (xdr_field dev_attributes dev_attributes_update xdr_sattr3)
          else xdr_ok)"

definition wire_mknoddata3 :: "mknoddata3 \<Rightarrow> byte list" where
  "wire_mknoddata3 v = htonl_bytes (mkn_type v) @
     (if mkn_type v = NF3CHR \<or> mkn_type v = NF3BLK
      then wire_sattr3 (dev_attributes (mkn_device v)) @ wire_specdata3 (dev_spec (mkn_device v))
      else if mkn_type v = NF3SOCK \<or> mkn_type v = NF3FIFO
      then wire_sattr3 (dev_attributes (mkn_device v))
      else [])"

definition valid_mknoddata3 :: "mknoddata3 \<Rightarrow> bool" where
  "valid_mknoddata3 v \<longleftrightarrow>
     (mkn_type v = NF3CHR \<or> mkn_type v = NF3BLK \<or> mkn_type v = NF3SOCK \<or> mkn_type v = NF3FIFO \<longrightarrow>
      valid_sattr3 (dev_attributes (mkn_device v)))"

definition dec_mknoddata3 :: "mknoddata3 \<Rightarrow> mknoddata3 \<Rightarrow> mknoddata3" where
  "dec_mknoddata3 v w =
     (let atts = dec_sattr3 (dev_attributes (mkn_device v)) (dev_attributes (mkn_device w)) in
      if mkn_type v = NF3CHR \<or> mkn_type v = NF3BLK
      then v\<lparr>mkn_device := (mkn_device v)\<lparr>dev_attributes := atts\<rparr>\<rparr>
      else if mkn_type v = NF3SOCK \<or> mkn_type v = NF3FIFO
      then w\<lparr>mkn_type := mkn_type v, mkn_device := (mkn_device w)\<lparr>dev_attributes := atts\<rparr>\<rparr>
      else w\<lparr>mkn_type := mkn_type v\<rparr>)"

interpretation mknoddata3: xdr_codec xdr_mknoddata3 wire_mknoddata3 valid_mknoddata3 dec_mknoddata3
  unfolding xdr_mknoddata3_def xdr_devicedata3_def xdr_defs
  by (rule xdr_codec_eqI, (rule xdr_codec_intros | (simp; fail))+)
     (auto simp: wire_mknoddata3_def valid_mknoddata3_def dec_mknoddata3_def Let_def)

declare mknoddata3.xdr_codec_axioms [xdr_codec_intros] mknoddata3.xdr_safe_axioms [xdr_safe_intros]

record MKNOD3args =
  mkn_where :: diropargs3
  mkn_what :: mknoddata3

definition xdr_MKNOD3args :: "MKNOD3args xdrproc" where
  "xdr_MKNOD3args = xdr_all
     [xdr_field mkn_where mkn_where_update xdr_diropargs3,
      xdr_field mkn_what mkn_what_update xdr_mknoddata3]"

definition wire_MKNOD3args :: "MKNOD3args \<Rightarrow> byte list" where
  "wire_MKNOD3args v =
    wire_diropargs3 (mkn_where v) @ wire_mknoddata3 (mkn_what v)"

definition valid_MKNOD3args :: "MKNOD3args \<Rightarrow> bool" where
  "valid_MKNOD3args v \<longleftrightarrow>
    valid_diropargs3 (mkn_where v) \<and> valid_mknoddata3 (mkn_what v)"

definition dec_MKNOD3args :: "MKNOD3args \<Rightarrow> MKNOD3args \<Rightarrow> MKNOD3args" where
  "dec_MKNOD3args v w =
     v\<lparr>mkn_where := dec_diropargs3 (mkn_where v) (mkn_where w),
       mkn_what := dec_mknoddata3 (mkn_what v) (mkn_what w)\<rparr>"

interpretation MKNOD3args: xdr_codec xdr_MKNOD3args wire_MKNOD3args valid_MKNOD3args dec_MKNOD3args
  unfolding xdr_MKNOD3args_def xdr_defs
  by (rule xdr_codec_eqI, (rule xdr_codec_intros | (simp; fail))+)
     (auto simp: wire_MKNOD3args_def valid_MKNOD3args_def dec_MKNOD3args_def wire_string_defs)

declare MKNOD3args.xdr_codec_axioms [xdr_codec_intros] MKNOD3args.xdr_safe_axioms [xdr_safe_intros]

record REMOVE3args =
  rem_object :: diropargs3

definition xdr_REMOVE3args :: "REMOVE3args xdrproc" where
  "xdr_REMOVE3args = xdr_all
     [xdr_field rem_object rem_object_update xdr_diropargs3]"

definition wire_REMOVE3args :: "REMOVE3args \<Rightarrow> byte list" where
  "wire_REMOVE3args v =
    wire_diropargs3 (rem_object v)"

definition valid_REMOVE3args :: "REMOVE3args \<Rightarrow> bool" where
  "valid_REMOVE3args v \<longleftrightarrow>
    valid_diropargs3 (rem_object v)"

definition dec_REMOVE3args :: "REMOVE3args \<Rightarrow> REMOVE3args \<Rightarrow> REMOVE3args" where
  "dec_REMOVE3args v w =
     v\<lparr>rem_object := dec_diropargs3 (rem_object v) (rem_object w)\<rparr>"

interpretation REMOVE3args: xdr_codec xdr_REMOVE3args wire_REMOVE3args valid_REMOVE3args dec_REMOVE3args
  unfolding xdr_REMOVE3args_def xdr_defs
  by (rule xdr_codec_eqI, (rule xdr_codec_intros | (simp; fail))+)
     (auto simp: wire_REMOVE3args_def valid_REMOVE3args_def dec_REMOVE3args_def wire_string_defs)

declare REMOVE3args.xdr_codec_axioms [xdr_codec_intros] REMOVE3args.xdr_safe_axioms [xdr_safe_intros]

record RMDIR3args =
  rmd_object :: diropargs3

definition xdr_RMDIR3args :: "RMDIR3args xdrproc" where
  "xdr_RMDIR3args = xdr_all
     [xdr_field rmd_object rmd_object_update xdr_diropargs3]"

definition wire_RMDIR3args :: "RMDIR3args \<Rightarrow> byte list" where
  "wire_RMDIR3args v =
    wire_diropargs3 (rmd_object v)"

definition valid_RMDIR3args :: "RMDIR3args \<Rightarrow> bool" where
  "valid_RMDIR3args v \<longleftrightarrow>
    valid_diropargs3 (rmd_object v)"

definition dec_RMDIR3args :: "RMDIR3args \<Rightarrow> RMDIR3args \<Rightarrow> RMDIR3args" where
  "dec_RMDIR3args v w =
     v\<lparr>rmd_object := dec_diropargs3 (rmd_object v) (rmd_object w)\<rparr>"

interpretation RMDIR3args: xdr_codec xdr_RMDIR3args wire_RMDIR3args valid_RMDIR3args dec_RMDIR3args
  unfolding xdr_RMDIR3args_def xdr_defs
  by (rule xdr_codec_eqI, (rule xdr_codec_intros | (simp; fail))+)
     (auto simp: wire_RMDIR3args_def valid_RMDIR3args_def dec_RMDIR3args_def wire_string_defs)

declare RMDIR3args.xdr_codec_axioms [xdr_codec_intros] RMDIR3args.xdr_safe_axioms [xdr_safe_intros]

record RENAME3args =
  ren_from :: diropargs3
  ren_to :: diropargs3

definition xdr_RENAME3args :: "RENAME3args xdrproc" where
  "xdr_RENAME3args = xdr_all
     [xdr_field ren_from ren_from_update xdr_diropargs3,
      xdr_field ren_to ren_to_update xdr_diropargs3]"

definition wire_RENAME3args :: "RENAME3args \<Rightarrow> byte list" where
  "wire_RENAME3args v =
    wire_diropargs3 (ren_from v) @ wire_diropargs3 (ren_to v)"

definition valid_RENAME3args :: "RENAME3args \<Rightarrow> bool" where
  "valid_RENAME3args v \<longleftrightarrow>
    valid_diropargs3 (ren_from v) \<and> valid_diropargs3 (ren_to v)"

definition dec_RENAME3args :: "RENAME3args \<Rightarrow> RENAME3args \<Rightarrow> RENAME3args" where
  "dec_RENAME3args v w =
     v\<lparr>ren_from := dec_diropargs3 (ren_from v) (ren_from w),
       ren_to := dec_diropargs3 (ren_to v) (ren_to w)\<rparr>"

interpretation RENAME3args: xdr_codec xdr_RENAME3args wire_RENAME3args valid_RENAME3args dec_RENAME3args
  unfolding xdr_RENAME3args_def xdr_defs
  by (rule xdr_codec_eqI, (rule xdr_codec_intros | (simp; fail))+)
     (auto simp: wire_RENAME3args_def valid_RENAME3args_def dec_RENAME3args_def wire_string_defs)

declare RENAME3args.xdr_codec_axioms [xdr_codec_intros] RENAME3args.xdr_safe_axioms [xdr_safe_intros]

record LINK3args =
  lnk_file :: nfs_fh3
  lnk_link :: diropargs3

definition xdr_LINK3args :: "LINK3args xdrproc" where
  "xdr_LINK3args = xdr_all
     [xdr_field lnk_file lnk_file_update xdr_nfs_fh3,
      xdr_field lnk_link lnk_link_update xdr_diropargs3]"

definition wire_LINK3args :: "LINK3args \<Rightarrow> byte list" where
  "wire_LINK3args v =
    wire_nfs_fh3 (lnk_file v) @ wire_diropargs3 (lnk_link v)"

definition valid_LINK3args :: "LINK3args \<Rightarrow> bool" where
  "valid_LINK3args v \<longleftrightarrow>
    valid_nfs_fh3 (lnk_file v) \<and> valid_diropargs3 (lnk_link v)"

definition dec_LINK3args :: "LINK3args \<Rightarrow> LINK3args \<Rightarrow> LINK3args" where
  "dec_LINK3args v w =
     v\<lparr>lnk_file := dec_nfs_fh3 (lnk_file v) (lnk_file w),
       lnk_link := dec_diropargs3 (lnk_link v) (lnk_link w)\<rparr>"

interpretation LINK3args: xdr_codec xdr_LINK3args wire_LINK3args valid_LINK3args dec_LINK3args
  unfolding xdr_LINK3args_def xdr_defs
  by (rule xdr_codec_eqI, (rule xdr_codec_intros | (simp; fail))+)
     (auto simp: wire_LINK3args_def valid_LINK3args_def dec_LINK3args_def wire_string_defs)

declare LINK3args.xdr_codec_axioms [xdr_codec_intros] LINK3args.xdr_safe_axioms [xdr_safe_intros]

section \<open>Directory and file system procedures\<close>

record READDIR3args =
  rdir_dir :: nfs_fh3
  rdir_cookie :: uint64
  rdir_cookieverf :: cookieverf3
  rdir_count :: uint32

definition xdr_READDIR3args :: "READDIR3args xdrproc" where
  "xdr_READDIR3args = xdr_all
     [xdr_field rdir_dir rdir_dir_update xdr_nfs_fh3,
      xdr_field rdir_cookie rdir_cookie_update xdr_cookie3,
      xdr_field rdir_cookieverf rdir_cookieverf_update xdr_cookieverf3,
      xdr_field rdir_count rdir_count_update xdr_count3]"

definition wire_READDIR3args :: "READDIR3args \<Rightarrow> byte list" where
  "wire_READDIR3args v =
    wire_nfs_fh3 (rdir_dir v) @ wire_uint64 (rdir_cookie v) @
    wire_opaque (rdir_cookieverf v) @ htonl_bytes (rdir_count v)"

definition valid_READDIR3args :: "READDIR3args \<Rightarrow> bool" where
  "valid_READDIR3args v \<longleftrightarrow>
    valid_nfs_fh3 (rdir_dir v) \<and> length (rdir_cookieverf v) = 8"

definition dec_READDIR3args :: "READDIR3args \<Rightarrow> READDIR3args \<Rightarrow> READDIR3args" where
  "dec_READDIR3args v w =
     v\<lparr>rdir_dir := dec_nfs_fh3 (rdir_dir v) (rdir_dir w),
       rdir_cookieverf := overwrite 0 (rdir_cookieverf v) (rdir_cookieverf w)\<rparr>"

interpretation READDIR3args: xdr_codec xdr_READDIR3args wire_READDIR3args valid_READDIR3args dec_READDIR3args
  unfolding xdr_READDIR3args_def xdr_defs
  by (rule xdr_codec_eqI, (rule xdr_codec_intros | (simp; fail))+)
     (auto simp: wire_READDIR3args_def valid_READDIR3args_def dec_READDIR3args_def wire_string_defs)

declare READDIR3args.xdr_codec_axioms [xdr_codec_intros] READDIR3args.xdr_safe_axioms [xdr_safe_intros]

record READDIRPLUS3args =
  rdp_dir :: nfs_fh3
  rdp_cookie :: uint64
  rdp_cookieverf :: cookieverf3
  rdp_dircount :: uint32
  rdp_maxcount :: uint32

definition xdr_READDIRPLUS3args :: "READDIRPLUS3args xdrproc" where
  "xdr_READDIRPLUS3args = xdr_all
     [xdr_field rdp_dir rdp_dir_update xdr_nfs_fh3,
      xdr_field rdp_cookie rdp_cookie_update xdr_cookie3,
      xdr_field rdp_cookieverf rdp_cookieverf_update xdr_cookieverf3,
      xdr_field rdp_dircount rdp_dircount_update xdr_count3,
      xdr_field rdp_maxcount rdp_maxcount_update xdr_count3]"

definition wire_READDIRPLUS3args :: "READDIRPLUS3args \<Rightarrow> byte list" where
  "wire_READDIRPLUS3args v =
    wire_nfs_fh3 (rdp_dir v) @ wire_uint64 (rdp_cookie v) @ wire_opaque (rdp_cookieverf v) @
    htonl_bytes (rdp_dircount v) @ htonl_bytes (rdp_maxcount v)"

definition valid_READDIRPLUS3args :: "READDIRPLUS3args \<Rightarrow> bool" where
  "valid_READDIRPLUS3args v \<longleftrightarrow>
    valid_nfs_fh3 (rdp_dir v) \<and> length (rdp_cookieverf v) = 8"

definition dec_READDIRPLUS3args :: "READDIRPLUS3args \<Rightarrow> READDIRPLUS3args \<Rightarrow> READDIRPLUS3args" where
  "dec_READDIRPLUS3args v w =
     v\<lparr>rdp_dir := dec_nfs_fh3 (rdp_dir v) (rdp_dir w),
       rdp_cookieverf := overwrite 0 (rdp_cookieverf v) (rdp_cookieverf w)\<rparr>"

interpretation READDIRPLUS3args: xdr_codec xdr_READDIRPLUS3args wire_READDIRPLUS3args valid_READDIRPLUS3args dec_READDIRPLUS3args
  unfolding xdr_READDIRPLUS3args_def xdr_defs
  by (rule xdr_codec_eqI, (rule xdr_codec_intros | (simp; fail))+)
     (auto simp: wire_READDIRPLUS3args_def valid_READDIRPLUS3args_def dec_READDIRPLUS3args_def wire_string_defs)

declare READDIRPLUS3args.xdr_codec_axioms [xdr_codec_intros] READDIRPLUS3args.xdr_safe_axioms [xdr_safe_intros]

record FSSTAT3args =
  fst_fsroot :: nfs_fh3

definition xdr_FSSTAT3args :: "FSSTAT3args xdrproc" where
  "xdr_FSSTAT3args = xdr_all
     [xdr_field fst_fsroot fst_fsroot_update xdr_nfs_fh3]"

definition wire_FSSTAT3args :: "FSSTAT3args \<Rightarrow> byte list" where
  "wire_FSSTAT3args v =
    wire_nfs_fh3 (fst_fsroot v)"

definition valid_FSSTAT3args :: "FSSTAT3args \<Rightarrow> bool" where
  "valid_FSSTAT3args v \<longleftrightarrow>
    valid_nfs_fh3 (fst_fsroot v)"

definition dec_FSSTAT3args :: "FSSTAT3args \<Rightarrow> FSSTAT3args \<Rightarrow> FSSTAT3args" where
  "dec_FSSTAT3args v w =
     v\<lparr>fst_fsroot := dec_nfs_fh3 (fst_fsroot v) (fst_fsroot w)\<rparr>"

interpretation FSSTAT3args: xdr_codec xdr_FSSTAT3args wire_FSSTAT3args valid_FSSTAT3args dec_FSSTAT3args
  unfolding xdr_FSSTAT3args_def xdr_defs
  by (rule xdr_codec_eqI, (rule xdr_codec_intros | (simp; fail))+)
     (auto simp: wire_FSSTAT3args_def valid_FSSTAT3args_def dec_FSSTAT3args_def wire_string_defs)

declare FSSTAT3args.xdr_codec_axioms [xdr_codec_intros] FSSTAT3args.xdr_safe_axioms [xdr_safe_intros]

record FSINFO3args =
  fsi_fsroot :: nfs_fh3

definition xdr_FSINFO3args :: "FSINFO3args xdrproc" where
  "xdr_FSINFO3args = xdr_all
     [xdr_field fsi_fsroot fsi_fsroot_update xdr_nfs_fh3]"

definition wire_FSINFO3args :: "FSINFO3args \<Rightarrow> byte list" where
  "wire_FSINFO3args v =
    wire_nfs_fh3 (fsi_fsroot v)"

definition valid_FSINFO3args :: "FSINFO3args \<Rightarrow> bool" where
  "valid_FSINFO3args v \<longleftrightarrow>
    valid_nfs_fh3 (fsi_fsroot v)"

definition dec_FSINFO3args :: "FSINFO3args \<Rightarrow> FSINFO3args \<Rightarrow> FSINFO3args" where
  "dec_FSINFO3args v w =
     v\<lparr>fsi_fsroot := dec_nfs_fh3 (fsi_fsroot v) (fsi_fsroot w)\<rparr>"

interpretation FSINFO3args: xdr_codec xdr_FSINFO3args wire_FSINFO3args valid_FSINFO3args dec_FSINFO3args
  unfolding xdr_FSINFO3args_def xdr_defs
  by (rule xdr_codec_eqI, (rule xdr_codec_intros | (simp; fail))+)
     (auto simp: wire_FSINFO3args_def valid_FSINFO3args_def dec_FSINFO3args_def wire_string_defs)

declare FSINFO3args.xdr_codec_axioms [xdr_codec_intros] FSINFO3args.xdr_safe_axioms [xdr_safe_intros]

record PATHCONF3args =
  pc_object :: nfs_fh3

definition xdr_PATHCONF3args :: "PATHCONF3args xdrproc" where
  "xdr_PATHCONF3args = xdr_all
     [xdr_field pc_object pc_object_update xdr_nfs_fh3]"

definition wire_PATHCONF3args :: "PATHCONF3args \<Rightarrow> byte list" where
  "wire_PATHCONF3args v =
    wire_nfs_fh3 (pc_object v)"

definition valid_PATHCONF3args :: "PATHCONF3args \<Rightarrow> bool" where
  "valid_PATHCONF3args v \<longleftrightarrow>
    valid_nfs_fh3 (pc_object v)"

definition dec_PATHCONF3args :: "PATHCONF3args \<Rightarrow> PATHCONF3args \<Rightarrow> PATHCONF3args" where
  "dec_PATHCONF3args v w =
     v\<lparr>pc_object := dec_nfs_fh3 (pc_object v) (pc_object w)\<rparr>"

interpretation PATHCONF3args: xdr_codec xdr_PATHCONF3args wire_PATHCONF3args valid_PATHCONF3args dec_PATHCONF3args
  unfolding xdr_PATHCONF3args_def xdr_defs
  by (rule xdr_codec_eqI, (rule xdr_codec_intros | (simp; fail))+)
     (auto simp: wire_PATHCONF3args_def valid_PATHCONF3args_def dec_PATHCONF3args_def wire_string_defs)

declare PATHCONF3args.xdr_codec_axioms [xdr_codec_intros] PATHCONF3args.xdr_safe_axioms [xdr_safe_intros]

lemma xdr_safe_WRITE3args [xdr_safe_intros]: "xdr_safe xdr_WRITE3args"
  using WRITE3args_members.moves
  by unfold_locales (simp add: xdr_WRITE3args_def case_prod_unfold split: bool.split)

lemma xdr_safe_CREATE3args [xdr_safe_intros]: "xdr_safe xdr_CREATE3args"
  using CREATE3args_members.moves
  by unfold_locales (simp add: xdr_CREATE3args_def case_prod_unfold split: bool.split)

end
