(* ===== verification/Xdr_Chain.thy ===== *)
theory Xdr_Chain
  imports Xdr_Opaque
begin

text \<open>
  Linked lists in XDR: a node is a body followed by an optional pointer to the
  next node (\<open>xdr_pointer\<close> of \<open>xdr_reference.c\<close>), handled by a routine that
  calls itself through the pointer.  The recursion ends because a decoding call
  consumes the flag before it recurses, and any other call descends in the list.
\<close>

section \<open>Contract: a routine only moves forward\<close>

text \<open>
  Unlike \<open>xdr_moves\<close> this holds on every stream, well-formed or not; it is what
  the termination of list routines rests on.
\<close>

definition xdr_fwd :: "XDR \<Rightarrow> XDR \<Rightarrow> bool" where
  "xdr_fwd xdrs xdrs' \<longleftrightarrow>
     x_op xdrs' = x_op xdrs \<and> x_v xdrs' = x_v xdrs \<and> x_data xdrs \<le> x_data xdrs'"

lemma xdr_fwd_refl [simp]: "xdr_fwd xdrs xdrs"
  by (simp add: xdr_fwd_def)

lemma xdr_fwd_trans: "xdr_fwd a b \<Longrightarrow> xdr_fwd b c \<Longrightarrow> xdr_fwd a c"
  by (simp add: xdr_fwd_def)

locale xdr_forward =
  fixes proc :: "'a xdrproc"
  assumes fwd: "xdr_fwd xdrs (fst (snd (proc xdrs v)))"
begin

lemma fwdD: "proc xdrs v = (ok, xdrs', v') \<Longrightarrow> xdr_fwd xdrs xdrs'"
  using fwd [of xdrs v] by simp

end

named_theorems xdr_forward_intros \<open>routines known to move forward only\<close>

lemma xdr_forward_ok [xdr_forward_intros]: "xdr_forward xdr_ok"
  by (simp add: xdr_forward_def xdr_ok_def)

lemma xdr_forward_fail [xdr_forward_intros]: "xdr_forward xdr_fail"
  by (simp add: xdr_forward_def xdr_fail_def)

lemma xdr_forward_field [xdr_forward_intros]: "xdr_forward p \<Longrightarrow> xdr_forward (xdr_field get upd p)"
  by (simp add: xdr_forward_def)

lemma xdr_forward_seq [xdr_forward_intros]:
  "xdr_forward p \<Longrightarrow> xdr_forward q \<Longrightarrow> xdr_forward (xdr_seq p q)"
  by unfold_locales
    (auto simp: xdr_seq_def split: prod.split bool.split
      dest: xdr_forward.fwdD intro: xdr_fwd_trans xdr_forward.fwd)

lemma xdr_forward_all_Nil [xdr_forward_intros]: "xdr_forward (xdr_all [])"
  by (simp add: xdr_forward_ok)

lemma xdr_forward_all_Cons [xdr_forward_intros]:
  "xdr_forward p \<Longrightarrow> xdr_forward (xdr_all ps) \<Longrightarrow> xdr_forward (xdr_all (p # ps))"
  by (simp add: xdr_forward_seq)

lemma xdr_forward_tagged [xdr_forward_intros]:
  "xdr_forward p \<Longrightarrow> (\<And>t. xdr_forward (arm t)) \<Longrightarrow> xdr_forward (xdr_tagged get upd p arm)"
  unfolding xdr_tagged_def by (intro xdr_forward_seq xdr_forward_field)
    (simp_all add: xdr_forward_def xdr_switch_def)

lemma xdr_forward_if [xdr_forward_intros]:
  "xdr_forward p \<Longrightarrow> xdr_forward q \<Longrightarrow> xdr_forward (if b then p else q)"
  by simp

interpretation u_int: xdr_forward xdr_u_int
  by unfold_locales (auto simp: xdr_fwd_def xdr_u_int_def xdr_access_defs Let_def split: xdr_op.split)

interpretation enum: xdr_forward xdr_enum
  by unfold_locales (auto simp: xdr_fwd_def xdr_enum_def xdr_access_defs Let_def split: xdr_op.split)

interpretation bool: xdr_forward xdr_bool
  by unfold_locales (auto simp: xdr_fwd_def xdr_bool_def xdr_access_defs Let_def split: xdr_op.split)

interpretation u_longlong_t: xdr_forward xdr_u_longlong_t
  by unfold_locales (auto simp: xdr_fwd_def xdr_u_longlong_t_def xdr_u_int64_t_def xdr_uint64_t_def
      xdr_access_defs Let_def split: xdr_op.split)

lemma xdr_data_fwd:
  "xdr_getuint32 xdrs w = (b, xdrs', v) \<Longrightarrow> xdr_fwd xdrs xdrs'"
  "xdr_putuint32 xdrs v = (b, xdrs') \<Longrightarrow> xdr_fwd xdrs xdrs'"
  "xdr_opaque_decode xdrs cp n = (b, xdrs', cp') \<Longrightarrow> xdr_fwd xdrs xdrs'"
  "xdr_opaque_encode xdrs cp n = (b, xdrs') \<Longrightarrow> xdr_fwd xdrs xdrs'"
  by (auto simp: xdr_fwd_def xdr_access_defs xdr_opaque_encode_def xdr_opaque_decode_def
      xdrmem_putbytes_def xdrmem_getbytes_def Let_def split: if_splits)

interpretation string: xdr_forward "xdr_string n" for n
  by unfold_locales
    (auto simp: xdr_string_def xdr_string_decode_def xdr_string_encode_def xdr_string_free_def Let_def
       split: xdr_op.split option.split prod.split bool.split
       dest: xdr_data_fwd intro: xdr_fwd_trans)

interpretation bytes: xdr_forward "xdr_bytes n" for n
proof
  fix xdrs v
  show "xdr_fwd xdrs (fst (snd (xdr_bytes n xdrs v)))"
    by (cases v)
       (auto simp: xdr_bytes_decode_def xdr_bytes_encode_def xdr_bytes_free_def Let_def
          split: xdr_op.split prod.split bool.split dest: xdr_data_fwd intro: xdr_fwd_trans)
qed

declare u_int.xdr_forward_axioms [xdr_forward_intros] enum.xdr_forward_axioms [xdr_forward_intros]
  bool.xdr_forward_axioms [xdr_forward_intros] u_longlong_t.xdr_forward_axioms [xdr_forward_intros]
  string.xdr_forward_axioms [xdr_forward_intros] bytes.xdr_forward_axioms [xdr_forward_intros]

section \<open>Optional pointers\<close>

definition wire_pointer :: "('a \<Rightarrow> byte list) \<Rightarrow> 'a option \<Rightarrow> byte list" where
  "wire_pointer e p = (case p of None \<Rightarrow> wire_bool 0 | Some v \<Rightarrow> wire_bool 1 @ e v)"

definition valid_pointer :: "('a \<Rightarrow> bool) \<Rightarrow> 'a option \<Rightarrow> bool" where
  "valid_pointer va p \<longleftrightarrow> (case p of None \<Rightarrow> True | Some v \<Rightarrow> va v)"

definition dec_pointer :: "'a \<Rightarrow> ('a \<Rightarrow> 'a \<Rightarrow> 'a) \<Rightarrow> 'a option \<Rightarrow> 'a option \<Rightarrow> 'a option" where
  "dec_pointer zero d p q =
     map_option (\<lambda>v. d v (case q of None \<Rightarrow> zero | Some w \<Rightarrow> w)) p"

lemma is_bool_01 [simp]: "is_bool 0" "is_bool 1"
  by (simp_all add: is_bool_def)

lemma xdr_codec_pointer:
  fixes p :: "'a xdrproc"
  assumes c: "xdr_codec p e va d"
  shows "xdr_codec (xdr_pointer zero p) (wire_pointer e) (valid_pointer va) (dec_pointer zero d)"
proof (intro xdr_codec.intro xdr_codec_axioms.intro xdr_safe.intro)
  fix xdrs :: XDR and v :: "'a option" assume wf: "xdr_wf xdrs"
  obtain b xdrs' m where f: "xdr_bool xdrs (if v \<noteq> None then 1 else 0) = (b, xdrs', m)"
    by (cases "xdr_bool xdrs (if v \<noteq> None then 1 else 0)") auto
  note m = bool.movesD [OF wf f]
  have "xdr_moves xdrs xdrs''" if "p xdrs' u = (b', xdrs'', u')" for b' xdrs'' u u'
    using xdr_moves_trans [OF m xdr_safe.movesD [OF xdr_codec.axioms(1) [OF c] xdr_moves_wf [OF m] that]] .
  then show "xdr_moves xdrs (fst (snd (xdr_pointer zero p xdrs v)))"
    using f m by (auto simp: xdr_pointer_def xdr_reference_def split: option.split prod.split xdr_op.split bool.split)
next
  fix xdrs v assume s: "xdr_wf xdrs" "x_op xdrs = XDR_ENCODE" "valid_pointer va v"
    and fits: "length (wire_pointer e v) \<le> room xdrs"
  show "xdr_pointer zero p xdrs v = (True, emit (wire_pointer e v) xdrs, v)"
  proof (cases v)
    case None
    then show ?thesis
      using bool.encode_fits [OF s(1,2), of 0] fits by (simp add: xdr_pointer_def wire_pointer_def)
  next
    case (Some u)
    then show ?thesis
      using bool.encode_fits [OF s(1,2), of 1] s fits emit_emit [OF s(1), of "wire_bool 1" "e u"]
        xdr_codec.encode_fits [OF c emit_wf [OF s(1,2)], of "wire_bool 1" u]
      by (simp add: xdr_pointer_def xdr_reference_def wire_pointer_def valid_pointer_def)
  qed
next
  fix xdrs v assume s: "xdr_wf xdrs" "x_op xdrs = XDR_ENCODE" "valid_pointer va v"
    and full: "room xdrs < length (wire_pointer e v)"
  show "\<not> fst (xdr_pointer zero p xdrs v)"
  proof (cases "4 \<le> room xdrs")
    case True
    then obtain u where u: "v = Some u"
      using full by (cases v) (auto simp: wire_pointer_def)
    then have "\<not> fst (p (emit (wire_bool 1) xdrs) u)"
      using True full s by (intro xdr_codec.encode_full [OF c emit_wf [OF s(1,2)]])
        (auto simp: wire_pointer_def valid_pointer_def)
    then show ?thesis
      using True u bool.encode_fits [OF s(1,2), of 1]
      by (auto simp: xdr_pointer_def xdr_reference_def split: prod.split)
  next
    case False
    then have "\<not> fst (xdr_bool xdrs t)" if "is_bool t" for t
      using bool.encode_full [OF s(1,2) that] by simp
    from this [of 0] this [of 1] show ?thesis
      by (cases v) (auto simp: xdr_pointer_def split: prod.split bool.split)
  qed
next
  fix xdrs v rest w assume s: "xdr_wf xdrs" "x_op xdrs = XDR_DECODE" "valid_pointer va v"
    and u: "unread xdrs = wire_pointer e v @ rest"
  show "xdr_pointer zero p xdrs w = (True, skip (length (wire_pointer e v)) xdrs, dec_pointer zero d v w)"
  proof (cases v)
    case None
    then show ?thesis
      using bool.decode [OF s(1,2), of 0 rest] u
      by (simp add: xdr_pointer_def wire_pointer_def dec_pointer_def)
  next
    case (Some z)
    have u': "unread xdrs = wire_bool 1 @ e z @ rest"
      using u Some by (simp add: wire_pointer_def)
    have "p (skip 4 xdrs) t = (True, skip (length (e z)) (skip 4 xdrs), d z t)" for t
      using s u' Some by (intro xdr_codec.decode [OF c, where rest = rest])
        (auto simp: valid_pointer_def intro: skip_wf)
    then show ?thesis
      using bool.decode [OF s(1,2) is_bool_01(2) u'] Some s(2)
      by (simp add: xdr_pointer_def xdr_reference_def wire_pointer_def dec_pointer_def split: option.split)
  qed
next
  fix xdrs v w assume s: "xdr_wf xdrs" "x_op xdrs = XDR_DECODE" "valid_pointer va v"
    and u: "strict_prefix (unread xdrs) (wire_pointer e v)"
  define b :: bool_t where "b = (if v \<noteq> None then 1 else 0)"
  define t where "t = (case v of None \<Rightarrow> [] | Some z \<Rightarrow> e z)"
  have bt: "wire_pointer e v = wire_bool b @ t" "is_bool b"
    by (auto simp: wire_pointer_def b_def t_def split: option.split)
  from u [unfolded bt(1)] show "\<not> fst (xdr_pointer zero p xdrs w)"
  proof (cases rule: strict_prefix_appendE)
    case 1
    from bool.decode_short [OF s(1,2) bt(2) 1] show ?thesis
      by (auto simp: xdr_pointer_def split: prod.split bool.split) (metis fst_conv)+
  next
    case (2 r)
    then obtain z where z: "v = Some z" "t = e z" "b = 1"
      by (cases v) (auto simp: t_def b_def)
    have "\<not> fst (p (skip 4 xdrs) y)" for y
      using s 2 z by (intro xdr_codec.decode_short [OF c, of _ z])
        (auto simp: valid_pointer_def intro: skip_wf)
    moreover have "xdr_bool xdrs f = (True, skip 4 xdrs, 1)" for f
      using bool.decode [OF s(1,2) bt(2) 2(1)] z by simp
    ultimately show ?thesis
      using s(2) by (auto simp: xdr_pointer_def xdr_reference_def split: option.split prod.split)
        (metis fst_conv)+
  qed
qed

section \<open>Lists of nodes\<close>

datatype 'b chain = Chain (chain_body: 'b) (nextentry: "'b chain option")

text \<open>The bodies of the nodes, in order.\<close>

fun chain_list :: "'b chain \<Rightarrow> 'b list" where
  "chain_list (Chain b n) = b # (case n of None \<Rightarrow> [] | Some c \<Rightarrow> chain_list c)"

definition entry_list :: "'b chain option \<Rightarrow> 'b list" where
  "entry_list entries = (case entries of None \<Rightarrow> [] | Some c \<Rightarrow> chain_list c)"

lemma entry_list_None [simp]: "entry_list None = []"
  by (simp add: entry_list_def)

text \<open>
  The equation a list routine \<open>q\<close> with body routine \<open>p\<close> satisfies: the body,
  then the pointer to the next node, by \<open>q\<close> again.
\<close>

definition xdr_node :: "'b xdrproc \<Rightarrow> 'b chain \<Rightarrow> 'b chain xdrproc \<Rightarrow> 'b chain xdrproc" where
  "xdr_node p zero q xdrs c =
     (case c of Chain b n \<Rightarrow>
        (case p xdrs b of
           (False, xdrs', b') \<Rightarrow> (False, xdrs', Chain b' n)
         | (True, xdrs', b') \<Rightarrow>
             (case xdr_pointer zero q xdrs' n of (ok, xdrs'', n') \<Rightarrow> (ok, xdrs'', Chain b' n'))))"

definition chain_measure :: "XDR \<times> 'b chain \<Rightarrow> nat" where
  "chain_measure = (\<lambda>(xdrs, c).
     case x_op xdrs of XDR_DECODE \<Rightarrow> xv_tail xdrs - x_data xdrs | _ \<Rightarrow> size c)"

lemma xdr_pointer_cong [fundef_cong]:
  assumes "zero = zero'" and "xdrs = ydrs" and "objpp = objqq"
    and "\<And>xdrs' m. xdr_bool ydrs (if objqq \<noteq> None then 1 else 0) = (True, xdrs', m) \<Longrightarrow> m \<noteq> 0 \<Longrightarrow>
           (objqq = None \<Longrightarrow> x_op xdrs' = XDR_DECODE) \<Longrightarrow>
           p xdrs' (case objqq of None \<Rightarrow> zero' | Some l \<Rightarrow> l) =
           q xdrs' (case objqq of None \<Rightarrow> zero' | Some l \<Rightarrow> l)"
  shows "xdr_pointer zero p xdrs objpp = xdr_pointer zero' q ydrs objqq"
  using assms by (auto simp: xdr_pointer_def xdr_reference_def split: prod.split bool.split option.split xdr_op.split)

lemma chain_measure_step:
  assumes "xdr_fwd xdrs xdrs'" and f: "xdr_bool xdrs' (if n \<noteq> None then 1 else 0) = (True, xdrs'', m)"
    and "m \<noteq> 0" and "n = None \<Longrightarrow> x_op xdrs'' = XDR_DECODE"
  shows "chain_measure (xdrs'', case n of None \<Rightarrow> zero | Some c \<Rightarrow> c) < chain_measure (xdrs, Chain b n)"
proof -
  have "x_op xdrs'' = x_op xdrs" "x_op xdrs' = x_op xdrs"
    using bool.fwdD [OF f] assms(1) by (auto simp: xdr_fwd_def)
  then show ?thesis
    using assms by (cases "x_op xdrs")
      (auto simp: chain_measure_def xdr_bool_def xdr_access_defs Let_def xdr_fwd_def split: if_splits option.split)
qed

fun wire_chain :: "('b \<Rightarrow> byte list) \<Rightarrow> 'b chain \<Rightarrow> byte list" where
  "wire_chain e (Chain b n) =
     e b @ (case n of None \<Rightarrow> wire_bool 0 | Some c \<Rightarrow> wire_bool 1 @ wire_chain e c)"

fun valid_chain :: "('b \<Rightarrow> bool) \<Rightarrow> 'b chain \<Rightarrow> bool" where
  "valid_chain va (Chain b n) \<longleftrightarrow> va b \<and> (case n of None \<Rightarrow> True | Some c \<Rightarrow> valid_chain va c)"

fun dec_chain :: "'b chain \<Rightarrow> ('b \<Rightarrow> 'b \<Rightarrow> 'b) \<Rightarrow> 'b chain \<Rightarrow> 'b chain \<Rightarrow> 'b chain" where
  "dec_chain zero d (Chain b n) w =
     Chain (d b (chain_body w))
       (case n of
          None \<Rightarrow> None
        | Some c \<Rightarrow> Some (dec_chain zero d c (case nextentry w of None \<Rightarrow> zero | Some u \<Rightarrow> u)))"

fun chain_length :: "'b chain \<Rightarrow> nat" where
  "chain_length (Chain b n) = Suc (case n of None \<Rightarrow> 0 | Some c \<Rightarrow> chain_length c)"

lemma chain_length_pos [simp]: "0 < chain_length c"
  by (cases c) simp

definition chain_body_update :: "('b \<Rightarrow> 'b) \<Rightarrow> 'b chain \<Rightarrow> 'b chain" where
  "chain_body_update f c = Chain (f (chain_body c)) (nextentry c)"

definition nextentry_update :: "('b chain option \<Rightarrow> 'b chain option) \<Rightarrow> 'b chain \<Rightarrow> 'b chain" where
  "nextentry_update f c = Chain (chain_body c) (f (nextentry c))"

lemma xdr_node_members:
  "xdr_node p zero q = xdr_seq (xdr_field chain_body chain_body_update p)
     (xdr_field nextentry nextentry_update (xdr_pointer zero q))"
  by (auto simp: fun_eq_iff xdr_node_def xdr_seq_def xdr_field_def chain_body_update_def
      nextentry_update_def split: chain.split prod.split bool.split)

lemma chain_eqs:
  "wire_chain e c = e (chain_body c) @ wire_pointer (wire_chain e) (nextentry c)"
  "dec_chain zero d c w = Chain (d (chain_body c) (chain_body w))
     (dec_pointer zero (dec_chain zero d) (nextentry c) (nextentry w))"
  by (cases c; simp add: wire_pointer_def dec_pointer_def split: option.split)+

text \<open>
  A list routine implements the format of its list, and stays inside its buffer,
  as soon as its body routine does.
\<close>

locale xdr_list = xdr_codec p e va d + bodyf: xdr_forward p
  for p :: "'b xdrproc" and e va d +
  fixes q :: "'b chain xdrproc" and zero :: "'b chain"
  assumes node: "q xdrs c = xdr_node p zero q xdrs c"
begin

lemma list_safe: "xdr_safe q"
proof
  fix xdrs c assume "xdr_wf xdrs"
  then show "xdr_moves xdrs (fst (snd (q xdrs c)))"
  proof (induction "chain_measure (xdrs, c)" arbitrary: xdrs c rule: less_induct)
    case less
    obtain b n where c: "c = Chain b n"
      by (cases c)
    obtain ok xdrs' b' where p: "p xdrs b = (ok, xdrs', b')"
      by (cases "p xdrs b") auto
    note m = movesD [OF less.prems p] and f = bodyf.fwdD [OF p]
    obtain ok' xdrs'' t where bo: "xdr_bool xdrs' (if n \<noteq> None then 1 else 0) = (ok', xdrs'', t)"
      by (cases "xdr_bool xdrs' (if n \<noteq> None then 1 else 0)") auto
    note m' = xdr_moves_trans [OF m bool.movesD [OF xdr_moves_wf [OF m] bo]]
    have "xdr_moves xdrs (fst (snd (q xdrs'' (case n of None \<Rightarrow> zero | Some c \<Rightarrow> c))))"
      if t: "ok'" "t \<noteq> 0" "n = None \<Longrightarrow> x_op xdrs'' = XDR_DECODE"
    proof -
      have "chain_measure (xdrs'', case n of None \<Rightarrow> zero | Some c \<Rightarrow> c) < chain_measure (xdrs, c)"
        unfolding c using bo t by (intro chain_measure_step [OF f, where m = t]) auto
      then show ?thesis
        using xdr_moves_trans [OF m' less.hyps [OF _ xdr_moves_wf [OF m']]] by blast
    qed
    then have IH: "xdr_moves xdrs zdrs"
      if "ok'" "t \<noteq> 0" "n = None \<Longrightarrow> x_op xdrs'' = XDR_DECODE"
        "q xdrs'' (case n of None \<Rightarrow> zero | Some c \<Rightarrow> c) = (z, zdrs, z')" for z zdrs z'
      using that by (metis fst_conv snd_conv)
    show ?case
      using p bo m m' IH
      by (auto simp: node [of xdrs] c xdr_node_def xdr_pointer_def xdr_reference_def
          split: prod.split bool.split option.split xdr_op.split)
  qed
qed

lemma list_codec_upto:
  "xdr_codec q (wire_chain e) (\<lambda>c. valid_chain va c \<and> chain_length c \<le> k) (dec_chain zero d)"
proof (induction k)
  case 0
  have "valid_chain va c \<and> chain_length c \<le> 0 \<longleftrightarrow> False" for c
    using chain_length_pos [of c] by auto
  with list_safe show ?case
    by (simp only: xdr_codec_def xdr_codec_axioms_def simp_thms)
next
  case (Suc k)
  have q: "q = xdr_seq (xdr_field chain_body chain_body_update p)
      (xdr_field nextentry nextentry_update (xdr_pointer zero q))"
    unfolding xdr_node_members [symmetric] by (intro ext) (rule node)
  have "xdr_codec (xdr_seq (xdr_field chain_body chain_body_update p)
      (xdr_field nextentry nextentry_update (xdr_pointer zero q)))
     (wire_chain e) (\<lambda>c. valid_chain va c \<and> chain_length c \<le> Suc k) (dec_chain zero d)"
  proof (rule xdr_codec_eqI [OF xdr_codec_seq [OF
          xdr_codec_field [OF xdr_codec_axioms, where get = chain_body and upd = chain_body_update]
          xdr_codec_field [OF xdr_codec_pointer [OF Suc.IH], where get = nextentry and upd = nextentry_update]]],
      goal_cases)
    case (3 v)
    then show ?case
      by (cases v) (auto simp: valid_pointer_def split: option.splits)
  next
    case (4 v)
    show ?case
      by (rule chain_eqs(1))
  next
    case (5 v w)
    show ?case
      using chain_eqs(2) [of zero d v w] by (simp add: chain_body_update_def nextentry_update_def)
  qed (simp_all add: chain_body_update_def nextentry_update_def)
  then show ?case
    using q by simp
qed

lemma list_codec: "xdr_codec q (wire_chain e) (valid_chain va) (dec_chain zero d)"
proof (intro xdr_codec.intro xdr_codec_axioms.intro list_safe)
qed (use xdr_codec.encode_fits [OF list_codec_upto] xdr_codec.encode_full [OF list_codec_upto]
       xdr_codec.decode [OF list_codec_upto] xdr_codec.decode_short [OF list_codec_upto] in blast)+

end

end
