(* ===== verification/Nfs_Dirlist.thy ===== *)
theory Nfs_Dirlist
  imports Nfs_Args Xdr_Chain
begin

text \<open>
  Directory listings (\<open>nfs_readdir.h\<close>, \<open>nfs_readdirplus.h\<close>): linked lists of
  entries, their XDR routines and the formats they implement.  The members of an
  entry other than \<open>nextentry\<close> form the body of a list node.
\<close>

lemmas xdr_fattr_defs =
  xdr_post_op_attr_def xdr_post_op_fh3_def xdr_fattr3_def xdr_nfs_fh3_def xdr_specdata3_def xdr_nfstime3_def

section \<open>READDIR\<close>

record entry3_members =
  ent_fileid :: uint64
  ent_name :: filename3
  ent_cookie :: uint64

definition xdr_entry3_members :: "entry3_members xdrproc" where
  "xdr_entry3_members = xdr_all
     [xdr_field ent_fileid ent_fileid_update xdr_fileid3,
      xdr_field ent_name ent_name_update xdr_filename3,
      xdr_field ent_cookie ent_cookie_update xdr_cookie3]"

definition wire_entry3_members :: "entry3_members \<Rightarrow> byte list" where
  "wire_entry3_members v =
    wire_uint64 (ent_fileid v) @ wire_filename3 (ent_name v) @ wire_uint64 (ent_cookie v)"

definition valid_entry3_members :: "entry3_members \<Rightarrow> bool" where
  "valid_entry3_members v \<longleftrightarrow>
    valid_filename3 (ent_name v)"

definition dec_entry3_members :: "entry3_members \<Rightarrow> entry3_members \<Rightarrow> entry3_members" where
  "dec_entry3_members v w =
     v\<lparr>ent_name := string_dec (ent_name v) (ent_name w)\<rparr>"

interpretation entry3_members: xdr_codec xdr_entry3_members wire_entry3_members valid_entry3_members dec_entry3_members
  unfolding xdr_entry3_members_def xdr_defs
  by (rule xdr_codec_eqI, (rule xdr_codec_intros | (simp; fail))+)
     (auto simp: wire_entry3_members_def valid_entry3_members_def dec_entry3_members_def wire_string_defs)

interpretation entry3_members: xdr_forward xdr_entry3_members
  unfolding xdr_entry3_members_def xdr_defs xdr_fattr_defs
  by (intro xdr_forward_intros)

type_synonym entry3 = "entry3_members chain"

definition zero_entry3 :: entry3 where
  "zero_entry3 = Chain \<lparr>ent_fileid = 0, ent_name = None, ent_cookie = 0\<rparr> None"

function xdr_entry3 :: "entry3 xdrproc" where
  "xdr_entry3 xdrs (Chain b n) =
     (case xdr_entry3_members xdrs b of
        (False, xdrs', b') \<Rightarrow> (False, xdrs', Chain b' n)
      | (True, xdrs', b') \<Rightarrow>
          (case xdr_pointer zero_entry3 xdr_entry3 xdrs' n of
             (ok, xdrs'', n') \<Rightarrow> (ok, xdrs'', Chain b' n')))"
  by pat_completeness auto
termination
  by (relation "measure chain_measure")
     (auto intro!: chain_measure_step dest: entry3_members.fwdD [OF sym])

interpretation entry3: xdr_list xdr_entry3_members wire_entry3_members valid_entry3_members dec_entry3_members xdr_entry3 zero_entry3
  by unfold_locales (simp add: xdr_node_def split: chain.split)

record dirlist3 =
  dl_entries :: "entry3 option"
  dl_eof :: bool_t

definition xdr_dirlist3 :: "dirlist3 xdrproc" where
  "xdr_dirlist3 = xdr_all
     [xdr_field dl_entries dl_entries_update (xdr_pointer zero_entry3 xdr_entry3),
      xdr_field dl_eof dl_eof_update xdr_bool]"

definition wire_dirlist3 :: "dirlist3 \<Rightarrow> byte list" where
  "wire_dirlist3 v =
     wire_pointer (wire_chain wire_entry3_members) (dl_entries v) @ wire_bool (dl_eof v)"

definition valid_dirlist3 :: "dirlist3 \<Rightarrow> bool" where
  "valid_dirlist3 v \<longleftrightarrow>
     valid_pointer (valid_chain valid_entry3_members) (dl_entries v) \<and> is_bool (dl_eof v)"

definition dec_dirlist3 :: "dirlist3 \<Rightarrow> dirlist3 \<Rightarrow> dirlist3" where
  "dec_dirlist3 v w =
     v\<lparr>dl_entries :=
         dec_pointer zero_entry3 (dec_chain zero_entry3 dec_entry3_members) (dl_entries v) (dl_entries w)\<rparr>"

interpretation dirlist3: xdr_codec xdr_dirlist3 wire_dirlist3 valid_dirlist3 dec_dirlist3
  unfolding xdr_dirlist3_def
  by (rule xdr_codec_eqI,
      (rule xdr_codec_intros xdr_codec_pointer entry3.list_codec | (simp; fail))+)
     (auto simp: wire_dirlist3_def valid_dirlist3_def dec_dirlist3_def)

declare dirlist3.xdr_codec_axioms [xdr_codec_intros] dirlist3.xdr_safe_axioms [xdr_safe_intros]

section \<open>READDIRPLUS\<close>

record entryplus3_members =
  entp_fileid :: uint64
  entp_name :: filename3
  entp_cookie :: uint64
  entp_name_attributes :: post_op_attr
  entp_name_handle :: post_op_fh3

definition xdr_entryplus3_members :: "entryplus3_members xdrproc" where
  "xdr_entryplus3_members = xdr_all
     [xdr_field entp_fileid entp_fileid_update xdr_fileid3,
      xdr_field entp_name entp_name_update xdr_filename3,
      xdr_field entp_cookie entp_cookie_update xdr_cookie3,
      xdr_field entp_name_attributes entp_name_attributes_update xdr_post_op_attr,
      xdr_field entp_name_handle entp_name_handle_update xdr_post_op_fh3]"

definition wire_entryplus3_members :: "entryplus3_members \<Rightarrow> byte list" where
  "wire_entryplus3_members v =
    wire_uint64 (entp_fileid v) @ wire_filename3 (entp_name v) @
    wire_uint64 (entp_cookie v) @ wire_post_op_attr (entp_name_attributes v) @
    wire_post_op_fh3 (entp_name_handle v)"

definition valid_entryplus3_members :: "entryplus3_members \<Rightarrow> bool" where
  "valid_entryplus3_members v \<longleftrightarrow>
    valid_filename3 (entp_name v) \<and>
    is_bool (poa_attributes_follow (entp_name_attributes v)) \<and>
    valid_post_op_fh3 (entp_name_handle v)"

definition dec_entryplus3_members :: "entryplus3_members \<Rightarrow> entryplus3_members \<Rightarrow> entryplus3_members" where
  "dec_entryplus3_members v w =
     v\<lparr>entp_name := string_dec (entp_name v) (entp_name w),
       entp_name_attributes := dec_post_op_attr (entp_name_attributes v) (entp_name_attributes w),
       entp_name_handle := dec_post_op_fh3 (entp_name_handle v) (entp_name_handle w)\<rparr>"

interpretation entryplus3_members: xdr_codec xdr_entryplus3_members wire_entryplus3_members valid_entryplus3_members dec_entryplus3_members
  unfolding xdr_entryplus3_members_def xdr_defs
  by (rule xdr_codec_eqI, (rule xdr_codec_intros | (simp; fail))+)
     (auto simp: wire_entryplus3_members_def valid_entryplus3_members_def dec_entryplus3_members_def wire_string_defs)

interpretation entryplus3_members: xdr_forward xdr_entryplus3_members
  unfolding xdr_entryplus3_members_def xdr_defs xdr_fattr_defs
  by (intro xdr_forward_intros)

type_synonym entryplus3 = "entryplus3_members chain"

definition zero_entryplus3 :: entryplus3 where
  "zero_entryplus3 = Chain 
     \<lparr>entp_fileid = 0, entp_name = None, entp_cookie = 0,
      entp_name_attributes =
        \<lparr>poa_attributes_follow = 0,
         poa_attributes =
           \<lparr>fa_type = 0, fa_mode = 0, fa_nlink = 0, fa_uid = 0, fa_gid = 0, fa_size = 0,
            fa_used = 0, fa_rdev = \<lparr>specdata1 = 0, specdata2 = 0\<rparr>, fa_fsid = 0, fa_fileid = 0,
            fa_atime = zero_time3, fa_mtime = zero_time3, fa_ctime = zero_time3\<rparr>\<rparr>,
      entp_name_handle = \<lparr>handle_follows = 0, pof_handle = zero_fh3\<rparr>\<rparr> None"

function xdr_entryplus3 :: "entryplus3 xdrproc" where
  "xdr_entryplus3 xdrs (Chain b n) =
     (case xdr_entryplus3_members xdrs b of
        (False, xdrs', b') \<Rightarrow> (False, xdrs', Chain b' n)
      | (True, xdrs', b') \<Rightarrow>
          (case xdr_pointer zero_entryplus3 xdr_entryplus3 xdrs' n of
             (ok, xdrs'', n') \<Rightarrow> (ok, xdrs'', Chain b' n')))"
  by pat_completeness auto
termination
  by (relation "measure chain_measure")
     (auto intro!: chain_measure_step dest: entryplus3_members.fwdD [OF sym])

interpretation entryplus3: xdr_list xdr_entryplus3_members wire_entryplus3_members valid_entryplus3_members dec_entryplus3_members xdr_entryplus3 zero_entryplus3
  by unfold_locales (simp add: xdr_node_def split: chain.split)

record dirlistplus3 =
  dlp_entries :: "entryplus3 option"
  dlp_eof :: bool_t

definition xdr_dirlistplus3 :: "dirlistplus3 xdrproc" where
  "xdr_dirlistplus3 = xdr_all
     [xdr_field dlp_entries dlp_entries_update (xdr_pointer zero_entryplus3 xdr_entryplus3),
      xdr_field dlp_eof dlp_eof_update xdr_bool]"

definition wire_dirlistplus3 :: "dirlistplus3 \<Rightarrow> byte list" where
  "wire_dirlistplus3 v =
     wire_pointer (wire_chain wire_entryplus3_members) (dlp_entries v) @ wire_bool (dlp_eof v)"

definition valid_dirlistplus3 :: "dirlistplus3 \<Rightarrow> bool" where
  "valid_dirlistplus3 v \<longleftrightarrow>
     valid_pointer (valid_chain valid_entryplus3_members) (dlp_entries v) \<and> is_bool (dlp_eof v)"

definition dec_dirlistplus3 :: "dirlistplus3 \<Rightarrow> dirlistplus3 \<Rightarrow> dirlistplus3" where
  "dec_dirlistplus3 v w =
     v\<lparr>dlp_entries :=
         dec_pointer zero_entryplus3 (dec_chain zero_entryplus3 dec_entryplus3_members) (dlp_entries v) (dlp_entries w)\<rparr>"

interpretation dirlistplus3: xdr_codec xdr_dirlistplus3 wire_dirlistplus3 valid_dirlistplus3 dec_dirlistplus3
  unfolding xdr_dirlistplus3_def
  by (rule xdr_codec_eqI,
      (rule xdr_codec_intros xdr_codec_pointer entryplus3.list_codec | (simp; fail))+)
     (auto simp: wire_dirlistplus3_def valid_dirlistplus3_def dec_dirlistplus3_def)

declare dirlistplus3.xdr_codec_axioms [xdr_codec_intros] dirlistplus3.xdr_safe_axioms [xdr_safe_intros]

end
