(* ===== verification/Nfs_Res.thy ===== *)
theory Nfs_Res
  imports Nfs_Args Nfs_Dirlist
begin

text \<open>
  The results of the NFS procedures: structures, XDR routines and wire formats.
  Where the failure arm of a result union is an initial part of the success arm,
  the two overlap in memory member by member and one record of the members
  stands for the union; otherwise the record has both arms.
\<close>

section \<open>Attribute and handle procedures\<close>

record GETATTR3res_u =
  getar_obj_attributes :: fattr3

record GETATTR3res =
  getar_status :: nfsstat3
  getar_u :: GETATTR3res_u

definition xdr_GETATTR3resok :: "GETATTR3res_u xdrproc" where
  "xdr_GETATTR3resok = xdr_all
     [xdr_field getar_obj_attributes getar_obj_attributes_update xdr_fattr3]"

definition xdr_GETATTR3res :: "GETATTR3res xdrproc" where
  "xdr_GETATTR3res = xdr_tagged getar_status getar_status_update xdr_nfsstat3
     (\<lambda>t. if t = NFS3_OK then xdr_field getar_u getar_u_update xdr_GETATTR3resok
          else xdr_ok)"

definition wire_GETATTR3res :: "GETATTR3res \<Rightarrow> byte list" where
  "wire_GETATTR3res v = htonl_bytes (getar_status v) @
     (if getar_status v = NFS3_OK
      then wire_fattr3 (getar_obj_attributes (getar_u v))
      else [])"

definition valid_GETATTR3res :: "GETATTR3res \<Rightarrow> bool" where
  "valid_GETATTR3res v \<longleftrightarrow>
     True"

definition dec_GETATTR3res :: "GETATTR3res \<Rightarrow> GETATTR3res \<Rightarrow> GETATTR3res" where
  "dec_GETATTR3res v w =
     (if getar_status v = NFS3_OK
      then v
      else w\<lparr>getar_status := getar_status v\<rparr>)"

interpretation GETATTR3res: xdr_codec xdr_GETATTR3res wire_GETATTR3res valid_GETATTR3res dec_GETATTR3res
  unfolding xdr_GETATTR3res_def xdr_GETATTR3resok_def xdr_defs
  by (rule xdr_codec_eqI, (rule xdr_codec_intros | (simp; fail))+)
     (auto simp: wire_GETATTR3res_def valid_GETATTR3res_def dec_GETATTR3res_def wire_string_defs)

record SETATTR3res_u =
  setar_obj_wcc :: wcc_data

record SETATTR3res =
  setar_status :: nfsstat3
  setar_u :: SETATTR3res_u

definition xdr_SETATTR3resok :: "SETATTR3res_u xdrproc" where
  "xdr_SETATTR3resok = xdr_all
     [xdr_field setar_obj_wcc setar_obj_wcc_update xdr_wcc_data]"

definition xdr_SETATTR3resfail :: "SETATTR3res_u xdrproc" where
  "xdr_SETATTR3resfail = xdr_all
     [xdr_field setar_obj_wcc setar_obj_wcc_update xdr_wcc_data]"

definition xdr_SETATTR3res :: "SETATTR3res xdrproc" where
  "xdr_SETATTR3res = xdr_tagged setar_status setar_status_update xdr_nfsstat3
     (\<lambda>t. if t = NFS3_OK then xdr_field setar_u setar_u_update xdr_SETATTR3resok
          else xdr_field setar_u setar_u_update xdr_SETATTR3resfail)"

definition wire_SETATTR3res :: "SETATTR3res \<Rightarrow> byte list" where
  "wire_SETATTR3res v = htonl_bytes (setar_status v) @
     (if setar_status v = NFS3_OK
      then wire_wcc_data (setar_obj_wcc (setar_u v))
      else wire_wcc_data (setar_obj_wcc (setar_u v)))"

definition valid_SETATTR3res :: "SETATTR3res \<Rightarrow> bool" where
  "valid_SETATTR3res v \<longleftrightarrow>
     valid_wcc_data (setar_obj_wcc (setar_u v))"

definition dec_SETATTR3res :: "SETATTR3res \<Rightarrow> SETATTR3res \<Rightarrow> SETATTR3res" where
  "dec_SETATTR3res v w =
     (if setar_status v = NFS3_OK
      then v\<lparr>setar_u := (setar_u v)\<lparr>setar_obj_wcc := dec_wcc_data (setar_obj_wcc (setar_u v)) (setar_obj_wcc (setar_u w))\<rparr>\<rparr>
      else w\<lparr>setar_status := setar_status v,
             setar_u := (setar_u w)\<lparr>setar_obj_wcc := dec_wcc_data (setar_obj_wcc (setar_u v)) (setar_obj_wcc (setar_u w))\<rparr>\<rparr>)"

interpretation SETATTR3res: xdr_codec xdr_SETATTR3res wire_SETATTR3res valid_SETATTR3res dec_SETATTR3res
  unfolding xdr_SETATTR3res_def xdr_SETATTR3resok_def xdr_SETATTR3resfail_def xdr_defs
  by (rule xdr_codec_eqI, (rule xdr_codec_intros | (simp; fail))+)
     (auto simp: wire_SETATTR3res_def valid_SETATTR3res_def dec_SETATTR3res_def wire_string_defs)

record LOOKUP3resok =
  lookok_object :: nfs_fh3
  lookok_obj_attributes :: post_op_attr
  lookok_dir_attributes :: post_op_attr

record LOOKUP3resfail =
  lookfail_dir_attributes :: post_op_attr

record LOOKUP3res =
  lookr_status :: nfsstat3
  lookr_resok :: LOOKUP3resok
  lookr_resfail :: LOOKUP3resfail

definition xdr_LOOKUP3resok :: "LOOKUP3resok xdrproc" where
  "xdr_LOOKUP3resok = xdr_all
     [xdr_field lookok_object lookok_object_update xdr_nfs_fh3,
      xdr_field lookok_obj_attributes lookok_obj_attributes_update xdr_post_op_attr,
      xdr_field lookok_dir_attributes lookok_dir_attributes_update xdr_post_op_attr]"

definition xdr_LOOKUP3resfail :: "LOOKUP3resfail xdrproc" where
  "xdr_LOOKUP3resfail = xdr_all
     [xdr_field lookfail_dir_attributes lookfail_dir_attributes_update xdr_post_op_attr]"

definition xdr_LOOKUP3res :: "LOOKUP3res xdrproc" where
  "xdr_LOOKUP3res = xdr_tagged lookr_status lookr_status_update xdr_nfsstat3
     (\<lambda>t. if t = NFS3_OK then xdr_field lookr_resok lookr_resok_update xdr_LOOKUP3resok
          else xdr_field lookr_resfail lookr_resfail_update xdr_LOOKUP3resfail)"

definition wire_LOOKUP3res :: "LOOKUP3res \<Rightarrow> byte list" where
  "wire_LOOKUP3res v = htonl_bytes (lookr_status v) @
     (if lookr_status v = NFS3_OK
      then wire_nfs_fh3 (lookok_object (lookr_resok v)) @
        wire_post_op_attr (lookok_obj_attributes (lookr_resok v)) @
        wire_post_op_attr (lookok_dir_attributes (lookr_resok v))
      else wire_post_op_attr (lookfail_dir_attributes (lookr_resfail v)))"

definition valid_LOOKUP3res :: "LOOKUP3res \<Rightarrow> bool" where
  "valid_LOOKUP3res v \<longleftrightarrow>
     (if lookr_status v = NFS3_OK
      then valid_nfs_fh3 (lookok_object (lookr_resok v)) \<and>
         is_bool (poa_attributes_follow (lookok_obj_attributes (lookr_resok v))) \<and>
         is_bool (poa_attributes_follow (lookok_dir_attributes (lookr_resok v)))
      else is_bool (poa_attributes_follow (lookfail_dir_attributes (lookr_resfail v))))"

definition dec_LOOKUP3res :: "LOOKUP3res \<Rightarrow> LOOKUP3res \<Rightarrow> LOOKUP3res" where
  "dec_LOOKUP3res v w =
     (if lookr_status v = NFS3_OK
      then w\<lparr>lookr_status := lookr_status v,
             lookr_resok := (lookr_resok v)\<lparr>lookok_object := dec_nfs_fh3 (lookok_object (lookr_resok v)) (lookok_object (lookr_resok w)),
               lookok_obj_attributes := dec_post_op_attr (lookok_obj_attributes (lookr_resok v)) (lookok_obj_attributes (lookr_resok w)),
               lookok_dir_attributes := dec_post_op_attr (lookok_dir_attributes (lookr_resok v)) (lookok_dir_attributes (lookr_resok w))\<rparr>\<rparr>
      else w\<lparr>lookr_status := lookr_status v,
             lookr_resfail := (lookr_resfail v)\<lparr>lookfail_dir_attributes := dec_post_op_attr (lookfail_dir_attributes (lookr_resfail v)) (lookfail_dir_attributes (lookr_resfail w))\<rparr>\<rparr>)"

interpretation LOOKUP3res: xdr_codec xdr_LOOKUP3res wire_LOOKUP3res valid_LOOKUP3res dec_LOOKUP3res
  unfolding xdr_LOOKUP3res_def xdr_LOOKUP3resok_def xdr_LOOKUP3resfail_def xdr_defs
  by (rule xdr_codec_eqI, (rule xdr_codec_intros | (simp; fail))+)
     (auto simp: wire_LOOKUP3res_def valid_LOOKUP3res_def dec_LOOKUP3res_def wire_string_defs)

record ACCESS3res_u =
  accr_obj_attributes :: post_op_attr
  accr_access :: uint32

record ACCESS3res =
  accr_status :: nfsstat3
  accr_u :: ACCESS3res_u

definition xdr_ACCESS3resok :: "ACCESS3res_u xdrproc" where
  "xdr_ACCESS3resok = xdr_all
     [xdr_field accr_obj_attributes accr_obj_attributes_update xdr_post_op_attr,
      xdr_field accr_access accr_access_update xdr_nfs3_uint32]"

definition xdr_ACCESS3resfail :: "ACCESS3res_u xdrproc" where
  "xdr_ACCESS3resfail = xdr_all
     [xdr_field accr_obj_attributes accr_obj_attributes_update xdr_post_op_attr]"

definition xdr_ACCESS3res :: "ACCESS3res xdrproc" where
  "xdr_ACCESS3res = xdr_tagged accr_status accr_status_update xdr_nfsstat3
     (\<lambda>t. if t = NFS3_OK then xdr_field accr_u accr_u_update xdr_ACCESS3resok
          else xdr_field accr_u accr_u_update xdr_ACCESS3resfail)"

definition wire_ACCESS3res :: "ACCESS3res \<Rightarrow> byte list" where
  "wire_ACCESS3res v = htonl_bytes (accr_status v) @
     (if accr_status v = NFS3_OK
      then wire_post_op_attr (accr_obj_attributes (accr_u v)) @
        htonl_bytes (accr_access (accr_u v))
      else wire_post_op_attr (accr_obj_attributes (accr_u v)))"

definition valid_ACCESS3res :: "ACCESS3res \<Rightarrow> bool" where
  "valid_ACCESS3res v \<longleftrightarrow>
     is_bool (poa_attributes_follow (accr_obj_attributes (accr_u v)))"

definition dec_ACCESS3res :: "ACCESS3res \<Rightarrow> ACCESS3res \<Rightarrow> ACCESS3res" where
  "dec_ACCESS3res v w =
     (if accr_status v = NFS3_OK
      then v\<lparr>accr_u := (accr_u v)\<lparr>accr_obj_attributes := dec_post_op_attr (accr_obj_attributes (accr_u v)) (accr_obj_attributes (accr_u w))\<rparr>\<rparr>
      else w\<lparr>accr_status := accr_status v,
             accr_u := (accr_u w)\<lparr>accr_obj_attributes := dec_post_op_attr (accr_obj_attributes (accr_u v)) (accr_obj_attributes (accr_u w))\<rparr>\<rparr>)"

interpretation ACCESS3res: xdr_codec xdr_ACCESS3res wire_ACCESS3res valid_ACCESS3res dec_ACCESS3res
  unfolding xdr_ACCESS3res_def xdr_ACCESS3resok_def xdr_ACCESS3resfail_def xdr_defs
  by (rule xdr_codec_eqI, (rule xdr_codec_intros | (simp; fail))+)
     (auto simp: wire_ACCESS3res_def valid_ACCESS3res_def dec_ACCESS3res_def wire_string_defs)

record READLINK3res_u =
  rlnkr_symlink_attributes :: post_op_attr
  rlnkr_data :: nfspath3

record READLINK3res =
  rlnkr_status :: nfsstat3
  rlnkr_u :: READLINK3res_u

definition xdr_READLINK3resok :: "READLINK3res_u xdrproc" where
  "xdr_READLINK3resok = xdr_all
     [xdr_field rlnkr_symlink_attributes rlnkr_symlink_attributes_update xdr_post_op_attr,
      xdr_field rlnkr_data rlnkr_data_update xdr_nfspath3]"

definition xdr_READLINK3resfail :: "READLINK3res_u xdrproc" where
  "xdr_READLINK3resfail = xdr_all
     [xdr_field rlnkr_symlink_attributes rlnkr_symlink_attributes_update xdr_post_op_attr]"

definition xdr_READLINK3res :: "READLINK3res xdrproc" where
  "xdr_READLINK3res = xdr_tagged rlnkr_status rlnkr_status_update xdr_nfsstat3
     (\<lambda>t. if t = NFS3_OK then xdr_field rlnkr_u rlnkr_u_update xdr_READLINK3resok
          else xdr_field rlnkr_u rlnkr_u_update xdr_READLINK3resfail)"

definition wire_READLINK3res :: "READLINK3res \<Rightarrow> byte list" where
  "wire_READLINK3res v = htonl_bytes (rlnkr_status v) @
     (if rlnkr_status v = NFS3_OK
      then wire_post_op_attr (rlnkr_symlink_attributes (rlnkr_u v)) @
        wire_filename3 (rlnkr_data (rlnkr_u v))
      else wire_post_op_attr (rlnkr_symlink_attributes (rlnkr_u v)))"

definition valid_READLINK3res :: "READLINK3res \<Rightarrow> bool" where
  "valid_READLINK3res v \<longleftrightarrow>
     (if rlnkr_status v = NFS3_OK
      then is_bool (poa_attributes_follow (rlnkr_symlink_attributes (rlnkr_u v))) \<and>
         valid_filename3 (rlnkr_data (rlnkr_u v))
      else is_bool (poa_attributes_follow (rlnkr_symlink_attributes (rlnkr_u v))))"

definition dec_READLINK3res :: "READLINK3res \<Rightarrow> READLINK3res \<Rightarrow> READLINK3res" where
  "dec_READLINK3res v w =
     (if rlnkr_status v = NFS3_OK
      then v\<lparr>rlnkr_u := (rlnkr_u v)\<lparr>rlnkr_symlink_attributes := dec_post_op_attr (rlnkr_symlink_attributes (rlnkr_u v)) (rlnkr_symlink_attributes (rlnkr_u w)),
           rlnkr_data := string_dec (rlnkr_data (rlnkr_u v)) (rlnkr_data (rlnkr_u w))\<rparr>\<rparr>
      else w\<lparr>rlnkr_status := rlnkr_status v,
             rlnkr_u := (rlnkr_u w)\<lparr>rlnkr_symlink_attributes := dec_post_op_attr (rlnkr_symlink_attributes (rlnkr_u v)) (rlnkr_symlink_attributes (rlnkr_u w))\<rparr>\<rparr>)"

interpretation READLINK3res: xdr_codec xdr_READLINK3res wire_READLINK3res valid_READLINK3res dec_READLINK3res
  unfolding xdr_READLINK3res_def xdr_READLINK3resok_def xdr_READLINK3resfail_def xdr_defs
  by (rule xdr_codec_eqI, (rule xdr_codec_intros | (simp; fail))+)
     (auto simp: wire_READLINK3res_def valid_READLINK3res_def dec_READLINK3res_def wire_string_defs)

section \<open>Data procedures\<close>

record READ3res_u =
  rdr_file_attributes :: post_op_attr
  rdr_count :: uint32
  rdr_eof :: bool_t
  rdr_data :: io_data

record READ3res =
  rdr_status :: nfsstat3
  rdr_u :: READ3res_u

definition xdr_READ3resok :: "READ3res_u xdrproc" where
  "xdr_READ3resok = xdr_all
     [xdr_field rdr_file_attributes rdr_file_attributes_update xdr_post_op_attr,
      xdr_field rdr_count rdr_count_update xdr_count3,
      xdr_field rdr_eof rdr_eof_update xdr_bool,
      xdr_field rdr_data rdr_data_update xdr_io_data]"

definition xdr_READ3resfail :: "READ3res_u xdrproc" where
  "xdr_READ3resfail = xdr_all
     [xdr_field rdr_file_attributes rdr_file_attributes_update xdr_post_op_attr]"

definition xdr_READ3res :: "READ3res xdrproc" where
  "xdr_READ3res = xdr_tagged rdr_status rdr_status_update xdr_nfsstat3
     (\<lambda>t. if t = NFS3_OK then xdr_field rdr_u rdr_u_update xdr_READ3resok
          else xdr_field rdr_u rdr_u_update xdr_READ3resfail)"

definition wire_READ3res :: "READ3res \<Rightarrow> byte list" where
  "wire_READ3res v = htonl_bytes (rdr_status v) @
     (if rdr_status v = NFS3_OK
      then wire_post_op_attr (rdr_file_attributes (rdr_u v)) @
        htonl_bytes (rdr_count (rdr_u v)) @ wire_bool (rdr_eof (rdr_u v)) @
        wire_io_data (rdr_data (rdr_u v))
      else wire_post_op_attr (rdr_file_attributes (rdr_u v)))"

definition valid_READ3res :: "READ3res \<Rightarrow> bool" where
  "valid_READ3res v \<longleftrightarrow>
     (if rdr_status v = NFS3_OK
      then is_bool (poa_attributes_follow (rdr_file_attributes (rdr_u v))) \<and>
         is_bool (rdr_eof (rdr_u v)) \<and> valid_io_data (rdr_data (rdr_u v))
      else is_bool (poa_attributes_follow (rdr_file_attributes (rdr_u v))))"

definition dec_READ3res :: "READ3res \<Rightarrow> READ3res \<Rightarrow> READ3res" where
  "dec_READ3res v w =
     (if rdr_status v = NFS3_OK
      then v\<lparr>rdr_u := (rdr_u v)\<lparr>rdr_file_attributes := dec_post_op_attr (rdr_file_attributes (rdr_u v)) (rdr_file_attributes (rdr_u w)),
           rdr_data := dec_io_data (rdr_data (rdr_u v)) (rdr_data (rdr_u w))\<rparr>\<rparr>
      else w\<lparr>rdr_status := rdr_status v,
             rdr_u := (rdr_u w)\<lparr>rdr_file_attributes := dec_post_op_attr (rdr_file_attributes (rdr_u v)) (rdr_file_attributes (rdr_u w))\<rparr>\<rparr>)"

interpretation READ3res: xdr_codec xdr_READ3res wire_READ3res valid_READ3res dec_READ3res
  unfolding xdr_READ3res_def xdr_READ3resok_def xdr_READ3resfail_def xdr_defs
  by (rule xdr_codec_eqI, (rule xdr_codec_intros | (simp; fail))+)
     (auto simp: wire_READ3res_def valid_READ3res_def dec_READ3res_def wire_string_defs)

record WRITE3res_u =
  wrr_file_wcc :: wcc_data
  wrr_count :: uint32
  wrr_committed :: stable_how
  wrr_verf :: writeverf3

record WRITE3res =
  wrr_status :: nfsstat3
  wrr_u :: WRITE3res_u

definition xdr_WRITE3resok :: "WRITE3res_u xdrproc" where
  "xdr_WRITE3resok = xdr_all
     [xdr_field wrr_file_wcc wrr_file_wcc_update xdr_wcc_data,
      xdr_field wrr_count wrr_count_update xdr_count3,
      xdr_field wrr_committed wrr_committed_update xdr_stable_how,
      xdr_field wrr_verf wrr_verf_update xdr_writeverf3]"

definition xdr_WRITE3resfail :: "WRITE3res_u xdrproc" where
  "xdr_WRITE3resfail = xdr_all
     [xdr_field wrr_file_wcc wrr_file_wcc_update xdr_wcc_data]"

definition xdr_WRITE3res :: "WRITE3res xdrproc" where
  "xdr_WRITE3res = xdr_tagged wrr_status wrr_status_update xdr_nfsstat3
     (\<lambda>t. if t = NFS3_OK then xdr_field wrr_u wrr_u_update xdr_WRITE3resok
          else xdr_field wrr_u wrr_u_update xdr_WRITE3resfail)"

definition wire_WRITE3res :: "WRITE3res \<Rightarrow> byte list" where
  "wire_WRITE3res v = htonl_bytes (wrr_status v) @
     (if wrr_status v = NFS3_OK
      then wire_wcc_data (wrr_file_wcc (wrr_u v)) @ htonl_bytes (wrr_count (wrr_u v)) @
        htonl_bytes (wrr_committed (wrr_u v)) @ wire_opaque (wrr_verf (wrr_u v))
      else wire_wcc_data (wrr_file_wcc (wrr_u v)))"

definition valid_WRITE3res :: "WRITE3res \<Rightarrow> bool" where
  "valid_WRITE3res v \<longleftrightarrow>
     (if wrr_status v = NFS3_OK
      then valid_wcc_data (wrr_file_wcc (wrr_u v)) \<and> length (wrr_verf (wrr_u v)) = 8
      else valid_wcc_data (wrr_file_wcc (wrr_u v)))"

definition dec_WRITE3res :: "WRITE3res \<Rightarrow> WRITE3res \<Rightarrow> WRITE3res" where
  "dec_WRITE3res v w =
     (if wrr_status v = NFS3_OK
      then v\<lparr>wrr_u := (wrr_u v)\<lparr>wrr_file_wcc := dec_wcc_data (wrr_file_wcc (wrr_u v)) (wrr_file_wcc (wrr_u w)),
           wrr_verf := overwrite 0 (wrr_verf (wrr_u v)) (wrr_verf (wrr_u w))\<rparr>\<rparr>
      else w\<lparr>wrr_status := wrr_status v,
             wrr_u := (wrr_u w)\<lparr>wrr_file_wcc := dec_wcc_data (wrr_file_wcc (wrr_u v)) (wrr_file_wcc (wrr_u w))\<rparr>\<rparr>)"

interpretation WRITE3res: xdr_codec xdr_WRITE3res wire_WRITE3res valid_WRITE3res dec_WRITE3res
  unfolding xdr_WRITE3res_def xdr_WRITE3resok_def xdr_WRITE3resfail_def xdr_defs
  by (rule xdr_codec_eqI, (rule xdr_codec_intros | (simp; fail))+)
     (auto simp: wire_WRITE3res_def valid_WRITE3res_def dec_WRITE3res_def wire_string_defs)

record COMMIT3res_u =
  comr_file_wcc :: wcc_data
  comr_verf :: writeverf3

record COMMIT3res =
  comr_status :: nfsstat3
  comr_u :: COMMIT3res_u

definition xdr_COMMIT3resok :: "COMMIT3res_u xdrproc" where
  "xdr_COMMIT3resok = xdr_all
     [xdr_field comr_file_wcc comr_file_wcc_update xdr_wcc_data,
      xdr_field comr_verf comr_verf_update xdr_writeverf3]"

definition xdr_COMMIT3resfail :: "COMMIT3res_u xdrproc" where
  "xdr_COMMIT3resfail = xdr_all
     [xdr_field comr_file_wcc comr_file_wcc_update xdr_wcc_data]"

definition xdr_COMMIT3res :: "COMMIT3res xdrproc" where
  "xdr_COMMIT3res = xdr_tagged comr_status comr_status_update xdr_nfsstat3
     (\<lambda>t. if t = NFS3_OK then xdr_field comr_u comr_u_update xdr_COMMIT3resok
          else xdr_field comr_u comr_u_update xdr_COMMIT3resfail)"

definition wire_COMMIT3res :: "COMMIT3res \<Rightarrow> byte list" where
  "wire_COMMIT3res v = htonl_bytes (comr_status v) @
     (if comr_status v = NFS3_OK
      then wire_wcc_data (comr_file_wcc (comr_u v)) @ wire_opaque (comr_verf (comr_u v))
      else wire_wcc_data (comr_file_wcc (comr_u v)))"

definition valid_COMMIT3res :: "COMMIT3res \<Rightarrow> bool" where
  "valid_COMMIT3res v \<longleftrightarrow>
     (if comr_status v = NFS3_OK
      then valid_wcc_data (comr_file_wcc (comr_u v)) \<and> length (comr_verf (comr_u v)) = 8
      else valid_wcc_data (comr_file_wcc (comr_u v)))"

definition dec_COMMIT3res :: "COMMIT3res \<Rightarrow> COMMIT3res \<Rightarrow> COMMIT3res" where
  "dec_COMMIT3res v w =
     (if comr_status v = NFS3_OK
      then v\<lparr>comr_u := (comr_u v)\<lparr>comr_file_wcc := dec_wcc_data (comr_file_wcc (comr_u v)) (comr_file_wcc (comr_u w)),
           comr_verf := overwrite 0 (comr_verf (comr_u v)) (comr_verf (comr_u w))\<rparr>\<rparr>
      else w\<lparr>comr_status := comr_status v,
             comr_u := (comr_u w)\<lparr>comr_file_wcc := dec_wcc_data (comr_file_wcc (comr_u v)) (comr_file_wcc (comr_u w))\<rparr>\<rparr>)"

interpretation COMMIT3res: xdr_codec xdr_COMMIT3res wire_COMMIT3res valid_COMMIT3res dec_COMMIT3res
  unfolding xdr_COMMIT3res_def xdr_COMMIT3resok_def xdr_COMMIT3resfail_def xdr_defs
  by (rule xdr_codec_eqI, (rule xdr_codec_intros | (simp; fail))+)
     (auto simp: wire_COMMIT3res_def valid_COMMIT3res_def dec_COMMIT3res_def wire_string_defs)

section \<open>Procedures that create and remove\<close>

record CREATE3resok =
  creok_obj :: post_op_fh3
  creok_obj_attributes :: post_op_attr
  creok_dir_wcc :: wcc_data

record CREATE3resfail =
  crefail_dir_wcc :: wcc_data

record CREATE3res =
  crer_status :: nfsstat3
  crer_resok :: CREATE3resok
  crer_resfail :: CREATE3resfail

definition xdr_CREATE3resok :: "CREATE3resok xdrproc" where
  "xdr_CREATE3resok = xdr_all
     [xdr_field creok_obj creok_obj_update xdr_post_op_fh3,
      xdr_field creok_obj_attributes creok_obj_attributes_update xdr_post_op_attr,
      xdr_field creok_dir_wcc creok_dir_wcc_update xdr_wcc_data]"

definition xdr_CREATE3resfail :: "CREATE3resfail xdrproc" where
  "xdr_CREATE3resfail = xdr_all
     [xdr_field crefail_dir_wcc crefail_dir_wcc_update xdr_wcc_data]"

definition xdr_CREATE3res :: "CREATE3res xdrproc" where
  "xdr_CREATE3res = xdr_tagged crer_status crer_status_update xdr_nfsstat3
     (\<lambda>t. if t = NFS3_OK then xdr_field crer_resok crer_resok_update xdr_CREATE3resok
          else xdr_field crer_resfail crer_resfail_update xdr_CREATE3resfail)"

definition wire_CREATE3res :: "CREATE3res \<Rightarrow> byte list" where
  "wire_CREATE3res v = htonl_bytes (crer_status v) @
     (if crer_status v = NFS3_OK
      then wire_post_op_fh3 (creok_obj (crer_resok v)) @
        wire_post_op_attr (creok_obj_attributes (crer_resok v)) @
        wire_wcc_data (creok_dir_wcc (crer_resok v))
      else wire_wcc_data (crefail_dir_wcc (crer_resfail v)))"

definition valid_CREATE3res :: "CREATE3res \<Rightarrow> bool" where
  "valid_CREATE3res v \<longleftrightarrow>
     (if crer_status v = NFS3_OK
      then valid_post_op_fh3 (creok_obj (crer_resok v)) \<and>
         is_bool (poa_attributes_follow (creok_obj_attributes (crer_resok v))) \<and>
         valid_wcc_data (creok_dir_wcc (crer_resok v))
      else valid_wcc_data (crefail_dir_wcc (crer_resfail v)))"

definition dec_CREATE3res :: "CREATE3res \<Rightarrow> CREATE3res \<Rightarrow> CREATE3res" where
  "dec_CREATE3res v w =
     (if crer_status v = NFS3_OK
      then w\<lparr>crer_status := crer_status v,
             crer_resok := (crer_resok v)\<lparr>creok_obj := dec_post_op_fh3 (creok_obj (crer_resok v)) (creok_obj (crer_resok w)),
               creok_obj_attributes := dec_post_op_attr (creok_obj_attributes (crer_resok v)) (creok_obj_attributes (crer_resok w)),
               creok_dir_wcc := dec_wcc_data (creok_dir_wcc (crer_resok v)) (creok_dir_wcc (crer_resok w))\<rparr>\<rparr>
      else w\<lparr>crer_status := crer_status v,
             crer_resfail := (crer_resfail v)\<lparr>crefail_dir_wcc := dec_wcc_data (crefail_dir_wcc (crer_resfail v)) (crefail_dir_wcc (crer_resfail w))\<rparr>\<rparr>)"

interpretation CREATE3res: xdr_codec xdr_CREATE3res wire_CREATE3res valid_CREATE3res dec_CREATE3res
  unfolding xdr_CREATE3res_def xdr_CREATE3resok_def xdr_CREATE3resfail_def xdr_defs
  by (rule xdr_codec_eqI, (rule xdr_codec_intros | (simp; fail))+)
     (auto simp: wire_CREATE3res_def valid_CREATE3res_def dec_CREATE3res_def wire_string_defs)

text \<open>MKDIR, SYMLINK and MKNOD return structures with the same members as CREATE.\<close>

type_synonym MKDIR3resok = CREATE3resok

type_synonym MKDIR3resfail = CREATE3resfail

record MKDIR3res =
  mkdr_status :: nfsstat3
  mkdr_resok :: MKDIR3resok
  mkdr_resfail :: MKDIR3resfail

definition xdr_MKDIR3resok :: "MKDIR3resok xdrproc" where
  "xdr_MKDIR3resok = xdr_all
     [xdr_field creok_obj creok_obj_update xdr_post_op_fh3,
      xdr_field creok_obj_attributes creok_obj_attributes_update xdr_post_op_attr,
      xdr_field creok_dir_wcc creok_dir_wcc_update xdr_wcc_data]"

definition xdr_MKDIR3resfail :: "MKDIR3resfail xdrproc" where
  "xdr_MKDIR3resfail = xdr_all
     [xdr_field crefail_dir_wcc crefail_dir_wcc_update xdr_wcc_data]"

definition xdr_MKDIR3res :: "MKDIR3res xdrproc" where
  "xdr_MKDIR3res = xdr_tagged mkdr_status mkdr_status_update xdr_nfsstat3
     (\<lambda>t. if t = NFS3_OK then xdr_field mkdr_resok mkdr_resok_update xdr_MKDIR3resok
          else xdr_field mkdr_resfail mkdr_resfail_update xdr_MKDIR3resfail)"

definition wire_MKDIR3res :: "MKDIR3res \<Rightarrow> byte list" where
  "wire_MKDIR3res v = htonl_bytes (mkdr_status v) @
     (if mkdr_status v = NFS3_OK
      then wire_post_op_fh3 (creok_obj (mkdr_resok v)) @
        wire_post_op_attr (creok_obj_attributes (mkdr_resok v)) @
        wire_wcc_data (creok_dir_wcc (mkdr_resok v))
      else wire_wcc_data (crefail_dir_wcc (mkdr_resfail v)))"

definition valid_MKDIR3res :: "MKDIR3res \<Rightarrow> bool" where
  "valid_MKDIR3res v \<longleftrightarrow>
     (if mkdr_status v = NFS3_OK
      then valid_post_op_fh3 (creok_obj (mkdr_resok v)) \<and>
         is_bool (poa_attributes_follow (creok_obj_attributes (mkdr_resok v))) \<and>
         valid_wcc_data (creok_dir_wcc (mkdr_resok v))
      else valid_wcc_data (crefail_dir_wcc (mkdr_resfail v)))"

definition dec_MKDIR3res :: "MKDIR3res \<Rightarrow> MKDIR3res \<Rightarrow> MKDIR3res" where
  "dec_MKDIR3res v w =
     (if mkdr_status v = NFS3_OK
      then w\<lparr>mkdr_status := mkdr_status v,
             mkdr_resok := (mkdr_resok v)\<lparr>creok_obj := dec_post_op_fh3 (creok_obj (mkdr_resok v)) (creok_obj (mkdr_resok w)),
               creok_obj_attributes := dec_post_op_attr (creok_obj_attributes (mkdr_resok v)) (creok_obj_attributes (mkdr_resok w)),
               creok_dir_wcc := dec_wcc_data (creok_dir_wcc (mkdr_resok v)) (creok_dir_wcc (mkdr_resok w))\<rparr>\<rparr>
      else w\<lparr>mkdr_status := mkdr_status v,
             mkdr_resfail := (mkdr_resfail v)\<lparr>crefail_dir_wcc := dec_wcc_data (crefail_dir_wcc (mkdr_resfail v)) (crefail_dir_wcc (mkdr_resfail w))\<rparr>\<rparr>)"

interpretation MKDIR3res: xdr_codec xdr_MKDIR3res wire_MKDIR3res valid_MKDIR3res dec_MKDIR3res
  unfolding xdr_MKDIR3res_def xdr_MKDIR3resok_def xdr_MKDIR3resfail_def xdr_defs
  by (rule xdr_codec_eqI, (rule xdr_codec_intros | (simp; fail))+)
     (auto simp: wire_MKDIR3res_def valid_MKDIR3res_def dec_MKDIR3res_def wire_string_defs)

type_synonym SYMLINK3resok = CREATE3resok

type_synonym SYMLINK3resfail = CREATE3resfail

record SYMLINK3res =
  symr_status :: nfsstat3
  symr_resok :: SYMLINK3resok
  symr_resfail :: SYMLINK3resfail

definition xdr_SYMLINK3resok :: "SYMLINK3resok xdrproc" where
  "xdr_SYMLINK3resok = xdr_all
     [xdr_field creok_obj creok_obj_update xdr_post_op_fh3,
      xdr_field creok_obj_attributes creok_obj_attributes_update xdr_post_op_attr,
      xdr_field creok_dir_wcc creok_dir_wcc_update xdr_wcc_data]"

definition xdr_SYMLINK3resfail :: "SYMLINK3resfail xdrproc" where
  "xdr_SYMLINK3resfail = xdr_all
     [xdr_field crefail_dir_wcc crefail_dir_wcc_update xdr_wcc_data]"

definition xdr_SYMLINK3res :: "SYMLINK3res xdrproc" where
  "xdr_SYMLINK3res = xdr_tagged symr_status symr_status_update xdr_nfsstat3
     (\<lambda>t. if t = NFS3_OK then xdr_field symr_resok symr_resok_update xdr_SYMLINK3resok
          else xdr_field symr_resfail symr_resfail_update xdr_SYMLINK3resfail)"

definition wire_SYMLINK3res :: "SYMLINK3res \<Rightarrow> byte list" where
  "wire_SYMLINK3res v = htonl_bytes (symr_status v) @
     (if symr_status v = NFS3_OK
      then wire_post_op_fh3 (creok_obj (symr_resok v)) @
        wire_post_op_attr (creok_obj_attributes (symr_resok v)) @
        wire_wcc_data (creok_dir_wcc (symr_resok v))
      else wire_wcc_data (crefail_dir_wcc (symr_resfail v)))"

definition valid_SYMLINK3res :: "SYMLINK3res \<Rightarrow> bool" where
  "valid_SYMLINK3res v \<longleftrightarrow>
     (if symr_status v = NFS3_OK
      then valid_post_op_fh3 (creok_obj (symr_resok v)) \<and>
         is_bool (poa_attributes_follow (creok_obj_attributes (symr_resok v))) \<and>
         valid_wcc_data (creok_dir_wcc (symr_resok v))
      else valid_wcc_data (crefail_dir_wcc (symr_resfail v)))"

definition dec_SYMLINK3res :: "SYMLINK3res \<Rightarrow> SYMLINK3res \<Rightarrow> SYMLINK3res" where
  "dec_SYMLINK3res v w =
     (if symr_status v = NFS3_OK
      then w\<lparr>symr_status := symr_status v,
             symr_resok := (symr_resok v)\<lparr>creok_obj := dec_post_op_fh3 (creok_obj (symr_resok v)) (creok_obj (symr_resok w)),
               creok_obj_attributes := dec_post_op_attr (creok_obj_attributes (symr_resok v)) (creok_obj_attributes (symr_resok w)),
               creok_dir_wcc := dec_wcc_data (creok_dir_wcc (symr_resok v)) (creok_dir_wcc (symr_resok w))\<rparr>\<rparr>
      else w\<lparr>symr_status := symr_status v,
             symr_resfail := (symr_resfail v)\<lparr>crefail_dir_wcc := dec_wcc_data (crefail_dir_wcc (symr_resfail v)) (crefail_dir_wcc (symr_resfail w))\<rparr>\<rparr>)"

interpretation SYMLINK3res: xdr_codec xdr_SYMLINK3res wire_SYMLINK3res valid_SYMLINK3res dec_SYMLINK3res
  unfolding xdr_SYMLINK3res_def xdr_SYMLINK3resok_def xdr_SYMLINK3resfail_def xdr_defs
  by (rule xdr_codec_eqI, (rule xdr_codec_intros | (simp; fail))+)
     (auto simp: wire_SYMLINK3res_def valid_SYMLINK3res_def dec_SYMLINK3res_def wire_string_defs)

type_synonym MKNOD3resok = CREATE3resok

type_synonym MKNOD3resfail = CREATE3resfail

record MKNOD3res =
  mknr_status :: nfsstat3
  mknr_resok :: MKNOD3resok
  mknr_resfail :: MKNOD3resfail

definition xdr_MKNOD3resok :: "MKNOD3resok xdrproc" where
  "xdr_MKNOD3resok = xdr_all
     [xdr_field creok_obj creok_obj_update xdr_post_op_fh3,
      xdr_field creok_obj_attributes creok_obj_attributes_update xdr_post_op_attr,
      xdr_field creok_dir_wcc creok_dir_wcc_update xdr_wcc_data]"

definition xdr_MKNOD3resfail :: "MKNOD3resfail xdrproc" where
  "xdr_MKNOD3resfail = xdr_all
     [xdr_field crefail_dir_wcc crefail_dir_wcc_update xdr_wcc_data]"

definition xdr_MKNOD3res :: "MKNOD3res xdrproc" where
  "xdr_MKNOD3res = xdr_tagged mknr_status mknr_status_update xdr_nfsstat3
     (\<lambda>t. if t = NFS3_OK then xdr_field mknr_resok mknr_resok_update xdr_MKNOD3resok
          else xdr_field mknr_resfail mknr_resfail_update xdr_MKNOD3resfail)"

definition wire_MKNOD3res :: "MKNOD3res \<Rightarrow> byte list" where
  "wire_MKNOD3res v = htonl_bytes (mknr_status v) @
     (if mknr_status v = NFS3_OK
      then wire_post_op_fh3 (creok_obj (mknr_resok v)) @
        wire_post_op_attr (creok_obj_attributes (mknr_resok v)) @
        wire_wcc_data (creok_dir_wcc (mknr_resok v))
      else wire_wcc_data (crefail_dir_wcc (mknr_resfail v)))"

definition valid_MKNOD3res :: "MKNOD3res \<Rightarrow> bool" where
  "valid_MKNOD3res v \<longleftrightarrow>
     (if mknr_status v = NFS3_OK
      then valid_post_op_fh3 (creok_obj (mknr_resok v)) \<and>
         is_bool (poa_attributes_follow (creok_obj_attributes (mknr_resok v))) \<and>
         valid_wcc_data (creok_dir_wcc (mknr_resok v))
      else valid_wcc_data (crefail_dir_wcc (mknr_resfail v)))"

definition dec_MKNOD3res :: "MKNOD3res \<Rightarrow> MKNOD3res \<Rightarrow> MKNOD3res" where
  "dec_MKNOD3res v w =
     (if mknr_status v = NFS3_OK
      then w\<lparr>mknr_status := mknr_status v,
             mknr_resok := (mknr_resok v)\<lparr>creok_obj := dec_post_op_fh3 (creok_obj (mknr_resok v)) (creok_obj (mknr_resok w)),
               creok_obj_attributes := dec_post_op_attr (creok_obj_attributes (mknr_resok v)) (creok_obj_attributes (mknr_resok w)),
               creok_dir_wcc := dec_wcc_data (creok_dir_wcc (mknr_resok v)) (creok_dir_wcc (mknr_resok w))\<rparr>\<rparr>
      else w\<lparr>mknr_status := mknr_status v,
             mknr_resfail := (mknr_resfail v)\<lparr>crefail_dir_wcc := dec_wcc_data (crefail_dir_wcc (mknr_resfail v)) (crefail_dir_wcc (mknr_resfail w))\<rparr>\<rparr>)"

interpretation MKNOD3res: xdr_codec xdr_MKNOD3res wire_MKNOD3res valid_MKNOD3res dec_MKNOD3res
  unfolding xdr_MKNOD3res_def xdr_MKNOD3resok_def xdr_MKNOD3resfail_def xdr_defs
  by (rule xdr_codec_eqI, (rule xdr_codec_intros | (simp; fail))+)
     (auto simp: wire_MKNOD3res_def valid_MKNOD3res_def dec_MKNOD3res_def wire_string_defs)

record REMOVE3res_u =
  remr_dir_wcc :: wcc_data

record REMOVE3res =
  remr_status :: nfsstat3
  remr_u :: REMOVE3res_u

definition xdr_REMOVE3resok :: "REMOVE3res_u xdrproc" where
  "xdr_REMOVE3resok = xdr_all
     [xdr_field remr_dir_wcc remr_dir_wcc_update xdr_wcc_data]"

definition xdr_REMOVE3resfail :: "REMOVE3res_u xdrproc" where
  "xdr_REMOVE3resfail = xdr_all
     [xdr_field remr_dir_wcc remr_dir_wcc_update xdr_wcc_data]"

definition xdr_REMOVE3res :: "REMOVE3res xdrproc" where
  "xdr_REMOVE3res = xdr_tagged remr_status remr_status_update xdr_nfsstat3
     (\<lambda>t. if t = NFS3_OK then xdr_field remr_u remr_u_update xdr_REMOVE3resok
          else xdr_field remr_u remr_u_update xdr_REMOVE3resfail)"

definition wire_REMOVE3res :: "REMOVE3res \<Rightarrow> byte list" where
  "wire_REMOVE3res v = htonl_bytes (remr_status v) @
     (if remr_status v = NFS3_OK
      then wire_wcc_data (remr_dir_wcc (remr_u v))
      else wire_wcc_data (remr_dir_wcc (remr_u v)))"

definition valid_REMOVE3res :: "REMOVE3res \<Rightarrow> bool" where
  "valid_REMOVE3res v \<longleftrightarrow>
     valid_wcc_data (remr_dir_wcc (remr_u v))"

definition dec_REMOVE3res :: "REMOVE3res \<Rightarrow> REMOVE3res \<Rightarrow> REMOVE3res" where
  "dec_REMOVE3res v w =
     (if remr_status v = NFS3_OK
      then v\<lparr>remr_u := (remr_u v)\<lparr>remr_dir_wcc := dec_wcc_data (remr_dir_wcc (remr_u v)) (remr_dir_wcc (remr_u w))\<rparr>\<rparr>
      else w\<lparr>remr_status := remr_status v,
             remr_u := (remr_u w)\<lparr>remr_dir_wcc := dec_wcc_data (remr_dir_wcc (remr_u v)) (remr_dir_wcc (remr_u w))\<rparr>\<rparr>)"

interpretation REMOVE3res: xdr_codec xdr_REMOVE3res wire_REMOVE3res valid_REMOVE3res dec_REMOVE3res
  unfolding xdr_REMOVE3res_def xdr_REMOVE3resok_def xdr_REMOVE3resfail_def xdr_defs
  by (rule xdr_codec_eqI, (rule xdr_codec_intros | (simp; fail))+)
     (auto simp: wire_REMOVE3res_def valid_REMOVE3res_def dec_REMOVE3res_def wire_string_defs)

record RMDIR3res_u =
  rmdr_dir_wcc :: wcc_data

record RMDIR3res =
  rmdr_status :: nfsstat3
  rmdr_u :: RMDIR3res_u

definition xdr_RMDIR3resok :: "RMDIR3res_u xdrproc" where
  "xdr_RMDIR3resok = xdr_all
     [xdr_field rmdr_dir_wcc rmdr_dir_wcc_update xdr_wcc_data]"

definition xdr_RMDIR3resfail :: "RMDIR3res_u xdrproc" where
  "xdr_RMDIR3resfail = xdr_all
     [xdr_field rmdr_dir_wcc rmdr_dir_wcc_update xdr_wcc_data]"

definition xdr_RMDIR3res :: "RMDIR3res xdrproc" where
  "xdr_RMDIR3res = xdr_tagged rmdr_status rmdr_status_update xdr_nfsstat3
     (\<lambda>t. if t = NFS3_OK then xdr_field rmdr_u rmdr_u_update xdr_RMDIR3resok
          else xdr_field rmdr_u rmdr_u_update xdr_RMDIR3resfail)"

definition wire_RMDIR3res :: "RMDIR3res \<Rightarrow> byte list" where
  "wire_RMDIR3res v = htonl_bytes (rmdr_status v) @
     (if rmdr_status v = NFS3_OK
      then wire_wcc_data (rmdr_dir_wcc (rmdr_u v))
      else wire_wcc_data (rmdr_dir_wcc (rmdr_u v)))"

definition valid_RMDIR3res :: "RMDIR3res \<Rightarrow> bool" where
  "valid_RMDIR3res v \<longleftrightarrow>
     valid_wcc_data (rmdr_dir_wcc (rmdr_u v))"

definition dec_RMDIR3res :: "RMDIR3res \<Rightarrow> RMDIR3res \<Rightarrow> RMDIR3res" where
  "dec_RMDIR3res v w =
     (if rmdr_status v = NFS3_OK
      then v\<lparr>rmdr_u := (rmdr_u v)\<lparr>rmdr_dir_wcc := dec_wcc_data (rmdr_dir_wcc (rmdr_u v)) (rmdr_dir_wcc (rmdr_u w))\<rparr>\<rparr>
      else w\<lparr>rmdr_status := rmdr_status v,
             rmdr_u := (rmdr_u w)\<lparr>rmdr_dir_wcc := dec_wcc_data (rmdr_dir_wcc (rmdr_u v)) (rmdr_dir_wcc (rmdr_u w))\<rparr>\<rparr>)"

interpretation RMDIR3res: xdr_codec xdr_RMDIR3res wire_RMDIR3res valid_RMDIR3res dec_RMDIR3res
  unfolding xdr_RMDIR3res_def xdr_RMDIR3resok_def xdr_RMDIR3resfail_def xdr_defs
  by (rule xdr_codec_eqI, (rule xdr_codec_intros | (simp; fail))+)
     (auto simp: wire_RMDIR3res_def valid_RMDIR3res_def dec_RMDIR3res_def wire_string_defs)

record RENAME3res_u =
  renr_fromdir_wcc :: wcc_data
  renr_todir_wcc :: wcc_data

record RENAME3res =
  renr_status :: nfsstat3
  renr_u :: RENAME3res_u

definition xdr_RENAME3resok :: "RENAME3res_u xdrproc" where
  "xdr_RENAME3resok = xdr_all
     [xdr_field renr_fromdir_wcc renr_fromdir_wcc_update xdr_wcc_data,
      xdr_field renr_todir_wcc renr_todir_wcc_update xdr_wcc_data]"

definition xdr_RENAME3resfail :: "RENAME3res_u xdrproc" where
  "xdr_RENAME3resfail = xdr_all
     [xdr_field renr_fromdir_wcc renr_fromdir_wcc_update xdr_wcc_data,
      xdr_field renr_todir_wcc renr_todir_wcc_update xdr_wcc_data]"

definition xdr_RENAME3res :: "RENAME3res xdrproc" where
  "xdr_RENAME3res = xdr_tagged renr_status renr_status_update xdr_nfsstat3
     (\<lambda>t. if t = NFS3_OK then xdr_field renr_u renr_u_update xdr_RENAME3resok
          else xdr_field renr_u renr_u_update xdr_RENAME3resfail)"

definition wire_RENAME3res :: "RENAME3res \<Rightarrow> byte list" where
  "wire_RENAME3res v = htonl_bytes (renr_status v) @
     (if renr_status v = NFS3_OK
      then wire_wcc_data (renr_fromdir_wcc (renr_u v)) @
        wire_wcc_data (renr_todir_wcc (renr_u v))
      else wire_wcc_data (renr_fromdir_wcc (renr_u v)) @
        wire_wcc_data (renr_todir_wcc (renr_u v)))"

definition valid_RENAME3res :: "RENAME3res \<Rightarrow> bool" where
  "valid_RENAME3res v \<longleftrightarrow>
     valid_wcc_data (renr_fromdir_wcc (renr_u v)) \<and>
     valid_wcc_data (renr_todir_wcc (renr_u v))"

definition dec_RENAME3res :: "RENAME3res \<Rightarrow> RENAME3res \<Rightarrow> RENAME3res" where
  "dec_RENAME3res v w =
     (if renr_status v = NFS3_OK
      then v\<lparr>renr_u := (renr_u v)\<lparr>renr_fromdir_wcc := dec_wcc_data (renr_fromdir_wcc (renr_u v)) (renr_fromdir_wcc (renr_u w)),
           renr_todir_wcc := dec_wcc_data (renr_todir_wcc (renr_u v)) (renr_todir_wcc (renr_u w))\<rparr>\<rparr>
      else w\<lparr>renr_status := renr_status v,
             renr_u := (renr_u w)\<lparr>renr_fromdir_wcc := dec_wcc_data (renr_fromdir_wcc (renr_u v)) (renr_fromdir_wcc (renr_u w)),
           renr_todir_wcc := dec_wcc_data (renr_todir_wcc (renr_u v)) (renr_todir_wcc (renr_u w))\<rparr>\<rparr>)"

interpretation RENAME3res: xdr_codec xdr_RENAME3res wire_RENAME3res valid_RENAME3res dec_RENAME3res
  unfolding xdr_RENAME3res_def xdr_RENAME3resok_def xdr_RENAME3resfail_def xdr_defs
  by (rule xdr_codec_eqI, (rule xdr_codec_intros | (simp; fail))+)
     (auto simp: wire_RENAME3res_def valid_RENAME3res_def dec_RENAME3res_def wire_string_defs)

record LINK3res_u =
  lnkr_file_attributes :: post_op_attr
  lnkr_linkdir_wcc :: wcc_data

record LINK3res =
  lnkr_status :: nfsstat3
  lnkr_u :: LINK3res_u

definition xdr_LINK3resok :: "LINK3res_u xdrproc" where
  "xdr_LINK3resok = xdr_all
     [xdr_field lnkr_file_attributes lnkr_file_attributes_update xdr_post_op_attr,
      xdr_field lnkr_linkdir_wcc lnkr_linkdir_wcc_update xdr_wcc_data]"

definition xdr_LINK3resfail :: "LINK3res_u xdrproc" where
  "xdr_LINK3resfail = xdr_all
     [xdr_field lnkr_file_attributes lnkr_file_attributes_update xdr_post_op_attr,
      xdr_field lnkr_linkdir_wcc lnkr_linkdir_wcc_update xdr_wcc_data]"

definition xdr_LINK3res :: "LINK3res xdrproc" where
  "xdr_LINK3res = xdr_tagged lnkr_status lnkr_status_update xdr_nfsstat3
     (\<lambda>t. if t = NFS3_OK then xdr_field lnkr_u lnkr_u_update xdr_LINK3resok
          else xdr_field lnkr_u lnkr_u_update xdr_LINK3resfail)"

definition wire_LINK3res :: "LINK3res \<Rightarrow> byte list" where
  "wire_LINK3res v = htonl_bytes (lnkr_status v) @
     (if lnkr_status v = NFS3_OK
      then wire_post_op_attr (lnkr_file_attributes (lnkr_u v)) @
        wire_wcc_data (lnkr_linkdir_wcc (lnkr_u v))
      else wire_post_op_attr (lnkr_file_attributes (lnkr_u v)) @
        wire_wcc_data (lnkr_linkdir_wcc (lnkr_u v)))"

definition valid_LINK3res :: "LINK3res \<Rightarrow> bool" where
  "valid_LINK3res v \<longleftrightarrow>
     is_bool (poa_attributes_follow (lnkr_file_attributes (lnkr_u v))) \<and>
     valid_wcc_data (lnkr_linkdir_wcc (lnkr_u v))"

definition dec_LINK3res :: "LINK3res \<Rightarrow> LINK3res \<Rightarrow> LINK3res" where
  "dec_LINK3res v w =
     (if lnkr_status v = NFS3_OK
      then v\<lparr>lnkr_u := (lnkr_u v)\<lparr>lnkr_file_attributes := dec_post_op_attr (lnkr_file_attributes (lnkr_u v)) (lnkr_file_attributes (lnkr_u w)),
           lnkr_linkdir_wcc := dec_wcc_data (lnkr_linkdir_wcc (lnkr_u v)) (lnkr_linkdir_wcc (lnkr_u w))\<rparr>\<rparr>
      else w\<lparr>lnkr_status := lnkr_status v,
             lnkr_u := (lnkr_u w)\<lparr>lnkr_file_attributes := dec_post_op_attr (lnkr_file_attributes (lnkr_u v)) (lnkr_file_attributes (lnkr_u w)),
           lnkr_linkdir_wcc := dec_wcc_data (lnkr_linkdir_wcc (lnkr_u v)) (lnkr_linkdir_wcc (lnkr_u w))\<rparr>\<rparr>)"

interpretation LINK3res: xdr_codec xdr_LINK3res wire_LINK3res valid_LINK3res dec_LINK3res
  unfolding xdr_LINK3res_def xdr_LINK3resok_def xdr_LINK3resfail_def xdr_defs
  by (rule xdr_codec_eqI, (rule xdr_codec_intros | (simp; fail))+)
     (auto simp: wire_LINK3res_def valid_LINK3res_def dec_LINK3res_def wire_string_defs)

section \<open>Directory and file system procedures\<close>

record READDIR3res_u =
  rdirr_dir_attributes :: post_op_attr
  rdirr_cookieverf :: cookieverf3
  rdirr_reply :: dirlist3

record READDIR3res =
  rdirr_status :: nfsstat3
  rdirr_u :: READDIR3res_u

definition xdr_READDIR3resok :: "READDIR3res_u xdrproc" where
  "xdr_READDIR3resok = xdr_all
     [xdr_field rdirr_dir_attributes rdirr_dir_attributes_update xdr_post_op_attr,
      xdr_field rdirr_cookieverf rdirr_cookieverf_update xdr_cookieverf3,
      xdr_field rdirr_reply rdirr_reply_update xdr_dirlist3]"

definition xdr_READDIR3resfail :: "READDIR3res_u xdrproc" where
  "xdr_READDIR3resfail = xdr_all
     [xdr_field rdirr_dir_attributes rdirr_dir_attributes_update xdr_post_op_attr]"

definition xdr_READDIR3res :: "READDIR3res xdrproc" where
  "xdr_READDIR3res = xdr_tagged rdirr_status rdirr_status_update xdr_nfsstat3
     (\<lambda>t. if t = NFS3_OK then xdr_field rdirr_u rdirr_u_update xdr_READDIR3resok
          else xdr_field rdirr_u rdirr_u_update xdr_READDIR3resfail)"

definition wire_READDIR3res :: "READDIR3res \<Rightarrow> byte list" where
  "wire_READDIR3res v = htonl_bytes (rdirr_status v) @
     (if rdirr_status v = NFS3_OK
      then wire_post_op_attr (rdirr_dir_attributes (rdirr_u v)) @
        wire_opaque (rdirr_cookieverf (rdirr_u v)) @ wire_dirlist3 (rdirr_reply (rdirr_u v))
      else wire_post_op_attr (rdirr_dir_attributes (rdirr_u v)))"

definition valid_READDIR3res :: "READDIR3res \<Rightarrow> bool" where
  "valid_READDIR3res v \<longleftrightarrow>
     (if rdirr_status v = NFS3_OK
      then is_bool (poa_attributes_follow (rdirr_dir_attributes (rdirr_u v))) \<and>
         length (rdirr_cookieverf (rdirr_u v)) = 8 \<and>
         valid_dirlist3 (rdirr_reply (rdirr_u v))
      else is_bool (poa_attributes_follow (rdirr_dir_attributes (rdirr_u v))))"

definition dec_READDIR3res :: "READDIR3res \<Rightarrow> READDIR3res \<Rightarrow> READDIR3res" where
  "dec_READDIR3res v w =
     (if rdirr_status v = NFS3_OK
      then v\<lparr>rdirr_u := (rdirr_u v)\<lparr>rdirr_dir_attributes := dec_post_op_attr (rdirr_dir_attributes (rdirr_u v)) (rdirr_dir_attributes (rdirr_u w)),
           rdirr_cookieverf := overwrite 0 (rdirr_cookieverf (rdirr_u v)) (rdirr_cookieverf (rdirr_u w)),
           rdirr_reply := dec_dirlist3 (rdirr_reply (rdirr_u v)) (rdirr_reply (rdirr_u w))\<rparr>\<rparr>
      else w\<lparr>rdirr_status := rdirr_status v,
             rdirr_u := (rdirr_u w)\<lparr>rdirr_dir_attributes := dec_post_op_attr (rdirr_dir_attributes (rdirr_u v)) (rdirr_dir_attributes (rdirr_u w))\<rparr>\<rparr>)"

interpretation READDIR3res: xdr_codec xdr_READDIR3res wire_READDIR3res valid_READDIR3res dec_READDIR3res
  unfolding xdr_READDIR3res_def xdr_READDIR3resok_def xdr_READDIR3resfail_def xdr_defs
  by (rule xdr_codec_eqI, (rule xdr_codec_intros | (simp; fail))+)
     (auto simp: wire_READDIR3res_def valid_READDIR3res_def dec_READDIR3res_def wire_string_defs)

record READDIRPLUS3res_u =
  rdpr_dir_attributes :: post_op_attr
  rdpr_cookieverf :: cookieverf3
  rdpr_reply :: dirlistplus3

record READDIRPLUS3res =
  rdpr_status :: nfsstat3
  rdpr_u :: READDIRPLUS3res_u

definition xdr_READDIRPLUS3resok :: "READDIRPLUS3res_u xdrproc" where
  "xdr_READDIRPLUS3resok = xdr_all
     [xdr_field rdpr_dir_attributes rdpr_dir_attributes_update xdr_post_op_attr,
      xdr_field rdpr_cookieverf rdpr_cookieverf_update xdr_cookieverf3,
      xdr_field rdpr_reply rdpr_reply_update xdr_dirlistplus3]"

definition xdr_READDIRPLUS3resfail :: "READDIRPLUS3res_u xdrproc" where
  "xdr_READDIRPLUS3resfail = xdr_all
     [xdr_field rdpr_dir_attributes rdpr_dir_attributes_update xdr_post_op_attr]"

definition xdr_READDIRPLUS3res :: "READDIRPLUS3res xdrproc" where
  "xdr_READDIRPLUS3res = xdr_tagged rdpr_status rdpr_status_update xdr_nfsstat3
     (\<lambda>t. if t = NFS3_OK then xdr_field rdpr_u rdpr_u_update xdr_READDIRPLUS3resok
          else xdr_field rdpr_u rdpr_u_update xdr_READDIRPLUS3resfail)"

definition wire_READDIRPLUS3res :: "READDIRPLUS3res \<Rightarrow> byte list" where
  "wire_READDIRPLUS3res v = htonl_bytes (rdpr_status v) @
     (if rdpr_status v = NFS3_OK
      then wire_post_op_attr (rdpr_dir_attributes (rdpr_u v)) @
        wire_opaque (rdpr_cookieverf (rdpr_u v)) @ wire_dirlistplus3 (rdpr_reply (rdpr_u v))
      else wire_post_op_attr (rdpr_dir_attributes (rdpr_u v)))"

definition valid_READDIRPLUS3res :: "READDIRPLUS3res \<Rightarrow> bool" where
  "valid_READDIRPLUS3res v \<longleftrightarrow>
     (if rdpr_status v = NFS3_OK
      then is_bool (poa_attributes_follow (rdpr_dir_attributes (rdpr_u v))) \<and>
         length (rdpr_cookieverf (rdpr_u v)) = 8 \<and>
         valid_dirlistplus3 (rdpr_reply (rdpr_u v))
      else is_bool (poa_attributes_follow (rdpr_dir_attributes (rdpr_u v))))"

definition dec_READDIRPLUS3res :: "READDIRPLUS3res \<Rightarrow> READDIRPLUS3res \<Rightarrow> READDIRPLUS3res" where
  "dec_READDIRPLUS3res v w =
     (if rdpr_status v = NFS3_OK
      then v\<lparr>rdpr_u := (rdpr_u v)\<lparr>rdpr_dir_attributes := dec_post_op_attr (rdpr_dir_attributes (rdpr_u v)) (rdpr_dir_attributes (rdpr_u w)),
           rdpr_cookieverf := overwrite 0 (rdpr_cookieverf (rdpr_u v)) (rdpr_cookieverf (rdpr_u w)),
           rdpr_reply := dec_dirlistplus3 (rdpr_reply (rdpr_u v)) (rdpr_reply (rdpr_u w))\<rparr>\<rparr>
      else w\<lparr>rdpr_status := rdpr_status v,
             rdpr_u := (rdpr_u w)\<lparr>rdpr_dir_attributes := dec_post_op_attr (rdpr_dir_attributes (rdpr_u v)) (rdpr_dir_attributes (rdpr_u w))\<rparr>\<rparr>)"

interpretation READDIRPLUS3res: xdr_codec xdr_READDIRPLUS3res wire_READDIRPLUS3res valid_READDIRPLUS3res dec_READDIRPLUS3res
  unfolding xdr_READDIRPLUS3res_def xdr_READDIRPLUS3resok_def xdr_READDIRPLUS3resfail_def xdr_defs
  by (rule xdr_codec_eqI, (rule xdr_codec_intros | (simp; fail))+)
     (auto simp: wire_READDIRPLUS3res_def valid_READDIRPLUS3res_def dec_READDIRPLUS3res_def wire_string_defs)

record FSSTAT3res_u =
  fstr_obj_attributes :: post_op_attr
  fstr_tbytes :: uint64
  fstr_fbytes :: uint64
  fstr_abytes :: uint64
  fstr_tfiles :: uint64
  fstr_ffiles :: uint64
  fstr_afiles :: uint64
  fstr_invarsec :: uint32

record FSSTAT3res =
  fstr_status :: nfsstat3
  fstr_u :: FSSTAT3res_u

definition xdr_FSSTAT3resok :: "FSSTAT3res_u xdrproc" where
  "xdr_FSSTAT3resok = xdr_all
     [xdr_field fstr_obj_attributes fstr_obj_attributes_update xdr_post_op_attr,
      xdr_field fstr_tbytes fstr_tbytes_update xdr_size3,
      xdr_field fstr_fbytes fstr_fbytes_update xdr_size3,
      xdr_field fstr_abytes fstr_abytes_update xdr_size3,
      xdr_field fstr_tfiles fstr_tfiles_update xdr_size3,
      xdr_field fstr_ffiles fstr_ffiles_update xdr_size3,
      xdr_field fstr_afiles fstr_afiles_update xdr_size3,
      xdr_field fstr_invarsec fstr_invarsec_update xdr_nfs3_uint32]"

definition xdr_FSSTAT3resfail :: "FSSTAT3res_u xdrproc" where
  "xdr_FSSTAT3resfail = xdr_all
     [xdr_field fstr_obj_attributes fstr_obj_attributes_update xdr_post_op_attr]"

definition xdr_FSSTAT3res :: "FSSTAT3res xdrproc" where
  "xdr_FSSTAT3res = xdr_tagged fstr_status fstr_status_update xdr_nfsstat3
     (\<lambda>t. if t = NFS3_OK then xdr_field fstr_u fstr_u_update xdr_FSSTAT3resok
          else xdr_field fstr_u fstr_u_update xdr_FSSTAT3resfail)"

definition wire_FSSTAT3res :: "FSSTAT3res \<Rightarrow> byte list" where
  "wire_FSSTAT3res v = htonl_bytes (fstr_status v) @
     (if fstr_status v = NFS3_OK
      then wire_post_op_attr (fstr_obj_attributes (fstr_u v)) @
        wire_uint64 (fstr_tbytes (fstr_u v)) @ wire_uint64 (fstr_fbytes (fstr_u v)) @
        wire_uint64 (fstr_abytes (fstr_u v)) @ wire_uint64 (fstr_tfiles (fstr_u v)) @
        wire_uint64 (fstr_ffiles (fstr_u v)) @ wire_uint64 (fstr_afiles (fstr_u v)) @
        htonl_bytes (fstr_invarsec (fstr_u v))
      else wire_post_op_attr (fstr_obj_attributes (fstr_u v)))"

definition valid_FSSTAT3res :: "FSSTAT3res \<Rightarrow> bool" where
  "valid_FSSTAT3res v \<longleftrightarrow>
     is_bool (poa_attributes_follow (fstr_obj_attributes (fstr_u v)))"

definition dec_FSSTAT3res :: "FSSTAT3res \<Rightarrow> FSSTAT3res \<Rightarrow> FSSTAT3res" where
  "dec_FSSTAT3res v w =
     (if fstr_status v = NFS3_OK
      then v\<lparr>fstr_u := (fstr_u v)\<lparr>fstr_obj_attributes := dec_post_op_attr (fstr_obj_attributes (fstr_u v)) (fstr_obj_attributes (fstr_u w))\<rparr>\<rparr>
      else w\<lparr>fstr_status := fstr_status v,
             fstr_u := (fstr_u w)\<lparr>fstr_obj_attributes := dec_post_op_attr (fstr_obj_attributes (fstr_u v)) (fstr_obj_attributes (fstr_u w))\<rparr>\<rparr>)"

interpretation FSSTAT3res: xdr_codec xdr_FSSTAT3res wire_FSSTAT3res valid_FSSTAT3res dec_FSSTAT3res
  unfolding xdr_FSSTAT3res_def xdr_FSSTAT3resok_def xdr_FSSTAT3resfail_def xdr_defs
  by (rule xdr_codec_eqI, (rule xdr_codec_intros | (simp; fail))+)
     (auto simp: wire_FSSTAT3res_def valid_FSSTAT3res_def dec_FSSTAT3res_def wire_string_defs)

record FSINFO3res_u =
  fsir_obj_attributes :: post_op_attr
  fsir_rtmax :: uint32
  fsir_rtpref :: uint32
  fsir_rtmult :: uint32
  fsir_wtmax :: uint32
  fsir_wtpref :: uint32
  fsir_wtmult :: uint32
  fsir_dtpref :: uint32
  fsir_maxfilesize :: uint64
  fsir_time_delta :: nfstime3
  fsir_properties :: uint32

record FSINFO3res =
  fsir_status :: nfsstat3
  fsir_u :: FSINFO3res_u

definition xdr_FSINFO3resok :: "FSINFO3res_u xdrproc" where
  "xdr_FSINFO3resok = xdr_all
     [xdr_field fsir_obj_attributes fsir_obj_attributes_update xdr_post_op_attr,
      xdr_field fsir_rtmax fsir_rtmax_update xdr_nfs3_uint32,
      xdr_field fsir_rtpref fsir_rtpref_update xdr_nfs3_uint32,
      xdr_field fsir_rtmult fsir_rtmult_update xdr_nfs3_uint32,
      xdr_field fsir_wtmax fsir_wtmax_update xdr_nfs3_uint32,
      xdr_field fsir_wtpref fsir_wtpref_update xdr_nfs3_uint32,
      xdr_field fsir_wtmult fsir_wtmult_update xdr_nfs3_uint32,
      xdr_field fsir_dtpref fsir_dtpref_update xdr_nfs3_uint32,
      xdr_field fsir_maxfilesize fsir_maxfilesize_update xdr_size3,
      xdr_field fsir_time_delta fsir_time_delta_update xdr_nfstime3,
      xdr_field fsir_properties fsir_properties_update xdr_nfs3_uint32]"

definition xdr_FSINFO3resfail :: "FSINFO3res_u xdrproc" where
  "xdr_FSINFO3resfail = xdr_all
     [xdr_field fsir_obj_attributes fsir_obj_attributes_update xdr_post_op_attr]"

definition xdr_FSINFO3res :: "FSINFO3res xdrproc" where
  "xdr_FSINFO3res = xdr_tagged fsir_status fsir_status_update xdr_nfsstat3
     (\<lambda>t. if t = NFS3_OK then xdr_field fsir_u fsir_u_update xdr_FSINFO3resok
          else xdr_field fsir_u fsir_u_update xdr_FSINFO3resfail)"

definition wire_FSINFO3res :: "FSINFO3res \<Rightarrow> byte list" where
  "wire_FSINFO3res v = htonl_bytes (fsir_status v) @
     (if fsir_status v = NFS3_OK
      then wire_post_op_attr (fsir_obj_attributes (fsir_u v)) @
        htonl_bytes (fsir_rtmax (fsir_u v)) @ htonl_bytes (fsir_rtpref (fsir_u v)) @
        htonl_bytes (fsir_rtmult (fsir_u v)) @ htonl_bytes (fsir_wtmax (fsir_u v)) @
        htonl_bytes (fsir_wtpref (fsir_u v)) @ htonl_bytes (fsir_wtmult (fsir_u v)) @
        htonl_bytes (fsir_dtpref (fsir_u v)) @ wire_uint64 (fsir_maxfilesize (fsir_u v)) @
        wire_nfstime3 (fsir_time_delta (fsir_u v)) @
        htonl_bytes (fsir_properties (fsir_u v))
      else wire_post_op_attr (fsir_obj_attributes (fsir_u v)))"

definition valid_FSINFO3res :: "FSINFO3res \<Rightarrow> bool" where
  "valid_FSINFO3res v \<longleftrightarrow>
     is_bool (poa_attributes_follow (fsir_obj_attributes (fsir_u v)))"

definition dec_FSINFO3res :: "FSINFO3res \<Rightarrow> FSINFO3res \<Rightarrow> FSINFO3res" where
  "dec_FSINFO3res v w =
     (if fsir_status v = NFS3_OK
      then v\<lparr>fsir_u := (fsir_u v)\<lparr>fsir_obj_attributes := dec_post_op_attr (fsir_obj_attributes (fsir_u v)) (fsir_obj_attributes (fsir_u w))\<rparr>\<rparr>
      else w\<lparr>fsir_status := fsir_status v,
             fsir_u := (fsir_u w)\<lparr>fsir_obj_attributes := dec_post_op_attr (fsir_obj_attributes (fsir_u v)) (fsir_obj_attributes (fsir_u w))\<rparr>\<rparr>)"

interpretation FSINFO3res: xdr_codec xdr_FSINFO3res wire_FSINFO3res valid_FSINFO3res dec_FSINFO3res
  unfolding xdr_FSINFO3res_def xdr_FSINFO3resok_def xdr_FSINFO3resfail_def xdr_defs
  by (rule xdr_codec_eqI, (rule xdr_codec_intros | (simp; fail))+)
     (auto simp: wire_FSINFO3res_def valid_FSINFO3res_def dec_FSINFO3res_def wire_string_defs)

record PATHCONF3res_u =
  pcr_obj_attributes :: post_op_attr
  pcr_linkmax :: uint32
  pcr_name_max :: uint32
  pcr_no_trunc :: bool_t
  pcr_chown_restricted :: bool_t
  pcr_case_insensitive :: bool_t
  pcr_case_preserving :: bool_t

record PATHCONF3res =
  pcr_status :: nfsstat3
  pcr_u :: PATHCONF3res_u

definition xdr_PATHCONF3resok :: "PATHCONF3res_u xdrproc" where
  "xdr_PATHCONF3resok = xdr_all
     [xdr_field pcr_obj_attributes pcr_obj_attributes_update xdr_post_op_attr,
      xdr_field pcr_linkmax pcr_linkmax_update xdr_nfs3_uint32,
      xdr_field pcr_name_max pcr_name_max_update xdr_nfs3_uint32,
      xdr_field pcr_no_trunc pcr_no_trunc_update xdr_bool,
      xdr_field pcr_chown_restricted pcr_chown_restricted_update xdr_bool,
      xdr_field pcr_case_insensitive pcr_case_insensitive_update xdr_bool,
      xdr_field pcr_case_preserving pcr_case_preserving_update xdr_bool]"

definition xdr_PATHCONF3resfail :: "PATHCONF3res_u xdrproc" where
  "xdr_PATHCONF3resfail = xdr_all
     [xdr_field pcr_obj_attributes pcr_obj_attributes_update xdr_post_op_attr]"

definition xdr_PATHCONF3res :: "PATHCONF3res xdrproc" where
  "xdr_PATHCONF3res = xdr_tagged pcr_status pcr_status_update xdr_nfsstat3
     (\<lambda>t. if t = NFS3_OK then xdr_field pcr_u pcr_u_update xdr_PATHCONF3resok
          else xdr_field pcr_u pcr_u_update xdr_PATHCONF3resfail)"

definition wire_PATHCONF3res :: "PATHCONF3res \<Rightarrow> byte list" where
  "wire_PATHCONF3res v = htonl_bytes (pcr_status v) @
     (if pcr_status v = NFS3_OK
      then wire_post_op_attr (pcr_obj_attributes (pcr_u v)) @
        htonl_bytes (pcr_linkmax (pcr_u v)) @ htonl_bytes (pcr_name_max (pcr_u v)) @
        wire_bool (pcr_no_trunc (pcr_u v)) @ wire_bool (pcr_chown_restricted (pcr_u v)) @
        wire_bool (pcr_case_insensitive (pcr_u v)) @
        wire_bool (pcr_case_preserving (pcr_u v))
      else wire_post_op_attr (pcr_obj_attributes (pcr_u v)))"

definition valid_PATHCONF3res :: "PATHCONF3res \<Rightarrow> bool" where
  "valid_PATHCONF3res v \<longleftrightarrow>
     (if pcr_status v = NFS3_OK
      then is_bool (poa_attributes_follow (pcr_obj_attributes (pcr_u v))) \<and>
         is_bool (pcr_no_trunc (pcr_u v)) \<and>
         is_bool (pcr_chown_restricted (pcr_u v)) \<and>
         is_bool (pcr_case_insensitive (pcr_u v)) \<and>
         is_bool (pcr_case_preserving (pcr_u v))
      else is_bool (poa_attributes_follow (pcr_obj_attributes (pcr_u v))))"

definition dec_PATHCONF3res :: "PATHCONF3res \<Rightarrow> PATHCONF3res \<Rightarrow> PATHCONF3res" where
  "dec_PATHCONF3res v w =
     (if pcr_status v = NFS3_OK
      then v\<lparr>pcr_u := (pcr_u v)\<lparr>pcr_obj_attributes := dec_post_op_attr (pcr_obj_attributes (pcr_u v)) (pcr_obj_attributes (pcr_u w))\<rparr>\<rparr>
      else w\<lparr>pcr_status := pcr_status v,
             pcr_u := (pcr_u w)\<lparr>pcr_obj_attributes := dec_post_op_attr (pcr_obj_attributes (pcr_u v)) (pcr_obj_attributes (pcr_u w))\<rparr>\<rparr>)"

interpretation PATHCONF3res: xdr_codec xdr_PATHCONF3res wire_PATHCONF3res valid_PATHCONF3res dec_PATHCONF3res
  unfolding xdr_PATHCONF3res_def xdr_PATHCONF3resok_def xdr_PATHCONF3resfail_def xdr_defs
  by (rule xdr_codec_eqI, (rule xdr_codec_intros | (simp; fail))+)
     (auto simp: wire_PATHCONF3res_def valid_PATHCONF3res_def dec_PATHCONF3res_def wire_string_defs)

lemmas result_codecs [xdr_codec_intros] =
  GETATTR3res.xdr_codec_axioms
  SETATTR3res.xdr_codec_axioms
  LOOKUP3res.xdr_codec_axioms
  ACCESS3res.xdr_codec_axioms
  READLINK3res.xdr_codec_axioms
  READ3res.xdr_codec_axioms
  WRITE3res.xdr_codec_axioms
  COMMIT3res.xdr_codec_axioms
  CREATE3res.xdr_codec_axioms
  MKDIR3res.xdr_codec_axioms
  SYMLINK3res.xdr_codec_axioms
  MKNOD3res.xdr_codec_axioms
  REMOVE3res.xdr_codec_axioms
  RMDIR3res.xdr_codec_axioms
  RENAME3res.xdr_codec_axioms
  LINK3res.xdr_codec_axioms
  READDIR3res.xdr_codec_axioms
  READDIRPLUS3res.xdr_codec_axioms
  FSSTAT3res.xdr_codec_axioms
  FSINFO3res.xdr_codec_axioms
  PATHCONF3res.xdr_codec_axioms

lemmas result_safe [xdr_safe_intros] =
  GETATTR3res.xdr_safe_axioms
  SETATTR3res.xdr_safe_axioms
  LOOKUP3res.xdr_safe_axioms
  ACCESS3res.xdr_safe_axioms
  READLINK3res.xdr_safe_axioms
  READ3res.xdr_safe_axioms
  WRITE3res.xdr_safe_axioms
  COMMIT3res.xdr_safe_axioms
  CREATE3res.xdr_safe_axioms
  MKDIR3res.xdr_safe_axioms
  SYMLINK3res.xdr_safe_axioms
  MKNOD3res.xdr_safe_axioms
  REMOVE3res.xdr_safe_axioms
  RMDIR3res.xdr_safe_axioms
  RENAME3res.xdr_safe_axioms
  LINK3res.xdr_safe_axioms
  READDIR3res.xdr_safe_axioms
  READDIRPLUS3res.xdr_safe_axioms
  FSSTAT3res.xdr_safe_axioms
  FSINFO3res.xdr_safe_axioms
  PATHCONF3res.xdr_safe_axioms

end
