(* ===== verification/Nfs_Attr_Procs.thy ===== *)
theory Nfs_Attr_Procs
  imports Sample_Fs Nfs_Res "HOL-Library.Monad_Syntax"
begin

text \<open>
  The handlers of the procedures that look at files and change attributes:
  NULL, GETATTR, SETATTR, LOOKUP, ACCESS, READLINK, FSSTAT, FSINFO and PATHCONF
  (\<open>src/nfs/nfs_getattr.cpp\<close> and its siblings).  A handler takes the operating
  system, the decoded arguments and the result structure, which \<open>malloc\<close> left
  uninitialised, and returns the state of the system, the result and the return
  code; \<open>None\<close> means that it does not return.  A \<open>goto out\<close> is a return.
\<close>

type_synonym ('os, 'res) reply = "('os \<times> 'res \<times> nfs_req_result) option"

section \<open>NULL\<close>

definition nfs_null :: "'os \<Rightarrow> ('os, unit) reply" where
  "nfs_null s = Some (s, (), NFS_REQ_OK)"

section \<open>GETATTR\<close>

definition nfs3_getattr ::
  "'os posix \<Rightarrow> 'os \<Rightarrow> GETATTR3args \<Rightarrow> GETATTR3res \<Rightarrow> ('os, GETATTR3res) reply" where
  "nfs3_getattr P s getattr_args res =
     (if data_len (geta_object getattr_args) = 0 then Some (s, res, NFS_REQ_ERROR)
      else do {
        file \<leftarrow> get_file_handle (geta_object getattr_args);
        let (status, get_a) = nfs_set_post_op_attr P s file zero_post_op_attr;
        let res = res\<lparr>getar_status := status\<rparr>;
        if status \<noteq> NFS3_OK then Some (s, res, NFS_REQ_ERROR)
        else Some (s, res\<lparr>getar_u := \<lparr>getar_obj_attributes = poa_attributes get_a\<rparr>\<rparr>, NFS_REQ_OK)
      })"

section \<open>SETATTR\<close>

definition wcc_no_attributes :: "wcc_data \<Rightarrow> wcc_data" where
  "wcc_no_attributes w =
     w\<lparr>wcc_before := (wcc_before w)\<lparr>pra_attributes_follow := C_FALSE\<rparr>,
       wcc_after := (wcc_after w)\<lparr>poa_attributes_follow := C_FALSE\<rparr>\<rparr>"

definition nfs3_setattr ::
  "'os posix \<Rightarrow> timespec \<times> timespec \<Rightarrow> 'os \<Rightarrow> SETATTR3args \<Rightarrow> SETATTR3res \<Rightarrow>
   ('os, SETATTR3res) reply" where
  "nfs3_setattr P ts0 s args res =
     (let res = res\<lparr>setar_u := (setar_u res)\<lparr>setar_obj_wcc :=
                      wcc_no_attributes (setar_obj_wcc (setar_u res))\<rparr>\<rparr> in
      if data_len (seta_object args) = 0 then Some (s, res, NFS_REQ_ERROR)
      else do {
        file \<leftarrow> get_file_handle (seta_object args);
        let (status, pre_attr) = get_pre_op_attr P s file zero_pre_op_attr;
        let res = res\<lparr>setar_status := status\<rparr>;
        if status \<noteq> NFS3_OK then Some (s, res, NFS_REQ_ERROR)
        else
        let c = obj_ctime (seta_guard args); pre_ctime = wa_ctime (pra_attributes pre_attr) in
        if check (seta_guard args) \<noteq> 0 \<and>
           (tv_sec c \<noteq> tv_sec pre_ctime \<or> tv_nsec c \<noteq> tv_nsec pre_ctime)
        then Some (s, res\<lparr>setar_status := NFS3ERR_NOT_SYNC\<rparr>, NFS_REQ_OK)
        else
        let (s, set_status) = nfs_set_sattr3 P ts0 s file (seta_new_attributes args);
            (status, wcc) = get_wcc_data P s file pre_attr (setar_obj_wcc (setar_u res));
            res = res\<lparr>setar_status := status, setar_u := \<lparr>setar_obj_wcc = wcc\<rparr>\<rparr> in
        if set_status \<noteq> NFS3_OK then Some (s, res, NFS_REQ_ERROR)
        else Some (s, res, if status \<noteq> NFS3_OK then NFS_REQ_ERROR else NFS_REQ_OK)
      })"

section \<open>LOOKUP\<close>

definition any_file_mode :: mode_t where
  "any_file_mode = S_IFDIR OR S_IFCHR OR S_IFREG OR S_IFLNK OR S_IFIFO OR S_IFBLK OR S_IFSOCK"

definition nfs3_lookup ::
  "'os posix \<Rightarrow> 'os \<Rightarrow> LOOKUP3args \<Rightarrow> LOOKUP3res \<Rightarrow> ('os, LOOKUP3res) reply" where
  "nfs3_lookup P s lookup_args res =
     (if data_len (doa_dir (look_what lookup_args)) = 0 then Some (s, res, NFS_REQ_ERROR)
      else do {
        dir \<leftarrow> get_file_handle (doa_dir (look_what lookup_args));
        if \<not> judge_file_exit P s dir S_IFDIR
        then Some (s, res\<lparr>lookr_status := NFS3ERR_NOTDIR\<rparr>, NFS_REQ_ERROR)
        else do {
          filepath \<leftarrow> join_path dir (doa_name (look_what lookup_args));
          if \<not> judge_file_exit P s filepath any_file_mode
          then
            let (status, dir_attributes) =
                  nfs_set_post_op_attr P s dir (lookfail_dir_attributes (lookr_resfail res))
            in Some (s, res\<lparr>lookr_status := NFS3ERR_NOENT,
                            lookr_resfail := \<lparr>lookfail_dir_attributes = dir_attributes\<rparr>\<rparr>, NFS_REQ_ERROR)
          else do {
            let object = set_file_handle (lookok_object (lookr_resok res)) filepath;
            let (dir_status, dir_attributes) =
                  nfs_set_post_op_attr P s dir (lookok_dir_attributes (lookr_resok res));
            object_path \<leftarrow> get_file_handle object;
            let (status, obj_attributes) =
                  nfs_set_post_op_attr P s object_path (lookok_obj_attributes (lookr_resok res));
            Some (s, res\<lparr>lookr_status := status,
                         lookr_resok := \<lparr>lookok_object = object,
                                         lookok_obj_attributes = obj_attributes,
                                         lookok_dir_attributes = dir_attributes\<rparr>\<rparr>,
                  if dir_status \<noteq> NFS3_OK \<or> status \<noteq> NFS3_OK then NFS_REQ_ERROR else NFS_REQ_OK)
          }
        }
      })"

section \<open>ACCESS\<close>

definition nfs3_access ::
  "'os posix \<Rightarrow> 'os \<Rightarrow> ACCESS3args \<Rightarrow> ACCESS3res \<Rightarrow> ('os, ACCESS3res) reply" where
  "nfs3_access P s access_args res =
     (if data_len (acc_object access_args) = 0 then Some (s, res, NFS_REQ_ERROR)
      else do {
        file \<leftarrow> get_file_handle (acc_object access_args);
        let (status, attributes) = nfs_set_post_op_attr P s file (accr_obj_attributes (accr_u res));
        let res = res\<lparr>accr_status := status,
                      accr_u := (accr_u res)\<lparr>accr_obj_attributes := attributes\<rparr>\<rparr>;
        if status \<noteq> NFS3_OK then Some (s, res, NFS_REQ_ERROR)
        else Some (s, res\<lparr>accr_u := (accr_u res)\<lparr>accr_access := 0xff\<rparr>\<rparr>, NFS_REQ_OK)
      })"

section \<open>READLINK\<close>

text \<open>
  The buffer for the target is allocated with no room, and the target is not
  terminated: a reader of the string goes on in the memory behind it, \<open>beyond\<close>.
\<close>

definition nfs3_readlink ::
  "'os posix \<Rightarrow> byte list \<Rightarrow> 'os \<Rightarrow> READLINK3args \<Rightarrow> READLINK3res \<Rightarrow> ('os, READLINK3res) reply" where
  "nfs3_readlink P beyond s readlink_args res =
     (if data_len (rlnk_symlink readlink_args) = 0 then Some (s, res, NFS_REQ_ERROR)
      else do {
        file \<leftarrow> get_file_handle (rlnk_symlink readlink_args);
        if \<not> judge_file_exit P s file S_IFLNK
        then Some (s, res\<lparr>rlnkr_status := NFS3ERR_NOENT\<rparr>, NFS_REQ_ERROR)
        else
        let (status, pos_a) = nfs_set_post_op_attr P s file zero_post_op_attr;
            res = res\<lparr>rlnkr_status := status\<rparr> in
        if status \<noteq> NFS3_OK then Some (s, res, NFS_REQ_ERROR)
        else
        let (s, target) = sys_readlink P s file (fa_size (poa_attributes pos_a)) in
        (case target of
           None \<Rightarrow>
             Some (s, res\<lparr>rlnkr_status := NFS3ERR_IO,
                          rlnkr_u := \<lparr>rlnkr_symlink_attributes = pos_a, rlnkr_data = Some beyond\<rparr>\<rparr>,
                   NFS_REQ_ERROR)
         | Some bs \<Rightarrow>
             Some (s, res\<lparr>rlnkr_u := \<lparr>rlnkr_symlink_attributes = pos_a,
                                      rlnkr_data = Some (bs @ beyond)\<rparr>\<rparr>, NFS_REQ_OK))
      })"

section \<open>FSSTAT\<close>

definition nfs3_fsstat ::
  "'os posix \<Rightarrow> 'os \<Rightarrow> FSSTAT3args \<Rightarrow> FSSTAT3res \<Rightarrow> ('os, FSSTAT3res) reply" where
  "nfs3_fsstat P s fsstat_args res =
     (if data_len (fst_fsroot fsstat_args) = 0 then Some (s, res, NFS_REQ_ERROR)
      else do {
        file \<leftarrow> get_file_handle (fst_fsroot fsstat_args);
        let (status, attributes) = nfs_set_post_op_attr P s file
              ((fstr_obj_attributes (fstr_u res))\<lparr>poa_attributes_follow := C_FALSE\<rparr>);
        let res = res\<lparr>fstr_status := status,
                      fstr_u := (fstr_u res)\<lparr>fstr_obj_attributes := attributes\<rparr>\<rparr>;
        if status \<noteq> NFS3_OK then Some (s, res, NFS_REQ_ERROR)
        else
        (case sys_statvfs P s file of
           None \<Rightarrow> Some (s, res, NFS_REQ_ERROR)
         | Some b \<Rightarrow>
             Some (s, res\<lparr>fstr_status := NFS3_OK,
                          fstr_u := (fstr_u res)\<lparr>fstr_tbytes := f_frsize b * f_blocks b,
                                                  fstr_fbytes := f_frsize b * f_bfree b,
                                                  fstr_abytes := f_frsize b * f_bavail b,
                                                  fstr_tfiles := f_files b,
                                                  fstr_ffiles := f_ffree b,
                                                  fstr_afiles := f_favail b,
                                                  fstr_invarsec := 0\<rparr>\<rparr>, NFS_REQ_OK))
      })"

section \<open>FSINFO\<close>

definition FSF3_LINK :: uint32 where [nfs_consts]: "FSF3_LINK = 0x0001"
definition FSF3_SYMLINK :: uint32 where [nfs_consts]: "FSF3_SYMLINK = 0x0002"
definition FSF3_HOMOGENEOUS :: uint32 where [nfs_consts]: "FSF3_HOMOGENEOUS = 0x0008"
definition FSF3_CANSETTIME :: uint32 where [nfs_consts]: "FSF3_CANSETTIME = 0x0010"
definition WRITE_READ_MAX :: uint32 where [nfs_consts]: "WRITE_READ_MAX = 64 * 1024 * 1024"
definition READ_DIR_MAX :: uint32 where [nfs_consts]: "READ_DIR_MAX = 1024 * 16"
definition DEV_BSIZE :: uint32 where [nfs_consts]: "DEV_BSIZE = 512"

text \<open>The factors of \<open>MAX_FILE_SIZE\<close> are \<open>int\<close>s, and so is their product.\<close>

definition MAX_FILE_SIZE :: uint32 where
  [nfs_consts]: "MAX_FILE_SIZE = 16 * 1024 * 1024 * 1024 * 1024"

definition nfs3_fsinfo ::
  "'os posix \<Rightarrow> 'os \<Rightarrow> FSINFO3args \<Rightarrow> FSINFO3res \<Rightarrow> ('os, FSINFO3res) reply" where
  "nfs3_fsinfo P s fsinfo_args res =
     (if data_len (fsi_fsroot fsinfo_args) = 0 then Some (s, res, NFS_REQ_ERROR)
      else do {
        file \<leftarrow> get_file_handle (fsi_fsroot fsinfo_args);
        let (status, attributes) = nfs_set_post_op_attr P s file
              ((fsir_obj_attributes (fsir_u res))\<lparr>poa_attributes_follow := C_FALSE\<rparr>);
        let res = res\<lparr>fsir_status := status,
                      fsir_u := (fsir_u res)\<lparr>fsir_obj_attributes := attributes\<rparr>\<rparr>;
        if status \<noteq> NFS3_OK then Some (s, res, NFS_REQ_ERROR)
        else
          Some (s, res\<lparr>fsir_status := NFS3_OK,
                       fsir_u := (fsir_u res)
                         \<lparr>fsir_properties := FSF3_LINK OR FSF3_SYMLINK OR FSF3_HOMOGENEOUS OR
                                             FSF3_CANSETTIME,
                          fsir_rtmax := WRITE_READ_MAX, fsir_rtpref := WRITE_READ_MAX,
                          fsir_rtmult := DEV_BSIZE,
                          fsir_wtmax := WRITE_READ_MAX, fsir_wtpref := WRITE_READ_MAX,
                          fsir_wtmult := DEV_BSIZE, fsir_dtpref := READ_DIR_MAX,
                          fsir_maxfilesize := scast MAX_FILE_SIZE,
                          fsir_time_delta := \<lparr>tv_sec = 1, tv_nsec = 0\<rparr>\<rparr>\<rparr>, NFS_REQ_OK)
      })"

section \<open>PATHCONF\<close>

definition nfs3_pathconf ::
  "'os posix \<Rightarrow> 'os \<Rightarrow> PATHCONF3args \<Rightarrow> PATHCONF3res \<Rightarrow> ('os, PATHCONF3res) reply" where
  "nfs3_pathconf P s pathconf_args res =
     (if data_len (pc_object pathconf_args) = 0 then Some (s, res, NFS_REQ_ERROR)
      else do {
        file \<leftarrow> get_file_handle (pc_object pathconf_args);
        let (status, attributes) = nfs_set_post_op_attr P s file
              ((pcr_obj_attributes (pcr_u res))\<lparr>poa_attributes_follow := C_FALSE\<rparr>);
        let res = res\<lparr>pcr_status := status,
                      pcr_u := (pcr_u res)\<lparr>pcr_obj_attributes := attributes\<rparr>\<rparr>;
        if status \<noteq> NFS3_OK then Some (s, res, NFS_REQ_ERROR)
        else
          Some (s, res\<lparr>pcr_status := NFS3_OK,
                       pcr_u := (pcr_u res)
                         \<lparr>pcr_linkmax := 1024, pcr_name_max := 1024,
                          pcr_no_trunc := C_TRUE, pcr_chown_restricted := C_TRUE,
                          pcr_case_insensitive := C_FALSE, pcr_case_preserving := C_TRUE\<rparr>\<rparr>,
                NFS_REQ_OK)
      })"

section \<open>Requests on the sample system\<close>

definition sample_setattr :: "uint32 \<Rightarrow> SETATTR3args" where
  "sample_setattr guard =
     \<lparr>seta_object = sample_fh sample_file,
      seta_new_attributes =
        \<lparr>sa_mode = \<lparr>sm_set_it = 1, sm_mode = 0x1A4\<rparr>, sa_uid = \<lparr>su_set_it = 0, su_uid = 0\<rparr>,
         sa_gid = \<lparr>sg_set_it = 0, sg_gid = 0\<rparr>, sa_size = \<lparr>ss_set_it = 0, ss_size = 0\<rparr>,
         sa_atime = \<lparr>sat_set_it = DONT_CHANGE, sat_atime = zero_time3\<rparr>,
         sa_mtime = \<lparr>smt_set_it = DONT_CHANGE, smt_mtime = zero_time3\<rparr>\<rparr>,
      seta_guard = \<lparr>check = guard, obj_ctime = zero_time3\<rparr>\<rparr>"

definition sample_lookup :: LOOKUP3args where
  "sample_lookup = \<lparr>look_what = \<lparr>doa_dir = sample_fh sample_dir, doa_name = Some [0x66, 0]\<rparr>\<rparr>"

lemma statable_judge_any [simp]: "statable P s p \<Longrightarrow> judge_file_exit P s p any_file_mode"
  by (auto simp: statable_def judge_file_exit_def any_file_mode_def ftype_of_mode_def Let_def nfs_consts
      split: if_splits)

section \<open>Properties\<close>

text \<open>
  GETATTR of a handle that holds a path answers with exactly what \<open>lstat\<close> says of the
  path: the attributes, with the type of the mode and the times and sizes of the file,
  when it is a file of a known type; else the error code of the failure.  The
  state of the system does not change, and nothing of the uninitialised result but its
  unused members is left.
\<close>

theorem getattr_reply:
  assumes "data_len (geta_object args) \<noteq> 0" "get_file_handle (geta_object args) = Some p"
  shows "nfs3_getattr P s args res =
    (case sys_lstat P s p of
       Inl e \<Rightarrow> Some (s, res\<lparr>getar_status := status_of_errno e\<rparr>, NFS_REQ_ERROR)
     | Inr st \<Rightarrow>
         (case ftype_of_mode (st_mode st) of
            None \<Rightarrow> Some (s, res\<lparr>getar_status := NFS3ERR_BADHANDLE\<rparr>, NFS_REQ_ERROR)
          | Some t \<Rightarrow> Some (s, res\<lparr>getar_status := NFS3_OK,
                                getar_u := \<lparr>getar_obj_attributes = fattr3_of_stat st t zero_fattr3\<rparr>\<rparr>,
                            NFS_REQ_OK)))"
  using assms
  by (simp add: nfs3_getattr_def nfs_set_post_op_attr_def zero_post_op_attr_def split: sum.split option.split)

theorem getattr_reply_witness:
  "\<forall>res. nfs3_getattr sample_sys 0 \<lparr>geta_object = sample_fh sample_file\<rparr> res =
     Some (0, res\<lparr>getar_status := NFS3_OK,
                  getar_u := \<lparr>getar_obj_attributes = fattr3_of_stat (sample_stat 0x81A4) NF3REG zero_fattr3\<rparr>\<rparr>,
           NFS_REQ_OK)"
  using getattr_reply [of "\<lparr>geta_object = sample_fh sample_file\<rparr>" sample_file sample_sys 0] by simp

text \<open>
  C34: LOOKUP of a name in a directory.  When there is a file of that name, the handle
  returned denotes the path of the directory, a slash and the name, the attributes are
  those of that path and of the directory, and the reply can be encoded exactly when the
  path fits the 64 bytes of a handle.  When there is none the reply is NFS3ERR_NOENT with
  the attributes of the directory.
\<close>

theorem lookup_reply:
  assumes "data_len (doa_dir (look_what args)) \<noteq> 0"
    and d: "get_file_handle (doa_dir (look_what args)) = Some d" "is_dir P s d"
    and nm: "doa_name (look_what args) = Some nm"
    and p: "p = d @ 0x2F # c_str nm" "length p < 2 ^ 32"
  shows "(statable P s p \<longrightarrow>
      (\<exists>r. nfs3_lookup P s args res = Some (s, r, NFS_REQ_OK) \<and> lookr_status r = NFS3_OK \<and>
        get_file_handle (lookok_object (lookr_resok r)) = Some p \<and>
        (valid_LOOKUP3res r \<longleftrightarrow> length p \<le> 64) \<and>
        (\<exists>a b. lookok_obj_attributes (lookr_resok r) = attr_of P s p a \<and>
               lookok_dir_attributes (lookr_resok r) = attr_of P s d b))) \<and>
    (sys_lstat P s p = Inl e \<longrightarrow>
      (\<exists>r. nfs3_lookup P s args res = Some (s, r, NFS_REQ_ERROR) \<and> lookr_status r = NFS3ERR_NOENT \<and>
        (\<exists>b. lookfail_dir_attributes (lookr_resfail r) = attr_of P s d b)))"
proof -
  have g: "get_file_handle (set_file_handle fh p) = Some p" for fh
    using get_set_child_handle [OF d(1)] p by simp
  note v = valid_set_file_handle [OF p(2)]
  show ?thesis
    using assms(1) d nm g v p(1) [symmetric]
    by (auto simp: nfs3_lookup_def valid_LOOKUP3res_def is_bool_def unstatable_judge)
qed

theorem lookup_reply_witness:
  "\<forall>res. \<exists>r. nfs3_lookup sample_sys 0 sample_lookup res = Some (0, r, NFS_REQ_OK) \<and>
     get_file_handle (lookok_object (lookr_resok r)) = Some sample_file \<and> valid_LOOKUP3res r"
  using lookup_reply [of sample_lookup sample_dir sample_sys 0 "[0x66, 0]" sample_file _ ENOENT]
  by (auto simp: sample_lookup_def)

text \<open>
  SETATTR with a guard whose time is not the change time of the file is refused with
  NFS3ERR_NOT_SYNC: no attribute is touched, the state of the system stays, and the reply
  on the wire is the status and two absent attribute blocks.
\<close>

theorem setattr_guard:
  assumes "data_len (seta_object args) \<noteq> 0" "get_file_handle (seta_object args) = Some p"
    and "sys_lstat P s p = Inr st" "ftype_of_mode (st_mode st) = Some t"
    and "check (seta_guard args) \<noteq> 0" "obj_ctime (seta_guard args) \<noteq> time3_of (st_ctim st)"
  shows "\<exists>r. nfs3_setattr P ts0 s args res = Some (s, r, NFS_REQ_OK) \<and>
    setar_status r = NFS3ERR_NOT_SYNC \<and>
    wire_SETATTR3res r = htonl_bytes NFS3ERR_NOT_SYNC @ wire_bool 0 @ wire_bool 0"
  using assms
  by (auto simp: nfs3_setattr_def get_pre_op_attr_def nfs_set_post_op_attr_def Let_def
      fattr3_of_stat_def wire_SETATTR3res_def wcc_no_attributes_def wire_wcc_data_def
      wire_pre_op_attr_def wire_post_op_attr_def nfs_consts intro: nfstime3.equality)

theorem setattr_guard_witness:
  "\<forall>ts0 res. \<exists>r. nfs3_setattr sample_sys ts0 0 (sample_setattr 1) res = Some (0, r, NFS_REQ_OK) \<and>
     setar_status r = NFS3ERR_NOT_SYNC \<and>
     wire_SETATTR3res r = htonl_bytes NFS3ERR_NOT_SYNC @ wire_bool 0 @ wire_bool 0"
  by (intro allI setattr_guard [of _ sample_file _ _ "sample_stat 0x81A4" NF3REG])
     (simp_all add: sample_setattr_def sample_stat_def time3_of_def zero_time3_def)

text \<open>
  SETATTR whose change of attributes fails is answered with the status NFS3_OK: the
  status of the change is only in the return code, the status of the reply is that of
  reading the attributes afterwards.
\<close>

theorem setattr_failure_reported_ok:
  assumes "data_len (seta_object args) \<noteq> 0" "get_file_handle (seta_object args) = Some p"
    and "statable P s p" "statable P s' p" and "check (seta_guard args) = 0"
    and "nfs_set_sattr3 P ts0 s p (seta_new_attributes args) = (s', NFS3ERR_INVAL)"
  shows "\<exists>r. nfs3_setattr P ts0 s args res = Some (s', r, NFS_REQ_ERROR) \<and> setar_status r = NFS3_OK"
  using assms by (simp add: nfs3_setattr_def)

theorem setattr_failure_reported_ok_witness:
  "\<forall>ts0 res. \<exists>r. nfs3_setattr (sample_sys\<lparr>sys_chmod := \<lambda>s p m. (s, False)\<rparr>) ts0 0 (sample_setattr 0) res =
     Some (0, r, NFS_REQ_ERROR) \<and> setar_status r = NFS3_OK"
  using setattr_failure_reported_ok [of "sample_setattr 0" sample_file
      "sample_sys\<lparr>sys_chmod := \<lambda>s p m. (s, False)\<rparr>" 0 0]
  by (auto simp: sample_setattr_def nfs_set_sattr3_def statable_def)

text \<open>
  Setting attributes ignores the size: a request to truncate or extend a file makes
  exactly the calls of the same request without a size.
\<close>

theorem set_sattr3_ignores_size:
  "nfs_set_sattr3 P ts0 s p (a\<lparr>sa_size := z\<rparr>) = nfs_set_sattr3 P ts0 s p a"
  by (cases a) (simp only: nfs_set_sattr3_def sattr3.simps)

text \<open>
  Setting attributes depends on the uninitialised stack only when exactly one of the two
  times is to be set: when the request sets both or neither, the calls and the status are
  the same whatever the stack holds.
\<close>

theorem set_sattr3_stack:
  assumes "sat_set_it (sa_atime a) = DONT_CHANGE \<longleftrightarrow> smt_set_it (sa_mtime a) = DONT_CHANGE"
  shows "nfs_set_sattr3 P ts0 s p a = nfs_set_sattr3 P ts1 s p a"
  using assms
  by (cases "smt_set_it (sa_mtime a) = DONT_CHANGE")
     (simp_all only: nfs_set_sattr3_def Let_def case_prod_unfold, simp_all)

theorem set_sattr3_stack_witness:
  "\<forall>ts0 ts1. nfs_set_sattr3 sample_sys ts0 0 sample_file (seta_new_attributes (sample_setattr 0)) =
     nfs_set_sattr3 sample_sys ts1 0 sample_file (seta_new_attributes (sample_setattr 0))"
  by (intro allI set_sattr3_stack) (simp add: sample_setattr_def)

text \<open>
  ACCESS of a regular file grants every right, whatever was asked for, and the device
  number of its attributes is what the uninitialised result held.
\<close>

theorem access_leak:
  assumes "data_len (acc_object args) \<noteq> 0" "get_file_handle (acc_object args) = Some p"
    and "sys_lstat P s p = Inr st" "st_mode st AND S_IFMT = S_IFREG"
  shows "\<exists>r. nfs3_access P s args res = Some (s, r, NFS_REQ_OK) \<and> accr_status r = NFS3_OK \<and>
    accr_access (accr_u r) = 0xff \<and>
    fa_rdev (poa_attributes (accr_obj_attributes (accr_u r))) =
    fa_rdev (poa_attributes (accr_obj_attributes (accr_u res)))"
  using assms
  by (simp add: nfs3_access_def nfs_set_post_op_attr_def ftype_of_mode_def fattr3_of_stat_def nfs_consts)

theorem access_leak_witness:
  "\<forall>res. \<exists>r. nfs3_access sample_sys 0 \<lparr>acc_object = sample_fh sample_file, acc_access = 1\<rparr> res =
     Some (0, r, NFS_REQ_OK) \<and> accr_access (accr_u r) = 0xff"
  using access_leak [of "\<lparr>acc_object = sample_fh sample_file, acc_access = 1\<rparr>" sample_file sample_sys 0
      "sample_stat 0x81A4"]
  by (auto simp: nfs_consts)

end
