(* ===== verification/Nfs_Name_Procs.thy ===== *)
theory Nfs_Name_Procs
  imports Nfs_Attr_Procs
begin

text \<open>
  The handlers of the procedures that change the name space: CREATE, MKDIR,
  SYMLINK, MKNOD, REMOVE, RMDIR, RENAME and LINK (\<open>src/nfs/nfs_create.cpp\<close> and its
  siblings), in the style of \<open>Nfs_Attr_Procs\<close>.  A result with two arms has a record
  for each; only the arm the status selects is read by the encoder.
\<close>

section \<open>CREATE\<close>

definition nfs3_create ::
  "'os posix \<Rightarrow> 'os \<Rightarrow> CREATE3args \<Rightarrow> CREATE3res \<Rightarrow> ('os, CREATE3res) reply" where
  "nfs3_create P s create_args res =
     (if data_len (doa_dir (cre_where create_args)) = 0 then Some (s, res, NFS_REQ_ERROR)
      else do {
        dir \<leftarrow> get_file_handle (doa_dir (cre_where create_args));
        if \<not> judge_file_exit P s dir S_IFDIR
        then Some (s, res\<lparr>crer_status := NFS3ERR_NOTDIR\<rparr>, NFS_REQ_ERROR)
        else
        let (status, pre) = get_pre_op_attr P s dir zero_pre_op_attr in
        if status \<noteq> NFS3_OK then Some (s, res\<lparr>crer_status := status\<rparr>, NFS_REQ_ERROR)
        else do {
          file_path \<leftarrow> join_path dir (doa_name (cre_where create_args));
          let (s, file_handle) = sys_open P s file_path O_CREAT;
          let made = (file_handle \<noteq> - 1);
          let s = (if made then sys_close P s file_handle else s);
          if \<not> made
          then
            let (_, dir_wcc) = get_wcc_data P s dir pre (crefail_dir_wcc (crer_resfail res))
            in Some (s, res\<lparr>crer_status := NFS3ERR_NOENT,
                            crer_resfail := \<lparr>crefail_dir_wcc = dir_wcc\<rparr>\<rparr>, NFS_REQ_ERROR)
          else do {
            let handle = set_file_handle (pof_handle (creok_obj (crer_resok res))) file_path;
            object_path \<leftarrow> get_file_handle handle;
            let (attr_status, obj_attributes) =
                  nfs_set_post_op_attr P s object_path (creok_obj_attributes (crer_resok res));
            let (status, dir_wcc) = get_wcc_data P s dir pre (creok_dir_wcc (crer_resok res));
            Some (s, res\<lparr>crer_status := status,
                         crer_resok := \<lparr>creok_obj = \<lparr>handle_follows = C_TRUE, pof_handle = handle\<rparr>,
                                        creok_obj_attributes = obj_attributes,
                                        creok_dir_wcc = dir_wcc\<rparr>\<rparr>,
                  if attr_status \<noteq> NFS3_OK \<or> status \<noteq> NFS3_OK then NFS_REQ_ERROR else NFS_REQ_OK)
          }
        }
      })"

section \<open>MKDIR\<close>

definition nfs3_mkdir ::
  "'os posix \<Rightarrow> 'os \<Rightarrow> MKDIR3args \<Rightarrow> MKDIR3res \<Rightarrow> ('os, MKDIR3res) reply" where
  "nfs3_mkdir P s mkdir_args res =
     (if data_len (doa_dir (mkd_where mkdir_args)) = 0 then Some (s, res, NFS_REQ_ERROR)
      else do {
        dir \<leftarrow> get_file_handle (doa_dir (mkd_where mkdir_args));
        if \<not> judge_file_exit P s dir S_IFDIR
        then Some (s, res\<lparr>mkdr_status := NFS3ERR_NOTDIR\<rparr>, NFS_REQ_ERROR)
        else
        let (status, pre) = get_pre_op_attr P s dir zero_pre_op_attr in
        if status \<noteq> NFS3_OK then Some (s, res\<lparr>mkdr_status := status\<rparr>, NFS_REQ_ERROR)
        else do {
          file_path \<leftarrow> join_path dir (doa_name (mkd_where mkdir_args));
          let (s, made) = sys_mkdir P s file_path (sm_mode (sa_mode (mkd_attributes mkdir_args)));
          if \<not> made
          then
            let (_, dir_wcc) = get_wcc_data P s dir pre (crefail_dir_wcc (mkdr_resfail res))
            in Some (s, res\<lparr>mkdr_status := NFS3ERR_NOTDIR,
                            mkdr_resfail := \<lparr>crefail_dir_wcc = dir_wcc\<rparr>\<rparr>, NFS_REQ_ERROR)
          else do {
            let handle = set_file_handle (pof_handle (creok_obj (mkdr_resok res))) file_path;
            object_path \<leftarrow> get_file_handle handle;
            let (attr_status, obj_attributes) =
                  nfs_set_post_op_attr P s object_path (creok_obj_attributes (mkdr_resok res));
            let (status, dir_wcc) = get_wcc_data P s dir pre (creok_dir_wcc (mkdr_resok res));
            Some (s, res\<lparr>mkdr_status := status,
                         mkdr_resok := \<lparr>creok_obj = \<lparr>handle_follows = C_TRUE, pof_handle = handle\<rparr>,
                                        creok_obj_attributes = obj_attributes,
                                        creok_dir_wcc = dir_wcc\<rparr>\<rparr>,
                  if attr_status \<noteq> NFS3_OK \<or> status \<noteq> NFS3_OK then NFS_REQ_ERROR else NFS_REQ_OK)
          }
        }
      })"

section \<open>SYMLINK\<close>

definition nfs3_symlink ::
  "'os posix \<Rightarrow> 'os \<Rightarrow> SYMLINK3args \<Rightarrow> SYMLINK3res \<Rightarrow> ('os, SYMLINK3res) reply" where
  "nfs3_symlink P s symlink_args res =
     (if data_len (doa_dir (sym_where symlink_args)) = 0 then Some (s, res, NFS_REQ_ERROR)
      else do {
        dir \<leftarrow> get_file_handle (doa_dir (sym_where symlink_args));
        if \<not> judge_file_exit P s dir S_IFDIR
        then Some (s, res\<lparr>symr_status := NFS3ERR_NOTDIR\<rparr>, NFS_REQ_ERROR)
        else
        let (status, pre) = get_pre_op_attr P s dir zero_pre_op_attr in
        if status \<noteq> NFS3_OK then Some (s, res\<lparr>symr_status := status\<rparr>, NFS_REQ_ERROR)
        else do {
          file_path \<leftarrow> join_path dir (doa_name (sym_where symlink_args));
          target \<leftarrow> symlink_data (sym_symlink symlink_args);
          let (s, made) = sys_symlink P s (c_str target) file_path;
          if \<not> made
          then
            let (_, dir_wcc) = get_wcc_data P s dir pre (crefail_dir_wcc (symr_resfail res))
            in Some (s, res\<lparr>symr_status := NFS3ERR_NOENT,
                            symr_resfail := \<lparr>crefail_dir_wcc = dir_wcc\<rparr>\<rparr>, NFS_REQ_ERROR)
          else do {
            let handle = set_file_handle (pof_handle (creok_obj (symr_resok res))) file_path;
            object_path \<leftarrow> get_file_handle handle;
            let (attr_status, obj_attributes) =
                  nfs_set_post_op_attr P s object_path (creok_obj_attributes (symr_resok res));
            let (status, dir_wcc) = get_wcc_data P s dir pre (creok_dir_wcc (symr_resok res));
            Some (s, res\<lparr>symr_status := status,
                         symr_resok := \<lparr>creok_obj = \<lparr>handle_follows = C_TRUE, pof_handle = handle\<rparr>,
                                        creok_obj_attributes = obj_attributes,
                                        creok_dir_wcc = dir_wcc\<rparr>\<rparr>,
                  if attr_status \<noteq> NFS3_OK \<or> status \<noteq> NFS3_OK then NFS_REQ_ERROR else NFS_REQ_OK)
          }
        }
      })"

section \<open>MKNOD\<close>

text \<open>
  Clearing the members of the failure arm at the start also clears the members of
  the success arm they share their memory with: \<open>handle_follows\<close> of the new object
  and the type in its attributes.
\<close>

definition mknod_clear :: "MKNOD3res \<Rightarrow> MKNOD3res" where
  "mknod_clear res =
     res\<lparr>mknr_resfail := \<lparr>crefail_dir_wcc = wcc_no_attributes (crefail_dir_wcc (mknr_resfail res))\<rparr>,
         mknr_resok := (mknr_resok res)
           \<lparr>creok_obj := (creok_obj (mknr_resok res))\<lparr>handle_follows := C_FALSE\<rparr>,
            creok_obj_attributes := (creok_obj_attributes (mknr_resok res))
              \<lparr>poa_attributes := (poa_attributes (creok_obj_attributes (mknr_resok res)))
                 \<lparr>fa_type := 0\<rparr>\<rparr>\<rparr>\<rparr>"

definition mknod_mode :: "ftype3 \<Rightarrow> mode_t option" where
  "mknod_mode t =
     (if t = NF3CHR then Some S_IFCHR
      else if t = NF3BLK then Some S_IFBLK
      else if t = NF3FIFO then Some S_IFIFO
      else if t = NF3SOCK then Some S_IFSOCK
      else None)"

text \<open>
  \<open>device.dev_attributes\<close> and \<open>pipe_attributes\<close> are the same member of the union.
\<close>

definition nfs3_mknod ::
  "'os posix \<Rightarrow> timespec \<times> timespec \<Rightarrow> 'os \<Rightarrow> MKNOD3args \<Rightarrow> MKNOD3res \<Rightarrow> ('os, MKNOD3res) reply" where
  "nfs3_mknod P ts0 s mknod_args res =
     (let res = mknod_clear res in
      if data_len (doa_dir (mkn_where mknod_args)) = 0 then Some (s, res, NFS_REQ_ERROR)
      else do {
        dir \<leftarrow> get_file_handle (doa_dir (mkn_where mknod_args));
        if \<not> judge_file_exit P s dir S_IFDIR
        then Some (s, res\<lparr>mknr_status := NFS3ERR_NOTDIR\<rparr>, NFS_REQ_ERROR)
        else if map_option c_str (doa_name (mkn_where mknod_args)) \<in> {None, Some []}
        then Some (s, res\<lparr>mknr_status := NFS3ERR_INVAL\<rparr>, NFS_REQ_ERROR)
        else
        let (status, pre) = get_pre_op_attr P s dir zero_pre_op_attr in
        if status \<noteq> NFS3_OK then Some (s, res\<lparr>mknr_status := status\<rparr>, NFS_REQ_ERROR)
        else do {
          file_path \<leftarrow> join_path dir (doa_name (mkn_where mknod_args));
          case mknod_mode (mkn_type (mkn_what mknod_args)) of
            None \<Rightarrow> Some (s, res\<lparr>mknr_status := NFS3ERR_BADTYPE\<rparr>, NFS_REQ_OK)
          | Some ifmt \<Rightarrow>
              let new_attr = dev_attributes (mkn_device (mkn_what mknod_args));
                  spec = dev_spec (mkn_device (mkn_what mknod_args));
                  mode = ifmt OR sm_mode (sa_mode new_attr);
                  dev = (if mkn_type (mkn_what mknod_args) \<in> {NF3CHR, NF3BLK}
                         then makedev (specdata1 spec) (specdata2 spec) else 0);
                  (s, made) = sys_mknod P s file_path mode dev in
              if \<not> made
              then
                let (status, dir_wcc) = get_wcc_data P s dir pre (crefail_dir_wcc (mknr_resfail res))
                in Some (s, res\<lparr>mknr_status := status,
                                mknr_resfail := \<lparr>crefail_dir_wcc = dir_wcc\<rparr>\<rparr>, NFS_REQ_ERROR)
              else
              let (s, set_status) = nfs_set_sattr3 P ts0 s file_path new_attr in
              if set_status \<noteq> NFS3_OK
              then Some (s, res\<lparr>mknr_status := set_status\<rparr>, NFS_REQ_ERROR)
              else do {
                let handle = set_file_handle (pof_handle (creok_obj (mknr_resok res))) file_path;
                object_path \<leftarrow> get_file_handle handle;
                let (attr_status, obj_attributes) =
                      nfs_set_post_op_attr P s object_path (creok_obj_attributes (mknr_resok res));
                let (status, dir_wcc) = get_wcc_data P s dir pre (creok_dir_wcc (mknr_resok res));
                Some (s, res\<lparr>mknr_status := status,
                             mknr_resok := \<lparr>creok_obj = (creok_obj (mknr_resok res))\<lparr>pof_handle := handle\<rparr>,
                                            creok_obj_attributes = obj_attributes,
                                            creok_dir_wcc = dir_wcc\<rparr>\<rparr>,
                      if attr_status \<noteq> NFS3_OK \<or> status \<noteq> NFS3_OK then NFS_REQ_ERROR else NFS_REQ_OK)
              }
        }
      })"

section \<open>REMOVE\<close>

definition nfs3_remove ::
  "'os posix \<Rightarrow> 'os \<Rightarrow> REMOVE3args \<Rightarrow> REMOVE3res \<Rightarrow> ('os, REMOVE3res) reply" where
  "nfs3_remove P s remove_args res =
     (if data_len (doa_dir (rem_object remove_args)) = 0 then Some (s, res, NFS_REQ_ERROR)
      else do {
        dir \<leftarrow> get_file_handle (doa_dir (rem_object remove_args));
        if \<not> judge_file_exit P s dir S_IFDIR
        then Some (s, res\<lparr>remr_status := NFS3ERR_NOTDIR\<rparr>, NFS_REQ_ERROR)
        else
        let (status, pre) = get_pre_op_attr P s dir zero_pre_op_attr in
        if status \<noteq> NFS3_OK then Some (s, res\<lparr>remr_status := status\<rparr>, NFS_REQ_ERROR)
        else do {
          filepath \<leftarrow> join_path dir (doa_name (rem_object remove_args));
          let found = judge_file_exit P s filepath (S_IFREG OR S_IFLNK);
          let (s, removed) = (if found then remove_file P s filepath else (s, False));
          let (status, dir_wcc) = get_wcc_data P s dir pre (remr_dir_wcc (remr_u res));
          let res = res\<lparr>remr_u := \<lparr>remr_dir_wcc = dir_wcc\<rparr>\<rparr>;
          if \<not> found then Some (s, res\<lparr>remr_status := NFS3ERR_NOENT\<rparr>, NFS_REQ_ERROR)
          else if \<not> removed then Some (s, res\<lparr>remr_status := NFS3ERR_IO\<rparr>, NFS_REQ_ERROR)
          else Some (s, res\<lparr>remr_status := status\<rparr>,
                     if status \<noteq> NFS3_OK then NFS_REQ_ERROR else NFS_REQ_OK)
        }
      })"

section \<open>RMDIR\<close>

definition nfs3_rmdir ::
  "'os posix \<Rightarrow> 'os \<Rightarrow> RMDIR3args \<Rightarrow> RMDIR3res \<Rightarrow> ('os, RMDIR3res) reply" where
  "nfs3_rmdir P s rmdir_args res =
     (if data_len (doa_dir (rmd_object rmdir_args)) = 0 then Some (s, res, NFS_REQ_ERROR)
      else do {
        dir \<leftarrow> get_file_handle (doa_dir (rmd_object rmdir_args));
        if \<not> judge_file_exit P s dir S_IFDIR
        then Some (s, res\<lparr>rmdr_status := NFS3ERR_NOTDIR\<rparr>, NFS_REQ_ERROR)
        else
        let (status, pre) = get_pre_op_attr P s dir zero_pre_op_attr in
        if status \<noteq> NFS3_OK then Some (s, res\<lparr>rmdr_status := status\<rparr>, NFS_REQ_ERROR)
        else do {
          filepath \<leftarrow> join_path dir (doa_name (rmd_object rmdir_args));
          let found = judge_file_exit P s filepath (S_IFDIR);
          let (s, removed) = (if found then remove_directory P s filepath else (s, False));
          let (status, dir_wcc) = get_wcc_data P s dir pre (rmdr_dir_wcc (rmdr_u res));
          let res = res\<lparr>rmdr_u := \<lparr>rmdr_dir_wcc = dir_wcc\<rparr>\<rparr>;
          if \<not> found then Some (s, res\<lparr>rmdr_status := NFS3ERR_NOENT\<rparr>, NFS_REQ_ERROR)
          else if \<not> removed then Some (s, res\<lparr>rmdr_status := NFS3ERR_IO\<rparr>, NFS_REQ_ERROR)
          else Some (s, res\<lparr>rmdr_status := status\<rparr>,
                     if status \<noteq> NFS3_OK then NFS_REQ_ERROR else NFS_REQ_OK)
        }
      })"

section \<open>RENAME\<close>

definition nfs3_rename ::
  "'os posix \<Rightarrow> 'os \<Rightarrow> RENAME3args \<Rightarrow> RENAME3res \<Rightarrow> ('os, RENAME3res) reply" where
  "nfs3_rename P s rename_args res =
     (if data_len (doa_dir (ren_from rename_args)) = 0 then Some (s, res, NFS_REQ_ERROR)
      else do {
        from_dir \<leftarrow> get_file_handle (doa_dir (ren_from rename_args));
        if \<not> judge_file_exit P s from_dir S_IFDIR
        then Some (s, res\<lparr>renr_status := NFS3ERR_NOTDIR\<rparr>, NFS_REQ_ERROR)
        else
        let (status, from_pre) = get_pre_op_attr P s from_dir zero_pre_op_attr in
        if status \<noteq> NFS3_OK then Some (s, res\<lparr>renr_status := status\<rparr>, NFS_REQ_ERROR)
        else do {
          from_file_path \<leftarrow> join_path from_dir (doa_name (ren_from rename_args));
          if \<not> judge_file_exit P s from_file_path any_file_mode
          then Some (s, res\<lparr>renr_status := NFS3ERR_NOENT\<rparr>, NFS_REQ_ERROR)
          else do {
            to_dir \<leftarrow> get_file_handle (doa_dir (ren_to rename_args));
            if \<not> judge_file_exit P s to_dir S_IFDIR
            then Some (s, res\<lparr>renr_status := NFS3ERR_NOTDIR\<rparr>, NFS_REQ_ERROR)
            else
            let (status, to_pre) = get_pre_op_attr P s to_dir zero_pre_op_attr in
            if status \<noteq> NFS3_OK then Some (s, res\<lparr>renr_status := status\<rparr>, NFS_REQ_ERROR)
            else do {
              to_file_path \<leftarrow> join_path to_dir (doa_name (ren_to rename_args));
              let (s, renamed) = sys_rename P s from_file_path to_file_path;
              let (from_status, fromdir_wcc) =
                    get_wcc_data P s from_dir from_pre (renr_fromdir_wcc (renr_u res));
              let (status, todir_wcc) =
                    get_wcc_data P s to_dir to_pre (renr_todir_wcc (renr_u res));
              let res = res\<lparr>renr_status := status,
                            renr_u := \<lparr>renr_fromdir_wcc = fromdir_wcc, renr_todir_wcc = todir_wcc\<rparr>\<rparr>;
              Some (s, res,
                    if \<not> renamed \<or> from_status \<noteq> NFS3_OK \<or> status \<noteq> NFS3_OK
                    then NFS_REQ_ERROR else NFS_REQ_OK)
            }
          }
        }
      })"

section \<open>LINK\<close>

definition nfs3_link ::
  "'os posix \<Rightarrow> 'os \<Rightarrow> LINK3args \<Rightarrow> LINK3res \<Rightarrow> ('os, LINK3res) reply" where
  "nfs3_link P s link_args res =
     (if data_len (lnk_file link_args) = 0 then Some (s, res, NFS_REQ_ERROR)
      else if data_len (doa_dir (lnk_link link_args)) = 0 then Some (s, res, NFS_REQ_ERROR)
      else do {
        dir \<leftarrow> get_file_handle (doa_dir (lnk_link link_args));
        file \<leftarrow> get_file_handle (lnk_file link_args);
        if \<not> judge_file_exit P s dir S_IFDIR
        then Some (s, res\<lparr>lnkr_status := NFS3ERR_NOTDIR\<rparr>, NFS_REQ_ERROR)
        else
        let (status, pre) = get_pre_op_attr P s dir zero_pre_op_attr in
        if status \<noteq> NFS3_OK then Some (s, res\<lparr>lnkr_status := status\<rparr>, NFS_REQ_ERROR)
        else do {
          file_path \<leftarrow> join_path dir (doa_name (lnk_link link_args));
          let (s, linked) = sys_link P s file file_path;
          let (attr_status, file_attributes) =
                nfs_set_post_op_attr P s file (lnkr_file_attributes (lnkr_u res));
          let (status, linkdir_wcc) = get_wcc_data P s dir pre (lnkr_linkdir_wcc (lnkr_u res));
          let res = res\<lparr>lnkr_u := \<lparr>lnkr_file_attributes = file_attributes,
                                   lnkr_linkdir_wcc = linkdir_wcc\<rparr>\<rparr>;
          if \<not> linked then Some (s, res\<lparr>lnkr_status := NFS3ERR_NOENT\<rparr>, NFS_REQ_ERROR)
          else Some (s, res\<lparr>lnkr_status := status\<rparr>,
                     if attr_status \<noteq> NFS3_OK \<or> status \<noteq> NFS3_OK then NFS_REQ_ERROR else NFS_REQ_OK)
        }
      })"

section \<open>Requests on the sample system\<close>

definition sample_name :: diropargs3 where
  "sample_name = \<lparr>doa_dir = sample_fh sample_dir, doa_name = Some [0x66, 0]\<rparr>"

lemma sample_name_simps [simp]:
  "doa_dir sample_name = sample_fh sample_dir" "doa_name sample_name = Some [0x66, 0]"
  by (simp_all add: sample_name_def)

definition sample_rename :: RENAME3args where
  "sample_rename = \<lparr>ren_from = sample_name, ren_to = sample_name\<rparr>"

definition sample_attributes :: sattr3 where
  "sample_attributes = seta_new_attributes (sample_setattr 0)"

definition sample_mknod :: MKNOD3args where
  "sample_mknod = \<lparr>mkn_where = sample_name, mkn_what = \<lparr>mkn_type = NF3FIFO,
     mkn_device = \<lparr>dev_attributes = sample_attributes, dev_spec = \<lparr>specdata1 = 0, specdata2 = 0\<rparr>\<rparr>\<rparr>\<rparr>"

section \<open>Properties\<close>

text \<open>
  C35: CREATE that can open the new file.  The reply has a handle of the directory, a slash and the
  name, the attributes of that file, and for the directory its attributes before and
  after; it can be encoded exactly when the path fits the 64 bytes of a handle.
  The only calls made are \<open>open\<close> with \<open>O_CREAT\<close> and \<open>close\<close>: neither the mode (a file that exists is
  taken for a new one also in mode GUARDED) nor the attributes asked for matter.
\<close>

theorem create_reply:
  assumes "data_len (doa_dir (cre_where args)) \<noteq> 0"
    and d: "get_file_handle (doa_dir (cre_where args)) = Some d" "is_dir P s d"
    and nm: "doa_name (cre_where args) = Some nm"
    and p: "p = d @ 0x2F # c_str nm" "length p < 2 ^ 32"
    and op: "sys_open P s p O_CREAT = (s1, fd)" "fd \<noteq> - 1" "s2 = sys_close P s1 fd"
    and a: "statable P s2 p" "statable P s2 d"
  shows "\<exists>r. nfs3_create P s args res = Some (s2, r, NFS_REQ_OK) \<and> crer_status r = NFS3_OK \<and>
    handle_follows (creok_obj (crer_resok r)) = C_TRUE \<and>
    get_file_handle (pof_handle (creok_obj (crer_resok r))) = Some p \<and>
    (\<exists>b. creok_obj_attributes (crer_resok r) = attr_of P s2 p b) \<and>
    creok_dir_wcc (crer_resok r) = wcc_of P s2 d (pre_of P s d) \<and>
    (valid_CREATE3res r \<longleftrightarrow> length p \<le> 64)"
proof -
  have g: "get_file_handle (set_file_handle fh p) = Some p" for fh
    using get_set_child_handle [OF d(1)] p by simp
  note v = valid_set_file_handle [OF p(2)]
  show ?thesis
    using assms(1) d nm g v a op p(1) [symmetric]
    by (auto simp: nfs3_create_def Let_def valid_CREATE3res_def valid_post_op_fh3_def is_bool_def)
qed

text \<open>
  MKDIR that succeeds.  The directory is made with the mode asked for, and the reply has a
  handle of the new path with its attributes and the attributes of the parent directory before and after.
  When \<open>mkdir\<close> fails, for whatever reason, the status is NFS3ERR_NOTDIR.
\<close>

theorem mkdir_reply:
  assumes "data_len (doa_dir (mkd_where args)) \<noteq> 0"
    and d: "get_file_handle (doa_dir (mkd_where args)) = Some d" "is_dir P s d"
    and nm: "doa_name (mkd_where args) = Some nm"
    and p: "p = d @ 0x2F # c_str nm" "length p < 2 ^ 32"
    and mk: "sys_mkdir P s p (sm_mode (sa_mode (mkd_attributes args))) = (s1, made)"
    and a: "statable P s1 d" "made \<longrightarrow> statable P s1 p"
  shows "\<exists>r. nfs3_mkdir P s args res = Some (s1, r, if made then NFS_REQ_OK else NFS_REQ_ERROR) \<and>
    mkdr_status r = (if made then NFS3_OK else NFS3ERR_NOTDIR) \<and>
    (made \<longrightarrow> get_file_handle (pof_handle (creok_obj (mkdr_resok r))) = Some p \<and>
       (\<exists>b. creok_obj_attributes (mkdr_resok r) = attr_of P s1 p b) \<and>
       creok_dir_wcc (mkdr_resok r) = wcc_of P s1 d (pre_of P s d) \<and>
       (valid_MKDIR3res r \<longleftrightarrow> length p \<le> 64)) \<and>
    (\<not> made \<longrightarrow> crefail_dir_wcc (mkdr_resfail r) = wcc_of P s1 d (pre_of P s d) \<and> valid_MKDIR3res r)"
proof -
  have g: "get_file_handle (set_file_handle fh p) = Some p" for fh
    using get_set_child_handle [OF d(1)] p by simp
  note v = valid_set_file_handle [OF p(2)]
  show ?thesis
    using assms(1) d nm g v a mk p(1) [symmetric]
    by (auto simp: nfs3_mkdir_def valid_MKDIR3res_def valid_post_op_fh3_def is_bool_def)
qed

text \<open>
  C39: RENAME that fails is answered with the status NFS3_OK: the result of \<open>rename\<close> is only
  in the return code, and the status of the reply is that of reading the attributes of the target
  directory.
\<close>

theorem rename_failure_reported_ok:
  assumes "data_len (doa_dir (ren_from args)) \<noteq> 0"
    and "get_file_handle (doa_dir (ren_from args)) = Some d" "is_dir P s d"
    and "get_file_handle (doa_dir (ren_to args)) = Some e" "is_dir P s e"
    and "doa_name (ren_from args) = Some nm" "doa_name (ren_to args) = Some nm'"
    and "statable P s (d @ 0x2F # c_str nm)"
    and "sys_rename P s (d @ 0x2F # c_str nm) (e @ 0x2F # c_str nm') = (s1, False)"
    and "statable P s1 d" "statable P s1 e"
  shows "\<exists>r. nfs3_rename P s args res = Some (s1, r, NFS_REQ_ERROR) \<and> renr_status r = NFS3_OK"
  using assms by (simp add: nfs3_rename_def)

text \<open>
  RENAME to an empty target handle crashes the server: only the length of the source handle
  is checked, and the path of the target is made from the null pointer the decoder left.
\<close>

theorem rename_empty_target_crashes:
  assumes "data_len (doa_dir (ren_from args)) \<noteq> 0"
    and "get_file_handle (doa_dir (ren_from args)) = Some d" "is_dir P s d"
    and "doa_name (ren_from args) = Some nm" "statable P s (d @ 0x2F # c_str nm)"
    and "doa_dir (ren_to args) = zero_fh3"
  shows "nfs3_rename P s args res = None"
  using assms by (simp add: nfs3_rename_def)

text \<open>
  REMOVE of a regular file or a link in a directory.  The reply is the outcome of \<open>remove\<close>,
  NFS3ERR_IO when it fails, with the attributes of the directory before and after; for a name
  that does not exist nothing is called and the reply is NFS3ERR_NOENT.
\<close>

theorem remove_reply:
  assumes "data_len (doa_dir (rem_object args)) \<noteq> 0"
    and d: "get_file_handle (doa_dir (rem_object args)) = Some d" "is_dir P s d"
    and nm: "doa_name (rem_object args) = Some nm" "p = d @ 0x2F # c_str nm"
    and rm: "sys_remove P s p = (s1, removed)" and a: "statable P s1 d"
  shows "(judge_file_exit P s p (S_IFREG OR S_IFLNK) \<longrightarrow>
      (\<exists>r. nfs3_remove P s args res = Some (s1, r, if removed then NFS_REQ_OK else NFS_REQ_ERROR) \<and>
        remr_status r = (if removed then NFS3_OK else NFS3ERR_IO) \<and>
        remr_dir_wcc (remr_u r) = wcc_of P s1 d (pre_of P s d) \<and> valid_REMOVE3res r)) \<and>
    (\<not> judge_file_exit P s p (S_IFREG OR S_IFLNK) \<longrightarrow>
      (\<exists>r. nfs3_remove P s args res = Some (s, r, NFS_REQ_ERROR) \<and> remr_status r = NFS3ERR_NOENT \<and>
        remr_dir_wcc (remr_u r) = wcc_of P s d (pre_of P s d) \<and> valid_REMOVE3res r))"
  using assms
  by (auto simp: nfs3_remove_def remove_file_def valid_REMOVE3res_def is_bool_def)

text \<open>
  The test of the kind of a file is a test of single bits: a test for a regular file also
  accepts a symbolic link and a socket, whose codes contain the bit of a regular file, and
  a test for a directory accepts a block device and a socket.
\<close>

theorem judge_confuses_kinds:
  assumes "sys_lstat P s p = Inr st"
  shows "(st_mode st AND S_IFMT \<in> {S_IFREG, S_IFLNK, S_IFSOCK} \<longrightarrow> judge_file_exit P s p S_IFREG) \<and>
         (st_mode st AND S_IFMT \<in> {S_IFDIR, S_IFBLK, S_IFSOCK} \<longrightarrow> judge_file_exit P s p S_IFDIR)"
proof -
  have "k AND S_IFMT = k \<Longrightarrow> st_mode st AND S_IFMT = v \<Longrightarrow> v AND k \<noteq> 0 \<Longrightarrow> judge_file_exit P s p k" for v k
    using assms mode_and_IFMT [of "st_mode st" v k] by (simp add: judge_file_exit_def)
  then show ?thesis
    by (auto simp: nfs_consts)
qed


text \<open>
  MKNOD that succeeds never returns a handle: clearing the failure arm at the start also
  clears the flag of the handle, and nothing sets it again.
\<close>

theorem mknod_no_handle:
  assumes "nfs3_mknod P ts0 s args res = Some (s', r, NFS_REQ_OK)" "mknr_status r = NFS3_OK"
  shows "handle_follows (creok_obj (mknr_resok r)) = C_FALSE"
  using assms
  by (auto simp: nfs3_mknod_def mknod_clear_def Let_def split: bind_splits if_splits prod.splits option.splits)

theorem create_reply_witness:
  "\<forall>res h. \<exists>r. nfs3_create sample_sys 0 \<lparr>cre_where = sample_name, cre_how = h\<rparr> res = Some (0, r, NFS_REQ_OK) \<and>
     get_file_handle (pof_handle (creok_obj (crer_resok r))) = Some sample_file \<and> valid_CREATE3res r"
proof (intro allI)
  fix res h
  show "\<exists>r. nfs3_create sample_sys 0 \<lparr>cre_where = sample_name, cre_how = h\<rparr> res = Some (0, r, NFS_REQ_OK) \<and>
     get_file_handle (pof_handle (creok_obj (crer_resok r))) = Some sample_file \<and> valid_CREATE3res r"
    using create_reply [of "\<lparr>cre_where = sample_name, cre_how = h\<rparr>" sample_dir sample_sys 0 "[0x66, 0]"
        sample_file 0 3 0 res]
    by auto
qed

theorem mkdir_reply_witness:
  "\<forall>res. \<exists>r. nfs3_mkdir sample_sys 0 \<lparr>mkd_where = sample_name, mkd_attributes = sample_attributes\<rparr> res =
       Some (0, r, NFS_REQ_OK) \<and>
     get_file_handle (pof_handle (creok_obj (mkdr_resok r))) = Some sample_file \<and> valid_MKDIR3res r"
proof (intro allI)
  fix res
  show "\<exists>r. nfs3_mkdir sample_sys 0 \<lparr>mkd_where = sample_name, mkd_attributes = sample_attributes\<rparr> res =
       Some (0, r, NFS_REQ_OK) \<and>
     get_file_handle (pof_handle (creok_obj (mkdr_resok r))) = Some sample_file \<and> valid_MKDIR3res r"
    using mkdir_reply [of "\<lparr>mkd_where = sample_name, mkd_attributes = sample_attributes\<rparr>" sample_dir sample_sys 0
        "[0x66, 0]" sample_file 0 True res]
    by auto
qed

theorem rename_failure_reported_ok_witness:
  "\<forall>res. \<exists>r. nfs3_rename sample_sys 0 sample_rename res = Some (0, r, NFS_REQ_ERROR) \<and> renr_status r = NFS3_OK"
  by (intro allI rename_failure_reported_ok [where d = sample_dir and e = sample_dir and nm = "[0x66, 0]" and nm' = "[0x66, 0]"])
     (simp_all add: sample_rename_def)

theorem rename_empty_target_crashes_witness:
  "\<forall>res. nfs3_rename sample_sys 0
     (sample_rename\<lparr>ren_to := \<lparr>doa_dir = zero_fh3, doa_name = Some [0x66, 0]\<rparr>\<rparr>) res = None"
  by (intro allI rename_empty_target_crashes [where d = sample_dir and nm = "[0x66, 0]"])
     (simp_all add: sample_rename_def)

theorem remove_reply_witness:
  "\<forall>res. \<exists>r. nfs3_remove sample_sys 0 \<lparr>rem_object = sample_name\<rparr> res = Some (0, r, NFS_REQ_OK) \<and>
     remr_status r = NFS3_OK \<and> valid_REMOVE3res r"
proof
  fix res
  show "\<exists>r. nfs3_remove sample_sys 0 \<lparr>rem_object = sample_name\<rparr> res = Some (0, r, NFS_REQ_OK) \<and>
     remr_status r = NFS3_OK \<and> valid_REMOVE3res r"
    using remove_reply [of "\<lparr>rem_object = sample_name\<rparr>" sample_dir sample_sys 0 "[0x66, 0]" sample_file 0 True res]
    by auto
qed

theorem judge_confuses_kinds_witness:
  "judge_file_exit (sample_sys\<lparr>sys_lstat := \<lambda>s p. Inr (sample_stat 0xA1FF)\<rparr>) 0 sample_file S_IFREG"
  using judge_confuses_kinds [of "sample_sys\<lparr>sys_lstat := \<lambda>s p. Inr (sample_stat 0xA1FF)\<rparr>" 0 sample_file
      "sample_stat 0xA1FF"]
  by (simp add: nfs_consts)

theorem mknod_no_handle_witness:
  "\<forall>ts0 res. \<exists>r. nfs3_mknod sample_sys ts0 0 sample_mknod res = Some (0, r, NFS_REQ_OK) \<and>
     handle_follows (creok_obj (mknr_resok r)) = C_FALSE"
proof (intro allI)
  fix ts0 res
  obtain r where "nfs3_mknod sample_sys ts0 0 sample_mknod res = Some (0, r, NFS_REQ_OK)" "mknr_status r = NFS3_OK"
    by (simp add: nfs3_mknod_def sample_mknod_def mknod_mode_def sample_attributes_def sample_setattr_def
        nfs_set_sattr3_def NF3FIFO_def NF3CHR_def NF3BLK_def NF3SOCK_def Let_def)
  with mknod_no_handle [of sample_sys ts0 0 sample_mknod res 0 r] show "\<exists>r. nfs3_mknod sample_sys ts0 0 sample_mknod res = Some (0, r, NFS_REQ_OK) \<and>
     handle_follows (creok_obj (mknr_resok r)) = C_FALSE"
    by blast
qed

end
