(* ===== verification/Fsal_Share.thy ===== *)
theory Fsal_Share
  imports Nfs_Types "HOL-Library.Multiset"
begin

text \<open>
  Share reservations of an open file (\<open>src/nfs/nfs_utils.cpp\<close>, lines 430--539):
  the five counters of a \<open>struct fsal_share\<close>, the test whether a new open conflicts
  with the reservations in force, and the update of the counters.  The counters
  are refined from a multiset of the reservations in force: the conflict test on
  the counters is the test against every reservation, and taking or releasing a
  reservation adds it to or removes it from the multiset.
\<close>

section \<open>FSAL status\<close>

datatype fsal_errors_t =
  ERR_FSAL_NO_ERROR | ERR_FSAL_PERM | ERR_FSAL_NOENT | ERR_FSAL_IO | ERR_FSAL_NXIO |
  ERR_FSAL_NOMEM | ERR_FSAL_ACCESS | ERR_FSAL_FAULT | ERR_FSAL_STILL_IN_USE |
  ERR_FSAL_EXIST | ERR_FSAL_XDEV | ERR_FSAL_NOTDIR | ERR_FSAL_ISDIR | ERR_FSAL_INVAL |
  ERR_FSAL_FBIG | ERR_FSAL_NOSPC | ERR_FSAL_ROFS | ERR_FSAL_MLINK | ERR_FSAL_DQUOT |
  ERR_FSAL_NO_DATA | ERR_FSAL_NAMETOOLONG | ERR_FSAL_NOTEMPTY | ERR_FSAL_STALE |
  ERR_FSAL_BADHANDLE | ERR_FSAL_BADCOOKIE | ERR_FSAL_NOTSUPP | ERR_FSAL_TOOSMALL |
  ERR_FSAL_SERVERFAULT | ERR_FSAL_BADTYPE | ERR_FSAL_DELAY | ERR_FSAL_LOCKED |
  ERR_FSAL_FHEXPIRED | ERR_FSAL_SHARE_DENIED | ERR_FSAL_SYMLINK |
  ERR_FSAL_ATTRNOTSUPP | ERR_FSAL_BAD_RANGE | ERR_FSAL_NOT_INIT |
  ERR_FSAL_ALREADY_INIT | ERR_FSAL_BAD_INIT | ERR_FSAL_SEC | ERR_FSAL_NO_QUOTA |
  ERR_FSAL_NOT_OPENED | ERR_FSAL_DEADLOCK | ERR_FSAL_OVERFLOW | ERR_FSAL_INTERRUPT |
  ERR_FSAL_BLOCKED | ERR_FSAL_TIMEOUT | ERR_FSAL_FILE_OPEN | ERR_FSAL_UNION_NOTSUPP |
  ERR_FSAL_IN_GRACE | ERR_FSAL_NO_ACE | ERR_FSAL_CROSS_JUNCTION | ERR_FSAL_BADNAME |
  ERR_FSAL_NOXATTR | ERR_FSAL_XATTR2BIG

primrec msg_fsal_err :: "fsal_errors_t \<Rightarrow> string" where
  "msg_fsal_err ERR_FSAL_NO_ERROR = ''No error''"
| "msg_fsal_err ERR_FSAL_PERM = ''Forbidden action''"
| "msg_fsal_err ERR_FSAL_NOENT = ''No such file or directory''"
| "msg_fsal_err ERR_FSAL_IO = ''I/O error''"
| "msg_fsal_err ERR_FSAL_NXIO = ''No such device or address''"
| "msg_fsal_err ERR_FSAL_NOMEM = ''Not enough memory''"
| "msg_fsal_err ERR_FSAL_ACCESS = ''Permission denied''"
| "msg_fsal_err ERR_FSAL_FAULT = ''Bad address''"
| "msg_fsal_err ERR_FSAL_STILL_IN_USE = ''Device or resource busy''"
| "msg_fsal_err ERR_FSAL_EXIST = ''This object already exists''"
| "msg_fsal_err ERR_FSAL_XDEV = ''This operation can't cross filesystems''"
| "msg_fsal_err ERR_FSAL_NOTDIR = ''This object is not a directory''"
| "msg_fsal_err ERR_FSAL_ISDIR = ''Directory used in a nondirectory operation''"
| "msg_fsal_err ERR_FSAL_INVAL = ''Invalid object type''"
| "msg_fsal_err ERR_FSAL_FBIG = ''File exceeds max file size''"
| "msg_fsal_err ERR_FSAL_NOSPC = ''No space left on filesystem''"
| "msg_fsal_err ERR_FSAL_ROFS = ''Read-only filesystem''"
| "msg_fsal_err ERR_FSAL_MLINK = ''Too many hard links''"
| "msg_fsal_err ERR_FSAL_DQUOT = ''Quota exceeded''"
| "msg_fsal_err ERR_FSAL_NO_DATA = ''No Data''"
| "msg_fsal_err ERR_FSAL_NAMETOOLONG = ''Max name length exceeded''"
| "msg_fsal_err ERR_FSAL_NOTEMPTY = ''The directory is not empty''"
| "msg_fsal_err ERR_FSAL_STALE = ''The file no longer exists''"
| "msg_fsal_err ERR_FSAL_BADHANDLE = ''Illegal filehandle''"
| "msg_fsal_err ERR_FSAL_BADCOOKIE = ''Invalid cookie''"
| "msg_fsal_err ERR_FSAL_NOTSUPP = ''Operation not supported''"
| "msg_fsal_err ERR_FSAL_TOOSMALL = ''Output buffer too small''"
| "msg_fsal_err ERR_FSAL_SERVERFAULT = ''Undefined server error''"
| "msg_fsal_err ERR_FSAL_BADTYPE = ''Invalid type for create operation''"
| "msg_fsal_err ERR_FSAL_DELAY = ''File busy, retry''"
| "msg_fsal_err ERR_FSAL_LOCKED = ''Locked''"
| "msg_fsal_err ERR_FSAL_FHEXPIRED = ''Filehandle expired''"
| "msg_fsal_err ERR_FSAL_SHARE_DENIED = ''Share Denied''"
| "msg_fsal_err ERR_FSAL_SYMLINK = ''This is a symbolic link, should be file/directory''"
| "msg_fsal_err ERR_FSAL_ATTRNOTSUPP = ''Attribute not supported''"
| "msg_fsal_err ERR_FSAL_BAD_RANGE = ''Lock not in allowable range''"
| "msg_fsal_err ERR_FSAL_NOT_INIT = ''Filesystem not initialized''"
| "msg_fsal_err ERR_FSAL_ALREADY_INIT = ''Filesystem already initialised''"
| "msg_fsal_err ERR_FSAL_BAD_INIT = ''Filesystem initialisation error''"
| "msg_fsal_err ERR_FSAL_SEC = ''Security context error''"
| "msg_fsal_err ERR_FSAL_NO_QUOTA = ''No Quota available''"
| "msg_fsal_err ERR_FSAL_NOT_OPENED = ''File/directory not opened''"
| "msg_fsal_err ERR_FSAL_DEADLOCK = ''Deadlock''"
| "msg_fsal_err ERR_FSAL_OVERFLOW = ''Overflow''"
| "msg_fsal_err ERR_FSAL_INTERRUPT = ''Operation Interrupted''"
| "msg_fsal_err ERR_FSAL_BLOCKED = ''Lock Blocked''"
| "msg_fsal_err ERR_FSAL_TIMEOUT = ''Timeout''"
| "msg_fsal_err ERR_FSAL_FILE_OPEN = ''File Open''"
| "msg_fsal_err ERR_FSAL_UNION_NOTSUPP = ''Union Not Supported''"
| "msg_fsal_err ERR_FSAL_IN_GRACE = ''Server in Grace''"
| "msg_fsal_err ERR_FSAL_NO_ACE = ''No matching ACE''"
| "msg_fsal_err ERR_FSAL_CROSS_JUNCTION = ''Crossed Junction''"
| "msg_fsal_err ERR_FSAL_BADNAME = ''Invalid Name''"
| "msg_fsal_err ERR_FSAL_NOXATTR = ''No such xattr''"
| "msg_fsal_err ERR_FSAL_XATTR2BIG = ''Xattr too big''"

record fsal_status_t =
  major :: fsal_errors_t
  minor :: uint32

definition fsalstat :: "fsal_errors_t \<Rightarrow> uint32 \<Rightarrow> fsal_status_t" where
  "fsalstat mj mn = \<lparr>major = mj, minor = mn\<rparr>"

definition FSAL_IS_SUCCESS :: "fsal_status_t \<Rightarrow> bool" where
  "FSAL_IS_SUCCESS st \<longleftrightarrow> major st = ERR_FSAL_NO_ERROR"

definition FSAL_IS_ERROR :: "fsal_status_t \<Rightarrow> bool" where
  "FSAL_IS_ERROR st \<longleftrightarrow> \<not> FSAL_IS_SUCCESS st"

definition fsal_err_txt :: "fsal_status_t \<Rightarrow> string" where
  "fsal_err_txt st = msg_fsal_err (major st)"
section \<open>Open flags and share counters\<close>

type_synonym fsal_openflags_t = uint16

definition FSAL_O_CLOSED :: fsal_openflags_t where [nfs_consts]: "FSAL_O_CLOSED = 0x0000"
definition FSAL_O_READ :: fsal_openflags_t where [nfs_consts]: "FSAL_O_READ = 0x0001"
definition FSAL_O_WRITE :: fsal_openflags_t where [nfs_consts]: "FSAL_O_WRITE = 0x0002"
definition FSAL_O_RECLAIM :: fsal_openflags_t where [nfs_consts]: "FSAL_O_RECLAIM = 0x0008"
definition FSAL_O_ANY :: fsal_openflags_t where [nfs_consts]: "FSAL_O_ANY = 0x0020"
definition FSAL_O_TRUNC :: fsal_openflags_t where [nfs_consts]: "FSAL_O_TRUNC = 0x0040"
definition FSAL_O_DENY_READ :: fsal_openflags_t where [nfs_consts]: "FSAL_O_DENY_READ = 0x0100"
definition FSAL_O_DENY_WRITE :: fsal_openflags_t where [nfs_consts]: "FSAL_O_DENY_WRITE = 0x0200"
definition FSAL_O_DENY_WRITE_MAND :: fsal_openflags_t where
  [nfs_consts]: "FSAL_O_DENY_WRITE_MAND = 0x0400"

text \<open>The counters are \<open>unsigned int\<close>: adding a negative increment wraps around.\<close>

record fsal_share =
  share_access_read :: uint32
  share_access_write :: uint32
  share_deny_read :: uint32
  share_deny_write :: uint32
  share_deny_write_mand :: uint32

definition zero_share :: fsal_share where
  "zero_share = \<lparr>share_access_read = 0, share_access_write = 0, share_deny_read = 0,
     share_deny_write = 0, share_deny_write_mand = 0\<rparr>"

text \<open>\<open>has f m\<close> is the C expression \<open>(f & m) != 0\<close>.\<close>

definition has :: "fsal_openflags_t \<Rightarrow> fsal_openflags_t \<Rightarrow> bool" where
  "has f m \<longleftrightarrow> f AND m \<noteq> 0"

definition flag_inc :: "fsal_openflags_t \<Rightarrow> fsal_openflags_t \<Rightarrow> fsal_openflags_t \<Rightarrow> uint32" where
  "flag_inc m old_openflags new_openflags =
     of_bool (has new_openflags m) - of_bool (has old_openflags m)"

definition update_share_counters ::
  "fsal_share \<Rightarrow> fsal_openflags_t \<Rightarrow> fsal_openflags_t \<Rightarrow> fsal_share" where
  "update_share_counters sh old_openflags new_openflags =
     (let access_read_inc = flag_inc FSAL_O_READ old_openflags new_openflags;
          access_write_inc = flag_inc FSAL_O_WRITE old_openflags new_openflags;
          deny_read_inc = flag_inc FSAL_O_DENY_READ old_openflags new_openflags;
          deny_write_inc = flag_inc FSAL_O_DENY_WRITE old_openflags new_openflags +
                           flag_inc FSAL_O_DENY_WRITE_MAND old_openflags new_openflags;
          deny_write_mand_inc = flag_inc FSAL_O_DENY_WRITE_MAND old_openflags new_openflags
      in \<lparr>share_access_read = share_access_read sh + access_read_inc,
          share_access_write = share_access_write sh + access_write_inc,
          share_deny_read = share_deny_read sh + deny_read_inc,
          share_deny_write = share_deny_write sh + deny_write_inc,
          share_deny_write_mand = share_deny_write_mand sh + deny_write_mand_inc\<rparr>)"

definition check_share_conflict :: "fsal_share \<Rightarrow> fsal_openflags_t \<Rightarrow> bool \<Rightarrow> fsal_status_t" where
  "check_share_conflict sh openflags bypass =
     (if has openflags FSAL_O_READ \<and> share_deny_read sh > 0 \<and> \<not> bypass
      then fsalstat ERR_FSAL_SHARE_DENIED 0
      else if has openflags FSAL_O_WRITE \<and>
        (share_deny_write_mand sh > 0 \<or> \<not> bypass \<and> share_deny_write sh > 0)
      then fsalstat ERR_FSAL_SHARE_DENIED 0
      else if has openflags FSAL_O_DENY_READ \<and> share_access_read sh > 0
      then fsalstat ERR_FSAL_SHARE_DENIED 0
      else if (has openflags FSAL_O_DENY_WRITE \<or> has openflags FSAL_O_DENY_WRITE_MAND) \<and>
        share_access_write sh > 0
      then fsalstat ERR_FSAL_SHARE_DENIED 0
      else fsalstat ERR_FSAL_NO_ERROR 0)"

definition check_share_conflict_and_update ::
  "fsal_share \<Rightarrow> fsal_openflags_t \<Rightarrow> fsal_openflags_t \<Rightarrow> bool \<Rightarrow> fsal_share \<times> fsal_status_t" where
  "check_share_conflict_and_update sh old_openflags new_openflags bypass =
     (let status = check_share_conflict sh new_openflags bypass
      in if \<not> FSAL_IS_ERROR status
         then (update_share_counters sh old_openflags new_openflags, status)
         else (sh, status))"

lemma FSAL_IS_ERROR_fsalstat [simp]: "FSAL_IS_ERROR (fsalstat e n) \<longleftrightarrow> e \<noteq> ERR_FSAL_NO_ERROR"
  by (simp add: FSAL_IS_ERROR_def FSAL_IS_SUCCESS_def fsalstat_def)

lemma FSAL_IS_ERROR_txt: "FSAL_IS_ERROR st \<longleftrightarrow> fsal_err_txt st \<noteq> ''No error''"
  by (cases "major st") (simp_all add: FSAL_IS_ERROR_def FSAL_IS_SUCCESS_def fsal_err_txt_def)

section \<open>The reservations in force\<close>

text \<open>
  \<open>holders M m\<close> counts the reservations of the multiset \<open>M\<close> that carry the flag
  \<open>m\<close>; \<open>share_of M\<close> are the counters that stand for \<open>M\<close>.
\<close>

definition holders :: "fsal_openflags_t multiset \<Rightarrow> fsal_openflags_t \<Rightarrow> nat" where
  "holders M m = size (filter_mset (\<lambda>f. has f m) M)"

definition share_of :: "fsal_openflags_t multiset \<Rightarrow> fsal_share" where
  "share_of M =
     \<lparr>share_access_read = of_nat (holders M FSAL_O_READ),
      share_access_write = of_nat (holders M FSAL_O_WRITE),
      share_deny_read = of_nat (holders M FSAL_O_DENY_READ),
      share_deny_write = of_nat (holders M FSAL_O_DENY_WRITE + holders M FSAL_O_DENY_WRITE_MAND),
      share_deny_write_mand = of_nat (holders M FSAL_O_DENY_WRITE_MAND)\<rparr>"

text \<open>Whether a new open with flags \<open>f\<close> clashes with a reservation \<open>g\<close> in force.\<close>

definition share_clash :: "bool \<Rightarrow> fsal_openflags_t \<Rightarrow> fsal_openflags_t \<Rightarrow> bool" where
  "share_clash bypass f g \<longleftrightarrow>
     has f FSAL_O_READ \<and> has g FSAL_O_DENY_READ \<and> \<not> bypass \<or>
     has f FSAL_O_WRITE \<and>
       (has g FSAL_O_DENY_WRITE_MAND \<or> \<not> bypass \<and> has g FSAL_O_DENY_WRITE) \<or>
     has f FSAL_O_DENY_READ \<and> has g FSAL_O_READ \<or>
     (has f FSAL_O_DENY_WRITE \<or> has f FSAL_O_DENY_WRITE_MAND) \<and> has g FSAL_O_WRITE"

lemma share_clash_sym: "share_clash False f g \<longleftrightarrow> share_clash False g f"
  by (auto simp: share_clash_def)

lemma holders_add [simp]: "holders (add_mset f M) m = of_bool (has f m) + holders M m"
  by (simp add: holders_def)

lemma holders_empty [simp]: "holders {#} m = 0"
  by (simp add: holders_def)

lemma holders_le: "holders M m \<le> size M"
  by (simp add: holders_def size_filter_mset_lesseq)

lemma holders_pos: "0 < holders M m \<longleftrightarrow> (\<exists>g\<in>#M. has g m)"
  by (auto simp: holders_def nonempty_has_size [symmetric] filter_mset_eq_conv multiset_eq_iff)

lemma has_CLOSED [simp]: "\<not> has FSAL_O_CLOSED m"
  by (simp add: has_def FSAL_O_CLOSED_def)

lemma share_of_empty [simp]: "share_of {#} = zero_share"
  by (simp add: share_of_def zero_share_def)

lemma update_share_counters_swap:
  "update_share_counters (share_of (add_mset old M)) old new = share_of (add_mset new M)"
  by (simp add: update_share_counters_def share_of_def flag_inc_def Let_def algebra_simps)

lemma share_of_CLOSED [simp]: "share_of (add_mset FSAL_O_CLOSED M) = share_of M"
  by (simp add: share_of_def)

lemma update_share_counters_take:
  "update_share_counters (share_of M) FSAL_O_CLOSED f = share_of (add_mset f M)"
  using update_share_counters_swap [of FSAL_O_CLOSED M f] by simp

lemma update_share_counters_release:
  "update_share_counters (share_of (add_mset f M)) f FSAL_O_CLOSED = share_of M"
  using update_share_counters_swap [of f M FSAL_O_CLOSED] by simp

lemma of_nat_uint32_pos: "n < 2 ^ 32 \<Longrightarrow> 0 < (of_nat n :: uint32) \<longleftrightarrow> 0 < n"
  by (simp add: word_less_nat_alt unat_of_nat)

lemma holders_word:
  assumes "size M < 2 ^ 31"
  shows "0 < (of_nat (holders M m) :: uint32) \<longleftrightarrow> (\<exists>g\<in>#M. has g m)"
    and "0 < (of_nat (holders M m + holders M m') :: uint32) \<longleftrightarrow> (\<exists>g\<in>#M. has g m \<or> has g m')"
  using assms holders_le [of M m] holders_le [of M m']
    holders_pos [of M m] holders_pos [of M m']
  by (auto simp: of_nat_uint32_pos simp del: of_nat_add)

lemma check_share_conflict_granted:
  assumes "size M < 2 ^ 31"
  shows "FSAL_IS_ERROR (check_share_conflict (share_of M) f bypass) \<longleftrightarrow>
         (\<exists>g\<in>#M. share_clash bypass f g)"
  using holders_word [OF assms]
  by (auto simp: check_share_conflict_def share_of_def share_clash_def simp del: of_nat_add)

section \<open>A table of reservations\<close>

text \<open>
  What a client of a reservation table relies on: \<open>held s M\<close> says that the table
  \<open>s\<close> stands for the reservations \<open>M\<close>.  A reservation is granted exactly when it
  clashes with none in force, up to the capacity \<open>cap\<close> of the counters, and a
  reservation in force can be given back.
\<close>

inductive reserving ::
  "('s \<Rightarrow> 'f \<Rightarrow> 's option) \<Rightarrow> ('s \<Rightarrow> 'f \<Rightarrow> 's option) \<Rightarrow> nat \<Rightarrow> 's \<Rightarrow> 's \<times> 'f multiset \<Rightarrow> bool"
  for grab give cap s0
  where
    reserving_init: "reserving grab give cap s0 (s0, {#})"
  | reserving_take: "reserving grab give cap s0 (s, M) \<Longrightarrow> size M < cap \<Longrightarrow> grab s f = Some s' \<Longrightarrow>
      reserving grab give cap s0 (s', add_mset f M)"
  | reserving_drop: "reserving grab give cap s0 (s, add_mset f M) \<Longrightarrow> give s f = Some s' \<Longrightarrow>
      reserving grab give cap s0 (s', M)"

definition compatible :: "('f \<Rightarrow> 'f \<Rightarrow> bool) \<Rightarrow> 'f multiset \<Rightarrow> bool" where
  "compatible clash M \<longleftrightarrow> (\<forall>f g. {#f, g#} \<subseteq># M \<longrightarrow> \<not> clash f g)"

lemma compatible_empty [simp]: "compatible clash {#}"
  by (simp add: compatible_def)

lemma compatible_mono: "compatible clash N \<Longrightarrow> M \<subseteq># N \<Longrightarrow> compatible clash M"
  unfolding compatible_def by (meson subset_mset.order_trans)

lemma pair_subset_add_mset:
  "{#f, g#} \<subseteq># add_mset h M \<Longrightarrow>
   {#f, g#} \<subseteq># M \<or> f = h \<and> g \<in># M \<or> g = h \<and> f \<in># M"
  by (cases "h = f"; cases "h = g")
     (auto simp: insert_subset_eq_iff add_mset_commute dest: mset_subset_eq_insertD
        split: if_splits)

locale reservation =
  fixes grab :: "'s \<Rightarrow> 'f \<Rightarrow> 's option"
    and give :: "'s \<Rightarrow> 'f \<Rightarrow> 's option"
    and held :: "'s \<Rightarrow> 'f multiset \<Rightarrow> bool"
    and clash :: "'f \<Rightarrow> 'f \<Rightarrow> bool"
    and cap :: nat
  assumes clash_sym: "clash f g \<Longrightarrow> clash g f"
    and grab_iff: "held s M \<Longrightarrow> size M < cap \<Longrightarrow>
      (\<exists>s'. grab s f = Some s') \<longleftrightarrow> (\<forall>g\<in>#M. \<not> clash f g)"
    and grab_held: "held s M \<Longrightarrow> size M < cap \<Longrightarrow> grab s f = Some s' \<Longrightarrow> held s' (add_mset f M)"
    and give_held: "held s (add_mset f M) \<Longrightarrow> size M < cap \<Longrightarrow>
      \<exists>s'. give s f = Some s' \<and> held s' M"
begin

lemma grab_compatible:
  assumes "held s M" "size M < cap" "grab s f = Some s'" "compatible clash M"
  shows "compatible clash (add_mset f M)"
  unfolding compatible_def
proof (intro allI impI)
  fix g h assume "{#g, h#} \<subseteq># add_mset f M"
  moreover have "\<forall>g\<in>#M. \<not> clash f g"
    using grab_iff [OF assms(1,2)] assms(3) by blast
  ultimately show "\<not> clash g h"
    using pair_subset_add_mset [of g h f M] assms(4) clash_sym
    by (auto simp: compatible_def)
qed

lemma reserving_invariant:
  assumes "held s0 {#}" "reserving grab give cap s0 (s, M)"
  shows "held s M \<and> compatible clash M \<and> size M \<le> cap"
  using assms(2,1)
proof (induction "(s, M)" arbitrary: s M rule: reserving.induct)
  case reserving_init
  then show ?case by simp
next
  case (reserving_take s M f s')
  then show ?case using grab_held grab_compatible by (metis Suc_leI size_add_mset)
next
  case (reserving_drop s f M s')
  then have "compatible clash M" "size M < cap" "held s (add_mset f M)"
    by (auto intro: compatible_mono)
  with give_held reserving_drop show ?case by fastforce
qed

lemma reserving_not_stuck:
  assumes "held s0 {#}" "reserving grab give cap s0 (s, add_mset f M)"
  shows "\<exists>s'. give s f = Some s' \<and> reserving grab give cap s0 (s', M)"
  using reserving_invariant [OF assms] give_held [of s f M] assms(2)
  by (auto intro: reserving.reserving_drop)

end

definition take_share :: "fsal_share \<Rightarrow> fsal_openflags_t \<Rightarrow> fsal_share option" where
  "take_share sh f =
     (case check_share_conflict_and_update sh FSAL_O_CLOSED f False of
        (sh', status) \<Rightarrow> if FSAL_IS_ERROR status then None else Some sh')"

definition drop_share :: "fsal_share \<Rightarrow> fsal_openflags_t \<Rightarrow> fsal_share option" where
  "drop_share sh f = Some (update_share_counters sh f FSAL_O_CLOSED)"

interpretation share: reservation take_share drop_share "\<lambda>sh M. sh = share_of M"
  "share_clash False" "2 ^ 31"
  by unfold_locales
     (auto simp: take_share_def drop_share_def check_share_conflict_and_update_def Let_def
        check_share_conflict_granted update_share_counters_take update_share_counters_release
        share_clash_sym split: if_splits)

section \<open>Properties\<close>

text \<open>
  C33: The test for a share conflict is exact: with fewer than 2^31 operations in progress,
  it refuses an operation exactly when the operation clashes with one of them; and taking
  a reservation and giving it back restores the counters.
\<close>

theorem share_conflict_exact:
  assumes "size M < 2 ^ 31"
  shows "(FSAL_IS_ERROR (check_share_conflict (share_of M) f bypass) \<longleftrightarrow>
           (\<exists>g\<in>#M. share_clash bypass f g)) \<and>
    update_share_counters (update_share_counters (share_of M) FSAL_O_CLOSED f) f FSAL_O_CLOSED = share_of M"
  using check_share_conflict_granted [OF assms]
  by (simp add: update_share_counters_take update_share_counters_release)

theorem share_conflict_exact_witness:
  "FSAL_IS_ERROR (check_share_conflict (share_of {#FSAL_O_DENY_READ#}) FSAL_O_READ False)"
  using share_conflict_exact [of "{#FSAL_O_DENY_READ#}" FSAL_O_READ False]
  by (simp add: share_clash_def has_def nfs_consts)

end
