(* ===== verification/Fsal_Handle.thy ===== *)
theory Fsal_Handle
  imports Fsal_Share Posix_Env "HOL-Library.Monad_Syntax" "HOL-Library.List_Lexorder"
begin

text \<open>
  Open files of the server: the locks and the counters of a \<open>struct f_handle\<close>, the
  start and the end of an I/O operation on it (\<open>src/nfs/nfs_utils.cpp\<close>, lines
  399--428 and 542--659), and the table \<open>handle_map\<close> from paths to handles of the
  class \<open>FsalHandle\<close> (\<open>src/file/fsal_handle.cpp\<close>).  A call that does not return
  (the wrappers of the locks call \<open>abort()\<close>, a null pointer is dereferenced, a lock
  that is taken is waited for) is \<open>None\<close>.
\<close>

section \<open>Locks\<close>

text \<open>
  A readers-writer lock seen by the thread that uses it.  Unlocking a lock that is
  not held is an error, on which the wrapper aborts.
\<close>

datatype rwlock = RW_unlocked | RW_write | RW_read nat

type_synonym mutex = bool

definition pthread_lock_init :: rwlock where
  "pthread_lock_init = RW_unlocked"

fun pthread_lock_write :: "rwlock \<Rightarrow> rwlock option" where
  "pthread_lock_write RW_unlocked = Some RW_write"
| "pthread_lock_write _ = None"

fun pthread_lock_read :: "rwlock \<Rightarrow> rwlock option" where
  "pthread_lock_read RW_unlocked = Some (RW_read 0)"
| "pthread_lock_read (RW_read n) = Some (RW_read (Suc n))"
| "pthread_lock_read RW_write = None"

fun pthread_unlock_rw :: "rwlock \<Rightarrow> rwlock option" where
  "pthread_unlock_rw RW_unlocked = None"
| "pthread_unlock_rw RW_write = Some RW_unlocked"
| "pthread_unlock_rw (RW_read 0) = Some RW_unlocked"
| "pthread_unlock_rw (RW_read (Suc n)) = Some (RW_read n)"

definition pthread_w_mutex_init :: mutex where
  "pthread_w_mutex_init = False"

definition pthread_w_mutex_lock :: "mutex \<Rightarrow> mutex option" where
  "pthread_w_mutex_lock locked = (if locked then None else Some True)"

definition pthread_w_mutex_unlock :: "mutex \<Rightarrow> mutex option" where
  "pthread_w_mutex_unlock locked = (if locked then Some False else None)"

text \<open>Destroying a lock that is held is an error.\<close>

definition pthread_lock_destory :: "rwlock \<Rightarrow> unit option" where
  "pthread_lock_destory l = (if l = RW_unlocked then Some () else None)"

definition pthread_w_mutex_destroy :: "mutex \<Rightarrow> unit option" where
  "pthread_w_mutex_destroy locked = (if locked then None else Some ())"

section \<open>Handles\<close>

record f_handle =
  fh_handle :: fd
  handle_rwlock_lock :: rwlock
  work_mutex :: mutex
  io_work :: uint32
  want_read :: uint32
  want_write :: uint32
  fd_work :: uint32
  fh_share :: "fsal_share option"

definition wait_to_start_io :: "f_handle \<Rightarrow> fsal_openflags_t \<Rightarrow> f_handle \<times> fsal_status_t" where
  "wait_to_start_io fh openflags =
     (fh\<lparr>io_work := io_work fh + 1\<rparr>, fsalstat ERR_FSAL_NO_ERROR 0)"

text \<open>
  Every caller passes the counters of the handle itself, or a null pointer; a
  \<open>bool\<close> says which.
\<close>

definition check_share_conflict_and_update_locked ::
  "f_handle \<Rightarrow> fsal_openflags_t \<Rightarrow> fsal_openflags_t \<Rightarrow> bool \<Rightarrow>
   (f_handle \<times> fsal_status_t) option" where
  "check_share_conflict_and_update_locked fh old_openflags new_openflags bypass =
     do {
       l \<leftarrow> pthread_lock_write (handle_rwlock_lock fh);
       sh \<leftarrow> fh_share fh;
       let (sh, status) = check_share_conflict_and_update sh old_openflags new_openflags bypass;
       l \<leftarrow> pthread_unlock_rw l;
       Some (fh\<lparr>handle_rwlock_lock := l, fh_share := Some sh\<rparr>, status)
     }"

definition fsal_start_global_io ::
  "f_handle \<Rightarrow> fsal_openflags_t \<Rightarrow> bool \<Rightarrow> bool \<Rightarrow> (f_handle \<times> fsal_status_t) option" where
  "fsal_start_global_io fh openflags bypass share =
     (let open_any = (openflags = FSAL_O_ANY) in
      if \<not> open_any \<and> share \<and> fh_share fh \<noteq> None
      then do {
        (fh, status) \<leftarrow> check_share_conflict_and_update_locked fh FSAL_O_CLOSED openflags bypass;
        if FSAL_IS_ERROR status
        then do {
          l \<leftarrow> pthread_unlock_rw (handle_rwlock_lock fh);
          Some (fh\<lparr>handle_rwlock_lock := l\<rparr>, status)
        }
        else Some (wait_to_start_io fh openflags)
      }
      else Some (wait_to_start_io fh openflags))"

definition fsal_start_io ::
  "f_handle \<Rightarrow> bool \<Rightarrow> fsal_openflags_t \<Rightarrow> bool \<Rightarrow> bool \<Rightarrow> (f_handle \<times> fsal_status_t) option" where
  "fsal_start_io fh state openflags bypass share =
     (let fh = (if state then fst (wait_to_start_io fh openflags) else fh)
      in fsal_start_global_io fh openflags bypass (\<not> state \<and> share))"

definition atomic_add_unless_int32_t :: "uint32 \<Rightarrow> uint32 \<Rightarrow> uint32 \<Rightarrow> bool \<times> uint32" where
  "atomic_add_unless_int32_t var addend unless =
     (if var = unless then (False, var) else (True, var + addend))"

definition PTHREAD_MUTEX_dec_int32_t_and_lock ::
  "uint32 \<Rightarrow> mutex \<Rightarrow> (bool \<times> uint32 \<times> mutex) option" where
  "PTHREAD_MUTEX_dec_int32_t_and_lock var lock =
     (let (changed, var) = atomic_add_unless_int32_t var (- 1) 1 in
      if changed then Some (False, var, lock)
      else do {
        lock \<leftarrow> pthread_w_mutex_lock lock;
        let var = var + (- 1);
        if var = 0 then Some (True, var, lock)
        else do {
          lock \<leftarrow> pthread_w_mutex_unlock lock;
          Some (False, var, lock)
        }
      })"

definition fsal_complete_io :: "f_handle \<Rightarrow> (f_handle \<times> fsal_status_t) option" where
  "fsal_complete_io fh =
     do {
       (got_mutex, n, m) \<leftarrow> PTHREAD_MUTEX_dec_int32_t_and_lock (io_work fh) (work_mutex fh);
       m \<leftarrow> (if got_mutex then pthread_w_mutex_unlock m else Some m);
       Some (fh\<lparr>io_work := n, work_mutex := m\<rparr>, fsalstat ERR_FSAL_NO_ERROR 0)
     }"

definition update_share_counters_locked ::
  "f_handle \<Rightarrow> fsal_openflags_t \<Rightarrow> fsal_openflags_t \<Rightarrow> f_handle option" where
  "update_share_counters_locked fh old_openflags new_openflags =
     do {
       l \<leftarrow> pthread_lock_write (handle_rwlock_lock fh);
       sh \<leftarrow> fh_share fh;
       l \<leftarrow> pthread_unlock_rw l;
       Some (fh\<lparr>handle_rwlock_lock := l,
                fh_share := Some (update_share_counters sh old_openflags new_openflags)\<rparr>)
     }"

section \<open>I/O on a handle keeps its reservations\<close>

text \<open>
  \<open>idle_locks\<close>: no lock of the handle is held, as between two operations on it.
  \<open>fh_held fh M\<close>: the handle counts exactly the operations \<open>M\<close> in progress, in its
  share counters and in \<open>io_work\<close>.
\<close>

definition idle_locks :: "f_handle \<Rightarrow> bool" where
  "idle_locks fh \<longleftrightarrow> handle_rwlock_lock fh = RW_unlocked \<and> \<not> work_mutex fh"

definition fh_held :: "f_handle \<Rightarrow> fsal_openflags_t multiset \<Rightarrow> bool" where
  "fh_held fh M \<longleftrightarrow> idle_locks fh \<and> fh_share fh = Some (share_of M) \<and> io_work fh = of_nat (size M)"

text \<open>An operation starts, and ends the way \<open>nfs_write_buff\<close> ends it.\<close>

definition start_reserved :: "f_handle \<Rightarrow> fsal_openflags_t \<Rightarrow> f_handle option" where
  "start_reserved fh f =
     do {
       (fh, status) \<leftarrow> fsal_start_io fh False f False True;
       if FSAL_IS_ERROR status then None else Some fh
     }"

definition finish_reserved :: "f_handle \<Rightarrow> fsal_openflags_t \<Rightarrow> f_handle option" where
  "finish_reserved fh f =
     do {
       (fh, _) \<leftarrow> fsal_complete_io fh;
       update_share_counters_locked fh f FSAL_O_CLOSED
     }"

lemma has_ANY [simp]:
  "\<not> has FSAL_O_ANY FSAL_O_READ" "\<not> has FSAL_O_ANY FSAL_O_WRITE"
  "\<not> has FSAL_O_ANY FSAL_O_DENY_READ" "\<not> has FSAL_O_ANY FSAL_O_DENY_WRITE"
  "\<not> has FSAL_O_ANY FSAL_O_DENY_WRITE_MAND"
  by (simp_all add: has_def nfs_consts)

lemma share_of_ANY [simp]: "share_of (add_mset FSAL_O_ANY M) = share_of M"
  by (simp add: share_of_def)

lemma share_clash_ANY [simp]: "\<not> share_clash b FSAL_O_ANY g"
  by (simp add: share_clash_def)

lemma start_io_ANY:
  "fsal_start_io fh False FSAL_O_ANY b s = Some (wait_to_start_io fh FSAL_O_ANY)"
  by (simp add: fsal_start_io_def fsal_start_global_io_def)

lemma start_io_granted:
  assumes "fh_held fh M" "size M < 2 ^ 31" "\<forall>g\<in>#M. \<not> share_clash b f g"
  shows "\<exists>fh'. fsal_start_io fh False f b True = Some (fh', fsalstat ERR_FSAL_NO_ERROR 0) \<and>
               fh_held fh' (add_mset f M) \<and> fh_handle fh' = fh_handle fh"
proof (cases "f = FSAL_O_ANY")
  case True
  with assms show ?thesis
    by (auto simp: start_io_ANY wait_to_start_io_def fh_held_def idle_locks_def)
next
  case False
  with assms check_share_conflict_granted [OF assms(2), of f b] show ?thesis
    by (auto simp: fsal_start_io_def fsal_start_global_io_def fh_held_def idle_locks_def
        check_share_conflict_and_update_locked_def check_share_conflict_and_update_def
        wait_to_start_io_def update_share_counters_take)
qed

text \<open>
  When the reservation is refused, the lock has already been released by
  \<open>check_share_conflict_and_update_locked\<close>; releasing it again aborts the server.
\<close>

lemma start_io_refused:
  assumes "fh_held fh M" "size M < 2 ^ 31" "\<exists>g\<in>#M. share_clash b f g"
  shows "fsal_start_io fh False f b True = None"
  using assms check_share_conflict_granted [OF assms(2), of f b]
  by (auto simp: fsal_start_io_def fsal_start_global_io_def fh_held_def idle_locks_def
      check_share_conflict_and_update_locked_def check_share_conflict_and_update_def)

lemma complete_io_held:
  assumes "fh_held fh (add_mset f M)" "size M < 2 ^ 31"
  shows "fsal_complete_io fh =
         Some (fh\<lparr>io_work := of_nat (size M)\<rparr>, fsalstat ERR_FSAL_NO_ERROR 0)"
  using assms of_nat_uint32_pos [of "size M"]
  by (auto simp: fsal_complete_io_def PTHREAD_MUTEX_dec_int32_t_and_lock_def
      atomic_add_unless_int32_t_def fh_held_def idle_locks_def pthread_w_mutex_lock_def
      pthread_w_mutex_unlock_def word_neq_0_conv [symmetric])

lemma finish_reserved_held:
  assumes "fh_held fh (add_mset f M)" "size M < 2 ^ 31"
  shows "\<exists>fh'. finish_reserved fh f = Some fh' \<and> fh_held fh' M \<and> fh_handle fh' = fh_handle fh"
  using complete_io_held [OF assms] assms
  by (auto simp: finish_reserved_def update_share_counters_locked_def fh_held_def idle_locks_def
      update_share_counters_release)

interpretation fh: reservation start_reserved finish_reserved fh_held "share_clash False" "2 ^ 31"
proof unfold_locales
  fix s M f
  assume "fh_held s M" "size M < 2 ^ 31"
  then show "(\<exists>s'. start_reserved s f = Some s') = (\<forall>g\<in>#M. \<not> share_clash False f g)"
    using start_io_granted [of s M False f] start_io_refused [of s M False f]
    by (cases "\<forall>g\<in>#M. \<not> share_clash False f g") (auto simp: start_reserved_def)
next
  fix s M f s'
  assume "fh_held s M" "size M < 2 ^ 31" "start_reserved s f = Some s'"
  then show "fh_held s' (add_mset f M)"
    using start_io_granted [of s M False f] start_io_refused [of s M False f]
    by (cases "\<forall>g\<in>#M. \<not> share_clash False f g") (auto simp: start_reserved_def)
qed (use share_clash_sym finish_reserved_held in blast)+

section \<open>The handle table\<close>

text \<open>
  \<open>std::map\<close> is kept sorted by its keys; strings are compared byte by byte.
\<close>

fun map_set :: "'k::linorder \<Rightarrow> 'v \<Rightarrow> ('k \<times> 'v) list \<Rightarrow> ('k \<times> 'v) list" where
  "map_set k v [] = [(k, v)]"
| "map_set k v ((k', v') # m) =
     (if k < k' then (k, v) # (k', v') # m
      else if k = k' then (k, v) # m
      else (k', v') # map_set k v m)"

record FsalHandle =
  handle_map :: "(path \<times> f_handle) list"
  n_handle :: f_handle

definition null_f_handle :: f_handle where
  "null_f_handle = \<lparr>fh_handle = - 1, handle_rwlock_lock = RW_unlocked, work_mutex = False,
     io_work = 0, want_read = 0, want_write = 0, fd_work = 0, fh_share = None\<rparr>"

definition FsalHandle_init :: FsalHandle where
  "FsalHandle_init = \<lparr>handle_map = [], n_handle = null_f_handle\<rparr>"

text \<open>
  A \<open>f_handle *\<close> is the entry of a path or the null handle of the class.
\<close>

datatype handle_ref = Map_handle path | Null_handle

fun deref :: "FsalHandle \<Rightarrow> handle_ref \<Rightarrow> f_handle option" where
  "deref T (Map_handle p) = map_of (handle_map T) p"
| "deref T Null_handle = Some (n_handle T)"

fun assign :: "FsalHandle \<Rightarrow> handle_ref \<Rightarrow> f_handle \<Rightarrow> FsalHandle" where
  "assign T (Map_handle p) fh = T\<lparr>handle_map := map_set p fh (handle_map T)\<rparr>"
| "assign T Null_handle fh = T\<lparr>n_handle := fh\<rparr>"

definition judge_handle_exist :: "FsalHandle \<Rightarrow> path \<Rightarrow> bool" where
  "judge_handle_exist T p \<longleftrightarrow> map_of (handle_map T) p \<noteq> None"

definition new_f_handle :: "fd \<Rightarrow> f_handle" where
  "new_f_handle file_handle =
     \<lparr>fh_handle = file_handle, handle_rwlock_lock = pthread_lock_init,
      work_mutex = pthread_w_mutex_init, io_work = 0, want_read = 0, want_write = 0,
      fd_work = 0, fh_share = Some zero_share\<rparr>"

definition push_handle ::
  "'os posix \<Rightarrow> 'os \<Rightarrow> FsalHandle \<Rightarrow> path \<Rightarrow> 'os \<times> FsalHandle \<times> bool" where
  "push_handle P s T p =
     (if \<not> judge_handle_exist T p
      then (case sys_open P s p (O_CREAT OR O_WRONLY) of
              (s, file_handle) \<Rightarrow>
                if file_handle = - 1 then (s, T, False)
                else (s, T\<lparr>handle_map := map_set p (new_f_handle file_handle) (handle_map T)\<rparr>, True))
      else (s, T, True))"

definition get_handle ::
  "'os posix \<Rightarrow> 'os \<Rightarrow> FsalHandle \<Rightarrow> path \<Rightarrow> 'os \<times> FsalHandle \<times> handle_ref" where
  "get_handle P s T p =
     (case map_of (handle_map T) p of
        Some fh \<Rightarrow>
          if fh_handle fh = - 1
          then (case sys_open P s p (O_CREAT OR O_WRONLY) of
                  (s, file_handle) \<Rightarrow>
                    (s, T\<lparr>handle_map := map_set p (fh\<lparr>fh_handle := file_handle\<rparr>) (handle_map T)\<rparr>,
                     Map_handle p))
          else (s, T, Map_handle p)
      | None \<Rightarrow>
          (case push_handle P s T p of
             (s, T, pushed) \<Rightarrow> if pushed then (s, T, Map_handle p) else (s, T, Null_handle)))"

definition just_get_handle :: "FsalHandle \<Rightarrow> path \<Rightarrow> handle_ref" where
  "just_get_handle T p = (if judge_handle_exist T p then Map_handle p else Null_handle)"

definition close_handle :: "'os posix \<Rightarrow> 'os \<Rightarrow> f_handle \<Rightarrow> 'os \<times> f_handle" where
  "close_handle P s fh =
     (if fh_handle fh \<noteq> - 1 then (sys_close P s (fh_handle fh), fh\<lparr>fh_handle := - 1\<rparr>)
      else (s, fh))"

text \<open>
  \<open>close_handles\<close> closes every descriptor, also the -1 of a handle that is closed,
  and destroys the locks; it aborts on a lock that is held.
\<close>

fun close_each :: "'os posix \<Rightarrow> 'os \<Rightarrow> (path \<times> f_handle) list \<Rightarrow> 'os option" where
  "close_each P s [] = Some s"
| "close_each P s ((p, fh) # m) =
     do {
       let s = sys_close P s (fh_handle fh);
       pthread_lock_destory (handle_rwlock_lock fh);
       pthread_w_mutex_destroy (work_mutex fh);
       close_each P s m
     }"

definition close_handles :: "'os posix \<Rightarrow> 'os \<Rightarrow> FsalHandle \<Rightarrow> ('os \<times> FsalHandle) option" where
  "close_handles P s T =
     do {
       s \<leftarrow> close_each P s (handle_map T);
       Some (s, T\<lparr>handle_map := []\<rparr>)
     }"

section \<open>The table refines a map from paths to handles\<close>

lemma map_of_map_set [simp]:
  "sorted_wrt (<) (map fst m) \<Longrightarrow> map_of (map_set k v m) = (map_of m)(k \<mapsto> v)"
proof (induction m rule: map_set.induct)
  case (2 k v k' v' m)
  have "map_of m k = None" if "k < k'"
    using 2(2) that by (auto simp: map_of_eq_None_iff)
  with 2 show ?case by (auto simp: fun_eq_iff)
qed simp

lemma keys_map_set: "fst ` set (map_set k v m) = insert k (fst ` set m)"
  by (induction k v m rule: map_set.induct) auto

lemma sorted_map_set:
  "sorted_wrt (<) (map fst m) \<Longrightarrow> sorted_wrt (<) (map fst (map_set k v m))"
proof (induction m rule: map_set.induct)
  case (2 k v k' v' m)
  have "\<forall>x\<in>fst ` set (map_set k v m). k' < x" if "\<not> k < k'" "k \<noteq> k'"
    using 2(2) that unfolding keys_map_set by auto
  with 2 show ?case by (auto dest: order.strict_trans)
qed simp

lemma map_of_ran: "distinct (map fst m) \<Longrightarrow> snd ` set m = ran (map_of m)"
  by (simp add: ran_distinct)

text \<open>
  The table between two requests: keys in order, no descriptor open, no lock held,
  and each handle counting only write operations (those \<open>nfs_write_buff\<close> did not
  finish because the device failed).
\<close>

definition resting :: "f_handle \<Rightarrow> nat \<Rightarrow> bool" where
  "resting fh n \<longleftrightarrow> fh_handle fh = - 1 \<and> (\<exists>k\<le>n. fh_held fh (replicate_mset k FSAL_O_WRITE))"

definition table_resting :: "FsalHandle \<Rightarrow> nat \<Rightarrow> bool" where
  "table_resting T n \<longleftrightarrow>
     sorted_wrt (<) (map fst (handle_map T)) \<and> n_handle T = null_f_handle \<and>
     (\<forall>p fh. map_of (handle_map T) p = Some fh \<longrightarrow> resting fh n)"

lemma table_resting_init: "table_resting FsalHandle_init 0"
  by (simp add: table_resting_def FsalHandle_init_def)

lemma resting_mono: "resting fh n \<Longrightarrow> n \<le> m \<Longrightarrow> resting fh m"
  by (auto simp: resting_def intro: order_trans)

lemma table_resting_mono: "table_resting T n \<Longrightarrow> n \<le> m \<Longrightarrow> table_resting T m"
  by (auto simp: table_resting_def intro: resting_mono)

lemma table_resting_set:
  "table_resting T n \<Longrightarrow> resting fh n \<Longrightarrow> table_resting (assign T (Map_handle p) fh) n"
  by (auto simp: table_resting_def sorted_map_set split: if_splits)

lemma fh_held_new [simp]: "fh_held (new_f_handle d) {#}"
  by (simp add: fh_held_def idle_locks_def new_f_handle_def pthread_lock_init_def
      pthread_w_mutex_init_def)

lemma fh_handle_new [simp]: "fh_handle (new_f_handle d) = d"
  by (simp add: new_f_handle_def)

lemma fh_held_handle [simp]: "fh_held (fh\<lparr>fh_handle := d\<rparr>) M \<longleftrightarrow> fh_held fh M"
  by (simp add: fh_held_def idle_locks_def)

text \<open>
  \<open>get_handle\<close> on a resting table: either the file cannot be opened and the handle
  returned is closed, or the handle is that of the path and has the descriptor
  \<open>open\<close> returned; writing a resting handle back makes the table rest again.
\<close>

lemma get_handle_resting:
  assumes T: "table_resting T n"
    and opn: "sys_open P s p (O_CREAT OR O_WRONLY) = (s', d)"
  shows "\<exists>T' r fh. get_handle P s T p = (s', T', r) \<and> deref T' r = Some fh \<and> fh_handle fh = d \<and>
    (d = - 1 \<longrightarrow> table_resting T' n) \<and>
    (d \<noteq> - 1 \<longrightarrow> r = Map_handle p \<and>
       (\<exists>k\<le>n. fh_held fh (replicate_mset k FSAL_O_WRITE)) \<and>
       (\<forall>m fh'. n \<le> m \<longrightarrow> resting fh' m \<longrightarrow> table_resting (assign T' r fh') m))"
proof (cases "map_of (handle_map T) p")
  case None
  with assms show ?thesis
    by (auto simp: get_handle_def push_handle_def judge_handle_exist_def table_resting_def
        null_f_handle_def sorted_map_set intro: resting_mono split: if_splits
        intro!: exI [of _ 0])
next
  case (Some fh)
  then obtain k where k: "fh_handle fh = - 1" "k \<le> n" "fh_held fh (replicate_mset k FSAL_O_WRITE)"
    using T by (auto simp: table_resting_def resting_def)
  then have "resting (fh\<lparr>fh_handle := - 1\<rparr>) n"
    by (auto simp: resting_def)
  with Some k assms show ?thesis
    by (auto simp: get_handle_def table_resting_def sorted_map_set intro: resting_mono)
qed

lemma close_handle_resting:
  "fh_held fh (replicate_mset k FSAL_O_WRITE) \<Longrightarrow> k \<le> n \<Longrightarrow> resting (snd (close_handle P s fh)) n"
  by (auto simp: close_handle_def resting_def)

lemma just_get_handle_resting:
  assumes "table_resting T n"
  shows "\<exists>fh. deref T (just_get_handle T p) = Some fh \<and> fh_handle fh = - 1"
  using assms
  by (auto simp: just_get_handle_def judge_handle_exist_def table_resting_def resting_def
      null_f_handle_def)

lemma close_handles_resting:
  assumes "table_resting T n"
  shows "\<exists>s'. close_handles P s T = Some (s', FsalHandle_init)"
proof -
  have "\<exists>s'. close_each P s m = Some s'" if "\<forall>fh\<in>snd ` set m. idle_locks fh" for m
    using that
    by (induction m arbitrary: s)
       (auto simp: idle_locks_def pthread_lock_destory_def pthread_w_mutex_destroy_def)
  moreover have "\<forall>fh\<in>snd ` set (handle_map T). idle_locks fh"
  proof -
    have "distinct (map fst (handle_map T))"
      using assms by (simp add: table_resting_def strict_sorted_iff)
    then have "\<exists>p. map_of (handle_map T) p = Some fh" if "fh \<in> snd ` set (handle_map T)" for fh
      using that by (auto simp: map_of_eq_Some_iff)
    then show ?thesis
      using assms by (fastforce simp: table_resting_def resting_def fh_held_def)
  qed
  ultimately obtain s' where "close_each P s (handle_map T) = Some s'"
    by blast
  with assms show ?thesis
    by (simp add: close_handles_def table_resting_def FsalHandle_init_def)
qed

lemma map_set_same: "sorted_wrt (<) (map fst m) \<Longrightarrow> map_of m k = Some v \<Longrightarrow> map_set k v m = m"
  by (induction k v m rule: map_set.induct) (fastforce split: if_splits dest: map_of_SomeD)+

lemma assign_same: "table_resting T n \<Longrightarrow> deref T r = Some fh \<Longrightarrow> assign T r fh = T"
  by (cases r) (auto simp: table_resting_def map_set_same)

section \<open>Properties\<close>

text \<open>
  C15: Share reservations exclude each other.  Whatever sequence of operations starts and
  finishes on a handle, the operations in progress never clash pairwise (no reader beside a
  deny-read, no writer beside a deny-write), the counters and \<open>io_work\<close> are exactly the
  numbers of the operations in progress, and no lock is left held.
\<close>

theorem handle_share_exclusion:
  assumes "reserving start_reserved finish_reserved (2 ^ 31) (new_f_handle d) (fh, M)"
  shows "fh_share fh = Some (share_of M) \<and> io_work fh = of_nat (size M) \<and> idle_locks fh \<and>
    compatible (share_clash False) M"
  using fh.reserving_invariant [OF fh_held_new assms] by (simp add: fh_held_def)

theorem handle_share_exclusion_witness:
  "\<exists>fh. reserving start_reserved finish_reserved (2 ^ 31) (new_f_handle 3) (fh, {#FSAL_O_READ#}) \<and>
     compatible (share_clash False) {#FSAL_O_READ#} \<and> io_work fh = 1"
proof -
  obtain fh where "start_reserved (new_f_handle 3) FSAL_O_READ = Some fh"
    using start_io_granted [OF fh_held_new, of False FSAL_O_READ 3] by (auto simp: start_reserved_def)
  then have r: "reserving start_reserved finish_reserved (2 ^ 31) (new_f_handle 3) (fh, {#FSAL_O_READ#})"
    by (intro reserving_take [OF reserving_init]) simp_all
  from handle_share_exclusion [OF r] r show ?thesis by auto
qed



text \<open>
  Closing the table of open files at shutdown never meets a held lock: from a table
  between two requests it returns, and the table is empty again.
\<close>

theorem close_handles_empties:
  assumes "table_resting T n"
  shows "\<exists>s'. close_handles P s T = Some (s', FsalHandle_init)"
  using close_handles_resting [OF assms] .

theorem close_handles_empties_witness:
  "\<forall>P s. \<exists>s'. close_handles P (s :: nat) FsalHandle_init = Some (s', FsalHandle_init)"
  by (intro allI close_handles_empties [OF table_resting_init])

end
