(* ===== verification/Nfs_Io_Procs.thy ===== *)
theory Nfs_Io_Procs
  imports Nfs_Attr_Procs Fsal_Handle
begin

text \<open>
  The handlers that move file data: READ (\<open>src/nfs/nfs_read.cpp\<close>), WRITE
  (\<open>src/nfs/nfs_write.cpp\<close>) and COMMIT (\<open>src/nfs/nfs_commit.cpp\<close>).  WRITE and COMMIT
  use the table of open files of \<open>Fsal_Handle\<close>; a handler works on the handle the
  table gave it and the handle is stored back when the handler closes it.
\<close>

section \<open>READ\<close>

definition MaxRead :: uint64 where [nfs_consts]: "MaxRead = 512 * 1024"

definition nfs_read_ok ::
  "'os posix \<Rightarrow> 'os \<Rightarrow> READ3res \<Rightarrow> char_ptr \<Rightarrow> uint32 \<Rightarrow> path \<Rightarrow> bool_t \<Rightarrow> READ3res" where
  "nfs_read_ok P s res data read_size file_path eof =
     (let data = (if read_size = 0 then None else data);
          (_, file_attributes) =
            nfs_set_post_op_attr P s file_path (rdr_file_attributes (rdr_u res))
      in res\<lparr>rdr_u := \<lparr>rdr_file_attributes = file_attributes, rdr_count = read_size, rdr_eof = eof,
                       rdr_data = \<lparr>io_data_len = read_size, io_data_val = data\<rparr>\<rparr>\<rparr>)"

text \<open>
  The limit on the offset is \<open>UINT64_MAX\<close>, which the code takes as no limit.
\<close>

definition nfs3_read ::
  "'os posix \<Rightarrow> 'os \<Rightarrow> READ3args \<Rightarrow> READ3res \<Rightarrow> ('os, READ3res) reply" where
  "nfs3_read P s read_args res =
     (let res = \<lparr>rdr_status = NFS3_OK,
                 rdr_u = \<lparr>rdr_file_attributes =
                            (rdr_file_attributes (rdr_u res))\<lparr>poa_attributes_follow := C_FALSE\<rparr>,
                          rdr_count = 0, rdr_eof = C_FALSE,
                          rdr_data = \<lparr>io_data_len = 0, io_data_val = None\<rparr>\<rparr>\<rparr> in
      if data_len (rd_file read_args) = 0
      then Some (s, res\<lparr>rdr_status := NFS3ERR_BADHANDLE\<rparr>, NFS_REQ_OK)
      else do {
        file \<leftarrow> get_file_handle (rd_file read_args);
        let (status, file_attributes) =
              nfs_set_post_op_attr P s file (rdr_file_attributes (rdr_u res));
        let res = res\<lparr>rdr_status := status,
                      rdr_u := (rdr_u res)\<lparr>rdr_file_attributes := file_attributes\<rparr>\<rparr>;
        if status \<noteq> NFS3_OK
        then Some (s, res\<lparr>rdr_status := NFS3ERR_BADHANDLE\<rparr>, NFS_REQ_OK)
        else if fa_type (poa_attributes file_attributes) \<noteq> NF3REG
        then Some (s, res\<lparr>rdr_status :=
                            if fa_type (poa_attributes file_attributes) = NF3DIR
                            then NFS3ERR_ISDIR else NFS3ERR_INVAL\<rparr>, NFS_REQ_OK)
        else
        let size3 = min (ucast (rd_count read_args)) MaxRead in
        if size3 = 0 then Some (s, nfs_read_ok P s res None 0 file C_FALSE, NFS_REQ_OK)
        else
        let (s, d) = sys_open P s file O_RDONLY in
        if d = - 1
        then
          let (_, attributes) = nfs_set_post_op_attr P s file (rdr_file_attributes (rdr_u res))
          in Some (s, res\<lparr>rdr_status := NFS3ERR_NOENT,
                          rdr_u := (rdr_u res)\<lparr>rdr_file_attributes := attributes\<rparr>\<rparr>, NFS_REQ_ERROR)
        else
        let (s, data) = sys_preadv P s d size3 (rd_offset read_args);
            s = sys_close P s d in
        (case data of
           Some bs \<Rightarrow>
             if rd_offset read_args \<noteq> - 1
             then
               let io_amount = of_nat (length bs);
                   end_of_file =
                     (rd_offset read_args + io_amount \<ge> fa_size (poa_attributes file_attributes))
               in Some (s, nfs_read_ok P s res (Some bs) (ucast io_amount) file (of_bool end_of_file),
                        NFS_REQ_OK)
             else
               let (_, attributes) = nfs_set_post_op_attr P s file (rdr_file_attributes (rdr_u res))
               in Some (s, res\<lparr>rdr_status := NFS3ERR_IO,
                               rdr_u := (rdr_u res)\<lparr>rdr_file_attributes := attributes\<rparr>\<rparr>,
                        NFS_REQ_ERROR)
         | None \<Rightarrow>
             let (_, attributes) = nfs_set_post_op_attr P s file (rdr_file_attributes (rdr_u res))
             in Some (s, res\<lparr>rdr_status := NFS3ERR_IO,
                             rdr_u := (rdr_u res)\<lparr>rdr_file_attributes := attributes\<rparr>\<rparr>,
                      NFS_REQ_ERROR))
      })"

section \<open>WRITE\<close>

text \<open>
  \<open>NFS3_write_verifier\<close> is a \<open>static\<close> variable of a header: each source file has
  its own, initially zero, and neither \<open>nfs_write.cpp\<close> nor \<open>nfs_commit.cpp\<close> sets it.
\<close>

definition NFS3_write_verifier :: writeverf3 where
  "NFS3_write_verifier = replicate 8 0"

text \<open>\<open>io_state\<close> says whether the pointer \<open>state\<close> is set; \<open>iov\<close> is the data to write.\<close>

record fsal_io_arg =
  io_amount :: uint64
  fsal_stable :: bool
  io_state :: bool
  io_offset :: uint64
  iov :: "byte list"

record nfs3_write_data =
  wd_res :: WRITE3res
  wd_obj :: f_handle
  wd_rc :: nfs_req_result
  wd_file_path :: path
  write_arg :: fsal_io_arg

definition nfs3_complete_write ::
  "'os posix \<Rightarrow> 'os \<Rightarrow> nfs3_write_data \<Rightarrow> nfs3_write_data \<times> nfs_req_result" where
  "nfs3_complete_write P s data =
     (let res = wd_res data;
          (status, file_wcc) =
            get_wcc_data P s (wd_file_path data) zero_pre_op_attr (wrr_file_wcc (wrr_u res))
      in if wd_rc data = NFS_REQ_OK
         then (data\<lparr>wd_res := res\<lparr>wrr_status := status,
                 wrr_u := \<lparr>wrr_file_wcc = file_wcc,
                           wrr_count = ucast (io_amount (write_arg data)),
                           wrr_committed = (if fsal_stable (write_arg data) then FILE_SYNC else UNSTABLE),
                           wrr_verf = NFS3_write_verifier\<rparr>\<rparr>\<rparr>, NFS_REQ_OK)
         else if wd_rc data = NFS_REQ_ERROR
         then (data\<lparr>wd_res := res\<lparr>wrr_status := status,
                      wrr_u := (wrr_u res)\<lparr>wrr_file_wcc := file_wcc\<rparr>\<rparr>,
                    wd_rc := NFS_REQ_OK\<rparr>, NFS_REQ_OK)
         else (data, wd_rc data))"

text \<open>
  The error exits leave the operation counted as in progress in the handle.
\<close>

definition nfs_write_buff ::
  "'os posix \<Rightarrow> 'os \<Rightarrow> nfs3_write_data \<Rightarrow> ('os \<times> nfs3_write_data) option" where
  "nfs_write_buff P s write_data =
     do {
       let arg = write_arg write_data;
       (fh, status) \<leftarrow> fsal_start_io (wd_obj write_data) (io_state arg) FSAL_O_WRITE False True;
       let write_data = write_data\<lparr>wd_obj := fh\<rparr>;
       if FSAL_IS_ERROR status then Some (s, write_data)
       else
       let (s, written) = sys_pwritev P s (fh_handle fh) (iov arg) (io_offset arg) in
       case written of
         None \<Rightarrow>
           Some (s, write_data\<lparr>write_arg := arg\<lparr>io_amount := - 1\<rparr>,
                               wd_res := (wd_res write_data)\<lparr>wrr_status := NFS3ERR_IO\<rparr>,
                               wd_rc := NFS_REQ_ERROR\<rparr>)
       | Some amount \<Rightarrow>
           let write_data = write_data\<lparr>write_arg := arg\<lparr>io_amount := amount\<rparr>\<rparr>;
               (s, synced) = (if fsal_stable arg then sys_fsync P s (fh_handle fh) else (s, True)) in
           if \<not> synced
           then Some (s, write_data\<lparr>wd_res := (wd_res write_data)\<lparr>wrr_status := NFS3ERR_IO\<rparr>,
                                    wd_rc := NFS_REQ_ERROR\<rparr>)
           else do {
             (fh, _) \<leftarrow> fsal_complete_io fh;
             fh \<leftarrow> (if \<not> io_state arg then update_share_counters_locked fh FSAL_O_WRITE FSAL_O_CLOSED
                    else Some fh);
             Some (s, write_data\<lparr>wd_obj := fh\<rparr>)
           }
     }"

definition nfs3_write ::
  "'os posix \<Rightarrow> 'os \<times> FsalHandle \<Rightarrow> WRITE3args \<Rightarrow> WRITE3res \<Rightarrow> ('os \<times> FsalHandle, WRITE3res) reply" where
  "nfs3_write P st write_args res =
     (case st of (s, T) \<Rightarrow>
      if data_len (wr_file write_args) = 0 then Some ((s, T), res, NFS_REQ_OK)
      else do {
        file \<leftarrow> get_file_handle (wr_file write_args);
        if \<not> judge_file_exit P s file S_IFREG
        then Some ((s, T), res\<lparr>wrr_status := NFS3ERR_INVAL\<rparr>, NFS_REQ_OK)
        else if wr_count write_args > io_data_len (wr_data write_args)
        then Some ((s, T), res\<lparr>wrr_status := NFS3ERR_INVAL\<rparr>, NFS_REQ_OK)
        else
        let wcount = (if wr_count write_args > WRITE_READ_MAX then WRITE_READ_MAX
                      else wr_count write_args) in
        if wcount = 0
        then
          let (status, file_wcc) =
                get_wcc_data P s file zero_pre_op_attr (wrr_file_wcc (wrr_u res))
          in Some ((s, T), res\<lparr>wrr_status := status,
                               wrr_u := (wrr_u res)\<lparr>wrr_file_wcc := file_wcc\<rparr>\<rparr>, NFS_REQ_OK)
        else do {
          let (s, T, ref) = get_handle P s T file;
          file_handle \<leftarrow> deref T ref;
          if fh_handle file_handle = - 1
          then
            let (status, file_wcc) =
                  get_wcc_data P s file zero_pre_op_attr (wrr_file_wcc (wrr_u res));
                (s, fh) = close_handle P s file_handle
            in Some ((s, assign T ref fh),
                     res\<lparr>wrr_status := status, wrr_u := (wrr_u res)\<lparr>wrr_file_wcc := file_wcc\<rparr>\<rparr>,
                     NFS_REQ_OK)
          else do {
            let write_data =
                  \<lparr>wd_res = res, wd_obj = file_handle, wd_rc = NFS_REQ_OK, wd_file_path = file,
                   write_arg =
                     \<lparr>io_amount = 0, fsal_stable = (wr_stable write_args \<noteq> UNSTABLE),
                      io_state = False, io_offset = wr_offset write_args,
                      iov = take (unat wcount) (block (io_data_val (wr_data write_args)))\<rparr>\<rparr>;
            (s, write_data) \<leftarrow> nfs_write_buff P s write_data;
            let (write_data, rc) = nfs3_complete_write P s write_data;
            let (s, fh) = close_handle P s (wd_obj write_data);
            Some ((s, assign T ref fh), wd_res write_data, rc)
          }
        }
      })"

section \<open>COMMIT\<close>

definition nfs3_commit ::
  "'os posix \<Rightarrow> 'os \<times> FsalHandle \<Rightarrow> COMMIT3args \<Rightarrow> COMMIT3res \<Rightarrow>
   ('os \<times> FsalHandle, COMMIT3res) reply" where
  "nfs3_commit P st commit_args res =
     (case st of (s, T) \<Rightarrow>
      let res = res\<lparr>comr_u := (comr_u res)\<lparr>comr_verf := NFS3_write_verifier\<rparr>\<rparr> in
      if data_len (com_file commit_args) = 0 then Some ((s, T), res, NFS_REQ_ERROR)
      else do {
        file \<leftarrow> get_file_handle (com_file commit_args);
        if \<not> judge_file_exit P s file S_IFREG
        then Some ((s, T), res\<lparr>comr_status := NFS3ERR_NOENT\<rparr>, NFS_REQ_ERROR)
        else do {
          let ref = just_get_handle T file;
          file_handle \<leftarrow> deref T ref;
          (s, fh, rc) \<leftarrow>
            (if fh_handle file_handle = - 1 then Some (s, file_handle, NFS_REQ_ERROR)
             else do {
               (fh, status) \<leftarrow> fsal_start_global_io file_handle FSAL_O_ANY False False;
               if FSAL_IS_ERROR status then Some (s, fh, NFS_REQ_OK)
               else
               let (s, synced) = sys_fsync P s (fh_handle fh) in
               if \<not> synced then Some (s, fh, NFS_REQ_OK)
               else do {
                 (fh, _) \<leftarrow> fsal_complete_io fh;
                 Some (s, fh, NFS_REQ_OK)
               }
             });
          let (status, file_wcc) =
                get_wcc_data P s file zero_pre_op_attr (comr_file_wcc (comr_u res));
          let (s, fh) = close_handle P s fh;
          Some ((s, assign T ref fh),
                res\<lparr>comr_status := status, comr_u := (comr_u res)\<lparr>comr_file_wcc := file_wcc\<rparr>\<rparr>, rc)
        }
      })"

section \<open>WRITE and the table of open files\<close>

lemma write_no_clash [simp]: "\<not> share_clash b FSAL_O_WRITE FSAL_O_WRITE"
  by (simp add: share_clash_def has_def nfs_consts)

lemma start_write_held:
  assumes "fh_held fh (replicate_mset k FSAL_O_WRITE)" "k < 2 ^ 31"
  shows "\<exists>fh'. fsal_start_io fh False FSAL_O_WRITE b True = Some (fh', fsalstat ERR_FSAL_NO_ERROR 0) \<and>
    fh_held fh' (replicate_mset (Suc k) FSAL_O_WRITE) \<and> fh_handle fh' = fh_handle fh"
  using start_io_granted [OF assms(1), of b FSAL_O_WRITE] assms(2) by simp

lemma finish_write_held:
  assumes "fh_held fh (replicate_mset (Suc k) FSAL_O_WRITE)" "k < 2 ^ 31"
  obtains fh1 st fh2 where "fsal_complete_io fh = Some (fh1, st)"
    "update_share_counters_locked fh1 FSAL_O_WRITE FSAL_O_CLOSED = Some fh2"
    "fh_held fh2 (replicate_mset k FSAL_O_WRITE)" "fh_handle fh2 = fh_handle fh"
  using finish_reserved_held [of fh FSAL_O_WRITE "replicate_mset k FSAL_O_WRITE"] assms
  by (auto simp: finish_reserved_def split: bind_splits prod.splits)

text \<open>
  \<open>nfs_write_buff\<close> returns, and leaves at most the operation it started counted.
\<close>

lemma write_buff_held:
  assumes "fh_held (wd_obj wd) (replicate_mset k FSAL_O_WRITE)" "k < 2 ^ 31"
    and "\<not> io_state (write_arg wd)"
  obtains s' wd' k' where "nfs_write_buff P s wd = Some (s', wd')"
    "fh_held (wd_obj wd') (replicate_mset k' FSAL_O_WRITE)" "k' \<le> Suc k"
proof -
  obtain fh where fh: "fsal_start_io (wd_obj wd) False FSAL_O_WRITE False True =
      Some (fh, fsalstat ERR_FSAL_NO_ERROR 0)"
    "fh_held fh (replicate_mset (Suc k) FSAL_O_WRITE)"
    using start_write_held [OF assms(1,2)] by blast
  obtain fh1 st fh2 where fin: "fsal_complete_io fh = Some (fh1, st)"
    "update_share_counters_locked fh1 FSAL_O_WRITE FSAL_O_CLOSED = Some fh2"
    "fh_held fh2 (replicate_mset k FSAL_O_WRITE)"
    using finish_write_held [OF fh(2) assms(2)] by blast
  have "\<exists>s' wd' k'. nfs_write_buff P s wd = Some (s', wd') \<and>
    fh_held (wd_obj wd') (replicate_mset k' FSAL_O_WRITE) \<and> k' \<le> Suc k"
    using fh fin assms(3)
    by (auto simp: nfs_write_buff_def Let_def split: prod.split option.split intro: exI [of _ "Suc k"] exI [of _ k])
  with that show ?thesis by blast
qed

lemma complete_write_obj [simp]: "wd_obj (fst (nfs3_complete_write P s wd)) = wd_obj wd"
  by (simp add: nfs3_complete_write_def Let_def split: prod.split)



lemma write_buff_ok:
  assumes held: "fh_held (wd_obj wd) (replicate_mset k FSAL_O_WRITE)" "k < 2 ^ 31"
    and arg: "\<not> io_state (write_arg wd)"
    and w: "sys_pwritev P s (fh_handle (wd_obj wd)) (iov (write_arg wd)) (io_offset (write_arg wd)) = (s1, Some amount)"
    and f: "(if fsal_stable (write_arg wd) then sys_fsync P s1 (fh_handle (wd_obj wd)) else (s1, True)) = (s2, True)"
  obtains fh where "nfs_write_buff P s wd =
      Some (s2, wd\<lparr>wd_obj := fh, write_arg := (write_arg wd)\<lparr>io_amount := amount\<rparr>\<rparr>)"
    "fh_held fh (replicate_mset k FSAL_O_WRITE)" "fh_handle fh = fh_handle (wd_obj wd)"
proof -
  obtain fh where fh: "fsal_start_io (wd_obj wd) False FSAL_O_WRITE False True =
      Some (fh, fsalstat ERR_FSAL_NO_ERROR 0)"
    "fh_held fh (replicate_mset (Suc k) FSAL_O_WRITE)" "fh_handle fh = fh_handle (wd_obj wd)"
    using start_write_held [OF held] by blast
  obtain fh1 st fh2 where fin: "fsal_complete_io fh = Some (fh1, st)"
    "update_share_counters_locked fh1 FSAL_O_WRITE FSAL_O_CLOSED = Some fh2"
    "fh_held fh2 (replicate_mset k FSAL_O_WRITE)" "fh_handle fh2 = fh_handle fh"
    using finish_write_held [OF fh(2) held(2)] by blast
  have "nfs_write_buff P s wd =
      Some (s2, wd\<lparr>wd_obj := fh2, write_arg := (write_arg wd)\<lparr>io_amount := amount\<rparr>\<rparr>)"
    using fh fin arg w f by (cases wd; cases "fsal_stable (write_arg wd)") (simp_all add: nfs_write_buff_def)
  with that fh(3) fin(3,4) show ?thesis by simp
qed

text \<open>
  The count WRITE goes on with, and the three ways it ends: the request is answered at
  once, the file cannot be opened, or the data goes through \<open>nfs_write_buff\<close>.
\<close>

definition wcount_of :: "WRITE3args \<Rightarrow> uint32" where
  "wcount_of args = (if wr_count args > WRITE_READ_MAX then WRITE_READ_MAX else wr_count args)"

definition write_request :: "WRITE3args \<Rightarrow> WRITE3res \<Rightarrow> path \<Rightarrow> f_handle \<Rightarrow> nfs3_write_data" where
  "write_request args res p fh =
     \<lparr>wd_res = res, wd_obj = fh, wd_rc = NFS_REQ_OK, wd_file_path = p,
      write_arg = \<lparr>io_amount = 0, fsal_stable = (wr_stable args \<noteq> UNSTABLE), io_state = False,
        io_offset = wr_offset args, iov = take (unat (wcount_of args)) (block (io_data_val (wr_data args)))\<rparr>\<rparr>"

definition write_refused :: "'os posix \<Rightarrow> 'os \<Rightarrow> WRITE3args \<Rightarrow> path \<Rightarrow> bool" where
  "write_refused P s args p \<longleftrightarrow>
     \<not> judge_file_exit P s p S_IFREG \<or> wr_count args > io_data_len (wr_data args) \<or> wcount_of args = 0"

lemma write_at_once:
  assumes "data_len (wr_file args) = 0 \<or> get_file_handle (wr_file args) = Some p \<and> write_refused P s args p"
  shows "\<exists>r. nfs3_write P (s, T) args res = Some ((s, T), r, NFS_REQ_OK)"
  using assms
  by (auto simp: nfs3_write_def write_refused_def wcount_of_def Let_def case_prod_unfold)

lemma write_unopened:
  assumes "data_len (wr_file args) \<noteq> 0" "get_file_handle (wr_file args) = Some p"
    "\<not> write_refused P s args p"
    and "get_handle P s T p = (s1, T1, ref)" "deref T1 ref = Some fh" "fh_handle fh = - 1"
  shows "\<exists>r. nfs3_write P (s, T) args res = Some ((s1, assign T1 ref fh), r, NFS_REQ_OK)"
  using assms
  by (simp add: nfs3_write_def write_refused_def wcount_of_def [symmetric] Let_def case_prod_unfold close_handle_def)

lemma write_through:
  assumes "data_len (wr_file args) \<noteq> 0" "get_file_handle (wr_file args) = Some p"
    "\<not> write_refused P s args p"
    and "get_handle P s T p = (s1, T1, ref)" "deref T1 ref = Some fh" "fh_handle fh \<noteq> - 1"
    and "nfs_write_buff P s1 (write_request args res p fh) = Some (s2, wd)"
  shows "nfs3_write P (s, T) args res =
    (let (wd, rc) = nfs3_complete_write P s2 wd; (s3, fh) = close_handle P s2 (wd_obj wd)
     in Some ((s3, assign T1 ref fh), wd_res wd, rc))"
  using assms unfolding write_refused_def
  by (simp add: nfs3_write_def wcount_of_def [symmetric] write_request_def)

lemma write_resting:
  assumes T: "table_resting T n" "n < 2 ^ 31"
    and h: "data_len (wr_file args) = 0 \<or> get_file_handle (wr_file args) \<noteq> None"
  shows "\<exists>s' T' r rc. nfs3_write P (s, T) args res = Some ((s', T'), r, rc) \<and> table_resting T' (Suc n)"
proof (cases "\<exists>p. data_len (wr_file args) = 0 \<or> get_file_handle (wr_file args) = Some p \<and> write_refused P s args p")
  case True
  then obtain r where "nfs3_write P (s, T) args res = Some ((s, T), r, NFS_REQ_OK)"
    using write_at_once [of args _ P s T res] by blast
  with table_resting_mono [OF T(1), of "Suc n"] show ?thesis by simp
next
  case False
  with h obtain p where p: "data_len (wr_file args) \<noteq> 0" "get_file_handle (wr_file args) = Some p"
    "\<not> write_refused P s args p"
    by auto
  obtain s1 d where op: "sys_open P s p (O_CREAT OR O_WRONLY) = (s1, d)"
    by (cases "sys_open P s p (O_CREAT OR O_WRONLY)")
  from get_handle_resting [OF T(1) op] obtain T1 ref fh where
    g: "get_handle P s T p = (s1, T1, ref)" "deref T1 ref = Some fh" "fh_handle fh = d"
      "d = - 1 \<longrightarrow> table_resting T1 n"
    and held: "d \<noteq> - 1 \<longrightarrow> ref = Map_handle p \<and> (\<exists>k\<le>n. fh_held fh (replicate_mset k FSAL_O_WRITE)) \<and>
       (\<forall>m fh'. n \<le> m \<longrightarrow> resting fh' m \<longrightarrow> table_resting (assign T1 ref fh') m)"
    by (elim exE conjE) (rule that)
  show ?thesis
  proof (cases "d = - 1")
    case True
    with g have T1: "table_resting T1 n" "assign T1 ref fh = T1" "fh_handle fh = - 1"
      by (simp_all add: assign_same)
    with write_unopened [OF p g(1,2)] obtain r where "nfs3_write P (s, T) args res = Some ((s1, T1), r, NFS_REQ_OK)"
      by auto
    with table_resting_mono [OF T1(1), of "Suc n"] show ?thesis by simp
  next
    case d: False
    then obtain k where k: "k \<le> n" "fh_held fh (replicate_mset k FSAL_O_WRITE)"
      using held by blast
    have "fh_held (wd_obj (write_request args res p fh)) (replicate_mset k FSAL_O_WRITE)"
      "k < 2 ^ 31" "\<not> io_state (write_arg (write_request args res p fh))"
      using k T(2) by (simp_all add: write_request_def)
    from write_buff_held [OF this, of P s1] obtain s2 wd k' where
      b: "nfs_write_buff P s1 (write_request args res p fh) = Some (s2, wd)"
        "fh_held (wd_obj wd) (replicate_mset k' FSAL_O_WRITE)" "k' \<le> Suc k"
      by blast
    have "table_resting (assign T1 ref (snd (close_handle P s2 (wd_obj wd)))) (Suc n)"
      using held d b(3) k(1) close_handle_resting [OF b(2), of "Suc n" P s2] by auto
    with write_through [OF p g(1,2) _ b(1)] d g(3) show ?thesis
      by (simp add: case_prod_unfold Let_def)
  qed
qed

lemma commit_resting:
  assumes "table_resting T n" "nfs3_commit P (s, T) args res = Some ((s', T'), r, rc)"
  shows "s' = s \<and> T' = T"
proof (cases "data_len (com_file args) = 0")
  case True
  with assms(2) show ?thesis by (simp add: nfs3_commit_def)
next
  case False
  with assms(2) obtain p where p: "get_file_handle (com_file args) = Some p"
    by (auto simp: nfs3_commit_def Let_def split: bind_splits)
  obtain fh where fh: "deref T (just_get_handle T p) = Some fh" "fh_handle fh = - 1"
    using just_get_handle_resting [OF assms(1)] by blast
  with assms False p show ?thesis
    by (auto simp: nfs3_commit_def close_handle_def assign_same Let_def case_prod_unfold split: if_splits)
qed

lemma write_table:
  assumes "table_resting T n" "n < 2 ^ 31" "nfs3_write P (s, T) args res = Some ((s', T'), r, rc)"
  shows "table_resting T' (Suc n)"
proof -
  have "data_len (wr_file args) = 0 \<or> get_file_handle (wr_file args) \<noteq> None"
    using assms(3) by (cases "get_file_handle (wr_file args)") (auto simp: nfs3_write_def split: if_splits)
  from write_resting [OF assms(1,2) this, of P s res] assms(3) show ?thesis by auto
qed

lemma commit_table:
  assumes "table_resting T n" "nfs3_commit P (s, T) args res = Some ((s', T'), r, rc)"
  shows "table_resting T' (Suc n)"
  using commit_resting [OF assms] table_resting_mono [OF assms(1), of "Suc n"] by simp

lemma statable_regular:
  assumes "sys_lstat P s p = Inr st" "st_mode st AND S_IFMT = S_IFREG"
  shows "statable P s p" "fa_type (poa_attributes (attr_of P s p a)) = NF3REG"
    "fa_size (poa_attributes (attr_of P s p a)) = st_size st"
  using assms
  by (auto simp: statable_def attr_of_def nfs_set_post_op_attr_def ftype_of_mode_def fattr3_of_stat_def
      nfs_consts simp del: statable_post_op)

section \<open>Properties\<close>

definition sample_write :: "stable_how \<Rightarrow> WRITE3args" where
  "sample_write how =
     \<lparr>wr_file = sample_fh sample_file, wr_offset = 5, wr_count = 2, wr_stable = how,
      wr_data = \<lparr>io_data_len = 2, io_data_val = Some [0x21, 0x21]\<rparr>\<rparr>"

text \<open>
  C18: READ of a regular file answers with the bytes \<open>preadv\<close> returns for the offset and
  for the count, cut to 512 KiB: data and count agree, the end of file is reported exactly
  when offset plus count reaches the size (in 64-bit arithmetic), and the reply can be encoded.
\<close>

theorem read_reply:
  assumes "data_len (rd_file args) \<noteq> 0" "get_file_handle (rd_file args) = Some p"
    and f: "sys_lstat P s p = Inr st" "st_mode st AND S_IFMT = S_IFREG"
    and n: "n = min (ucast (rd_count args)) MaxRead" "n \<noteq> 0"
    and "sys_open P s p O_RDONLY = (s1, d)" "d \<noteq> - 1"
    and "sys_preadv P s1 d n (rd_offset args) = (s2, Some bs)" "length bs \<le> unat n"
    and "rd_offset args \<noteq> - 1" and "statable P (sys_close P s2 d) p"
  shows "\<exists>r. nfs3_read P s args res = Some (sys_close P s2 d, r, NFS_REQ_OK) \<and> rdr_status r = NFS3_OK \<and>
    block (io_data_val (rdr_data (rdr_u r))) = bs \<and>
    unat (rdr_count (rdr_u r)) = length bs \<and> unat (rdr_count (rdr_u r)) \<le> unat (rd_count args) \<and>
    (rdr_eof (rdr_u r) = C_TRUE \<longleftrightarrow> rd_offset args + of_nat (length bs) \<ge> st_size st) \<and>
    valid_READ3res r"
proof -
  have n64: "unat n \<le> 512 * 1024" "unat n \<le> unat (rd_count args)"
    by (auto simp: n(1) min_def MaxRead_def word_le_nat_alt unsigned_ucast_eq)
  have len: "unat (ucast (of_nat (length bs) :: uint64) :: uint32) = length bs"
    using assms(10) n64 by (simp add: unsigned_ucast_eq unsigned_of_nat take_bit_nat_eq_self)
  have z: "(ucast (of_nat (length bs) :: uint64) :: uint32) = 0 \<longleftrightarrow> bs = []"
    using len by (metis length_0_conv unat_eq_zero)
  show ?thesis
    using assms(1,2,6,7,8,9,11,12) statable_regular [OF f] len z n64 assms(10)
    apply (simp add: nfs3_read_def n(1) [symmetric] nfs_read_ok_def Let_def block_def)
    apply (simp add: valid_READ3res_def valid_io_data_def io_cell_def is_bool_def block_def word_le_nat_alt nfs_consts)
   done
qed

theorem read_reply_witness:
  "\<forall>res. \<exists>r. nfs3_read sample_sys 0 \<lparr>rd_file = sample_fh sample_file, rd_offset = 1, rd_count = 2\<rparr> res =
       Some (0, r, NFS_REQ_OK) \<and> block (io_data_val (rdr_data (rdr_u r))) = [0x65, 0x6C] \<and>
     rdr_eof (rdr_u r) \<noteq> C_TRUE"
proof
  fix res
  have "unat (min (ucast (2 :: uint32)) MaxRead) = 2"
    by (simp add: MaxRead_def min_def)
  moreover have "min (ucast (2 :: uint32)) MaxRead \<noteq> 0"
    by (simp add: MaxRead_def min_def)
  ultimately show "\<exists>r. nfs3_read sample_sys 0 \<lparr>rd_file = sample_fh sample_file, rd_offset = 1, rd_count = 2\<rparr> res =
       Some (0, r, NFS_REQ_OK) \<and> block (io_data_val (rdr_data (rdr_u r))) = [0x65, 0x6C] \<and>
     rdr_eof (rdr_u r) \<noteq> C_TRUE"
    using read_reply [of "\<lparr>rd_file = sample_fh sample_file, rd_offset = 1, rd_count = 2\<rparr>" sample_file
        sample_sys 0 "sample_stat 0x81A4" _ 0 3 0 "[0x65, 0x6C]" res]
    by (auto simp: nfs_consts sample_stat_def)
qed

text \<open>
  C17: WRITE keeps the table of open files in order: from a table between two requests, in
  which no handle counts more than \<open>n\<close> unfinished operations, WRITE returns whatever the
  operating system does (no lock is taken twice or released twice, no handle is missing),
  and leaves such a table with at most one more unfinished operation, that of a device error.
\<close>

theorem write_keeps_table:
  assumes T: "table_resting T n" "n < 2 ^ 31"
    and h: "data_len (wr_file args) = 0 \<or> get_file_handle (wr_file args) \<noteq> None"
  shows "\<exists>s' T' r rc. nfs3_write P (s, T) args res = Some ((s', T'), r, rc) \<and> table_resting T' (Suc n)"
  by (rule write_resting [OF assms])

theorem write_keeps_table_witness:
  "\<forall>res. \<exists>s' T' r rc. nfs3_write (sample_sys\<lparr>sys_pwritev := \<lambda>s d bs off. (s, None)\<rparr>)
      (0, FsalHandle_init) (sample_write FILE_SYNC) res = Some ((s', T'), r, rc) \<and> table_resting T' (Suc 0)"
  by (intro allI write_keeps_table table_resting_init) (simp_all add: sample_write_def)

text \<open>
  C16: WRITE that gets through.  The bytes handed to \<open>pwritev\<close>, at the offset asked for, are
  the first \<open>count\<close> bytes of the data, at most 64 MiB; a write that is not UNSTABLE is synced
  and reported FILE_SYNC, the count reported is the number of bytes written, the attributes
  are those of the file afterwards, the descriptor is closed, and the table of open files
  has no operation in progress that it did not have before.
\<close>

theorem write_reply:
  assumes T: "table_resting T n" "n < 2 ^ 31"
    and p: "data_len (wr_file args) \<noteq> 0" "get_file_handle (wr_file args) = Some p"
      "judge_file_exit P s p S_IFREG"
    and c: "wr_count args \<noteq> 0" "wr_count args \<le> io_data_len (wr_data args)"
    and op: "sys_open P s p (O_CREAT OR O_WRONLY) = (s1, d)" "d \<noteq> - 1"
    and w: "sys_pwritev P s1 d (take (min (unat (wr_count args)) (64 * 1024 * 1024)) (block (io_data_val (wr_data args))))
              (wr_offset args) = (s2, Some amount)"
    and f: "(if wr_stable args \<noteq> UNSTABLE then sys_fsync P s2 d else (s2, True)) = (s3, True)"
    and a: "statable P s3 p"
  shows "\<exists>T' r. nfs3_write P (s, T) args res = Some ((sys_close P s3 d, T'), r, NFS_REQ_OK) \<and>
    table_resting T' n \<and> wrr_status r = NFS3_OK \<and> wrr_count (wrr_u r) = ucast amount \<and>
    wrr_committed (wrr_u r) = (if wr_stable args = UNSTABLE then UNSTABLE else FILE_SYNC) \<and>
    wrr_file_wcc (wrr_u r) = wcc_of P s3 p zero_pre_op_attr \<and> wrr_verf (wrr_u r) = replicate 8 0"
proof -
  have wc: "unat (wcount_of args) = min (unat (wr_count args)) (64 * 1024 * 1024)" "wcount_of args \<noteq> 0"
    using c(1) by (auto simp: wcount_of_def WRITE_READ_MAX_def word_less_nat_alt)
  then have nr: "\<not> write_refused P s args p"
    using p c by (simp add: write_refused_def not_less)
  from get_handle_resting [OF T(1) op(1)] obtain T1 ref fh where
    g: "get_handle P s T p = (s1, T1, ref)" "deref T1 ref = Some fh" "fh_handle fh = d"
    and h: "d \<noteq> - 1 \<longrightarrow> ref = Map_handle p \<and> (\<exists>k\<le>n. fh_held fh (replicate_mset k FSAL_O_WRITE)) \<and>
       (\<forall>m fh'. n \<le> m \<longrightarrow> resting fh' m \<longrightarrow> table_resting (assign T1 ref fh') m)"
    by (elim exE conjE) (rule that)
  then obtain k where k: "k \<le> n" "fh_held fh (replicate_mset k FSAL_O_WRITE)"
    using op(2) by blast
  let ?wd = "write_request args res p fh"
  have "fh_held (wd_obj ?wd) (replicate_mset k FSAL_O_WRITE)" "k < 2 ^ 31" "\<not> io_state (write_arg ?wd)"
    "sys_pwritev P s1 (fh_handle (wd_obj ?wd)) (iov (write_arg ?wd)) (io_offset (write_arg ?wd)) = (s2, Some amount)"
    "(if fsal_stable (write_arg ?wd) then sys_fsync P s2 (fh_handle (wd_obj ?wd)) else (s2, True)) = (s3, True)"
    using k T(2) w f wc g(3) by (auto simp: write_request_def split: if_splits)
  from write_buff_ok [OF this] obtain fh2 where b: "nfs_write_buff P s1 ?wd =
      Some (s3, ?wd\<lparr>wd_obj := fh2, write_arg := (write_arg ?wd)\<lparr>io_amount := amount\<rparr>\<rparr>)"
    "fh_held fh2 (replicate_mset k FSAL_O_WRITE)" "fh_handle fh2 = d"
    using g(3) by (auto simp: write_request_def)
  have "table_resting (assign T1 ref (snd (close_handle P s3 fh2))) n"
    using h op(2) k(1) close_handle_resting [OF b(2), of n P s3] by auto
  with write_through [OF p(1,2) nr g(1,2) _ b(1)] g(3) op(2) a b(3) show ?thesis
    by (auto simp: nfs3_complete_write_def close_handle_def NFS3_write_verifier_def write_request_def)
qed

theorem write_reply_witness:
  "\<forall>res. \<exists>T' r. nfs3_write sample_sys (0, FsalHandle_init) (sample_write FILE_SYNC) res =
      Some ((0, T'), r, NFS_REQ_OK) \<and> table_resting T' 0 \<and> wrr_count (wrr_u r) = 2 \<and>
      wrr_committed (wrr_u r) = FILE_SYNC"
proof
  fix res
  show "\<exists>T' r. nfs3_write sample_sys (0, FsalHandle_init) (sample_write FILE_SYNC) res =
      Some ((0, T'), r, NFS_REQ_OK) \<and> table_resting T' 0 \<and> wrr_count (wrr_u r) = 2 \<and>
      wrr_committed (wrr_u r) = FILE_SYNC"
    using write_reply [OF table_resting_init, of "sample_write FILE_SYNC" sample_file sample_sys 0 0 3 0 2 0 res]
    by (simp add: sample_write_def UNSTABLE_def FILE_SYNC_def block_def) blast
qed

text \<open>
  C38: COMMIT commits nothing.  Between two requests every descriptor of the table is closed,
  so COMMIT of an existing regular file makes no call of \<open>fsync\<close> or of any other operation
  that changes the system or the table, and still replies NFS3_OK with the write verifier.
\<close>

theorem commit_syncs_nothing:
  assumes "table_resting T n" "data_len (com_file args) \<noteq> 0" "get_file_handle (com_file args) = Some p"
    and "judge_file_exit P s p S_IFREG" "statable P s p"
  shows "\<exists>r. nfs3_commit P (s, T) args res = Some ((s, T), r, NFS_REQ_ERROR) \<and>
    comr_status r = NFS3_OK \<and> comr_verf (comr_u r) = replicate 8 0"
proof -
  obtain fh where fh: "deref T (just_get_handle T p) = Some fh" "fh_handle fh = - 1"
    using just_get_handle_resting [OF assms(1)] by blast
  with assms show ?thesis
    by (simp add: nfs3_commit_def close_handle_def NFS3_write_verifier_def assign_same)
qed

theorem commit_syncs_nothing_witness:
  "\<forall>res. \<exists>r. nfs3_commit sample_sys (0, FsalHandle_init)
      \<lparr>com_file = sample_fh sample_file, com_offset = 0, com_count = 0\<rparr> res =
      Some ((0, FsalHandle_init), r, NFS_REQ_ERROR) \<and> comr_status r = NFS3_OK"
  using commit_syncs_nothing [OF table_resting_init,
      of "\<lparr>com_file = sample_fh sample_file, com_offset = 0, com_count = 0\<rparr>" sample_file sample_sys 0]
  by auto

text \<open>
  FSINFO promises more than READ keeps: it announces reads of up to 64 MiB, of which READ serves 512 KiB,
  and a maximal file size of 0, the product of the factors of 16 TiB in 32 bits.
\<close>

theorem fsinfo_reply:
  assumes "data_len (fsi_fsroot args) \<noteq> 0" "get_file_handle (fsi_fsroot args) = Some p" "statable P s p"
  shows "\<exists>r. nfs3_fsinfo P s args res = Some (s, r, NFS_REQ_OK) \<and> fsir_status r = NFS3_OK \<and>
    fsir_rtmax (fsir_u r) = 64 * 1024 * 1024 \<and> fsir_wtmax (fsir_u r) = 64 * 1024 * 1024 \<and>
    MaxRead < ucast (fsir_rtmax (fsir_u r)) \<and> fsir_maxfilesize (fsir_u r) = 0 \<and> valid_FSINFO3res r"
  using assms
  by (simp add: nfs3_fsinfo_def valid_FSINFO3res_def is_bool_def WRITE_READ_MAX_def MAX_FILE_SIZE_def MaxRead_def)

theorem fsinfo_reply_witness:
  "\<forall>res. \<exists>r. nfs3_fsinfo sample_sys 0 \<lparr>fsi_fsroot = sample_fh sample_dir\<rparr> res = Some (0, r, NFS_REQ_OK) \<and>
     fsir_maxfilesize (fsir_u r) = 0"
  using fsinfo_reply [of "\<lparr>fsi_fsroot = sample_fh sample_dir\<rparr>" sample_dir sample_sys 0] by auto

end
