(* ===== verification/Nfs_Dir_Procs.thy ===== *)
theory Nfs_Dir_Procs
  imports Nfs_Attr_Procs
begin

text \<open>
  The handlers of READDIR (\<open>src/nfs/nfs_readdir.cpp\<close>), which lists a directory in one
  reply, and READDIRPLUS (\<open>src/nfs/nfs_readdirplus.cpp\<close>), which reads raw directory
  records block by block and pages its replies.
\<close>

section \<open>Linked lists of entries\<close>

text \<open>The loops append a node behind the last one.\<close>

fun chain_snoc :: "'b chain \<Rightarrow> 'b \<Rightarrow> 'b chain" where
  "chain_snoc (Chain b n) x =
     Chain b (Some (case n of None \<Rightarrow> Chain x None | Some c \<Rightarrow> chain_snoc c x))"

definition append_node :: "'b chain option \<Rightarrow> 'b \<Rightarrow> 'b chain option" where
  "append_node entries x =
     Some (case entries of None \<Rightarrow> Chain x None | Some c \<Rightarrow> chain_snoc c x)"

lemma chain_list_snoc [simp]: "chain_list (chain_snoc c x) = chain_list c @ [x]"
  by (induction c x rule: chain_snoc.induct) (auto split: option.splits)

lemma entry_list_append [simp]: "entry_list (append_node entries x) = entry_list entries @ [x]"
  by (simp add: entry_list_def append_node_def split: option.splits)

lemma entry_list_fold:
  "entry_list (foldl append_node entries xs) = entry_list entries @ xs"
  by (induction xs arbitrary: entries) simp_all

section \<open>READDIR\<close>

text \<open>
  The cookies of the entries and the verifier of the reply are not set: \<open>junk\<close> is
  what the memory of the nodes held.
\<close>

definition readdir_node :: "uint64 \<Rightarrow> dirent \<Rightarrow> entry3_members" where
  "readdir_node junk d =
     \<lparr>ent_fileid = d_ino d, ent_name = Some (d_name d @ [0]), ent_cookie = junk\<rparr>"

definition nfs3_readdir ::
  "'os posix \<Rightarrow> (nat \<Rightarrow> uint64) \<Rightarrow> 'os \<Rightarrow> READDIR3args \<Rightarrow> READDIR3res \<Rightarrow> ('os, READDIR3res) reply" where
  "nfs3_readdir P junk s readdir_args res =
     (let res = res\<lparr>rdirr_u := (rdirr_u res)\<lparr>rdirr_reply :=
                      (rdirr_reply (rdirr_u res))\<lparr>dl_entries := None\<rparr>\<rparr>\<rparr> in
      if data_len (rdir_dir readdir_args) = 0 then Some (s, res, NFS_REQ_ERROR)
      else do {
        dir \<leftarrow> get_file_handle (rdir_dir readdir_args);
        let (status, dir_attributes) = nfs_set_post_op_attr P s dir
              ((rdirr_dir_attributes (rdirr_u res))\<lparr>poa_attributes_follow := C_FALSE\<rparr>);
        let res = res\<lparr>rdirr_status := status,
                      rdirr_u := (rdirr_u res)\<lparr>rdirr_dir_attributes := dir_attributes\<rparr>\<rparr>;
        if status \<noteq> NFS3_OK then Some (s, res, NFS_REQ_ERROR)
        else if fa_type (poa_attributes dir_attributes) \<noteq> NF3DIR
        then Some (s, res\<lparr>rdirr_status := NFS3ERR_NOTDIR\<rparr>, NFS_REQ_OK)
        else
        let (s, namelist) = sys_scandir P s dir in
        (case namelist of
           None \<Rightarrow> Some (s, res\<lparr>rdirr_status := NFS3ERR_BADHANDLE\<rparr>, NFS_REQ_ERROR)
         | Some names \<Rightarrow>
             let entries = foldl append_node None
                   (map (\<lambda>(index, d). readdir_node (junk index) d) (enumerate 0 names))
             in Some (s, res\<lparr>rdirr_u := (rdirr_u res)\<lparr>rdirr_reply :=
                               \<lparr>dl_entries = entries, dl_eof = C_TRUE\<rparr>\<rparr>\<rparr>, NFS_REQ_OK))
      })"

section \<open>READDIRPLUS\<close>

definition BUF_SIZE :: uint32 where [nfs_consts]: "BUF_SIZE = 1024"
definition LONG_MAX :: uint64 where [nfs_consts]: "LONG_MAX = 0x7FFFFFFFFFFFFFFF"
definition sizeof_fattr3 :: uint64 where [nfs_consts]: "sizeof_fattr3 = 88"
definition sizeof_pointer :: uint64 where [nfs_consts]: "sizeof_pointer = 8"
definition NS_PER_SEC :: uint64 where [nfs_consts]: "NS_PER_SEC = 1000000000"

text \<open>The parameters \<open>readdir_res_size\<close> and \<open>readdir_max_count\<close> of the configuration.\<close>

record core_param =
  readdir_res_size :: uint32
  readdir_max_count :: uint32

definition max_entry_count :: "core_param \<Rightarrow> READDIRPLUS3args \<Rightarrow> uint32" where
  "max_entry_count cfg args =
     (if rdp_dircount args < readdir_max_count cfg then rdp_dircount args else readdir_max_count cfg)"

definition mem_avail :: "core_param \<Rightarrow> READDIRPLUS3args \<Rightarrow> uint64" where
  "mem_avail cfg args =
     (let max_res_size = (if readdir_res_size cfg < rdp_maxcount args then readdir_res_size cfg
                          else rdp_maxcount args)
      in min (ucast WRITE_READ_MAX)
           (ucast (max_res_size - of_nat BYTES_PER_XDR_UNIT - of_nat BYTES_PER_XDR_UNIT)
            - sizeof_fattr3 - ucast NFS3_COOKIEVERFSIZE))"

definition timespec_to_nsecs :: "timespec \<Rightarrow> uint64" where
  "timespec_to_nsecs t = ts_sec t * NS_PER_SEC + ts_nsec t"

text \<open>The verifier is the change time of the directory, as the bytes of an integer.\<close>

definition le_bytes :: "uint64 \<Rightarrow> byte list" where
  "le_bytes n = map (\<lambda>i. ucast (drop_bit (8 * i) n)) [0..<8]"

definition cookie_verifier :: "nfstime3 \<Rightarrow> cookieverf3" where
  "cookie_verifier ctime =
     le_bytes (timespec_to_nsecs \<lparr>ts_sec = ucast (tv_sec ctime), ts_nsec = ucast (tv_nsec ctime)\<rparr>)"

text \<open>
  The node for a record; \<open>node\<close> is what the new memory holds.  The entries \<open>.\<close> and
  \<open>..\<close> carry neither attributes nor handle.  \<open>None\<close>: the attributes of the file
  cannot be read.
\<close>

definition readdirplus_node ::
  "'os posix \<Rightarrow> 'os \<Rightarrow> path \<Rightarrow> entryplus3_members \<Rightarrow> vfs_dirent \<Rightarrow> entryplus3_members option" where
  "readdirplus_node P s dir node d =
     (let node = node\<lparr>entp_name := Some (vd_name d @ [0]), entp_fileid := vd_ino d,
                      entp_cookie := vd_offset d\<rparr> in
      if vd_name d = [0x2E] \<or> vd_name d = [0x2E, 0x2E]
      then Some (node\<lparr>entp_name_attributes := (entp_name_attributes node)\<lparr>poa_attributes_follow := C_FALSE\<rparr>,
                      entp_name_handle := (entp_name_handle node)\<lparr>handle_follows := C_FALSE\<rparr>\<rparr>)
      else do {
        file_path \<leftarrow> join_path dir (entp_name node);
        let handle = set_file_handle (pof_handle (entp_name_handle node)) file_path;
        object_path \<leftarrow> get_file_handle handle;
        let (status, attributes) = nfs_set_post_op_attr P s object_path (entp_name_attributes node);
        if status \<noteq> NFS3_OK then None
        else Some (node\<lparr>entp_name_attributes := attributes,
                        entp_name_handle := \<lparr>handle_follows = C_TRUE, pof_handle = handle\<rparr>\<rparr>)
      })"

text \<open>Entries so far, their number, and the memory the reply is taken to use.\<close>

type_synonym listing = "entryplus3 option \<times> uint32 \<times> uint64"

datatype 'a scan = More 'a | Page 'a | Eof 'a | Attr_failed | Unreadable

text \<open>
  The records of one block.  A record of length 0 would keep the loop at the same
  place for ever (\<open>None\<close>).
\<close>

function readdirplus_block ::
  "'os posix \<Rightarrow> 'os \<Rightarrow> path \<Rightarrow> (uint32 \<Rightarrow> entryplus3_members) \<Rightarrow> uint32 \<Rightarrow> uint64 \<Rightarrow> byte list \<Rightarrow>
   nat \<Rightarrow> listing \<Rightarrow> listing scan option" where
  "readdirplus_block P s dir junk max_count avail buf bpos (entries, entry_count, used_mem) =
     (if length buf \<le> bpos then Some (More (entries, entry_count, used_mem))
      else
      let d = to_vfs_dirent buf bpos in
      case readdirplus_node P s dir (junk entry_count) d of
        None \<Rightarrow> Some Attr_failed
      | Some node \<Rightarrow>
          let entries = append_node entries node;
              entry_count = entry_count + 1;
              used_mem = used_mem + sizeof_pointer in
          if entry_count \<ge> max_count \<or> used_mem + of_nat BYTES_PER_XDR_UNIT \<ge> avail
          then (if entp_cookie node = LONG_MAX then Some (More (entries, entry_count, used_mem))
                else Some (Page (entries, entry_count, used_mem)))
          else if vd_reclen d = 0 then None
          else readdirplus_block P s dir junk max_count avail buf (bpos + unat (vd_reclen d))
                 (entries, entry_count, used_mem))"
  by pat_completeness auto
termination
  by (relation "measure (\<lambda>(P, s, dir, junk, mc, av, buf, bpos, l). length buf - bpos)")
     (auto intro!: diff_less_mono2 simp: unat_gt_0)

partial_function (option) readdirplus_scan ::
  "'os posix \<Rightarrow> 'os \<Rightarrow> path \<Rightarrow> (uint32 \<Rightarrow> entryplus3_members) \<Rightarrow> uint32 \<Rightarrow> uint64 \<Rightarrow> fd \<Rightarrow> uint64 \<Rightarrow>
   listing \<Rightarrow> ('os \<times> listing scan) option" where
  "readdirplus_scan P s dir junk max_count avail dir_fh seekloc l =
     (case vfs_readents P s dir_fh BUF_SIZE seekloc of
        (s, buf, seekloc) \<Rightarrow>
          (case buf of
             None \<Rightarrow> Some (s, Unreadable)
           | Some bs \<Rightarrow>
               if bs = [] then Some (s, Eof l)
               else Option.bind (readdirplus_block P s dir junk max_count avail bs 0 l)
                 (\<lambda>r. case r of
                        More l \<Rightarrow> readdirplus_scan P s dir junk max_count avail dir_fh seekloc l
                      | _ \<Rightarrow> Some (s, r))))"

definition nfs3_readdirplus ::
  "'os posix \<Rightarrow> core_param \<Rightarrow> (uint32 \<Rightarrow> entryplus3_members) \<Rightarrow> 'os \<Rightarrow> READDIRPLUS3args \<Rightarrow>
   READDIRPLUS3res \<Rightarrow> ('os, READDIRPLUS3res) reply" where
  "nfs3_readdirplus P cfg junk s args res =
     (let res = res\<lparr>rdpr_u := (rdpr_u res)\<lparr>rdpr_reply := \<lparr>dlp_entries = None, dlp_eof = C_FALSE\<rparr>\<rparr>\<rparr>;
          begin_cookie = rdp_cookie args in
      if data_len (rdp_dir args) = 0 then Some (s, res, NFS_REQ_ERROR)
      else do {
        dir \<leftarrow> get_file_handle (rdp_dir args);
        let (status, dir_attributes) = nfs_set_post_op_attr P s dir
              ((rdpr_dir_attributes (rdpr_u res))\<lparr>poa_attributes_follow := C_FALSE\<rparr>);
        let res = res\<lparr>rdpr_status := status,
                      rdpr_u := (rdpr_u res)\<lparr>rdpr_dir_attributes := dir_attributes\<rparr>\<rparr>;
        if status \<noteq> NFS3_OK then Some (s, res, NFS_REQ_ERROR)
        else if fa_type (poa_attributes dir_attributes) \<noteq> NF3DIR
        then Some (s, res\<lparr>rdpr_status := NFS3ERR_NOTDIR\<rparr>, NFS_REQ_OK)
        else
        let verf = cookie_verifier (fa_ctime (poa_attributes dir_attributes)) in
        if begin_cookie \<noteq> 0 \<and> verf \<noteq> rdp_cookieverf args
        then Some (s, res\<lparr>rdpr_status := NFS3ERR_BAD_COOKIE\<rparr>, NFS_REQ_OK)
        else
        let cookie = (if begin_cookie > 2 then begin_cookie else 0);
            (s, dir_fh) = sys_open P s dir (O_RDONLY OR O_DIRECTORY) in
        if dir_fh < 0
        then Some (sys_close P s dir_fh, res\<lparr>rdpr_status := NFS3ERR_BADHANDLE\<rparr>, NFS_REQ_ERROR)
        else
        let (s, seekloc) = sys_lseek P s dir_fh cookie in
        if sint seekloc < 0
        then Some (sys_close P s dir_fh, res\<lparr>rdpr_status := NFS3ERR_BADHANDLE\<rparr>, NFS_REQ_ERROR)
        else do {
          (s, r) \<leftarrow> readdirplus_scan P s dir junk (max_entry_count cfg args) (mem_avail cfg args)
                     dir_fh seekloc (None, 0, 0);
          let s = sys_close P s dir_fh;
          Some (case r of
            Unreadable \<Rightarrow> (s, res\<lparr>rdpr_status := NFS3ERR_BADHANDLE\<rparr>, NFS_REQ_ERROR)
          | Page l \<Rightarrow>
              (s, res\<lparr>rdpr_u := (rdpr_u res)\<lparr>rdpr_cookieverf := verf,
                        rdpr_reply := \<lparr>dlp_entries = fst l, dlp_eof = C_FALSE\<rparr>\<rparr>\<rparr>, NFS_REQ_OK)
          | Eof l \<Rightarrow>
              (s, res\<lparr>rdpr_u := (rdpr_u res)\<lparr>rdpr_cookieverf := verf,
                        rdpr_reply := \<lparr>dlp_entries = fst l, dlp_eof = C_TRUE\<rparr>\<rparr>\<rparr>, NFS_REQ_OK)
          | _ \<Rightarrow> (s, res, NFS_REQ_ERROR))
        }
      })"

section \<open>What the scan of a directory lists\<close>

text \<open>
  The records of a block of raw directory data, in order; \<open>None\<close> when a record has no length.
\<close>

function block_records :: "byte list \<Rightarrow> nat \<Rightarrow> vfs_dirent list option" where
  "block_records buf bpos =
     (if length buf \<le> bpos then Some []
      else let d = to_vfs_dirent buf bpos in
      if vd_reclen d = 0 then None
      else map_option ((#) d) (block_records buf (bpos + unat (vd_reclen d))))"
  by pat_completeness auto
termination
  by (relation "measure (\<lambda>(buf, bpos). length buf - bpos)")
     (auto intro!: diff_less_mono2 simp: unat_gt_0)

declare block_records.simps [simp del] readdirplus_block.simps [simp del]

definition is_dots :: "vfs_dirent \<Rightarrow> bool" where
  "is_dots d \<longleftrightarrow> vd_name d = [0x2E] \<or> vd_name d = [0x2E, 0x2E]"

definition entry_view :: "entryplus3_members \<Rightarrow> uint64 \<times> char_ptr \<times> uint64" where
  "entry_view e = (entp_fileid e, entp_name e, entp_cookie e)"

definition record_view :: "vfs_dirent \<Rightarrow> uint64 \<times> char_ptr \<times> uint64" where
  "record_view d = (vd_ino d, Some (vd_name d @ [0]), vd_offset d)"

lemma node_view: "readdirplus_node P s dir j d = Some e \<Longrightarrow> entry_view e = record_view d"
  by (auto simp: readdirplus_node_def entry_view_def record_view_def Let_def
      split: if_splits bind_splits prod.splits)

lemma node_statable:
  assumes "0 \<notin> set dir" "0 \<notin> set (vd_name d)" "length dir + length (vd_name d) + 1 < 2 ^ 32"
    and "is_dots d \<or> statable P s (dir @ 0x2F # vd_name d)"
  shows "\<exists>e. readdirplus_node P s dir j d = Some e"
proof -
  have g: "get_file_handle (set_file_handle fh (dir @ 0x2F # vd_name d)) = Some (dir @ 0x2F # vd_name d)" for fh
    using assms by (intro get_set_file_handle) auto
  with assms(4) show ?thesis
    by (auto simp: readdirplus_node_def is_dots_def Let_def c_str_no_zero [OF assms(2)])
qed

text \<open>A block whose entries neither fill the page nor fail is listed to its end.\<close>

lemma block_more:
  assumes "block_records buf bpos = Some ds"
    and "\<forall>d\<in>set ds. \<forall>j. \<exists>e. readdirplus_node P s dir j d = Some e"
    and "unat c + length ds < unat max_count" "unat u + 8 * length ds + 4 < unat avail"
  shows "\<exists>es. readdirplus_block P s dir junk max_count avail buf bpos (entries, c, u) =
      Some (More (foldl append_node entries es, c + of_nat (length ds), u + 8 * of_nat (length ds))) \<and>
    map entry_view es = map record_view ds"
  using assms
proof (induction buf bpos arbitrary: ds entries c u rule: block_records.induct)
  case (1 buf bpos)
  show ?case
  proof (cases "length buf \<le> bpos")
    case True
    with 1 show ?thesis
      by (simp add: block_records.simps [of buf bpos] readdirplus_block.simps [of P s dir junk max_count avail buf bpos])
  next
    case False
    define d where "d = to_vfs_dirent buf bpos"
    from False 1(2) obtain ds' where ds: "vd_reclen d \<noteq> 0" "ds = d # ds'"
      "block_records buf (bpos + unat (vd_reclen d)) = Some ds'"
      by (auto simp: block_records.simps [of buf bpos] Let_def d_def split: if_splits)
    obtain e where e: "readdirplus_node P s dir (junk c) d = Some e"
      using 1(3) ds(2) by (meson list.set_intros(1))
    have n: "unat (c + 1) = unat c + 1" "unat (u + 8) = unat u + 8" "unat (12 + u) = unat u + 12"
      using 1(4,5) ds(2) unat_word_plus [of c 1] unat_word_plus [of u 8] unat_word_plus [of 12 u]
        unat_uint32_bound [of max_count] unsigned_less [of avail, where ?'a = nat] by auto
    have "unat (c + 1) + length ds' < unat max_count" "unat (u + 8) + 8 * length ds' + 4 < unat avail"
      using 1(4,5) ds(2) n by auto
    with 1(1) [OF False d_def ds(1,3), of "c + 1" "u + 8" "append_node entries e"] 1(3) ds(2)
    obtain es where es: "readdirplus_block P s dir junk max_count avail buf (bpos + unat (vd_reclen d))
        (append_node entries e, c + 1, u + 8) =
        Some (More (foldl append_node (append_node entries e) es,
          c + 1 + of_nat (length ds'), u + 8 + 8 * of_nat (length ds')))"
      "map entry_view es = map record_view ds'"
      by auto
    have "\<not> (c + 1 \<ge> max_count \<or> u + sizeof_pointer + of_nat BYTES_PER_XDR_UNIT \<ge> avail)"
      using 1(4,5) ds(2) n by (simp add: word_le_nat_alt sizeof_pointer_def BYTES_PER_XDR_UNIT_def)
    with False ds e es(1) have "readdirplus_block P s dir junk max_count avail buf bpos (entries, c, u) =
        Some (More (foldl append_node entries (e # es), c + of_nat (length ds), u + 8 * of_nat (length ds)))"
      by (simp add: readdirplus_block.simps [of P s dir junk max_count avail buf bpos] d_def [symmetric]
          sizeof_pointer_def algebra_simps)
    with es(2) node_view [OF e] ds(2) show ?thesis
      by (intro exI [of _ "e # es"]) simp
  qed
qed


text \<open>
  \<open>reading P fd s bss s'\<close>: from the state \<open>s\<close> the directory is read as the blocks \<open>bss\<close> and then its
  end, in the state \<open>s'\<close>.
\<close>

fun reading :: "'os posix \<Rightarrow> fd \<Rightarrow> 'os \<Rightarrow> byte list list \<Rightarrow> 'os \<Rightarrow> bool" where
  "reading P fd s [] s' \<longleftrightarrow> sys_getdents64 P s fd BUF_SIZE = (s', Some [])"
| "reading P fd s (b # bs) s' \<longleftrightarrow>
     (case sys_getdents64 P s fd BUF_SIZE of (s1, r) \<Rightarrow> r = Some b \<and> b \<noteq> [] \<and> reading P fd s1 bs s')"

fun all_records :: "byte list list \<Rightarrow> vfs_dirent list option" where
  "all_records [] = Some []"
| "all_records (b # bs) =
     (case (block_records b 0, all_records bs) of (Some ds, Some ds') \<Rightarrow> Some (ds @ ds') | _ \<Rightarrow> None)"

lemma scan_complete:
  assumes "reading P fd s bss s'" "all_records bss = Some ds"
    and "\<forall>s. \<forall>d\<in>set ds. \<forall>j. \<exists>e. readdirplus_node P s dir j d = Some e"
    and "unat c + length ds < unat max_count" "unat u + 8 * length ds + 4 < unat avail"
  shows "\<exists>es c' u'. readdirplus_scan P s dir junk max_count avail fd seekloc (entries, c, u) =
      Some (s', Eof (foldl append_node entries es, c', u')) \<and> map entry_view es = map record_view ds"
  using assms
proof (induction bss arbitrary: s ds c u entries seekloc)
  case Nil
  then show ?case
    by (subst readdirplus_scan.simps) (simp add: vfs_readents_def)
next
  case (Cons b bss)
  obtain s1 where s1: "sys_getdents64 P s fd BUF_SIZE = (s1, Some b)" "b \<noteq> []" "reading P fd s1 bss s'"
    using Cons.prems(1) by auto
  obtain d1 d2 where d: "block_records b 0 = Some d1" "all_records bss = Some d2" "ds = d1 @ d2"
    using Cons.prems(2) by (auto split: option.splits)
  from block_more [OF d(1), of P s1 dir c max_count u avail junk entries] Cons.prems(3-5) d(3)
  obtain es where es: "readdirplus_block P s1 dir junk max_count avail b 0 (entries, c, u) =
      Some (More (foldl append_node entries es, c + of_nat (length d1), u + 8 * of_nat (length d1)))"
    "map entry_view es = map record_view d1"
    by auto
  have n: "unat (c + of_nat (length d1)) = unat c + length d1"
    "unat (u + 8 * of_nat (length d1)) = unat u + 8 * length d1"
    using Cons.prems(4,5) d(3) unat_plus_of_nat [of c "length d1"] unat_plus_of_nat [of u "8 * length d1"]
      unat_uint32_bound [of max_count] unsigned_less [of avail, where ?'a = nat] by auto
  with Cons.IH [OF s1(3) d(2), of "c + of_nat (length d1)" "u + 8 * of_nat (length d1)"
      "seekloc + of_nat (length b)" "foldl append_node entries es"] Cons.prems(3-5) d(3)
  obtain es' c' u' where "readdirplus_scan P s1 dir junk max_count avail fd (seekloc + of_nat (length b))
      (foldl append_node entries es, c + of_nat (length d1), u + 8 * of_nat (length d1)) =
      Some (s', Eof (foldl append_node entries (es @ es'), c', u'))" "map entry_view es' = map record_view d2"
    by auto
  with es s1 d(3) show ?case
    by (subst readdirplus_scan.simps) (auto simp: vfs_readents_def intro: exI [of _ "es @ es'"])
qed


text \<open>
  Blocks as \<open>getdents64\<close> returns them: every record has a length, and no cookie is the largest one.
\<close>

definition good_block :: "byte list \<Rightarrow> bool" where
  "good_block b \<longleftrightarrow>
     (case block_records b 0 of None \<Rightarrow> False | Some ds \<Rightarrow> \<forall>d\<in>set ds. vd_offset d \<noteq> LONG_MAX)"

definition counted :: "uint32 \<Rightarrow> listing \<Rightarrow> bool" where
  "counted max_count l \<longleftrightarrow>
     unat (fst (snd l)) = length (entry_list (fst l)) \<and> unat (fst (snd l)) \<le> max 1 (unat max_count)"

lemma block_bounded:
  assumes "block_records buf bpos = Some ds" "\<forall>d\<in>set ds. vd_offset d \<noteq> LONG_MAX"
    and "counted max_count (entries, c, u)" "c < max_count \<or> c = 0"
  shows "\<exists>r. readdirplus_block P s dir junk max_count avail buf bpos (entries, c, u) = Some r \<and>
    (r = Attr_failed \<or> (\<exists>l. r = Page l \<and> counted max_count l) \<or>
     (\<exists>l. r = More l \<and> counted max_count l \<and>
        (bpos < length buf \<longrightarrow> c < fst (snd l) \<and> fst (snd l) < max_count) \<and>
        (length buf \<le> bpos \<longrightarrow> l = (entries, c, u))))"
  using assms
proof (induction buf bpos arbitrary: ds entries c u rule: block_records.induct)
  case (1 buf bpos)
  note step = readdirplus_block.simps [of P s dir junk max_count avail buf bpos]
  show ?case
  proof (cases "length buf \<le> bpos")
    case True
    with 1 show ?thesis by (simp add: step)
  next
    case False
    define d where "d = to_vfs_dirent buf bpos"
    from False 1(2) obtain ds' where ds: "vd_reclen d \<noteq> 0" "ds = d # ds'"
      "block_records buf (bpos + unat (vd_reclen d)) = Some ds'"
      by (auto simp: block_records.simps [of buf bpos] Let_def d_def split: if_splits)
    show ?thesis
    proof (cases "readdirplus_node P s dir (junk c) d")
      case None
      with False show ?thesis by (simp add: step d_def [symmetric])
    next
      case (Some e)
      have ck: "entp_cookie e \<noteq> LONG_MAX"
        using node_view [OF Some] 1(3) ds(2) by (auto simp: entry_view_def record_view_def)
      have c1: "unat (c + 1) = unat c + 1"
        using 1(5) unat_word_plus [of c 1] unat_uint32_bound [of max_count]
        by (auto simp: word_less_nat_alt simp del: unat_uint32_bound)
      then have cnt: "counted max_count (append_node entries e, c + 1, u + sizeof_pointer)"
        using 1(4,5) by (auto simp: counted_def word_less_nat_alt)
      show ?thesis
      proof (cases "c + 1 \<ge> max_count \<or> u + sizeof_pointer + of_nat BYTES_PER_XDR_UNIT \<ge> avail")
        case True
        with False Some ck cnt show ?thesis
          by (simp add: step d_def [symmetric])
      next
        case go: False
        then have "c + 1 < max_count \<or> c + 1 = 0" "\<forall>d\<in>set ds'. vd_offset d \<noteq> LONG_MAX"
          using 1(3) ds(2) by auto
        note IH = 1(1) [OF False d_def ds(1,3) this(2) cnt this(1)]
        have eq: "readdirplus_block P s dir junk max_count avail buf bpos (entries, c, u) =
            readdirplus_block P s dir junk max_count avail buf (bpos + unat (vd_reclen d))
              (append_node entries e, c + 1, u + sizeof_pointer)"
          using False Some go ds(1) by (simp add: step d_def [symmetric])
        have "c < c + 1" "c + 1 < max_count"
          using c1 go by (auto simp: word_less_nat_alt word_le_nat_alt)
        with IH False show ?thesis
          unfolding eq by (cases "bpos + unat (vd_reclen d) < length buf") (auto dest: order_less_trans)
      qed
    qed
  qed
qed

lemma scan_bounded:
  assumes "\<And>s s' b. sys_getdents64 P s fd BUF_SIZE = (s', Some b) \<Longrightarrow> good_block b"
    and "counted max_count l" "fst (snd l) < max_count \<or> fst (snd l) = 0"
  shows "\<exists>s' r. readdirplus_scan P s dir junk max_count avail fd seekloc l = Some (s', r) \<and>
    (r = Attr_failed \<or> r = Unreadable \<or> (\<exists>l. (r = Page l \<or> r = Eof l) \<and> counted max_count l))"
  using assms(2,3)
proof (induction "unat max_count - unat (fst (snd l))" arbitrary: l s seekloc rule: less_induct)
  case less
  obtain entries c u where l: "l = (entries, c, u)" by (cases l)
  obtain s1 b where g: "sys_getdents64 P s fd BUF_SIZE = (s1, b)" by (cases "sys_getdents64 P s fd BUF_SIZE")
  show ?case
  proof (cases "b = None \<or> b = Some []")
    case True
    with g less.prems l show ?thesis
      by (subst readdirplus_scan.simps) (auto simp: vfs_readents_def)
  next
    case False
    then obtain bs where bs: "b = Some bs" "bs \<noteq> []" by auto
    then obtain ds where "block_records bs 0 = Some ds" "\<forall>d\<in>set ds. vd_offset d \<noteq> LONG_MAX"
      using assms(1) [of s s1 bs] g by (auto simp: good_block_def split: option.splits)
    from block_bounded [OF this, of max_count entries c u P s1 dir junk avail] less.prems l
    obtain r where r: "readdirplus_block P s1 dir junk max_count avail bs 0 l = Some r"
      "r = Attr_failed \<or> (\<exists>l. r = Page l \<and> counted max_count l) \<or>
       (\<exists>l. r = More l \<and> counted max_count l \<and> c < fst (snd l) \<and> fst (snd l) < max_count)"
      using bs(2) by auto
    show ?thesis
    proof (cases "\<exists>l. r = More l")
      case True
      then obtain l' where l': "r = More l'" "counted max_count l'" "c < fst (snd l')" "fst (snd l') < max_count"
        using r(2) by auto
      then have "unat max_count - unat (fst (snd l')) < unat max_count - unat (fst (snd l))"
        using l by (auto simp: word_less_nat_alt)
      from less.hyps [OF this l'(2), of s1 "seekloc + of_nat (length bs)"] l' g bs r(1) show ?thesis
        by (subst readdirplus_scan.simps) (simp add: vfs_readents_def)
    next
      case False
      with r g bs show ?thesis
        by (subst readdirplus_scan.simps) (auto simp: vfs_readents_def)
    qed
  qed
qed

section \<open>Requests on the sample system\<close>

lemma sample_records: "block_records sample_record 0 = Some [\<lparr>vd_ino = 12, vd_reclen = 24, vd_type = 8,
  vd_offset = 1, vd_name = [0x66]\<rparr>]"
  by code_simp

definition sample_config :: core_param where
  "sample_config = \<lparr>readdir_res_size = 16384, readdir_max_count = 10000\<rparr>"

definition sample_readdirplus :: "uint64 \<Rightarrow> READDIRPLUS3args" where
  "sample_readdirplus cookie =
     \<lparr>rdp_dir = sample_fh sample_dir, rdp_cookie = cookie, rdp_cookieverf = replicate 8 0, rdp_dircount = 100,
      rdp_maxcount = 4096\<rparr>"

lemma sample_readdirplus_simps [simp]:
  "rdp_dir (sample_readdirplus c) = sample_fh sample_dir" "rdp_cookie (sample_readdirplus c) = c"
  by (simp_all add: sample_readdirplus_def)

lemma sample_page [simp]:
  "unat (max_entry_count sample_config (sample_readdirplus c)) = 100"
  "unat (mem_avail sample_config (sample_readdirplus c)) = 3992"
  by (simp_all add: max_entry_count_def mem_avail_def sample_config_def sample_readdirplus_def nfs_consts
      BYTES_PER_XDR_UNIT_def min_def Let_def)

lemma sample_blocks: "reading sample_sys fd 0 [sample_record] 2"
  by (simp add: sample_record_def)

lemma sample_good: "sys_getdents64 sample_sys s fd n = (s', Some b) \<Longrightarrow> good_block b"
  using sample_records by (auto simp: good_block_def LONG_MAX_def block_records.simps [of "[]"])

section \<open>Properties\<close>

text \<open>
  READDIR of a directory lists every name \<open>scandir\<close> returns, with its inode number, in that
  order and in one reply, and reports the end of the directory.
\<close>

theorem readdir_lists_all:
  assumes "data_len (rdir_dir args) \<noteq> 0" "get_file_handle (rdir_dir args) = Some d" "is_dir P s d"
    and "sys_scandir P s d = (s1, Some names)"
  shows "\<exists>r. nfs3_readdir P junk s args res = Some (s1, r, NFS_REQ_OK) \<and> rdirr_status r = NFS3_OK \<and>
    dl_eof (rdirr_reply (rdirr_u r)) = C_TRUE \<and>
    map (\<lambda>e. (ent_fileid e, ent_name e)) (entry_list (dl_entries (rdirr_reply (rdirr_u r)))) =
    map (\<lambda>d. (d_ino d, Some (d_name d @ [0]))) names"
proof -
  obtain st where st: "sys_lstat P s d = Inr st" "ftype_of_mode (st_mode st) = Some NF3DIR"
    using assms(3) by (auto simp: is_dir_def ftype_of_mode_dir)
  have "map (\<lambda>e. (ent_fileid e, ent_name e)) (map (\<lambda>(index, d). readdir_node (junk index) d) (enumerate 0 names)) =
      map (\<lambda>d. (d_ino d, Some (d_name d @ [0]))) names"
    using map_map [of "\<lambda>d. (d_ino d, Some (d_name d @ [0]))" snd "enumerate 0 names"]
    by (simp add: readdir_node_def comp_def case_prod_unfold)
  with assms st show ?thesis
    by (simp add: nfs3_readdir_def nfs_set_post_op_attr_def fattr3_of_stat_def entry_list_fold del: statable_post_op)
qed



text \<open>
  READDIRPLUS that continues a listing with a verifier that is not the current one, the change time of
  the directory, is refused with NFS3ERR_BAD_COOKIE and reads nothing.
\<close>

theorem readdirplus_stale_cookie:
  assumes "data_len (rdp_dir args) \<noteq> 0" "get_file_handle (rdp_dir args) = Some d"
    and "sys_lstat P s d = Inr st" "st_mode st AND S_IFMT = S_IFDIR"
    and "rdp_cookie args \<noteq> 0" "rdp_cookieverf args \<noteq> cookie_verifier (time3_of (st_ctim st))"
  shows "\<exists>r. nfs3_readdirplus P cfg junk s args res = Some (s, r, NFS_REQ_OK) \<and>
    rdpr_status r = NFS3ERR_BAD_COOKIE \<and> dlp_entries (rdpr_reply (rdpr_u r)) = None"
  using assms
  by (auto simp: nfs3_readdirplus_def nfs_set_post_op_attr_def fattr3_of_stat_def ftype_of_mode_dir [symmetric] Let_def)

theorem readdir_lists_all_witness:
  "\<forall>junk res. \<exists>r. nfs3_readdir sample_sys junk 0
      \<lparr>rdir_dir = sample_fh sample_dir, rdir_cookie = 0, rdir_cookieverf = replicate 8 0, rdir_count = 4096\<rparr> res =
      Some (0, r, NFS_REQ_OK) \<and>
     map ent_fileid (entry_list (dl_entries (rdirr_reply (rdirr_u r)))) = [12]"
proof (intro allI)
  fix junk res
  let ?args = "\<lparr>rdir_dir = sample_fh sample_dir, rdir_cookie = 0, rdir_cookieverf = replicate 8 0, rdir_count = 4096\<rparr>"
  show "\<exists>r. nfs3_readdir sample_sys junk 0 ?args res = Some (0, r, NFS_REQ_OK) \<and>
     map ent_fileid (entry_list (dl_entries (rdirr_reply (rdirr_u r)))) = [12]"
    using readdir_lists_all [of ?args sample_dir sample_sys 0 0 "[\<lparr>d_ino = 12, d_name = [0x66]\<rparr>]" junk res]
    by auto
qed



theorem readdirplus_stale_cookie_witness:
  "\<forall>junk res. \<exists>r. nfs3_readdirplus sample_sys sample_config junk 0 (sample_readdirplus 7) res = Some (0, r, NFS_REQ_OK) \<and>
     rdpr_status r = NFS3ERR_BAD_COOKIE \<and> dlp_entries (rdpr_reply (rdpr_u r)) = None"
proof (intro allI readdirplus_stale_cookie [where d = sample_dir and st = "sample_stat 0x41ED"])
  show "rdp_cookieverf (sample_readdirplus 7) \<noteq> cookie_verifier (time3_of (st_ctim (sample_stat 0x41ED)))"
    by code_simp
qed (simp_all add: sample_readdirplus_def nfs_consts)

definition client_view :: "entryplus3_members \<Rightarrow> uint64 \<times> byte list \<times> uint64" where
  "client_view e = (entp_fileid e, c_str (block (entp_name e)), entp_cookie e)"

lemma client_view_dec:
  "entp_name w = None \<Longrightarrow> client_view (dec_entryplus3_members v w) = client_view v"
  by (simp add: client_view_def dec_entryplus3_members_def string_dec_def block_def overwrite_def c_str_no_zero)

lemma zero_entryplus3_simps [simp]: "entp_name (chain_body zero_entryplus3) = None" "nextentry zero_entryplus3 = None"
  by (simp_all add: zero_entryplus3_def)

lemma client_view_chain:
  "entp_name (chain_body w) = None \<Longrightarrow> nextentry w = None \<Longrightarrow>
   map client_view (chain_list (dec_chain zero_entryplus3 dec_entryplus3_members c w)) = map client_view (chain_list c)"
proof (induction c arbitrary: w)
  case (Chain b n)
  then show ?case
    by (cases n) (auto simp: client_view_dec)
qed

definition sample_listing :: READDIRPLUS3res where
  "sample_listing =
     \<lparr>rdpr_status = NFS3_OK,
      rdpr_u = \<lparr>rdpr_dir_attributes = zero_post_op_attr, rdpr_cookieverf = replicate 8 0,
                rdpr_reply = \<lparr>dlp_entries = Some (Chain
                  \<lparr>entp_fileid = 12, entp_name = Some [0x66, 0], entp_cookie = 1, entp_name_attributes = zero_post_op_attr,
                   entp_name_handle = \<lparr>handle_follows = 0, pof_handle = zero_fh3\<rparr>\<rparr> None), dlp_eof = 1\<rparr>\<rparr>\<rparr>"

lemma sample_listing_valid:
  "valid_READDIRPLUS3res sample_listing" "length (wire_READDIRPLUS3res sample_listing) \<le> 200"
  "rdpr_status sample_listing = NFS3_OK"
  by (simp_all add: sample_listing_def valid_READDIRPLUS3res_def valid_dirlistplus3_def valid_pointer_def
      valid_entryplus3_members_def wire_READDIRPLUS3res_def wire_dirlistplus3_def wire_pointer_def
      wire_entryplus3_members_def wire_defs zero_post_op_attr_def string_valid_def
      block_def c_str_def wire_counted_def length_wire_opaque pad_len_def XDR_STRING_MAXLEN_def)

text \<open>
  C21: What READDIRPLUS lists is what the client reads: a reply encoded into a buffer and decoded from it into
  fresh memory has the same entries in the same order, each with its file number, name and cookie, and the same
  end of directory flag.
\<close>

theorem readdirplus_reply_round_trip:
  assumes "valid_READDIRPLUS3res v" "rdpr_status v = NFS3_OK"
    and "length (wire_READDIRPLUS3res v) \<le> sz" "sz \<le> length buf" "addr mod 4 = 0"
    and "xdrmem_ncreate addr buf sz XDR_ENCODE = Some E"
    and "xdrmem_ncreate addr (x_buf (fst (snd (xdr_READDIRPLUS3res E v)))) (length (wire_READDIRPLUS3res v)) XDR_DECODE = Some D"
    and "dlp_entries (rdpr_reply (rdpr_u w)) = None"
  shows "\<exists>D' r. xdr_READDIRPLUS3res D w = (True, D', r) \<and> rdpr_status r = NFS3_OK \<and>
    dlp_eof (rdpr_reply (rdpr_u r)) = dlp_eof (rdpr_reply (rdpr_u v)) \<and>
    map client_view (entry_list (dlp_entries (rdpr_reply (rdpr_u r)))) =
    map client_view (entry_list (dlp_entries (rdpr_reply (rdpr_u v))))"
  using READDIRPLUS3res.round_trip [OF assms(1,3-7), of w] assms(2,8)
  by (auto simp: dec_READDIRPLUS3res_def dec_dirlistplus3_def dec_pointer_def entry_list_def client_view_chain
      split: option.splits)

theorem readdirplus_reply_round_trip_witness:
  "\<exists>E D. xdrmem_ncreate 0 (replicate 200 0) 200 XDR_ENCODE = Some E \<and>
     xdrmem_ncreate 0 (x_buf (fst (snd (xdr_READDIRPLUS3res E sample_listing)))) (length (wire_READDIRPLUS3res sample_listing))
       XDR_DECODE = Some D \<and>
     (\<forall>a c. \<exists>D' r. xdr_READDIRPLUS3res D \<lparr>rdpr_status = 0, rdpr_u = \<lparr>rdpr_dir_attributes = a, rdpr_cookieverf = c,
         rdpr_reply = \<lparr>dlp_entries = None, dlp_eof = 0\<rparr>\<rparr>\<rparr> = (True, D', r) \<and>
       map client_view (entry_list (dlp_entries (rdpr_reply (rdpr_u r)))) = [(12, [0x66], 1)])"
proof -
  obtain E where E: "xdrmem_ncreate 0 (replicate 200 0) 200 XDR_ENCODE = Some E"
    by (simp add: xdrmem_ncreate_def)
  obtain D where D: "xdrmem_ncreate 0 (x_buf (fst (snd (xdr_READDIRPLUS3res E sample_listing))))
      (length (wire_READDIRPLUS3res sample_listing)) XDR_DECODE = Some D"
    by (simp add: xdrmem_ncreate_def)
  have "\<exists>D' r. xdr_READDIRPLUS3res D w = (True, D', r) \<and>
       map client_view (entry_list (dlp_entries (rdpr_reply (rdpr_u r)))) = [(12, [0x66], 1)]"
    if "dlp_entries (rdpr_reply (rdpr_u w)) = None" for w
    using readdirplus_reply_round_trip [OF sample_listing_valid(1,3,2) _ _ E D that]
    by (auto simp: sample_listing_def entry_list_def client_view_def block_def c_str_def)
  with E D show ?thesis
    by (intro exI [of _ E] exI [of _ D]) simp
qed

end
