(* ===== verification/Xdr_Loop.thy ===== *)
theory Xdr_Loop
  imports Xdr_Chain
begin

text \<open>
  Linked lists whose routine is a loop: the flag that says whether a node follows, the node by
  \<open>xdr_reference\<close>, then the pointer to the next one (the list routines of the MOUNT protocol).
  Unlike \<open>xdr_pointer\<close> the loop leaves the pointer alone when no node follows.
\<close>

section \<open>Optional nodes\<close>

definition xdr_more :: "'a \<Rightarrow> 'a xdrproc \<Rightarrow> 'a option xdrproc" where
  "xdr_more zero p xdrs objp =
     (case xdr_bool xdrs (if objp \<noteq> None then 1 else 0) of
        (False, xdrs', m) \<Rightarrow> (False, xdrs', objp)
      | (True, xdrs', m) \<Rightarrow>
          if m = 0 then (True, xdrs', objp) else xdr_reference zero p xdrs' objp)"

definition dec_more :: "'a \<Rightarrow> ('a \<Rightarrow> 'a \<Rightarrow> 'a) \<Rightarrow> 'a option \<Rightarrow> 'a option \<Rightarrow> 'a option" where
  "dec_more zero d v w =
     (case v of None \<Rightarrow> w | Some u \<Rightarrow> Some (d u (case w of None \<Rightarrow> zero | Some t \<Rightarrow> t)))"

lemma xdr_more_pointer:
  "fst (xdr_more zero p xdrs v) = fst (xdr_pointer zero p xdrs v)"
  "fst (snd (xdr_more zero p xdrs v)) = fst (snd (xdr_pointer zero p xdrs v))"
  by (auto simp: xdr_more_def xdr_pointer_def split: prod.split bool.split)

lemma xdr_more_encode:
  "x_op xdrs = XDR_ENCODE \<Longrightarrow> xdr_more zero p xdrs v = xdr_pointer zero p xdrs v"
  by (cases v) (auto simp: xdr_more_def xdr_pointer_def xdr_bool_def Let_def split: prod.split bool.split)

lemma xdr_more_decode:
  "x_op xdrs = XDR_DECODE \<Longrightarrow> xdr_pointer zero p xdrs w = (True, xdrs', r) \<Longrightarrow>
   xdr_more zero p xdrs w = (True, xdrs', if r = None then w else r)"
  by (auto simp: xdr_more_def xdr_pointer_def xdr_reference_def xdr_bool_def xdr_access_defs Let_def
      split: prod.splits bool.splits option.splits if_splits)

lemma xdr_codec_more:
  assumes "xdr_codec p e va d"
  shows "xdr_codec (xdr_more zero p) (wire_pointer e) (valid_pointer va) (dec_more zero d)"
proof -
  note c = xdr_codec_pointer [OF assms, of zero]
  show ?thesis
  proof (intro xdr_codec.intro xdr_codec_axioms.intro xdr_safe.intro, goal_cases)
    case (1 xdrs v)
    then show ?case
      using xdr_safe.moves [OF xdr_codec.axioms(1) [OF c]] by (simp add: xdr_more_pointer)
  next
    case (2 xdrs v)
    then show ?case
      using xdr_codec.encode_fits [OF c] by (simp add: xdr_more_encode)
  next
    case (3 xdrs v)
    then show ?case
      using xdr_codec.encode_full [OF c] by (simp add: xdr_more_encode)
  next
    case (4 xdrs v rest w)
    from xdr_more_decode [OF 4(2) xdr_codec.decode [OF c 4]] show ?case
      by (cases v) (simp_all add: dec_pointer_def dec_more_def)
  next
    case (5 xdrs v w)
    then show ?case
      using xdr_codec.decode_short [OF c] by (simp add: xdr_more_pointer)
  qed
qed

section \<open>Loops over a list\<close>

text \<open>
  One turn of the loop \<open>f\<close> with the routine \<open>p\<close> for the members of a node.  While freeing, the code
  takes the pointer to the next node from the node it has just freed; the model takes it for what the node held.
\<close>

definition xdr_turn :: "'b xdrproc \<Rightarrow> 'b chain \<Rightarrow> 'b chain option xdrproc \<Rightarrow> 'b chain option xdrproc" where
  "xdr_turn p zero f xdrs objp =
     (case xdr_bool xdrs (if objp \<noteq> None then 1 else 0) of
        (False, xdrs1, m) \<Rightarrow> (False, xdrs1, objp)
      | (True, xdrs1, m) \<Rightarrow>
          if m = 0 then (True, xdrs1, objp)
          else
          case xdr_reference zero (xdr_field chain_body chain_body_update p) xdrs1 objp of
            (False, xdrs2, objp') \<Rightarrow> (False, xdrs2, objp')
          | (True, xdrs2, None) \<Rightarrow>
              (case f xdrs2 (Option.bind objp nextentry) of (ok, xdrs3, _) \<Rightarrow> (ok, xdrs3, None))
          | (True, xdrs2, Some c) \<Rightarrow>
              (case f xdrs2 (nextentry c) of (ok, xdrs3, n) \<Rightarrow> (ok, xdrs3, Some (Chain (chain_body c) n))))"

text \<open>The pointer the next turn starts from.\<close>

definition turn_next :: "'b chain option \<Rightarrow> 'b chain option \<Rightarrow> 'b chain option" where
  "turn_next objp r = (case r of None \<Rightarrow> Option.bind objp nextentry | Some c \<Rightarrow> nextentry c)"

lemma xdr_turn_cong [fundef_cong]:
  assumes "p = p'" "zero = zero'" "xdrs = ydrs" "objp = objq"
    and "\<And>xdrs1 m xdrs2 r. xdr_bool ydrs (if objq \<noteq> None then 1 else 0) = (True, xdrs1, m) \<Longrightarrow> m \<noteq> 0 \<Longrightarrow>
      xdr_reference zero' (xdr_field chain_body chain_body_update p') xdrs1 objq = (True, xdrs2, r) \<Longrightarrow>
      f xdrs2 (turn_next objq r) = g xdrs2 (turn_next objq r)"
  shows "xdr_turn p zero f xdrs objp = xdr_turn p' zero' g ydrs objq"
proof -
  obtain ok xdrs1 m where b: "xdr_bool ydrs (if objq \<noteq> None then 1 else 0) = (ok, xdrs1, m)"
    by (cases "xdr_bool ydrs (if objq \<noteq> None then 1 else 0)") auto
  obtain ok2 xdrs2 r where q:
    "xdr_reference zero' (xdr_field chain_body chain_body_update p') xdrs1 objq = (ok2, xdrs2, r)"
    by (cases "xdr_reference zero' (xdr_field chain_body chain_body_update p') xdrs1 objq") auto
  have "f xdrs2 (turn_next objq r) = g xdrs2 (turn_next objq r)" if "ok" "m \<noteq> 0" "ok2"
    using assms(5) [of xdrs1 m xdrs2 r] b q that by simp
  then show ?thesis
    unfolding assms(1-4) xdr_turn_def b prod.case q turn_next_def by (cases ok; cases ok2; cases r) simp_all
qed

definition loop_measure :: "XDR \<times> 'b chain option \<Rightarrow> nat" where
  "loop_measure = (\<lambda>(xdrs, objp).
     case x_op xdrs of XDR_DECODE \<Rightarrow> xv_tail xdrs - x_data xdrs
     | _ \<Rightarrow> (case objp of None \<Rightarrow> 0 | Some c \<Rightarrow> chain_length c))"

text \<open>A node and the rest of the list behind it.\<close>

definition xdr_rest :: "'b xdrproc \<Rightarrow> 'b chain option xdrproc \<Rightarrow> 'b chain xdrproc" where
  "xdr_rest p f = xdr_seq (xdr_field chain_body chain_body_update p) (xdr_field nextentry nextentry_update f)"

fun dec_loop :: "'b chain \<Rightarrow> ('b \<Rightarrow> 'b \<Rightarrow> 'b) \<Rightarrow> 'b chain \<Rightarrow> 'b chain \<Rightarrow> 'b chain" where
  "dec_loop zero d (Chain b n) w =
     Chain (d b (chain_body w))
       (case n of
          None \<Rightarrow> nextentry w
        | Some c \<Rightarrow> Some (dec_loop zero d c (case nextentry w of None \<Rightarrow> zero | Some u \<Rightarrow> u)))"

lemma xdr_codec_cong_op:
  assumes "xdr_codec g e va d" "xdr_safe f"
    and "\<And>xdrs v. x_op xdrs \<noteq> XDR_FREE \<Longrightarrow> f xdrs v = g xdrs v"
  shows "xdr_codec f e va d"
proof (intro xdr_codec.intro xdr_codec_axioms.intro assms(2))
qed (simp_all add: assms(3) xdr_codec.encode_fits [OF assms(1)] xdr_codec.encode_full [OF assms(1)]
       xdr_codec.decode [OF assms(1)] xdr_codec.decode_short [OF assms(1)])

lemma xdr_safe_reference: "xdr_safe p \<Longrightarrow> xdr_safe (xdr_reference zero p)"
  by unfold_locales
    (auto simp: xdr_reference_def split: option.split xdr_op.split prod.split dest: xdr_safe.movesD)

lemma xdr_forward_reference: "xdr_forward p \<Longrightarrow> xdr_forward (xdr_reference zero p)"
  by unfold_locales
    (auto simp: xdr_reference_def split: option.split xdr_op.split prod.split dest: xdr_forward.fwdD)

lemma turn_next_node:
  assumes b: "xdr_bool xdrs (if objp \<noteq> None then 1 else 0) = (True, xdrs1, m)" "m \<noteq> 0"
    and r: "xdr_reference zero (xdr_field chain_body chain_body_update p) xdrs1 objp = (True, xdrs2, r)"
    and d: "x_op xdrs \<noteq> XDR_DECODE"
  shows "\<exists>c. objp = Some c \<and> turn_next objp r = nextentry c"
proof -
  have "objp \<noteq> None"
    using b d by (cases "x_op xdrs") (auto simp: xdr_bool_def split: prod.splits if_splits)
  then obtain c where c: "objp = Some c"
    by blast
  have u: "nextentry (chain_body_update g c) = nextentry c" for g :: "'a \<Rightarrow> 'a"
    by (cases c) (simp add: chain_body_update_def)
  show ?thesis
    using r by (cases "p xdrs1 (chain_body c)") (auto simp: c xdr_reference_def xdr_field_def turn_next_def u)
qed

lemma turn_measure:
  assumes p: "xdr_forward p"
    and b: "xdr_bool xdrs (if objp \<noteq> None then 1 else 0) = (True, xdrs1, m)" "m \<noteq> 0"
    and r: "xdr_reference zero (xdr_field chain_body chain_body_update p) xdrs1 objp = (True, xdrs2, r)"
  shows "loop_measure (xdrs2, turn_next objp r) < loop_measure (xdrs, objp)"
proof -
  have f: "xdr_fwd xdrs1 xdrs2"
    using xdr_forward.fwdD [OF xdr_forward_reference [OF xdr_forward_field [OF p]] r] .
  show ?thesis
  proof (cases "x_op xdrs = XDR_DECODE")
    case True
    with b f show ?thesis
      by (auto simp: loop_measure_def xdr_fwd_def xdr_bool_def xdr_access_defs Let_def split: if_splits)
  next
    case False
    with turn_next_node [OF b r] obtain c where c: "objp = Some c" "turn_next objp r = nextentry c"
      by blast
    have "x_op xdrs2 = x_op xdrs"
      using f bool.fwdD [OF b(1)] by (simp add: xdr_fwd_def)
    with False c show ?thesis
      by (cases c; cases "x_op xdrs") (auto simp: loop_measure_def split: option.split)
  qed
qed

lemma turn_via:
  assumes "xdr_bool xdrs (if objp \<noteq> None then 1 else 0) = (ok, xdrs1, m)"
    and "xdr_reference zero (xdr_field chain_body chain_body_update p) xdrs1 objp = (ok2, xdrs2, r)"
  shows "fst (snd (xdr_turn p zero f xdrs objp)) \<in>
    {xdrs1, xdrs2} \<union> (if ok \<and> m \<noteq> 0 \<and> ok2 then {fst (snd (f xdrs2 (turn_next objp r)))} else {})"
  unfolding xdr_turn_def assms(1) prod.case assms(2) turn_next_def
  by (cases ok; cases ok2; cases r) (simp_all add: case_prod_unfold)

locale xdr_loop = xdr_codec p e va d + bodyf: xdr_forward p
  for p :: "'b xdrproc" and e va d +
  fixes f :: "'b chain option xdrproc" and zero :: "'b chain"
  assumes turn: "f xdrs objp = xdr_turn p zero f xdrs objp"
begin

lemma loop_more:
  assumes "x_op xdrs \<noteq> XDR_FREE"
  shows "f xdrs objp = xdr_more zero (xdr_rest p f) xdrs objp"
proof -
  obtain ok xdrs' m where b: "xdr_bool xdrs (if objp \<noteq> None then 1 else 0) = (ok, xdrs', m)"
    by (cases "xdr_bool xdrs (if objp \<noteq> None then 1 else 0)") auto
  have x: "x_op xdrs' \<noteq> XDR_FREE" "x_op xdrs' = x_op xdrs"
    using bool.fwdD [OF b] assms by (simp_all add: xdr_fwd_def)
  show ?thesis
    unfolding turn [of xdrs]
    using x b by (cases "x_op xdrs"; cases objp)
      (auto simp: xdr_turn_def xdr_more_def xdr_reference_def xdr_rest_def xdr_seq_def xdr_field_def
        chain_body_update_def nextentry_update_def split: prod.split bool.split)
qed

lemma loop_keeps:
  assumes bool: "\<And>xdrs b ok xdrs' m. P xdrs \<Longrightarrow> xdr_bool xdrs b = (ok, xdrs', m) \<Longrightarrow> R xdrs xdrs'"
    and node: "\<And>xdrs v ok xdrs' v'. P xdrs \<Longrightarrow>
      xdr_reference zero (xdr_field chain_body chain_body_update p) xdrs v = (ok, xdrs', v') \<Longrightarrow> R xdrs xdrs'"
    and trans: "\<And>x y z. R x y \<Longrightarrow> R y z \<Longrightarrow> R x z" and keep: "\<And>x y. P x \<Longrightarrow> R x y \<Longrightarrow> P y"
  shows "P xdrs \<Longrightarrow> R xdrs (fst (snd (f xdrs objp)))"
proof (induction "loop_measure (xdrs, objp)" arbitrary: xdrs objp rule: less_induct)
  case less
  obtain ok xdrs1 m where b: "xdr_bool xdrs (if objp \<noteq> None then 1 else 0) = (ok, xdrs1, m)"
    by (cases "xdr_bool xdrs (if objp \<noteq> None then 1 else 0)") auto
  obtain ok2 xdrs2 r where q:
    "xdr_reference zero (xdr_field chain_body chain_body_update p) xdrs1 objp = (ok2, xdrs2, r)"
    by (cases "xdr_reference zero (xdr_field chain_body chain_body_update p) xdrs1 objp") auto
  note r1 = bool [OF less.prems b]
  note r2 = trans [OF r1 node [OF keep [OF less.prems r1] q]]
  have "R xdrs (fst (snd (f xdrs2 (turn_next objp r))))" if "ok" "m \<noteq> 0" "ok2"
    using trans [OF r2 less.hyps [OF turn_measure [OF bodyf.xdr_forward_axioms, of xdrs objp xdrs1 m zero] keep [OF less.prems r2]]]
      b q that by simp
  then show ?case
    using turn_via [OF b q, of f] r1 r2 unfolding turn [of xdrs, symmetric] by (auto split: if_splits)
qed

lemma loop_safe: "xdr_safe f"
proof (rule xdr_safe.intro, rule loop_keeps [where P = xdr_wf])
  show "xdr_moves xdrs xdrs'" if "xdr_wf xdrs" "xdr_bool xdrs b = (ok, xdrs', m)" for xdrs b ok xdrs' m
    using bool.movesD [OF that] .
  show "xdr_moves xdrs xdrs'" if "xdr_wf xdrs"
    "xdr_reference zero (xdr_field chain_body chain_body_update p) xdrs v = (ok, xdrs', v')" for xdrs v ok xdrs' v'
    using xdr_safe.movesD [OF xdr_safe_reference [OF xdr_safe_field [OF xdr_safe_axioms]] that] .
qed (blast intro: xdr_moves_trans xdr_moves_wf)+

lemma loop_forward: "xdr_forward f"
proof (rule xdr_forward.intro, rule loop_keeps [where P = "\<lambda>_. True"])
  show "xdr_fwd xdrs xdrs'" if "xdr_bool xdrs b = (ok, xdrs', m)" for xdrs b ok xdrs' m
    using bool.fwdD [OF that] .
  show "xdr_fwd xdrs xdrs'"
    if "xdr_reference zero (xdr_field chain_body chain_body_update p) xdrs v = (ok, xdrs', v')" for xdrs v ok xdrs' v'
    using xdr_forward.fwdD [OF xdr_forward_reference [OF xdr_forward_field [OF bodyf.xdr_forward_axioms]] that] .
qed (blast intro: xdr_fwd_trans)+

lemma node_safe: "xdr_safe (xdr_rest p f)"
  unfolding xdr_rest_def by (intro xdr_safe_seq xdr_safe_field loop_safe xdr_safe_axioms)

lemma node_codec_upto:
  "xdr_codec (xdr_rest p f) (wire_chain e) (\<lambda>c. valid_chain va c \<and> chain_length c \<le> k) (dec_loop zero d)"
proof (induction k)
  case 0
  have "valid_chain va c \<and> chain_length c \<le> 0 \<longleftrightarrow> False" for c
    using chain_length_pos [of c] by auto
  with node_safe show ?case
    by (simp only: xdr_codec_def xdr_codec_axioms_def simp_thms)
next
  case (Suc k)
  have f: "xdr_codec f (wire_pointer (wire_chain e)) (valid_pointer (\<lambda>c. valid_chain va c \<and> chain_length c \<le> k))
      (dec_more zero (dec_loop zero d))"
    by (rule xdr_codec_cong_op [OF xdr_codec_more [OF Suc.IH] loop_safe loop_more])
  show ?case
    unfolding xdr_rest_def
  proof (rule xdr_codec_eqI [OF xdr_codec_seq [OF
          xdr_codec_field [OF xdr_codec_axioms, where get = chain_body and upd = chain_body_update]
          xdr_codec_field [OF f, where get = nextentry and upd = nextentry_update]]], goal_cases)
    case (3 v)
    then show ?case
      by (cases v) (auto simp: valid_pointer_def split: option.splits)
  next
    case (4 v)
    show ?case
      by (rule chain_eqs(1))
  next
    case (5 v w)
    show ?case
      by (cases v) (simp add: chain_body_update_def nextentry_update_def dec_more_def split: option.split)
  qed (simp_all add: chain_body_update_def nextentry_update_def)
qed

lemma node_codec: "xdr_codec (xdr_rest p f) (wire_chain e) (valid_chain va) (dec_loop zero d)"
proof (intro xdr_codec.intro xdr_codec_axioms.intro node_safe)
qed (use xdr_codec.encode_fits [OF node_codec_upto] xdr_codec.encode_full [OF node_codec_upto]
       xdr_codec.decode [OF node_codec_upto] xdr_codec.decode_short [OF node_codec_upto] in blast)+

lemma loop_codec:
  "xdr_codec f (wire_pointer (wire_chain e)) (valid_pointer (valid_chain va)) (dec_more zero (dec_loop zero d))"
  by (rule xdr_codec_cong_op [OF xdr_codec_more [OF node_codec] loop_safe loop_more])

end

end
