(* ===== verification/Xdr_Array.thy ===== *)
theory Xdr_Array
  imports Xdr_Chain
begin

text \<open>
  Counted arrays of elements behind a pointer (\<open>xdr_array\<close> of \<open>xdr_inline.h\<close>).
  The memory behind the pointer is a list of elements; \<open>zero\<close> is a zeroed element, which
  also stands for the memory behind the end of the array.
\<close>

fun xdr_elems :: "'a \<Rightarrow> 'a xdrproc \<Rightarrow> nat \<Rightarrow> 'a list xdrproc" where
  "xdr_elems zero xdr_elem 0 xdrs target = (True, xdrs, target)"
| "xdr_elems zero xdr_elem (Suc n) xdrs target =
     (case xdr_elem xdrs (case target of [] \<Rightarrow> zero | t # _ \<Rightarrow> t) of
        (False, xdrs', t') \<Rightarrow> (False, xdrs', t' # tl target)
      | (True, xdrs', t') \<Rightarrow>
          (case xdr_elems zero xdr_elem n xdrs' (tl target) of
             (stat, xdrs'', ts) \<Rightarrow> (stat, xdrs'', t' # ts)))"

definition elems_block :: "'a list option \<Rightarrow> 'a list" where
  "elems_block cpp = (case cpp of None \<Rightarrow> [] | Some ts \<Rightarrow> ts)"

definition xdr_array_decode ::
  "'a \<Rightarrow> 'a xdrproc \<Rightarrow> uint32 \<Rightarrow> uint32 \<Rightarrow> XDR \<Rightarrow> 'a list option \<Rightarrow> uint32 \<Rightarrow>
   bool \<times> XDR \<times> 'a list option \<times> uint32" where
  "xdr_array_decode zero xdr_elem maxsize selem xdrs cpp sizep =
     (if maxsize > - 1 div selem then (False, xdrs, cpp, sizep)
      else case xdr_getuint32 xdrs 0 of
        (False, xdrs', sz) \<Rightarrow> (False, xdrs', cpp, sizep)
      | (True, xdrs', sz) \<Rightarrow>
          if sz > maxsize then (False, xdrs', cpp, sizep)
          else if sz = 0 then (True, xdrs', cpp, sz)
          else
            let target = (case cpp of None \<Rightarrow> replicate (unat sz) zero | Some ts \<Rightarrow> ts) in
            case xdr_elems zero xdr_elem (unat sz) xdrs' target of
              (stat, xdrs'', ts) \<Rightarrow> (stat, xdrs'', Some ts, sz))"

definition xdr_array_encode ::
  "'a \<Rightarrow> 'a xdrproc \<Rightarrow> uint32 \<Rightarrow> XDR \<Rightarrow> 'a list option \<Rightarrow> uint32 \<Rightarrow> bool \<times> XDR \<times> 'a list option \<times> uint32" where
  "xdr_array_encode zero xdr_elem maxsize xdrs cpp sizep =
     (let sz = sizep in
      if sizep > maxsize then (False, xdrs, cpp, sizep)
      else if sizep > sz then (False, xdrs, cpp, sizep)
      else case xdr_putuint32 xdrs sz of
        (False, xdrs') \<Rightarrow> (False, xdrs', cpp, sizep)
      | (True, xdrs') \<Rightarrow>
          (case xdr_elems zero xdr_elem (unat sz) xdrs' (elems_block cpp) of
             (stat, xdrs'', ts) \<Rightarrow> (stat, xdrs'', map_option (\<lambda>_. ts) cpp, sizep)))"

definition xdr_array_free ::
  "'a \<Rightarrow> 'a xdrproc \<Rightarrow> XDR \<Rightarrow> 'a list option \<Rightarrow> uint32 \<Rightarrow> bool \<times> XDR \<times> 'a list option \<times> uint32" where
  "xdr_array_free zero xdr_elem xdrs cpp sizep =
     (case cpp of
        None \<Rightarrow> (True, xdrs, None, sizep)
      | Some target \<Rightarrow>
          (case xdr_elems zero xdr_elem (unat sizep) xdrs target of
             (stat, xdrs', _) \<Rightarrow> (stat, xdrs', None, sizep)))"

fun xdr_array :: "'a \<Rightarrow> 'a xdrproc \<Rightarrow> uint32 \<Rightarrow> uint32 \<Rightarrow> ('a list option \<times> uint32) xdrproc" where
  "xdr_array zero xdr_elem maxsize selem xdrs (cpp, sizep) =
     (case x_op xdrs of
        XDR_DECODE \<Rightarrow> xdr_array_decode zero xdr_elem maxsize selem xdrs cpp sizep
      | XDR_ENCODE \<Rightarrow> xdr_array_encode zero xdr_elem maxsize xdrs cpp sizep
      | XDR_FREE \<Rightarrow> xdr_array_free zero xdr_elem xdrs cpp sizep)"

section \<open>The wire format of arrays\<close>

fun array_of :: "'a list option \<times> uint32 \<Rightarrow> 'a list" where
  "array_of (cpp, n) = take (unat n) (elems_block cpp)"

definition wire_array :: "('a \<Rightarrow> byte list) \<Rightarrow> 'a list option \<times> uint32 \<Rightarrow> byte list" where
  "wire_array e v = htonl_bytes (snd v) @ concat (map e (array_of v))"

fun array_valid :: "uint32 \<Rightarrow> ('a \<Rightarrow> bool) \<Rightarrow> 'a list option \<times> uint32 \<Rightarrow> bool" where
  "array_valid maxsize va (cpp, n) \<longleftrightarrow>
     n \<le> maxsize \<and> unat n \<le> length (elems_block cpp) \<and> list_all va (array_of (cpp, n))"

fun dec_elems :: "'a \<Rightarrow> ('a \<Rightarrow> 'a \<Rightarrow> 'a) \<Rightarrow> 'a list \<Rightarrow> 'a list \<Rightarrow> 'a list" where
  "dec_elems zero d [] ws = ws"
| "dec_elems zero d (v # vs) ws = d v (case ws of [] \<Rightarrow> zero | w # _ \<Rightarrow> w) # dec_elems zero d vs (tl ws)"

fun array_dec ::
  "'a \<Rightarrow> ('a \<Rightarrow> 'a \<Rightarrow> 'a) \<Rightarrow> 'a list option \<times> uint32 \<Rightarrow> 'a list option \<times> uint32 \<Rightarrow> 'a list option \<times> uint32" where
  "array_dec zero d (cpp, n) (cpq, m) =
     (if n = 0 then cpq else Some (dec_elems zero d (array_of (cpp, n)) (elems_block cpq)), n)"

lemma dec_elems_zeros:
  "length vs = n \<Longrightarrow> dec_elems zero d vs (replicate n zero) = dec_elems zero d vs []"
  by (induction vs arbitrary: n) (auto split: nat.split)

section \<open>Arrays of elements that implement a format\<close>

locale xdr_array_elem = xdr_codec p e va d
  for p :: "'a xdrproc" and e va d +
  fixes zero :: 'a
begin

lemma elems_moves: "xdr_wf xdrs \<Longrightarrow> xdr_moves xdrs (fst (snd (xdr_elems zero p n xdrs ts)))"
proof (induction n arbitrary: xdrs ts)
  case (Suc n)
  obtain b xdrs' t' where r: "p xdrs (case ts of [] \<Rightarrow> zero | t # _ \<Rightarrow> t) = (b, xdrs', t')"
    using prod_cases3 by blast
  note m = movesD [OF Suc.prems r]
  show ?case
    using r m xdr_moves_trans [OF m Suc.IH [OF xdr_moves_wf [OF m], of "tl ts"]]
    by (auto split: bool.split prod.split)
qed simp

lemma elems_encode:
  assumes "xdr_wf xdrs" "x_op xdrs = XDR_ENCODE" "list_all va vs" "length (concat (map e vs)) \<le> room xdrs"
  shows "xdr_elems zero p (length vs) xdrs (vs @ r) = (True, emit (concat (map e vs)) xdrs, vs @ r)"
  using assms
proof (induction vs arbitrary: xdrs)
  case (Cons v vs)
  then show ?case
    using encode_fits [OF Cons.prems(1,2), of v] Cons.IH [OF emit_wf [OF Cons.prems(1,2)], of "e v"]
      emit_emit [OF Cons.prems(1), of "e v" "concat (map e vs)"]
    by simp
qed simp

lemma elems_full:
  assumes "xdr_wf xdrs" "x_op xdrs = XDR_ENCODE" "list_all va vs" "room xdrs < length (concat (map e vs))"
  shows "\<not> fst (xdr_elems zero p (length vs) xdrs (vs @ r))"
  using assms
proof (induction vs arbitrary: xdrs)
  case (Cons v vs)
  show ?case
  proof (cases "length (e v) \<le> room xdrs")
    case True
    then show ?thesis
      using encode_fits [OF Cons.prems(1,2), of v] Cons.IH [OF emit_wf [OF Cons.prems(1,2)], of "e v"] Cons.prems
      by (simp add: case_prod_unfold)
  next
    case False
    then show ?thesis
      using encode_full [OF Cons.prems(1,2), of v] Cons.prems by (simp add: case_prod_unfold)
  qed
qed simp

lemma elems_decode:
  assumes "xdr_wf xdrs" "x_op xdrs = XDR_DECODE" "list_all va vs" "unread xdrs = concat (map e vs) @ rest"
  shows "xdr_elems zero p (length vs) xdrs ws = (True, skip (length (concat (map e vs))) xdrs, dec_elems zero d vs ws)"
  using assms
proof (induction vs arbitrary: xdrs ws)
  case (Cons v vs)
  then show ?case
    using decode [OF Cons.prems(1,2), of v "concat (map e vs) @ rest"] skip_wf [OF Cons.prems(1,2), of "length (e v)"]
      Cons.IH [of "skip (length (e v)) xdrs"]
    by simp
qed (simp add: skip_def)

lemma elems_short:
  assumes "xdr_wf xdrs" "x_op xdrs = XDR_DECODE" "list_all va vs" "strict_prefix (unread xdrs) (concat (map e vs))"
  shows "\<not> fst (xdr_elems zero p (length vs) xdrs ws)"
  using assms
proof (induction vs arbitrary: xdrs ws)
  case (Cons v vs)
  from Cons.prems(4) have "strict_prefix (unread xdrs) (e v @ concat (map e vs))"
    by simp
  then show ?case
  proof (cases rule: strict_prefix_appendE)
    case 1
    then show ?thesis
      using decode_short [OF Cons.prems(1,2), of v] Cons.prems(3) by (simp add: case_prod_unfold)
  next
    case (2 t)
    then show ?thesis
      using decode [OF Cons.prems(1,2), of v t] skip_wf [OF Cons.prems(1,2), of "length (e v)"]
        Cons.IH [of "skip (length (e v)) xdrs"] Cons.prems
      by (simp add: case_prod_unfold)
  qed
qed simp

lemma array_moves:
  assumes wf: "xdr_wf xdrs"
  shows "xdr_moves xdrs (fst (snd (xdr_array zero p maxsize selem xdrs v)))"
proof (cases v)
  case (Pair cpp n)
  show ?thesis
  proof (cases "x_op xdrs")
    case XDR_ENCODE
    have "xdr_moves xdrs (fst (snd (xdr_elems zero p (unat n) (emit (htonl_bytes n) xdrs) ts)))"
      if "4 \<le> room xdrs" for ts
      using that elems_moves [OF emit_wf [OF wf XDR_ENCODE], of "htonl_bytes n" "unat n" ts]
        xdr_moves_trans [OF emit_moves [OF wf XDR_ENCODE, of "htonl_bytes n"]] by simp
    with Pair wf XDR_ENCODE show ?thesis
      by (auto simp: xdr_array_encode_def xdr_putuint32_emit Let_def split: prod.split) (metis fst_conv snd_conv)
  next
    case XDR_DECODE
    obtain b xdrs' sz where g: "xdr_getuint32 xdrs 0 = (b, xdrs', sz)"
      by (cases "xdr_getuint32 xdrs 0") auto
    note m = xdr_getuint32_moves [OF wf XDR_DECODE g]
    have "xdr_moves xdrs xdrs''" if "xdr_elems zero p k xdrs' ts = (c, xdrs'', ts')" for c xdrs'' k ts ts'
      using xdr_moves_trans [OF m(1) elems_moves [OF m(3), of k ts]] that by simp
    then show ?thesis
      using m(1) wf XDR_DECODE g Pair
      by (auto simp: xdr_array_decode_def Let_def split: bool.split prod.split)
  next
    case XDR_FREE
    have "xdr_moves xdrs xdrs'" if "xdr_elems zero p k xdrs ts = (c, xdrs', ts')" for c xdrs' k ts ts'
      using elems_moves [OF wf, of k ts] that by simp
    then show ?thesis
      using wf XDR_FREE Pair by (auto simp: xdr_array_free_def split: option.split prod.split)
  qed
qed

lemma array_split:
  assumes "array_valid maxsize va (cpp, n)"
  shows "elems_block cpp = array_of (cpp, n) @ drop (unat n) (elems_block cpp)" "length (array_of (cpp, n)) = unat n"
    "list_all va (array_of (cpp, n))"
  using assms by auto

lemma array_codec:
  assumes "maxsize \<le> - 1 div selem"
  shows "xdr_codec (xdr_array zero p maxsize selem) (wire_array e) (array_valid maxsize va) (array_dec zero d)"
proof (intro xdr_codec.intro xdr_codec_axioms.intro xdr_safe.intro array_moves, goal_cases)
  case (2 xdrs v)
  obtain cpp n where v: "v = (cpp, n)" by (cases v)
  note a = array_split [OF 2(3) [unfolded v]]
  have "xdr_elems zero p (unat n) (emit (htonl_bytes n) xdrs) (elems_block cpp) =
      (True, emit (wire_array e v) xdrs, elems_block cpp)"
    using elems_encode [OF emit_wf [OF 2(1,2)], of "htonl_bytes n" "array_of (cpp, n)" "drop (unat n) (elems_block cpp)"]
      emit_emit [OF 2(1), of "htonl_bytes n" "concat (map e (array_of (cpp, n)))"] 2 a v
    by (simp add: wire_array_def del: array_of.simps)
  with 2 v show ?case
    by (cases cpp) (auto simp: xdr_array_encode_def xdr_putuint32_emit wire_array_def elems_block_def Let_def not_less)
next
  case (3 xdrs v)
  obtain cpp n where v: "v = (cpp, n)" by (cases v)
  note a = array_split [OF 3(3) [unfolded v]]
  have "\<not> fst (xdr_elems zero p (unat n) (emit (htonl_bytes n) xdrs) (elems_block cpp))" if "4 \<le> room xdrs"
    using that elems_full [OF emit_wf [OF 3(1,2)], of "htonl_bytes n" "array_of (cpp, n)" "drop (unat n) (elems_block cpp)"]
      3 a v
    by (simp add: wire_array_def del: array_of.simps)
  with 3 v show ?case
    by (auto simp: xdr_array_encode_def xdr_putuint32_emit Let_def case_prod_unfold)
next
  case (4 xdrs v rest w)
  obtain cpp n cpq m where v: "v = (cpp, n)" "w = (cpq, m)" by (cases v; cases w)
  note a = array_split [OF 4(3) [unfolded v]]
  have u: "unread xdrs = htonl_bytes n @ concat (map e (array_of (cpp, n))) @ rest"
    using 4(4) v by (simp add: wire_array_def del: array_of.simps)
  have g: "xdr_getuint32 xdrs 0 = (True, skip 4 xdrs, n)"
    using ntohl_unread [OF u] u 4(1,2) by (simp add: xdr_getuint32_skip)
  have el: "xdr_elems zero p (unat n) (skip 4 xdrs) ts =
      (True, skip (length (wire_array e v)) xdrs, dec_elems zero d (array_of (cpp, n)) ts)" for ts
    using elems_decode [OF skip_wf [OF 4(1,2), of 4], of "array_of (cpp, n)" rest ts] u 4(2) a v
    by (simp add: wire_array_def del: array_of.simps)
  have tgt: "dec_elems zero d (array_of (cpp, n)) (case cpq of None \<Rightarrow> replicate (unat n) zero | Some ts \<Rightarrow> ts) =
      dec_elems zero d (array_of (cpp, n)) (elems_block cpq)"
    using dec_elems_zeros [OF a(2)] by (simp add: elems_block_def split: option.split)
  show ?case
    using 4(2,3) g el tgt v assms
    by (auto simp: xdr_array_decode_def Let_def not_less wire_array_def)
next
  case (5 xdrs v w)
  obtain cpp n cpq m where v: "v = (cpp, n)" "w = (cpq, m)" by (cases v; cases w)
  note a = array_split [OF 5(3) [unfolded v]]
  from 5(4) have "strict_prefix (unread xdrs) (htonl_bytes n @ concat (map e (array_of (cpp, n))))"
    using v by (simp add: wire_array_def del: array_of.simps)
  then show ?case
  proof (cases rule: strict_prefix_appendE)
    case 1
    then have "xdr_getuint32 xdrs 0 = (False, xdrs, 0)"
      using prefix_length_less [OF 1] 5(1,2) by (simp add: xdr_getuint32_skip)
    with 5(2) v show ?thesis
      by (simp add: xdr_array_decode_def)
  next
    case (2 t)
    have g: "xdr_getuint32 xdrs 0 = (True, skip 4 xdrs, n)"
      using ntohl_unread [OF 2(1)] 2(1) 5(1,2) by (simp add: xdr_getuint32_skip)
    have "\<not> fst (xdr_elems zero p (unat n) (skip 4 xdrs) ts)" for ts
      using elems_short [OF skip_wf [OF 5(1,2), of 4], of "array_of (cpp, n)" ts] 2 5(2) a
      by (simp del: array_of.simps)
    moreover have "n \<noteq> 0"
      using 2(2) a(2) by auto
    ultimately show ?thesis
      using 5(2) g v by (simp add: xdr_array_decode_def Let_def case_prod_unfold)
  qed
qed

end

end
