(* ===== verification/Svc_Auth.thy ===== *)
theory Svc_Auth
  imports Xdr_Array "HOL-Library.Monad_Syntax"
begin

text \<open>
  Authentication of a call (\<open>src/dnfsd/dnfs_auth.cpp\<close> and
  \<open>src/libntirpc/src/svc_auth_unix.c\<close>): the flavours AUTH\_NONE, AUTH\_SYS and
  AUTH\_SHORT.  The credential is an array of 400 bytes, \<open>oa_length\<close> of which were
  received.  A read outside the array is \<open>None\<close>.
\<close>

datatype auth_stat =
  AUTH_OK | AUTH_BADCRED | AUTH_REJECTEDCRED | AUTH_BADVERF | AUTH_REJECTEDVERF
| AUTH_TOOWEAK | AUTH_INVALIDRESP | AUTH_FAILED | RPCSEC_GSS_CREDPROBLEM | RPCSEC_GSS_CTXPROBLEM

primrec auth_stat2str :: "auth_stat \<Rightarrow> string" where
  "auth_stat2str AUTH_OK = ''AUTH_OK''"
| "auth_stat2str AUTH_BADCRED = ''AUTH_BADCRED''"
| "auth_stat2str AUTH_REJECTEDCRED = ''AUTH_REJECTEDCRED''"
| "auth_stat2str AUTH_BADVERF = ''AUTH_BADVERF''"
| "auth_stat2str AUTH_REJECTEDVERF = ''AUTH_REJECTEDVERF''"
| "auth_stat2str AUTH_TOOWEAK = ''AUTH_TOOWEAK''"
| "auth_stat2str AUTH_INVALIDRESP = ''AUTH_INVALIDRESP''"
| "auth_stat2str AUTH_FAILED = ''AUTH_FAILED''"
| "auth_stat2str RPCSEC_GSS_CREDPROBLEM = ''RPCSEC_GSS_CREDPROBLEM''"
| "auth_stat2str RPCSEC_GSS_CTXPROBLEM = ''RPCSEC_GSS_CTXPROBLEM''"

definition AUTH_NONE :: enum_t where [nfs_consts]: "AUTH_NONE = 0"
definition AUTH_SYS :: enum_t where [nfs_consts]: "AUTH_SYS = 1"
definition AUTH_SHORT :: enum_t where [nfs_consts]: "AUTH_SHORT = 2"
definition MAX_AUTH_BYTES :: nat where [nfs_consts]: "MAX_AUTH_BYTES = 400"
definition MAX_MACHINE_NAME :: uint32 where [nfs_consts]: "MAX_MACHINE_NAME = 255"
definition NGRPS :: uint32 where [nfs_consts]: "NGRPS = 16"

record opaque_auth =
  oa_flavor :: enum_t
  oa_length :: uint32
  oa_body :: "byte list"

record authunix_parms =
  aup_machname :: char_ptr
  aup_gids :: "uint32 list option"
  aup_len :: uint32
  aup_uid :: uint32
  aup_gid :: uint32
  aup_time :: uint32

text \<open>The member pair of the groups that \<open>xdr_array\<close> works on.\<close>

definition gids_cell :: "authunix_parms \<Rightarrow> uint32 list option \<times> uint32" where
  "gids_cell p = (aup_gids p, aup_len p)"

definition gids_cell_update ::
  "(uint32 list option \<times> uint32 \<Rightarrow> uint32 list option \<times> uint32) \<Rightarrow> authunix_parms \<Rightarrow> authunix_parms" where
  "gids_cell_update f p = (case f (gids_cell p) of (cpp, n) \<Rightarrow> p\<lparr>aup_gids := cpp, aup_len := n\<rparr>)"

definition xdr_u_int32_t :: "uint32 xdrproc" where
  "xdr_u_int32_t = xdr_uint32_t"

definition xdr_authunix_parms :: "authunix_parms xdrproc" where
  "xdr_authunix_parms = xdr_all
     [xdr_field aup_time aup_time_update xdr_int32_t,
      xdr_field aup_machname aup_machname_update (xdr_string MAX_MACHINE_NAME),
      xdr_field aup_uid aup_uid_update xdr_u_int32_t,
      xdr_field aup_gid aup_gid_update xdr_u_int32_t,
      xdr_field gids_cell gids_cell_update (xdr_array 0 xdr_u_int32_t NGRPS 4)]"

text \<open>\<open>IXDR_GET_INT32\<close>: the unit at the position and the position behind it.\<close>

definition IXDR_GET :: "byte list \<Rightarrow> nat \<Rightarrow> (uint32 \<times> nat) option" where
  "IXDR_GET body pos =
     (if pos + 4 \<le> length body then Some (ntohl_bytes (drop pos body), pos + 4) else None)"

text \<open>
  The loop over the group list: \<open>Inl\<close> when a group is -1, else the groups and the
  position behind them.
\<close>

fun get_gids :: "byte list \<Rightarrow> nat \<Rightarrow> nat \<Rightarrow> (unit + uint32 list) option" where
  "get_gids body pos 0 = Some (Inr [])"
| "get_gids body pos (Suc n) =
     do {
       (g, pos) \<leftarrow> IXDR_GET body pos;
       if g = - 1 then Some (Inl ())
       else do {
         r \<leftarrow> get_gids body pos n;
         Some (case r of Inl e \<Rightarrow> Inl e | Inr gs \<Rightarrow> Inr (g # gs))
       }
     }"

text \<open>
  The whole credential is always available inline (the stream holds exactly
  \<open>oa_length\<close> bytes), so the other branch of the routine is not taken.
\<close>

definition svcauth_unix :: "opaque_auth \<Rightarrow> (auth_stat \<times> authunix_parms option) option" where
  "svcauth_unix cred =
     do {
       let body = oa_body cred;
       (time, pos) \<leftarrow> IXDR_GET body 0;
       (str_len, pos) \<leftarrow> IXDR_GET body pos;
       if str_len > MAX_MACHINE_NAME then Some (AUTH_BADCRED, None)
       else if pos + unat str_len > length body then None
       else do {
         let machname = take (unat str_len) (drop pos body);
         let str_len = RNDUP str_len;
         let pos = pos + unat str_len;
         (uid, pos) \<leftarrow> IXDR_GET body pos;
         (gid, pos) \<leftarrow> IXDR_GET body pos;
         (gid_len, pos) \<leftarrow> IXDR_GET body pos;
         if gid_len > NGRPS \<or> uid = - 1 \<or> gid = - 1 then Some (AUTH_BADCRED, None)
         else do {
           gids \<leftarrow> get_gids body pos (unat gid_len);
           case gids of
             Inl _ \<Rightarrow> Some (AUTH_BADCRED, None)
           | Inr gs \<Rightarrow>
               if (5 + unat gid_len) * BYTES_PER_XDR_UNIT + unat str_len > unat (oa_length cred)
               then Some (AUTH_BADCRED, None)
               else Some (AUTH_OK, Some \<lparr>aup_machname = Some (machname @ [0]), aup_gids = Some gs,
                                         aup_len = gid_len, aup_uid = uid, aup_gid = gid, aup_time = time\<rparr>)
         }
       }
     }"

definition svcauth_none :: "opaque_auth \<Rightarrow> auth_stat" where
  "svcauth_none cred = AUTH_OK"

definition svcauth_short :: "opaque_auth \<Rightarrow> auth_stat" where
  "svcauth_short cred = AUTH_REJECTEDCRED"

definition svc_auth_authenticate :: "opaque_auth \<Rightarrow> auth_stat option" where
  "svc_auth_authenticate cred =
     (if oa_flavor cred = AUTH_NONE then Some (svcauth_none cred)
      else if oa_flavor cred = AUTH_SYS then map_option fst (svcauth_unix cred)
      else if oa_flavor cred = AUTH_SHORT then Some (svcauth_short cred)
      else Some AUTH_REJECTEDCRED)"

section \<open>The credential is read inside its array\<close>

lemma and_not_mask: "a AND NOT (mask n) = push_bit n (drop_bit n (a :: uint32))"
  by (rule bit_word_eqI) (auto simp: bit_simps)

lemma unat_RNDUP:
  assumes "unat x < 2 ^ 31"
  shows "unat (RNDUP x) = unat x + pad_len (unat x)"
proof -
  define y where "y = x + 3"
  have y: "unat y = unat x + 3"
    using assms by (simp add: y_def unat_plus_if')
  have "y AND NOT 3 = push_bit 2 (drop_bit 2 y)"
    using and_not_mask [of y 2] by (simp add: mask_eq_exp_minus_1)
  moreover have "push_bit 2 (drop_bit 2 y) + take_bit 2 y = y"
    by (rule bits_ident)
  moreover have "take_bit 2 y = y AND 3"
    by (simp add: take_bit_eq_mask mask_eq_exp_minus_1)
  ultimately have "RNDUP x = y - (y AND 3)"
    by (simp add: RNDUP_def y_def algebra_simps)
  then have "unat (RNDUP x) = unat y - unat y mod 4"
    by (simp add: unat_sub_if' unat_and_3 word_le_nat_alt)
  then show ?thesis
    using pad_len_cases [of "unat x"] unfolding y by presburger
qed

lemma IXDR_GET_in: "pos + 4 \<le> length body \<Longrightarrow> IXDR_GET body pos = Some (ntohl_bytes (drop pos body), pos + 4)"
  by (simp add: IXDR_GET_def)

lemma get_gids_in:
  "pos + 4 * n \<le> length body \<Longrightarrow>
   \<exists>r. get_gids body pos n = Some r \<and> (\<forall>gs. r = Inr gs \<longrightarrow> length gs = n \<and> - 1 \<notin> set gs)"
proof (induction n arbitrary: pos)
  case (Suc n)
  from Suc.prems obtain r where r: "get_gids body (pos + 4) n = Some r"
    "\<forall>gs. r = Inr gs \<longrightarrow> length gs = n \<and> - 1 \<notin> set gs"
    using Suc.IH [of "pos + 4"] by auto
  with Suc.prems show ?case
    by (cases r) (auto simp: IXDR_GET_in)
qed simp

lemma svcauth_unix_long_name:
  assumes "length (oa_body cred) = MAX_AUTH_BYTES" "ntohl_bytes (drop 4 (oa_body cred)) > MAX_MACHINE_NAME"
  shows "svcauth_unix cred = Some (AUTH_BADCRED, None)"
  using assms by (simp add: svcauth_unix_def IXDR_GET_def nfs_consts)

lemma svcauth_unix_eval:
  assumes "length (oa_body cred) = MAX_AUTH_BYTES" "n = ntohl_bytes (drop 4 (oa_body cred))"
    and "n \<le> MAX_MACHINE_NAME" "pos = 8 + unat (RNDUP n)" "pos \<le> 266"
    and "uid = ntohl_bytes (drop pos (oa_body cred))"
    and "gid = ntohl_bytes (drop (pos + 4) (oa_body cred))"
    and "g = ntohl_bytes (drop (pos + 8) (oa_body cred))"
  shows "svcauth_unix cred =
    (if g > NGRPS \<or> uid = - 1 \<or> gid = - 1 then Some (AUTH_BADCRED, None)
     else do {
       r \<leftarrow> get_gids (oa_body cred) (pos + 12) (unat g);
       case r of
         Inl _ \<Rightarrow> Some (AUTH_BADCRED, None)
       | Inr gs \<Rightarrow>
           if (5 + unat g) * BYTES_PER_XDR_UNIT + unat (RNDUP n) > unat (oa_length cred)
           then Some (AUTH_BADCRED, None)
           else Some (AUTH_OK, Some \<lparr>aup_machname = Some (take (unat n) (drop 8 (oa_body cred)) @ [0]), aup_gids = Some gs,
                  aup_len = g, aup_uid = uid, aup_gid = gid, aup_time = ntohl_bytes (oa_body cred)\<rparr>)
     })"
proof -
  have "unat n \<le> 255"
    using assms(3) by (simp add: nfs_consts word_le_nat_alt)
  with assms show ?thesis
    by (auto simp: svcauth_unix_def IXDR_GET_def nfs_consts Let_def not_less add_ac
        split: sum.split)
qed

lemma c_str_terminated: "c_str (xs @ [0]) = c_str xs" "c_str (c_str xs) = c_str xs" "length (c_str (take n xs)) \<le> n"
  using length_takeWhile_le [of "\<lambda>b. b \<noteq> 0" "take n xs"] by (auto simp: c_str_def takeWhile_tail takeWhile_idem)

lemma svcauth_unix_in_bounds:
  assumes b: "length (oa_body cred) = MAX_AUTH_BYTES"
  shows "\<exists>stat aup. svcauth_unix cred = Some (stat, aup) \<and>
    (stat = AUTH_OK \<longrightarrow>
      (\<exists>a. aup = Some a \<and> aup_uid a \<noteq> - 1 \<and> aup_gid a \<noteq> - 1 \<and> - 1 \<notin> set (array_of (gids_cell a)) \<and>
           length (array_of (gids_cell a)) = unat (aup_len a) \<and> aup_len a \<le> NGRPS \<and>
           length (c_str (block (aup_machname a))) \<le> unat MAX_MACHINE_NAME \<and>
           20 + 4 * unat (aup_len a) + length (c_str (block (aup_machname a))) \<le> unat (oa_length cred)))"
proof (cases "ntohl_bytes (drop 4 (oa_body cred)) > MAX_MACHINE_NAME")
  case True
  then show ?thesis
    using svcauth_unix_long_name [OF b] by simp
next
  case False
  define n where "n = ntohl_bytes (drop 4 (oa_body cred))"
  define pos where "pos = 8 + unat (RNDUP n)"
  define g where "g = ntohl_bytes (drop (pos + 8) (oa_body cred))"
  have n: "n \<le> MAX_MACHINE_NAME" "unat n \<le> 255" "unat n \<le> unat (RNDUP n)"
    and pos: "pos \<le> 266"
    using False unat_RNDUP [of n] pad_len_cases [of "unat n"]
    by (auto simp: nfs_consts word_le_nat_alt not_less n_def pos_def)
  note ev = svcauth_unix_eval [OF b n_def n(1) pos_def pos refl refl g_def]
  have G: "unat g \<le> 16 \<longleftrightarrow> g \<le> NGRPS"
    by (auto simp: nfs_consts word_le_nat_alt)
  show ?thesis
  proof (cases "g \<le> NGRPS")
    case True
    then obtain r where "get_gids (oa_body cred) (pos + 12) (unat g) = Some r"
      "\<And>gs. r = Inr gs \<Longrightarrow> length gs = unat g \<and> - 1 \<notin> set gs"
      using get_gids_in [of "pos + 12" "unat g" "oa_body cred"] b pos G
      by (auto simp: nfs_consts)
    with True n G show ?thesis
      unfolding ev using c_str_terminated(3) [of "unat n" "drop 8 (oa_body cred)"]
      by (cases r) (auto simp: nfs_consts BYTES_PER_XDR_UNIT_def gids_cell_def elems_block_def block_def c_str_terminated(1))
  qed (simp add: ev not_le)
qed

section \<open>The format of the parameters\<close>

lemma gids_cell_access [simp]:
  "gids_cell_update (\<lambda>_. gids_cell p) p = p" "gids_cell (gids_cell_update f p) = f (gids_cell p)"
  by (simp_all add: gids_cell_update_def gids_cell_def split: prod.split)

interpretation u_int32_t: xdr_codec xdr_u_int32_t htonl_bytes "\<lambda>_. True" "\<lambda>v w. v"
  unfolding xdr_u_int32_t_def by (rule uint32_t.xdr_codec_axioms)

interpretation gids: xdr_array_elem xdr_u_int32_t htonl_bytes "\<lambda>_. True" "\<lambda>v w. v" 0
  by unfold_locales

definition wire_authunix_parms :: "authunix_parms \<Rightarrow> byte list" where
  "wire_authunix_parms p =
     htonl_bytes (aup_time p) @ wire_counted (c_str (block (aup_machname p))) @ htonl_bytes (aup_uid p) @
     htonl_bytes (aup_gid p) @ wire_array htonl_bytes (gids_cell p)"

definition valid_authunix_parms :: "authunix_parms \<Rightarrow> bool" where
  "valid_authunix_parms p \<longleftrightarrow>
     string_valid MAX_MACHINE_NAME (aup_machname p) \<and> array_valid NGRPS (\<lambda>_. True) (gids_cell p)"

definition dec_authunix_parms :: "authunix_parms \<Rightarrow> authunix_parms \<Rightarrow> authunix_parms" where
  "dec_authunix_parms v w =
     gids_cell_update (\<lambda>_. array_dec 0 (\<lambda>v w. v) (gids_cell v) (gids_cell w))
       (v\<lparr>aup_machname := string_dec (aup_machname v) (aup_machname w)\<rparr>)"

interpretation authunix_parms: xdr_codec xdr_authunix_parms wire_authunix_parms valid_authunix_parms dec_authunix_parms
proof -
  have "NGRPS \<le> - 1 div (4 :: uint32)"
    by (simp add: nfs_consts word_le_nat_alt unat_div)
  note a = gids.array_codec [OF this]
  show "xdr_codec xdr_authunix_parms wire_authunix_parms valid_authunix_parms dec_authunix_parms"
    unfolding xdr_authunix_parms_def
    by (rule xdr_codec_eqI, (rule xdr_codec_intros u_int32_t.xdr_codec_axioms a | (simp; fail))+)
       (auto simp: wire_authunix_parms_def valid_authunix_parms_def dec_authunix_parms_def gids_cell_update_def gids_cell_def
         split: prod.split)
qed

section \<open>Properties\<close>



text \<open>What the parameters say, whatever memory holds them.\<close>

definition parms_view :: "authunix_parms \<Rightarrow> uint32 \<times> byte list \<times> uint32 \<times> uint32 \<times> uint32 list" where
  "parms_view p = (aup_time p, c_str (block (aup_machname p)), aup_uid p, aup_gid p, array_of (gids_cell p))"

lemma get_gids_wire:
  "- 1 \<notin> set gs \<Longrightarrow> drop pos body = concat (map htonl_bytes gs) @ rest \<Longrightarrow>
   get_gids body pos (length gs) = Some (Inr gs)"
proof (induction gs arbitrary: pos)
  case (Cons g gs)
  have d: "drop pos body = htonl_bytes g @ concat (map htonl_bytes gs) @ rest"
    using Cons.prems(2) by simp
  have "drop (pos + 4) body = concat (map htonl_bytes gs) @ rest"
    using arg_cong [OF d, of "drop 4"] by (simp add: add.commute)
  moreover have "pos + 4 \<le> length body"
    using arg_cong [OF d, of length] by simp
  ultimately show ?case
    using Cons d by (auto simp: IXDR_GET_in)
qed simp

lemma wire_authunix_length:
  assumes "valid_authunix_parms v"
  shows "length (wire_authunix_parms v) = 20 + 4 * unat (aup_len v) +
      length (c_str (block (aup_machname v))) + pad_len (length (c_str (block (aup_machname v))))"
    "length (c_str (block (aup_machname v))) \<le> 255" "unat (aup_len v) \<le> 16"
    "length (array_of (gids_cell v)) = unat (aup_len v)"
proof -
  have "length (concat (map htonl_bytes gs)) = 4 * length gs" for gs
    by (simp add: length_concat comp_def sum_list_triv)
  moreover show "length (array_of (gids_cell v)) = unat (aup_len v)"
    using assms gids.array_split(2) [of NGRPS "aup_gids v" "aup_len v"]
    by (simp add: valid_authunix_parms_def gids_cell_def)
  ultimately show "length (wire_authunix_parms v) = 20 + 4 * unat (aup_len v) +
      length (c_str (block (aup_machname v))) + pad_len (length (c_str (block (aup_machname v))))"
    by (simp add: wire_authunix_parms_def wire_counted_def length_wire_opaque wire_array_def)
  show "length (c_str (block (aup_machname v))) \<le> 255" "unat (aup_len v) \<le> 16"
    using assms by (simp_all add: valid_authunix_parms_def string_valid_def gids_cell_def nfs_consts word_le_nat_alt)
qed

lemma svcauth_unix_wire:
  assumes v: "valid_authunix_parms v" "aup_uid v \<noteq> - 1" "aup_gid v \<noteq> - 1" "- 1 \<notin> set (array_of (gids_cell v))"
    and b: "oa_body cred = wire_authunix_parms v @ rest" "length (oa_body cred) = MAX_AUTH_BYTES"
    and l: "unat (oa_length cred) = length (wire_authunix_parms v)"
  shows "\<exists>a. svcauth_unix cred = Some (AUTH_OK, Some a) \<and> parms_view a = parms_view v"
proof -
  define name where "name = c_str (block (aup_machname v))"
  define n :: uint32 where "n = of_nat (length name)"
  define pos where "pos = 8 + unat (RNDUP n)"
  define gs where "gs = array_of (gids_cell v)"
  let ?tail = "htonl_bytes (aup_uid v) @ htonl_bytes (aup_gid v) @ htonl_bytes (aup_len v) @ concat (map htonl_bytes gs) @ rest"
  note w = wire_authunix_length [OF v(1), folded name_def gs_def]
  have n: "unat n = length name" "n \<le> MAX_MACHINE_NAME"
    using w(2) by (simp_all add: n_def nfs_consts word_le_nat_alt unsigned_of_nat take_bit_nat_eq_self)
  have R: "unat (RNDUP n) = length name + pad_len (length name)" and pos: "pos \<le> 266"
    using unat_RNDUP [of n] n pad_len_cases [of "length name"] w(2) by (auto simp: nfs_consts pos_def)
  have body: "oa_body cred = (htonl_bytes (aup_time v) @ htonl_bytes n @ wire_opaque name) @ ?tail"
    using b(1) by (simp add: wire_authunix_parms_def wire_counted_def wire_array_def gids_cell_def gs_def name_def n_def)
  have len: "length (htonl_bytes (aup_time v) @ htonl_bytes n @ wire_opaque name) = pos"
    by (simp add: length_wire_opaque pos_def R)
  have d: "drop (pos + i) (oa_body cred) = drop i ?tail" for i
    unfolding body using len by (simp add: add.commute flip: drop_drop)
  have L: "unat (oa_length cred) = (5 + unat (aup_len v)) * BYTES_PER_XDR_UNIT + unat (RNDUP n)" "aup_len v \<le> NGRPS"
    using l R w by (simp_all add: BYTES_PER_XDR_UNIT_def nfs_consts word_le_nat_alt)
  have "get_gids (oa_body cred) (pos + 12) (length gs) = Some (Inr gs)"
    using d [of 12] v(4) by (intro get_gids_wire) (simp_all add: gs_def)
  moreover have "take (unat n) (drop 8 (oa_body cred)) = name"
    unfolding body by (simp add: n(1) wire_opaque_def)
  ultimately have "svcauth_unix cred = Some (AUTH_OK, Some \<lparr>aup_machname = Some (name @ [0]), aup_gids = Some gs,
      aup_len = aup_len v, aup_uid = aup_uid v, aup_gid = aup_gid v, aup_time = aup_time v\<rparr>)"
    using svcauth_unix_eval [OF b(2) _ n(2) pos_def pos refl refl refl] d [of 0] d [of 4] d [of 8] v(2,3) w(4) L
    by (simp add: body [THEN arg_cong, of "drop 4"] body)
  then show ?thesis
    using w(4) by (simp add: parms_view_def gids_cell_def elems_block_def block_def c_str_terminated(1,2) gs_def name_def)
qed

text \<open>
  C31: The server understands the credentials its library writes.  Parameters of the flavour AUTH_SYS (a machine name of at most 255
  bytes, at most 16 groups, no user or group -1) that \<open>xdr_authunix_parms\<close> encodes into the 400 bytes of a credential
  always fit, are accepted by the server, and are read back with the same time, machine, user, group and groups.
\<close>

theorem authunix_round_trip:
  assumes "valid_authunix_parms v" "aup_uid v \<noteq> - 1" "aup_gid v \<noteq> - 1" "- 1 \<notin> set (array_of (gids_cell v))"
    and "length body = 400" "addr mod 4 = 0" "xdrmem_ncreate addr body 400 XDR_ENCODE = Some E"
  shows "\<exists>E'. xdr_authunix_parms E v = (True, E', v) \<and>
    (\<exists>a. svcauth_unix \<lparr>oa_flavor = AUTH_SYS, oa_length = of_nat (x_data E'), oa_body = x_buf E'\<rparr> = Some (AUTH_OK, Some a) \<and>
         parms_view a = parms_view v)"
proof -
  let ?w = "wire_authunix_parms v"
  have w: "length ?w \<le> 400"
    using wire_authunix_length [OF assms(1)] pad_len_cases [of "length (c_str (block (aup_machname v)))"] by auto
  have E: "xdr_wf E" "x_op E = XDR_ENCODE" "room E = 400" "x_buf E = body" "x_data E = 0"
    using assms(5-7) by (auto simp: xdrmem_ncreate_def xdr_wf_def room_def)
  have e: "xdr_authunix_parms E v = (True, emit ?w E, v)"
    using authunix_parms.encode_fits [OF E(1,2) assms(1)] w E(3) by simp
  moreover have "x_data (emit ?w E) = length ?w" "x_buf (emit ?w E) = ?w @ drop (length ?w) body"
    using E by (simp_all add: emit_def overwrite_def)
  moreover have "unat (of_nat (length ?w) :: uint32) = length ?w"
    using w by (simp add: unsigned_of_nat take_bit_nat_eq_self)
  ultimately show ?thesis
    using svcauth_unix_wire [OF assms(1-4), of "\<lparr>oa_flavor = AUTH_SYS, oa_length = of_nat (length ?w),
        oa_body = ?w @ drop (length ?w) body\<rparr>" "drop (length ?w) body"] assms(5) w
    by (simp add: nfs_consts)
qed

definition sample_parms :: authunix_parms where
  "sample_parms = \<lparr>aup_machname = Some [0x68, 0x6F, 0x73, 0x74, 0], aup_gids = Some [100, 4], aup_len = 2,
     aup_uid = 1000, aup_gid = 100, aup_time = 7\<rparr>"

theorem authunix_round_trip_witness:
  "\<exists>E E' a. xdrmem_ncreate 0 (replicate 400 0) 400 XDR_ENCODE = Some E \<and> xdr_authunix_parms E sample_parms = (True, E', sample_parms) \<and>
     svcauth_unix \<lparr>oa_flavor = AUTH_SYS, oa_length = of_nat (x_data E'), oa_body = x_buf E'\<rparr> = Some (AUTH_OK, Some a) \<and>
     parms_view a = (7, [0x68, 0x6F, 0x73, 0x74], 1000, 100, [100, 4])"
proof -
  obtain E where E: "xdrmem_ncreate 0 (replicate 400 0) 400 XDR_ENCODE = Some E"
    by (simp add: xdrmem_ncreate_def)
  moreover have "parms_view sample_parms = (7, [0x68, 0x6F, 0x73, 0x74], 1000, 100, [100, 4])"
    "valid_authunix_parms sample_parms"
    by (simp_all add: parms_view_def sample_parms_def gids_cell_def elems_block_def block_def c_str_def
        valid_authunix_parms_def string_valid_def nfs_consts)
  ultimately show ?thesis
    using authunix_round_trip [of sample_parms "replicate 400 0" 0 E]
    by (auto simp: sample_parms_def gids_cell_def elems_block_def)
qed

end
