(* ===== verification/Mnt_Procs.thy ===== *)
theory Mnt_Procs
  imports Xdr_Loop Xdr_Array Nfs_Attr_Procs Svc_Auth
begin

text \<open>
  The MOUNT protocol (\<open>src/mnt\<close>): the XDR routines of its paths, handles, mount lists and export lists, and
  its procedures.  The members of a list node other than the pointer to the next one form the body of the node.
\<close>

section \<open>Basic types\<close>

definition XDR_ARRAY_MAXLEN :: uint32 where [nfs_consts]: "XDR_ARRAY_MAXLEN = 1024"
definition MNTPATHLEN :: uint32 where [nfs_consts]: "MNTPATHLEN = 1024"
definition MNTNAMLEN :: uint32 where [nfs_consts]: "MNTNAMLEN = 255"
definition MOUNT_V3 :: uint32 where [nfs_consts]: "MOUNT_V3 = 3"
definition MNT3_OK :: enum_t where [nfs_consts]: "MNT3_OK = 0"

type_synonym mnt3_name = char_ptr
type_synonym mnt3_dirpath = char_ptr
type_synonym mountstat3 = enum_t

record fhandle3 =
  fhandle3_len :: uint32
  fhandle3_val :: char_ptr

record mountres3_ok =
  fhandle :: fhandle3
  auth_flavors_len :: uint32
  auth_flavors_val :: "enum_t list option"

record mountres3 =
  fhs_status :: mountstat3
  mountinfo :: mountres3_ok

definition xdr_mountstat3 :: "mountstat3 xdrproc" where
  [xdr_defs]: "xdr_mountstat3 = xdr_enum"

definition xdr_dirpath :: "mnt3_dirpath xdrproc" where
  [xdr_defs]: "xdr_dirpath = xdr_string MNTPATHLEN"

definition xdr_name :: "mnt3_name xdrproc" where
  [xdr_defs]: "xdr_name = xdr_string MNTNAMLEN"

text \<open>The member pairs that \<open>xdr_bytes\<close> and \<open>xdr_array\<close> work on.\<close>

definition fhandle3_cell :: "fhandle3 \<Rightarrow> char_ptr \<times> uint32" where
  "fhandle3_cell fh = (fhandle3_val fh, fhandle3_len fh)"

definition fhandle3_cell_update :: "(char_ptr \<times> uint32 \<Rightarrow> char_ptr \<times> uint32) \<Rightarrow> fhandle3 \<Rightarrow> fhandle3" where
  "fhandle3_cell_update f fh =
     (case f (fhandle3_cell fh) of (p, n) \<Rightarrow> fh\<lparr>fhandle3_val := p, fhandle3_len := n\<rparr>)"

definition flavors_cell :: "mountres3_ok \<Rightarrow> enum_t list option \<times> uint32" where
  "flavors_cell v = (auth_flavors_val v, auth_flavors_len v)"

definition flavors_cell_update ::
  "(enum_t list option \<times> uint32 \<Rightarrow> enum_t list option \<times> uint32) \<Rightarrow> mountres3_ok \<Rightarrow> mountres3_ok" where
  "flavors_cell_update f v =
     (case f (flavors_cell v) of (p, n) \<Rightarrow> v\<lparr>auth_flavors_val := p, auth_flavors_len := n\<rparr>)"

lemma cell_access [simp]:
  "fhandle3_cell_update (\<lambda>_. fhandle3_cell fh) fh = fh" "fhandle3_cell (fhandle3_cell_update f fh) = f (fhandle3_cell fh)"
  "flavors_cell_update (\<lambda>_. flavors_cell v) v = v" "flavors_cell (flavors_cell_update g v) = g (flavors_cell v)"
  by (simp_all add: fhandle3_cell_update_def fhandle3_cell_def flavors_cell_update_def flavors_cell_def split: prod.split)

definition xdr_fhandle3 :: "fhandle3 xdrproc" where
  "xdr_fhandle3 = xdr_field fhandle3_cell fhandle3_cell_update (xdr_bytes 64)"

definition xdr_mountres3_ok :: "mountres3_ok xdrproc" where
  "xdr_mountres3_ok = xdr_all
     [xdr_field fhandle fhandle_update xdr_fhandle3,
      xdr_field flavors_cell flavors_cell_update (xdr_array 0 xdr_int XDR_ARRAY_MAXLEN 4)]"

definition xdr_mountres3 :: "mountres3 xdrproc" where
  "xdr_mountres3 = xdr_tagged fhs_status fhs_status_update xdr_mountstat3
     (\<lambda>t. if t = MNT3_OK then xdr_field mountinfo mountinfo_update xdr_mountres3_ok
          else xdr_ok)"

section \<open>Mount lists and export lists\<close>

record mountbody_members =
  ml_hostname :: mnt3_name
  ml_directory :: mnt3_dirpath

type_synonym mountbody = "mountbody_members chain"
type_synonym mountlist = "mountbody option"

record groupnode_members =
  gr_name :: mnt3_name

type_synonym groupnode = "groupnode_members chain"
type_synonym mnt3_groups = "groupnode option"

record exportnode_members =
  ex_dir :: mnt3_dirpath
  ex_groups :: mnt3_groups

type_synonym exportnode = "exportnode_members chain"
type_synonym mnt3_exports = "exportnode option"

definition zero_mountbody :: mountbody where
  "zero_mountbody = Chain \<lparr>ml_hostname = None, ml_directory = None\<rparr> None"

definition zero_groupnode :: groupnode where
  "zero_groupnode = Chain \<lparr>gr_name = None\<rparr> None"

definition zero_exportnode :: exportnode where
  "zero_exportnode = Chain \<lparr>ex_dir = None, ex_groups = None\<rparr> None"

definition xdr_mountbody_x :: "mountbody_members xdrproc" where
  "xdr_mountbody_x = xdr_all
     [xdr_field ml_hostname ml_hostname_update xdr_name,
      xdr_field ml_directory ml_directory_update xdr_dirpath]"

definition xdr_groupnode_x :: "groupnode_members xdrproc" where
  "xdr_groupnode_x = xdr_all [xdr_field gr_name gr_name_update xdr_name]"

lemma xdr_forward_mountbody_x: "xdr_forward xdr_mountbody_x"
  unfolding xdr_mountbody_x_def xdr_defs by (intro xdr_forward_intros)

lemma xdr_forward_groupnode_x: "xdr_forward xdr_groupnode_x"
  unfolding xdr_groupnode_x_def xdr_defs by (intro xdr_forward_intros)

function xdr_mountlist :: "mountlist xdrproc" where
  "xdr_mountlist xdrs objp = xdr_turn xdr_mountbody_x zero_mountbody xdr_mountlist xdrs objp"
  by pat_completeness auto
termination
  by (relation "measure loop_measure") (auto intro: turn_measure [OF xdr_forward_mountbody_x])

function xdr_groups :: "mnt3_groups xdrproc" where
  "xdr_groups xdrs objp = xdr_turn xdr_groupnode_x zero_groupnode xdr_groups xdrs objp"
  by pat_completeness auto
termination
  by (relation "measure loop_measure") (auto intro: turn_measure [OF xdr_forward_groupnode_x])

declare xdr_mountlist.simps [simp del] xdr_groups.simps [simp del]

definition xdr_exportnode_x :: "exportnode_members xdrproc" where
  "xdr_exportnode_x = xdr_all
     [xdr_field ex_dir ex_dir_update xdr_dirpath,
      xdr_field ex_groups ex_groups_update xdr_groups]"

section \<open>The formats the routines implement\<close>

definition wire_fhandle3 :: "fhandle3 \<Rightarrow> byte list" where
  "wire_fhandle3 fh = wire_counted (bytes_of (fhandle3_cell fh))"

definition valid_fhandle3 :: "fhandle3 \<Rightarrow> bool" where
  "valid_fhandle3 fh \<longleftrightarrow> bytes_valid 64 (fhandle3_cell fh)"

definition dec_fhandle3 :: "fhandle3 \<Rightarrow> fhandle3 \<Rightarrow> fhandle3" where
  "dec_fhandle3 v w = fhandle3_cell_update (\<lambda>_. bytes_dec (fhandle3_cell v) (fhandle3_cell w)) w"

interpretation fhandle3: xdr_codec xdr_fhandle3 wire_fhandle3 valid_fhandle3 dec_fhandle3
  unfolding xdr_fhandle3_def
  by (rule xdr_codec_eqI, (rule xdr_codec_intros | (simp; fail))+)
     (auto simp: wire_fhandle3_def valid_fhandle3_def dec_fhandle3_def)

interpretation flavors: xdr_array_elem xdr_int htonl_bytes "\<lambda>_. True" "\<lambda>v w. v" 0
  by unfold_locales

definition wire_mountres3_ok :: "mountres3_ok \<Rightarrow> byte list" where
  "wire_mountres3_ok v = wire_fhandle3 (fhandle v) @ wire_array htonl_bytes (flavors_cell v)"

definition valid_mountres3_ok :: "mountres3_ok \<Rightarrow> bool" where
  "valid_mountres3_ok v \<longleftrightarrow>
     valid_fhandle3 (fhandle v) \<and> array_valid XDR_ARRAY_MAXLEN (\<lambda>_. True) (flavors_cell v)"

definition dec_mountres3_ok :: "mountres3_ok \<Rightarrow> mountres3_ok \<Rightarrow> mountres3_ok" where
  "dec_mountres3_ok v w =
     flavors_cell_update (\<lambda>_. array_dec 0 (\<lambda>v w. v) (flavors_cell v) (flavors_cell w))
       (w\<lparr>fhandle := dec_fhandle3 (fhandle v) (fhandle w)\<rparr>)"

interpretation mountres3_ok: xdr_codec xdr_mountres3_ok wire_mountres3_ok valid_mountres3_ok dec_mountres3_ok
proof -
  have "XDR_ARRAY_MAXLEN \<le> - 1 div (4 :: uint32)"
    by (simp add: nfs_consts word_le_nat_alt unat_div)
  note a = flavors.array_codec [OF this]
  show "xdr_codec xdr_mountres3_ok wire_mountres3_ok valid_mountres3_ok dec_mountres3_ok"
    unfolding xdr_mountres3_ok_def
    by (rule xdr_codec_eqI, (rule xdr_codec_intros fhandle3.xdr_codec_axioms a | (simp; fail))+)
       (auto simp: wire_mountres3_ok_def valid_mountres3_ok_def dec_mountres3_ok_def flavors_cell_update_def flavors_cell_def
         split: prod.split)
qed

definition wire_mountres3 :: "mountres3 \<Rightarrow> byte list" where
  "wire_mountres3 v = htonl_bytes (fhs_status v) @
     (if fhs_status v = MNT3_OK then wire_mountres3_ok (mountinfo v) else [])"

definition valid_mountres3 :: "mountres3 \<Rightarrow> bool" where
  "valid_mountres3 v \<longleftrightarrow> (fhs_status v = MNT3_OK \<longrightarrow> valid_mountres3_ok (mountinfo v))"

definition dec_mountres3 :: "mountres3 \<Rightarrow> mountres3 \<Rightarrow> mountres3" where
  "dec_mountres3 v w =
     (if fhs_status v = MNT3_OK
      then v\<lparr>mountinfo := dec_mountres3_ok (mountinfo v) (mountinfo w)\<rparr>
      else w\<lparr>fhs_status := fhs_status v\<rparr>)"

interpretation mountres3: xdr_codec xdr_mountres3 wire_mountres3 valid_mountres3 dec_mountres3
  unfolding xdr_mountres3_def xdr_defs
  by (rule xdr_codec_eqI, (rule xdr_codec_intros mountres3_ok.xdr_codec_axioms | (simp; fail))+)
     (auto simp: wire_mountres3_def valid_mountres3_def dec_mountres3_def)

definition wire_cstring :: "char_ptr \<Rightarrow> byte list" where
  "wire_cstring p = wire_counted (c_str (block p))"

definition wire_mountbody :: "mountbody_members \<Rightarrow> byte list" where
  "wire_mountbody v = wire_cstring (ml_hostname v) @ wire_cstring (ml_directory v)"

definition valid_mountbody :: "mountbody_members \<Rightarrow> bool" where
  "valid_mountbody v \<longleftrightarrow> string_valid MNTNAMLEN (ml_hostname v) \<and> string_valid MNTPATHLEN (ml_directory v)"

definition dec_mountbody :: "mountbody_members \<Rightarrow> mountbody_members \<Rightarrow> mountbody_members" where
  "dec_mountbody v w =
     \<lparr>ml_hostname = string_dec (ml_hostname v) (ml_hostname w),
      ml_directory = string_dec (ml_directory v) (ml_directory w)\<rparr>"

interpretation mountbody: xdr_codec xdr_mountbody_x wire_mountbody valid_mountbody dec_mountbody
  unfolding xdr_mountbody_x_def xdr_defs
  by (rule xdr_codec_eqI, (rule xdr_codec_intros | (simp; fail))+)
     (auto simp: wire_mountbody_def valid_mountbody_def dec_mountbody_def wire_cstring_def)

interpretation mountlist: xdr_loop xdr_mountbody_x wire_mountbody valid_mountbody dec_mountbody xdr_mountlist zero_mountbody
  by (intro xdr_loop.intro mountbody.xdr_codec_axioms xdr_forward_mountbody_x xdr_loop_axioms.intro) (rule xdr_mountlist.simps)

definition wire_groupnode :: "groupnode_members \<Rightarrow> byte list" where
  "wire_groupnode v = wire_cstring (gr_name v)"

definition valid_groupnode :: "groupnode_members \<Rightarrow> bool" where
  "valid_groupnode v \<longleftrightarrow> string_valid MNTNAMLEN (gr_name v)"

definition dec_groupnode :: "groupnode_members \<Rightarrow> groupnode_members \<Rightarrow> groupnode_members" where
  "dec_groupnode v w = \<lparr>gr_name = string_dec (gr_name v) (gr_name w)\<rparr>"

interpretation groupnode: xdr_codec xdr_groupnode_x wire_groupnode valid_groupnode dec_groupnode
  unfolding xdr_groupnode_x_def xdr_defs
  by (rule xdr_codec_eqI, (rule xdr_codec_intros | (simp; fail))+)
     (auto simp: wire_groupnode_def valid_groupnode_def dec_groupnode_def wire_cstring_def)

interpretation groups: xdr_loop xdr_groupnode_x wire_groupnode valid_groupnode dec_groupnode xdr_groups zero_groupnode
  by (intro xdr_loop.intro groupnode.xdr_codec_axioms xdr_forward_groupnode_x xdr_loop_axioms.intro) (rule xdr_groups.simps)

lemma xdr_forward_exportnode_x: "xdr_forward xdr_exportnode_x"
  unfolding xdr_exportnode_x_def xdr_defs by (intro xdr_forward_intros groups.loop_forward)

function xdr_exports :: "mnt3_exports xdrproc" where
  "xdr_exports xdrs objp = xdr_turn xdr_exportnode_x zero_exportnode xdr_exports xdrs objp"
  by pat_completeness auto
termination
  by (relation "measure loop_measure") (auto intro: turn_measure [OF xdr_forward_exportnode_x])

declare xdr_exports.simps [simp del]

definition wire_exportnode :: "exportnode_members \<Rightarrow> byte list" where
  "wire_exportnode v = wire_cstring (ex_dir v) @ wire_pointer (wire_chain wire_groupnode) (ex_groups v)"

definition valid_exportnode :: "exportnode_members \<Rightarrow> bool" where
  "valid_exportnode v \<longleftrightarrow>
     string_valid MNTPATHLEN (ex_dir v) \<and> valid_pointer (valid_chain valid_groupnode) (ex_groups v)"

definition dec_exportnode :: "exportnode_members \<Rightarrow> exportnode_members \<Rightarrow> exportnode_members" where
  "dec_exportnode v w =
     \<lparr>ex_dir = string_dec (ex_dir v) (ex_dir w),
      ex_groups = dec_more zero_groupnode (dec_loop zero_groupnode dec_groupnode) (ex_groups v) (ex_groups w)\<rparr>"

interpretation exportnode: xdr_codec xdr_exportnode_x wire_exportnode valid_exportnode dec_exportnode
  unfolding xdr_exportnode_x_def xdr_defs
  by (rule xdr_codec_eqI, (rule xdr_codec_intros groups.loop_codec | (simp; fail))+)
     (auto simp: wire_exportnode_def valid_exportnode_def dec_exportnode_def wire_cstring_def)

interpretation exports: xdr_loop xdr_exportnode_x wire_exportnode valid_exportnode dec_exportnode xdr_exports zero_exportnode
  by (intro xdr_loop.intro exportnode.xdr_codec_axioms xdr_forward_exportnode_x xdr_loop_axioms.intro) (rule xdr_exports.simps)

interpretation export_list: xdr_codec xdr_exports "wire_pointer (wire_chain wire_exportnode)"
    "valid_pointer (valid_chain valid_exportnode)"
    "dec_more zero_exportnode (dec_loop zero_exportnode dec_exportnode)"
  by (rule exports.loop_codec)

section \<open>The procedures\<close>

text \<open>
  A procedure gets the version of the call (the only part of the request it reads), the argument and the result
  memory.  \<open>MNT\<close> clears the result; the handle is the path of the client itself.  A string without a terminating
  zero, which decoding never produces, would be read behind its end: \<open>None\<close>.
\<close>

definition mnt_null :: "'os \<Rightarrow> ('os, unit) reply" where
  "mnt_null s = Some (s, (), NFS_REQ_OK)"

definition mnt_mnt :: "uint32 \<Rightarrow> 'os \<Rightarrow> mnt3_dirpath \<Rightarrow> mountres3 \<Rightarrow> ('os, mountres3) reply" where
  "mnt_mnt cb_vers s arg_mnt res =
     (if cb_vers \<noteq> MOUNT_V3 then Some (s, res, NFS_REQ_ERROR)
      else case arg_mnt of
        None \<Rightarrow> None
      | Some mount_dir \<Rightarrow>
          if 0 \<notin> set mount_dir then None
          else Some (s,
            \<lparr>fhs_status = MNT3_OK,
             mountinfo = \<lparr>fhandle = \<lparr>fhandle3_len = ucast (strlen mount_dir), fhandle3_val = Some mount_dir\<rparr>,
                          auth_flavors_len = 1, auth_flavors_val = Some [AUTH_NONE]\<rparr>\<rparr>,
            NFS_REQ_OK))"

definition mnt_dump :: "'os \<Rightarrow> mountlist \<Rightarrow> ('os, mountlist) reply" where
  "mnt_dump s res_dump = Some (s, None, NFS_REQ_OK)"

definition mnt_umnt :: "'os \<Rightarrow> mnt3_dirpath \<Rightarrow> ('os, unit) reply" where
  "mnt_umnt s arg_mnt = Some (s, (), NFS_REQ_OK)"

definition mnt_umntAll :: "'os \<Rightarrow> ('os, unit) reply" where
  "mnt_umntAll s = Some (s, (), NFS_REQ_OK)"

definition export_test :: "byte list" where
  "export_test = [0x2F, 0x65, 0x78, 0x70, 0x6F, 0x72, 0x74, 0x5F, 0x74, 0x65, 0x73, 0x74, 0]"

definition mnt_export :: "'os \<Rightarrow> mnt3_exports \<Rightarrow> ('os, mnt3_exports) reply" where
  "mnt_export s res_mntexport =
     Some (s, Some (Chain \<lparr>ex_dir = Some export_test, ex_groups = None\<rparr> None), NFS_REQ_OK)"

section \<open>What a client reads\<close>

definition group_view :: "groupnode_members \<Rightarrow> byte list" where
  "group_view g = c_str (block (gr_name g))"

definition export_view :: "exportnode_members \<Rightarrow> byte list \<times> byte list list" where
  "export_view e = (c_str (block (ex_dir e)), map group_view (entry_list (ex_groups e)))"

lemma c_str_dec: "c_str (block (string_dec p None)) = c_str (block p)"
  by (simp add: string_dec_def block_def overwrite_def c_str_no_zero)

lemma loop_view:
  assumes "\<And>v. view (d v (chain_body zero)) = view v" "nextentry zero = None"
  shows "chain_body w = chain_body zero \<Longrightarrow> nextentry w = None \<Longrightarrow>
    map view (chain_list (dec_loop zero d c w)) = map view (chain_list c)"
  using assms by (induction c arbitrary: w) (auto split: option.split)

lemma more_view:
  assumes "\<And>v. view (d v (chain_body zero)) = view v" "nextentry zero = None"
  shows "map view (entry_list (dec_more zero (dec_loop zero d) c None)) = map view (entry_list c)"
  using loop_view [of view d zero zero, OF assms refl assms(2)]
  by (simp add: dec_more_def entry_list_def split: option.split)

lemma group_view_dec: "group_view (dec_groupnode v (chain_body zero_groupnode)) = group_view v"
  by (simp add: group_view_def dec_groupnode_def zero_groupnode_def c_str_dec)

lemma export_view_dec: "export_view (dec_exportnode v (chain_body zero_exportnode)) = export_view v"
  using more_view [of group_view dec_groupnode zero_groupnode "ex_groups v", OF group_view_dec]
  by (simp add: export_view_def dec_exportnode_def zero_exportnode_def zero_groupnode_def c_str_dec)

section \<open>Properties\<close>

text \<open>
  C30: An export list, however long, encoded into a buffer and decoded from it into a null pointer, comes out with the
  same directories in the same order, each with the same groups in the same order.
\<close>

theorem exports_round_trip:
  assumes "valid_pointer (valid_chain valid_exportnode) v"
    and "length (wire_pointer (wire_chain wire_exportnode) v) \<le> sz" "sz \<le> length buf" "addr mod 4 = 0"
    and "xdrmem_ncreate addr buf sz XDR_ENCODE = Some E"
    and "xdrmem_ncreate addr (x_buf (fst (snd (xdr_exports E v)))) (length (wire_pointer (wire_chain wire_exportnode) v))
           XDR_DECODE = Some D"
  shows "fst (xdr_exports E v) \<and> fst (xdr_exports D None) \<and>
    map export_view (entry_list (snd (snd (xdr_exports D None)))) = map export_view (entry_list v)"
  using export_list.round_trip [OF assms, of None]
    more_view [of export_view dec_exportnode zero_exportnode v, OF export_view_dec]
  by (simp add: zero_exportnode_def)

definition sample_exports :: mnt3_exports where
  "sample_exports =
     Some (Chain \<lparr>ex_dir = Some [0x2F, 0x61, 0], ex_groups = Some (Chain \<lparr>gr_name = Some [0x67, 0]\<rparr> None)\<rparr>
       (Some (Chain \<lparr>ex_dir = Some [0x2F, 0x62, 0], ex_groups = None\<rparr> None)))"

lemma sample_exports_valid:
  "valid_pointer (valid_chain valid_exportnode) sample_exports"
  "length (wire_pointer (wire_chain wire_exportnode) sample_exports) \<le> 100"
  by (simp_all add: sample_exports_def valid_pointer_def valid_exportnode_def valid_groupnode_def string_valid_def
      block_def c_str_def nfs_consts wire_pointer_def wire_exportnode_def wire_groupnode_def wire_cstring_def wire_defs
      wire_counted_def length_wire_opaque pad_len_def)

theorem exports_round_trip_witness:
  "\<exists>E D. xdrmem_ncreate 0 (replicate 100 0) 100 XDR_ENCODE = Some E \<and>
     xdrmem_ncreate 0 (x_buf (fst (snd (xdr_exports E sample_exports))))
       (length (wire_pointer (wire_chain wire_exportnode) sample_exports)) XDR_DECODE = Some D \<and>
     map export_view (entry_list (snd (snd (xdr_exports D None)))) =
       [([0x2F, 0x61], [[0x67]]), ([0x2F, 0x62], [])]"
proof -
  obtain E where E: "xdrmem_ncreate 0 (replicate 100 0) 100 XDR_ENCODE = Some E"
    by (simp add: xdrmem_ncreate_def)
  obtain D where D: "xdrmem_ncreate 0 (x_buf (fst (snd (xdr_exports E sample_exports))))
      (length (wire_pointer (wire_chain wire_exportnode) sample_exports)) XDR_DECODE = Some D"
    by (simp add: xdrmem_ncreate_def)
  from exports_round_trip [OF sample_exports_valid _ _ E D]
  have "map export_view (entry_list (snd (snd (xdr_exports D None)))) = [([0x2F, 0x61], [[0x67]]), ([0x2F, 0x62], [])]"
    by (simp add: sample_exports_def entry_list_def export_view_def group_view_def block_def c_str_def)
  with E D show ?thesis
    by (intro exI [of _ E] exI [of _ D] conjI)
qed

end
