(* ===== verification/Rpc_Msg.thy ===== *)
theory Rpc_Msg
  imports Svc_Auth
begin

text \<open>
  The messages of ONC RPC: \<open>libntirpc/ntirpc/rpc/rpc_msg.h\<close>, the routines that encode and
  decode them (\<open>auth_inline.h\<close>, \<open>rpc_callmsg.c\<close>, \<open>rpc_dplx_msg.c\<close>, \<open>rpc_prot.c\<close>) and the
  routines of \<open>svc.c\<close> that turn a call into its reply.  Every routine has two paths: one
  that reserves the whole header in the buffer and reads or writes it through a pointer,
  and one that moves unit by unit.  Here a pointer into the buffer is an offset and the
  null pointer is \<open>None\<close>.

  The members of the union of the two reply bodies are kept apart; each routine uses
  only the members of the body that \<open>rp_stat\<close> selects.
\<close>

section \<open>Messages\<close>

definition RPC_MSG_VERSION :: uint32 where [nfs_consts]: "RPC_MSG_VERSION = 2"

definition CALL :: enum_t where [nfs_consts]: "CALL = 0"
definition REPLY :: enum_t where [nfs_consts]: "REPLY = 1"

definition MSG_ACCEPTED :: enum_t where [nfs_consts]: "MSG_ACCEPTED = 0"
definition MSG_DENIED :: enum_t where [nfs_consts]: "MSG_DENIED = 1"

definition SUCCESS :: enum_t where [nfs_consts]: "SUCCESS = 0"
definition PROG_UNAVAIL :: enum_t where [nfs_consts]: "PROG_UNAVAIL = 1"
definition PROG_MISMATCH :: enum_t where [nfs_consts]: "PROG_MISMATCH = 2"
definition PROC_UNAVAIL :: enum_t where [nfs_consts]: "PROC_UNAVAIL = 3"
definition GARBAGE_ARGS :: enum_t where [nfs_consts]: "GARBAGE_ARGS = 4"
definition SYSTEM_ERR :: enum_t where [nfs_consts]: "SYSTEM_ERR = 5"

definition RPC_MISMATCH :: enum_t where [nfs_consts]: "RPC_MISMATCH = 0"
definition AUTH_ERROR :: enum_t where [nfs_consts]: "AUTH_ERROR = 1"

record rpcversions =
  vers_low :: uint32
  vers_high :: uint32

text \<open>
  \<open>ar_results\<close> is the routine for the results with the object it is to be called on, seen
  from the stream.
\<close>

record accepted_reply =
  ar_stat :: enum_t
  ar_vers :: rpcversions
  ar_results :: "XDR \<Rightarrow> bool \<times> XDR"
  ar_verf :: opaque_auth

record rejected_reply =
  rj_stat :: enum_t
  rj_vers :: rpcversions
  rj_why :: enum_t

record rpc_call =
  cb_prog :: uint32
  cb_vers :: uint32
  cb_proc :: uint32
  cb_cred :: opaque_auth

record rpc_msg = rpc_call +
  cb_verf :: opaque_auth
  rm_xid :: uint32
  rm_direction :: enum_t
  cb_rpcvers :: uint32
  rp_stat :: enum_t
  rp_acpt :: accepted_reply
  rp_rjct :: rejected_reply

definition null_auth :: opaque_auth where
  "null_auth = \<lparr>oa_flavor = 0, oa_length = 0, oa_body = replicate MAX_AUTH_BYTES 0\<rparr>"

definition rpc_msg_init :: "rpc_msg \<Rightarrow> rpc_msg" where
  "rpc_msg_init msg =
     msg\<lparr>rp_acpt := (rp_acpt msg)\<lparr>ar_verf := null_auth, ar_results := (\<lambda>xdrs. (True, xdrs))\<rparr>\<rparr>"

section \<open>Authentication fields (auth\_inline.h)\<close>

definition xdr_opaque_auth_encode_it :: "XDR \<Rightarrow> opaque_auth \<Rightarrow> bool \<times> XDR" where
  "xdr_opaque_auth_encode_it xdrs oa =
     (if unat (oa_length oa) > MAX_AUTH_BYTES then (False, xdrs)
      else xdr_opaque_encode xdrs (oa_body oa) (oa_length oa))"

definition xdr_opaque_auth_encode :: "XDR \<Rightarrow> opaque_auth \<Rightarrow> bool \<times> XDR" where
  "xdr_opaque_auth_encode xdrs oa =
     (case xdr_putenum xdrs (oa_flavor oa) of
        (False, xdrs) \<Rightarrow> (False, xdrs)
      | (True, xdrs) \<Rightarrow>
          (case xdr_putuint32 xdrs (oa_length oa) of
             (False, xdrs) \<Rightarrow> (False, xdrs)
           | (True, xdrs) \<Rightarrow>
               if oa_length oa \<noteq> 0 then xdr_opaque_auth_encode_it xdrs oa else (True, xdrs)))"

definition xdr_opaque_auth_decode_it :: "opaque_auth xdrproc" where
  "xdr_opaque_auth_decode_it xdrs oa =
     (if unat (oa_length oa) > MAX_AUTH_BYTES then (False, xdrs, oa)
      else case xdr_opaque_decode xdrs (oa_body oa) (oa_length oa) of
        (b, xdrs, body) \<Rightarrow> (b, xdrs, oa\<lparr>oa_body := body\<rparr>))"

text \<open>\<open>IXDR_GET_U_INT32\<close> and \<open>IXDR_GET_ENUM\<close>: the unit the pointer is at, and the pointer behind it.\<close>

definition IXDR_GET_U_INT32 :: "XDR \<Rightarrow> nat \<Rightarrow> uint32" where
  "IXDR_GET_U_INT32 xdrs buf = ntohl_bytes (drop buf (x_buf xdrs))"

text \<open>One unit, through the pointer when there is one and from the stream otherwise.\<close>

definition get_unit :: "XDR \<Rightarrow> nat option \<Rightarrow> uint32 \<Rightarrow> bool \<times> XDR \<times> nat option \<times> uint32" where
  "get_unit xdrs buf v =
     (case buf of
        Some b \<Rightarrow> (True, xdrs, Some (b + BYTES_PER_XDR_UNIT), IXDR_GET_U_INT32 xdrs b)
      | None \<Rightarrow> (case xdr_getuint32 xdrs v of (ok, xdrs, v) \<Rightarrow> (ok, xdrs, None, v)))"

text \<open>A member filled from one unit; the rest of the routine goes on with the pointer behind it.\<close>

definition decode_unit ::
  "('m \<Rightarrow> uint32) \<Rightarrow> ((uint32 \<Rightarrow> uint32) \<Rightarrow> 'm \<Rightarrow> 'm) \<Rightarrow> (nat option \<Rightarrow> 'm xdrproc) \<Rightarrow> nat option \<Rightarrow> 'm xdrproc" where
  "decode_unit get upd k buf xdrs m =
     (case get_unit xdrs buf (get m) of
        (ok, xdrs, buf, v) \<Rightarrow>
          (let m = upd (\<lambda>_. v) m in if ok then k buf xdrs m else (False, xdrs, m)))"

definition xdr_opaque_auth_decode :: "nat option \<Rightarrow> opaque_auth xdrproc" where
  "xdr_opaque_auth_decode =
     decode_unit oa_flavor oa_flavor_update (
     decode_unit oa_length oa_length_update (\<lambda>_ xdrs oa.
       if oa_length oa \<noteq> 0 then xdr_opaque_auth_decode_it xdrs oa else (True, xdrs, oa)))"

definition xdr_opaque_auth :: "opaque_auth xdrproc" where
  "xdr_opaque_auth xdrs oa =
     (case x_op xdrs of
        XDR_ENCODE \<Rightarrow> (case xdr_opaque_auth_encode xdrs oa of (b, xdrs) \<Rightarrow> (b, xdrs, oa))
      | XDR_DECODE \<Rightarrow> xdr_opaque_auth_decode None xdrs oa
      | XDR_FREE \<Rightarrow> (True, xdrs, oa))"

section \<open>Writing through the reserved buffer\<close>

text \<open>The pair is the contents of the buffer and the pointer into it.\<close>

definition IXDR_PUT_INT32 :: "uint32 \<Rightarrow> byte list \<times> nat \<Rightarrow> byte list \<times> nat" where
  "IXDR_PUT_INT32 v s = (overwrite (snd s) (htonl_bytes v) (fst s), snd s + BYTES_PER_XDR_UNIT)"

definition put_body :: "opaque_auth \<Rightarrow> byte list \<times> nat \<Rightarrow> byte list \<times> nat" where
  "put_body oa s =
     (if oa_length oa \<noteq> 0
      then (overwrite (snd s) (take (unat (oa_length oa)) (oa_body oa)) (fst s),
            snd s + unat (RNDUP (oa_length oa)))
      else s)"

definition put_auth :: "opaque_auth \<Rightarrow> byte list \<times> nat \<Rightarrow> byte list \<times> nat" where
  "put_auth oa s = put_body oa (fold IXDR_PUT_INT32 [oa_flavor oa, oa_length oa] s)"

text \<open>Steps that write unit by unit, up to the first that fails.\<close>

primrec xdr_puts :: "(XDR \<Rightarrow> bool \<times> XDR) list \<Rightarrow> XDR \<Rightarrow> bool \<times> XDR" where
  "xdr_puts [] xdrs = (True, xdrs)"
| "xdr_puts (p # ps) xdrs =
     (case p xdrs of (False, xdrs) \<Rightarrow> (False, xdrs) | (True, xdrs) \<Rightarrow> xdr_puts ps xdrs)"

section \<open>Call messages (rpc\_callmsg.c)\<close>

definition xdr_call_encode :: "XDR \<Rightarrow> rpc_msg \<Rightarrow> bool \<times> XDR" where
  "xdr_call_encode xdrs cmsg =
     (if unat (oa_length (cb_cred cmsg)) > MAX_AUTH_BYTES then (False, xdrs)
      else if unat (oa_length (cb_verf cmsg)) > MAX_AUTH_BYTES then (False, xdrs)
      else case xdr_inline_encode xdrs (8 * BYTES_PER_XDR_UNIT + unat (RNDUP (oa_length (cb_cred cmsg)))
                                        + 2 * BYTES_PER_XDR_UNIT + unat (RNDUP (oa_length (cb_verf cmsg)))) of
        (Some buf, xdrs) \<Rightarrow>
          (let s = fold IXDR_PUT_INT32 [rm_xid cmsg, rm_direction cmsg, cb_rpcvers cmsg] (x_buf xdrs, buf) in
           if cb_rpcvers cmsg \<noteq> RPC_MSG_VERSION then (False, xdrs\<lparr>x_buf := fst s\<rparr>)
           else
             (let s = fold IXDR_PUT_INT32 [cb_prog cmsg, cb_vers cmsg, cb_proc cmsg] s;
                  s = put_auth (cb_cred cmsg) s;
                  s = put_auth (cb_verf cmsg) s in
              (True, xdrs\<lparr>x_buf := fst s\<rparr>)))
      | (None, xdrs) \<Rightarrow>
          xdr_puts
            [\<lambda>xdrs. xdr_putuint32 xdrs (rm_xid cmsg),
             \<lambda>xdrs. xdr_putenum xdrs (rm_direction cmsg),
             \<lambda>xdrs. xdr_putuint32 xdrs (cb_rpcvers cmsg),
             \<lambda>xdrs. (cb_rpcvers cmsg = RPC_MSG_VERSION, xdrs),
             \<lambda>xdrs. xdr_putuint32 xdrs (cb_prog cmsg),
             \<lambda>xdrs. xdr_putuint32 xdrs (cb_vers cmsg),
             \<lambda>xdrs. xdr_putuint32 xdrs (cb_proc cmsg),
             \<lambda>xdrs. xdr_opaque_auth_encode xdrs (cb_cred cmsg),
             \<lambda>xdrs. xdr_opaque_auth_encode xdrs (cb_verf cmsg)] xdrs)"

definition xdr_call_decode :: "nat option \<Rightarrow> rpc_msg xdrproc" where
  "xdr_call_decode =
     decode_unit cb_rpcvers cb_rpcvers_update (\<lambda>buf xdrs cmsg.
       if cb_rpcvers cmsg \<noteq> RPC_MSG_VERSION then (False, xdrs, cmsg)
       else
         decode_unit cb_prog cb_prog_update (
         decode_unit cb_vers cb_vers_update (\<lambda>_ xdrs cmsg.
           case xdr_inline_decode xdrs (3 * BYTES_PER_XDR_UNIT) of (buf, xdrs) \<Rightarrow>
             decode_unit cb_proc cb_proc_update (\<lambda>buf.
               xdr_all [xdr_field cb_cred cb_cred_update (xdr_opaque_auth_decode buf),
                        xdr_field cb_verf cb_verf_update (xdr_opaque_auth_decode None)]) buf xdrs cmsg)) buf xdrs cmsg)"

section \<open>Reply messages (rpc\_prot.c, rpc\_dplx\_msg.c)\<close>

definition xdr_des_block :: "byte list xdrproc" where
  "xdr_des_block = xdr_opaque 8"

definition xdr_union ::
  "('r \<Rightarrow> enum_t) \<Rightarrow> ((enum_t \<Rightarrow> enum_t) \<Rightarrow> 'r \<Rightarrow> 'r) \<Rightarrow> (enum_t \<times> 'r xdrproc) list \<Rightarrow> 'r xdrproc option \<Rightarrow> 'r xdrproc" where
  "xdr_union get upd choices dfault =
     xdr_seq (xdr_field get upd xdr_enum) (\<lambda>xdrs r.
       case find (\<lambda>c. fst c = get r) choices of
         Some c \<Rightarrow> snd c xdrs r
       | None \<Rightarrow> (case dfault of None \<Rightarrow> (False, xdrs, r) | Some p \<Rightarrow> p xdrs r))"

definition xdr_rpcversions :: "rpcversions xdrproc" where
  "xdr_rpcversions = xdr_seq (xdr_field vers_low vers_low_update xdr_u_int32_t)
     (xdr_field vers_high vers_high_update xdr_u_int32_t)"

definition xdr_naccepted_reply :: "accepted_reply xdrproc" where
  "xdr_naccepted_reply =
     xdr_seq (xdr_field ar_verf ar_verf_update xdr_opaque_auth)
     (xdr_seq (xdr_field ar_stat ar_stat_update xdr_enum)
     (xdr_switch ar_stat (\<lambda>stat.
        if stat = SUCCESS then (\<lambda>xdrs ar. case ar_results ar xdrs of (b, xdrs) \<Rightarrow> (b, xdrs, ar))
        else if stat = PROG_MISMATCH then xdr_field ar_vers ar_vers_update xdr_rpcversions
        else xdr_ok)))"

text \<open>For another \<open>rj_stat\<close> the routine is at \<open>assert(0)\<close>; where assertions are compiled out, it returns false.\<close>

definition xdr_nrejected_reply :: "rejected_reply xdrproc" where
  "xdr_nrejected_reply =
     xdr_seq (xdr_field rj_stat rj_stat_update xdr_enum)
     (xdr_switch rj_stat (\<lambda>stat.
        if stat = RPC_MISMATCH then xdr_field rj_vers rj_vers_update xdr_rpcversions
        else if stat = AUTH_ERROR then xdr_field rj_why rj_why_update xdr_enum
        else xdr_fail))"

definition reply_dscrm :: "(enum_t \<times> rpc_msg xdrproc) list" where
  "reply_dscrm =
     [(MSG_ACCEPTED, xdr_field rp_acpt rp_acpt_update xdr_naccepted_reply),
      (MSG_DENIED, xdr_field rp_rjct rp_rjct_update xdr_nrejected_reply)]"

definition xdr_nreplymsg :: "rpc_msg xdrproc" where
  "xdr_nreplymsg =
     xdr_all [xdr_field rm_xid rm_xid_update xdr_u_int32_t,
       xdr_field rm_direction rm_direction_update xdr_enum,
       xdr_switch rm_direction (\<lambda>d. if d = REPLY then xdr_union rp_stat rp_stat_update reply_dscrm None else xdr_fail)]"

definition xdr_ncallhdr :: "rpc_msg xdrproc" where
  "xdr_ncallhdr xdrs cmsg =
     (let cmsg = cmsg\<lparr>rm_direction := CALL, cb_rpcvers := RPC_MSG_VERSION\<rparr> in
      if x_op xdrs = XDR_ENCODE
      then xdr_all [xdr_field rm_xid rm_xid_update xdr_u_int32_t,
             xdr_field rm_direction rm_direction_update xdr_enum,
             xdr_field cb_rpcvers cb_rpcvers_update xdr_u_int32_t,
             xdr_field cb_prog cb_prog_update xdr_u_int32_t,
             xdr_field cb_vers cb_vers_update xdr_u_int32_t] xdrs cmsg
      else (False, xdrs, cmsg))"

text \<open>Some units: through a reserved buffer when there is room for all of them, else one by one.\<close>

definition put_units :: "uint32 list \<Rightarrow> XDR \<Rightarrow> bool \<times> XDR" where
  "put_units us xdrs =
     (case xdr_inline_encode xdrs (length us * BYTES_PER_XDR_UNIT) of
        (Some buf, xdrs) \<Rightarrow> (True, xdrs\<lparr>x_buf := fst (fold IXDR_PUT_INT32 us (x_buf xdrs, buf))\<rparr>)
      | (None, xdrs) \<Rightarrow> xdr_puts (map (\<lambda>u xdrs. xdr_putuint32 xdrs u) us) xdrs)"

definition xdr_reply_encode :: "XDR \<Rightarrow> rpc_msg \<Rightarrow> bool \<times> XDR" where
  "xdr_reply_encode xdrs dmsg =
     (if rp_stat dmsg = MSG_ACCEPTED
      then (let ar = rp_acpt dmsg; oa = ar_verf ar in
        if unat (oa_length oa) > MAX_AUTH_BYTES then (False, xdrs)
        else case xdr_inline_encode xdrs (6 * BYTES_PER_XDR_UNIT + unat (RNDUP (oa_length oa))) of
          (Some buf, xdrs) \<Rightarrow>
            (let s = fold IXDR_PUT_INT32 [rm_xid dmsg, rm_direction dmsg, rp_stat dmsg] (x_buf xdrs, buf);
                 s = put_auth oa s;
                 s = IXDR_PUT_INT32 (ar_stat ar) s;
                 xdrs = xdrs\<lparr>x_buf := fst s\<rparr> in
             if ar_stat ar = PROG_MISMATCH
             then put_units [vers_low (ar_vers ar), vers_high (ar_vers ar)] xdrs
             else (True, xdrs))
        | (None, xdrs) \<Rightarrow>
            xdr_puts
              [\<lambda>xdrs. xdr_putuint32 xdrs (rm_xid dmsg),
               \<lambda>xdrs. xdr_putenum xdrs (rm_direction dmsg),
               \<lambda>xdrs. case xdr_union rp_stat rp_stat_update reply_dscrm None xdrs dmsg of (b, xdrs, _) \<Rightarrow> (b, xdrs)]
              xdrs)
      else if rp_stat dmsg = MSG_DENIED
      then (let rr = rp_rjct dmsg in
        case put_units [rm_xid dmsg, rm_direction dmsg, rp_stat dmsg] xdrs of
          (False, xdrs) \<Rightarrow> (False, xdrs)
        | (True, xdrs) \<Rightarrow>
            if rj_stat rr = RPC_MISMATCH
            then put_units [rj_stat rr, vers_low (rj_vers rr), vers_high (rj_vers rr)] xdrs
            else if rj_stat rr = AUTH_ERROR then put_units [rj_stat rr, rj_why rr] xdrs
            else (False, xdrs))
      else (False, xdrs))"

definition xdr_accepted_decode :: "nat option \<Rightarrow> accepted_reply xdrproc" where
  "xdr_accepted_decode buf =
     xdr_seq (xdr_field ar_verf ar_verf_update (xdr_opaque_auth_decode buf))
     (xdr_seq (xdr_field ar_stat ar_stat_update xdr_getenum)
     (xdr_switch ar_stat (\<lambda>stat.
        if stat = PROG_MISMATCH
        then xdr_field ar_vers ar_vers_update
          (xdr_seq (xdr_field vers_low vers_low_update xdr_getuint32)
                   (xdr_field vers_high vers_high_update xdr_getuint32))
        else xdr_ok)))"

definition xdr_rejected_decode :: "nat option \<Rightarrow> rejected_reply xdrproc" where
  "xdr_rejected_decode =
     decode_unit rj_stat rj_stat_update (\<lambda>buf xdrs rr.
       if rj_stat rr = RPC_MISMATCH
       then decode_unit (\<lambda>rr. vers_low (rj_vers rr)) (\<lambda>f. rj_vers_update (vers_low_update f)) (\<lambda>_.
              xdr_field rj_vers rj_vers_update (xdr_field vers_high vers_high_update xdr_getuint32)) buf xdrs rr
       else if rj_stat rr = AUTH_ERROR
       then decode_unit rj_why rj_why_update (\<lambda>_. xdr_ok) buf xdrs rr
       else (True, xdrs, rr))"

definition xdr_reply_decode :: "nat option \<Rightarrow> rpc_msg xdrproc" where
  "xdr_reply_decode =
     decode_unit rp_stat rp_stat_update (\<lambda>buf xdrs dmsg.
       if rp_stat dmsg = MSG_ACCEPTED then xdr_field rp_acpt rp_acpt_update (xdr_accepted_decode buf) xdrs dmsg
       else if rp_stat dmsg = MSG_DENIED then xdr_field rp_rjct rp_rjct_update (xdr_rejected_decode buf) xdrs dmsg
       else (False, xdrs, dmsg))"

definition dplx_decode_body :: "nat option \<Rightarrow> rpc_msg xdrproc" where
  "dplx_decode_body =
     decode_unit rm_xid rm_xid_update (
     decode_unit rm_direction rm_direction_update (\<lambda>buf xdrs dmsg.
       if rm_direction dmsg = CALL then xdr_call_decode buf xdrs dmsg
       else if rm_direction dmsg = REPLY then xdr_reply_decode buf xdrs dmsg
       else (False, xdrs, dmsg)))"

definition xdr_dplx_decode :: "rpc_msg xdrproc" where
  "xdr_dplx_decode xdrs dmsg =
     (case xdr_inline_decode xdrs (5 * BYTES_PER_XDR_UNIT) of (buf, xdrs) \<Rightarrow> dplx_decode_body buf xdrs dmsg)"

definition xdr_dplx_msg :: "rpc_msg xdrproc" where
  "xdr_dplx_msg xdrs dmsg =
     (case x_op xdrs of
        XDR_ENCODE \<Rightarrow>
          (if rm_direction dmsg = CALL then (case xdr_call_encode xdrs dmsg of (b, xdrs) \<Rightarrow> (b, xdrs, dmsg))
           else if rm_direction dmsg = REPLY then (case xdr_reply_encode xdrs dmsg of (b, xdrs) \<Rightarrow> (b, xdrs, dmsg))
           else (False, xdrs, dmsg))
      | XDR_DECODE \<Rightarrow> xdr_dplx_decode xdrs dmsg
      | XDR_FREE \<Rightarrow> (True, xdrs, dmsg))"

definition xdr_ncallmsg :: "rpc_msg xdrproc" where
  "xdr_ncallmsg xdrs cmsg =
     (case x_op xdrs of
        XDR_ENCODE \<Rightarrow>
          (if rm_direction cmsg \<noteq> CALL then (False, xdrs, cmsg)
           else case xdr_call_encode xdrs cmsg of (b, xdrs) \<Rightarrow> (b, xdrs, cmsg))
      | XDR_DECODE \<Rightarrow>
          (case xdr_dplx_decode xdrs cmsg of
             (True, xdrs, cmsg) \<Rightarrow> (rm_direction cmsg = CALL, xdrs, cmsg)
           | (False, xdrs, cmsg) \<Rightarrow> (False, xdrs, cmsg))
      | XDR_FREE \<Rightarrow> (True, xdrs, cmsg))"

section \<open>Replies (svc.c)\<close>

primrec auth_stat_num :: "auth_stat \<Rightarrow> enum_t" where
  "auth_stat_num AUTH_OK = 0"
| "auth_stat_num AUTH_BADCRED = 1"
| "auth_stat_num AUTH_REJECTEDCRED = 2"
| "auth_stat_num AUTH_BADVERF = 3"
| "auth_stat_num AUTH_REJECTEDVERF = 4"
| "auth_stat_num AUTH_TOOWEAK = 5"
| "auth_stat_num AUTH_INVALIDRESP = 6"
| "auth_stat_num AUTH_FAILED = 7"
| "auth_stat_num RPCSEC_GSS_CREDPROBLEM = 13"
| "auth_stat_num RPCSEC_GSS_CTXPROBLEM = 14"

definition accept_with :: "enum_t \<Rightarrow> rpc_msg \<Rightarrow> rpc_msg" where
  "accept_with stat msg =
     msg\<lparr>rm_direction := REPLY, rp_stat := MSG_ACCEPTED, rp_acpt := (rp_acpt msg)\<lparr>ar_stat := stat\<rparr>\<rparr>"

definition svc_sendreply :: "rpc_msg \<Rightarrow> rpc_msg" where
  "svc_sendreply = accept_with SUCCESS"

definition svcerr_noproc :: "rpc_msg \<Rightarrow> rpc_msg" where
  "svcerr_noproc = accept_with PROC_UNAVAIL"

definition svcerr_decode :: "rpc_msg \<Rightarrow> rpc_msg" where
  "svcerr_decode = accept_with GARBAGE_ARGS"

definition svcerr_systemerr :: "rpc_msg \<Rightarrow> rpc_msg" where
  "svcerr_systemerr = accept_with SYSTEM_ERR"

definition svcerr_noprog :: "rpc_msg \<Rightarrow> rpc_msg" where
  "svcerr_noprog = accept_with PROG_UNAVAIL"

definition svcerr_progvers :: "uint32 \<Rightarrow> uint32 \<Rightarrow> rpc_msg \<Rightarrow> rpc_msg" where
  "svcerr_progvers low high msg =
     msg\<lparr>rm_direction := REPLY, rp_stat := MSG_ACCEPTED,
         rp_acpt := (rp_acpt msg)\<lparr>ar_stat := PROG_MISMATCH, ar_vers := \<lparr>vers_low = low, vers_high = high\<rparr>\<rparr>\<rparr>"

definition svcerr_auth :: "auth_stat \<Rightarrow> rpc_msg \<Rightarrow> rpc_msg" where
  "svcerr_auth why msg =
     msg\<lparr>rm_direction := REPLY, rp_stat := MSG_DENIED,
         rp_rjct := (rp_rjct msg)\<lparr>rj_stat := AUTH_ERROR, rj_why := auth_stat_num why\<rparr>\<rparr>"

definition svcerr_weakauth :: "rpc_msg \<Rightarrow> rpc_msg" where
  "svcerr_weakauth = svcerr_auth AUTH_TOOWEAK"

section \<open>What the client makes of a reply (rpc\_prot.c)\<close>

datatype clnt_stat =
  RPC_SUCCESS | RPC_VERSMISMATCH | RPC_AUTHERROR | RPC_PROGUNAVAIL | RPC_PROGVERSMISMATCH
| RPC_PROCUNAVAIL | RPC_CANTDECODEARGS | RPC_SYSTEMERROR | RPC_FAILED

record rpc_err =
  re_why :: enum_t
  re_vers :: rpcversions
  re_lb :: "uint32 \<times> uint32"
  re_status :: clnt_stat

definition accepted :: "enum_t \<Rightarrow> rpc_err \<Rightarrow> rpc_err" where
  "accepted acpt_stat err =
     (if acpt_stat = PROG_UNAVAIL then err\<lparr>re_status := RPC_PROGUNAVAIL\<rparr>
      else if acpt_stat = PROG_MISMATCH then err\<lparr>re_status := RPC_PROGVERSMISMATCH\<rparr>
      else if acpt_stat = PROC_UNAVAIL then err\<lparr>re_status := RPC_PROCUNAVAIL\<rparr>
      else if acpt_stat = GARBAGE_ARGS then err\<lparr>re_status := RPC_CANTDECODEARGS\<rparr>
      else if acpt_stat = SYSTEM_ERR then err\<lparr>re_status := RPC_SYSTEMERROR\<rparr>
      else if acpt_stat = SUCCESS then err\<lparr>re_status := RPC_SUCCESS\<rparr>
      else err\<lparr>re_status := RPC_FAILED, re_lb := (MSG_ACCEPTED, acpt_stat)\<rparr>)"

definition rejected :: "enum_t \<Rightarrow> rpc_err \<Rightarrow> rpc_err" where
  "rejected rjct_stat err =
     (if rjct_stat = RPC_MISMATCH then err\<lparr>re_status := RPC_VERSMISMATCH\<rparr>
      else if rjct_stat = AUTH_ERROR then err\<lparr>re_status := RPC_AUTHERROR\<rparr>
      else err\<lparr>re_status := RPC_FAILED, re_lb := (MSG_DENIED, rjct_stat)\<rparr>)"

definition seterr_reply :: "rpc_msg \<Rightarrow> rpc_err \<Rightarrow> rpc_err" where
  "seterr_reply msg err =
     (if rp_stat msg = MSG_ACCEPTED \<and> ar_stat (rp_acpt msg) = SUCCESS then err\<lparr>re_status := RPC_SUCCESS\<rparr>
      else
        (let err = (if rp_stat msg = MSG_ACCEPTED then accepted (ar_stat (rp_acpt msg)) err
                    else if rp_stat msg = MSG_DENIED then rejected (rj_stat (rp_rjct msg)) err
                    else err\<lparr>re_status := RPC_FAILED, re_lb := (rp_stat msg, snd (re_lb err))\<rparr>) in
         case re_status err of
           RPC_VERSMISMATCH \<Rightarrow> err\<lparr>re_vers := rj_vers (rp_rjct msg)\<rparr>
         | RPC_AUTHERROR \<Rightarrow> err\<lparr>re_why := rj_why (rp_rjct msg)\<rparr>
         | RPC_PROGVERSMISMATCH \<Rightarrow> err\<lparr>re_vers := ar_vers (rp_acpt msg)\<rparr>
         | _ \<Rightarrow> err))"

end
