(* ===== verification/Rpc_Read.thy ===== *)
theory Rpc_Read
  imports Rpc_Msg
begin

text \<open>
  Reading RPC messages: the path through a reserved buffer and the path unit by unit agree, and
  decoding any bytes stays inside the buffer and leaves fields that fit their arrays.
\<close>

section \<open>Fields that fit\<close>

definition valid_auth :: "opaque_auth \<Rightarrow> bool" where
  "valid_auth oa \<longleftrightarrow> unat (oa_length oa) \<le> MAX_AUTH_BYTES \<and> length (oa_body oa) = MAX_AUTH_BYTES"

definition valid_call :: "rpc_msg \<Rightarrow> bool" where
  "valid_call m \<longleftrightarrow> rm_direction m = CALL \<and> cb_rpcvers m = RPC_MSG_VERSION \<and> valid_auth (cb_cred m) \<and> valid_auth (cb_verf m)"

section \<open>The two ways of reading agree\<close>

text \<open>
  While a routine reads through the pointer, the stream is already behind the units it has
  reserved: \<open>skip k xdrs\<close> stands where the unit-by-unit path has \<open>skip n xdrs\<close>.
\<close>

lemma get_unit_None:
  assumes "xdr_wf xdrs" "4 \<le> length (unread xdrs)"
  shows "get_unit xdrs None v = (True, skip 4 xdrs, None, IXDR_GET_U_INT32 xdrs (x_data xdrs))"
  using assms by (auto simp: get_unit_def IXDR_GET_U_INT32_def xdr_getuint32_def skip_def length_unread Let_def)

lemma get_unit_lag:
  assumes "xdr_wf xdrs" "x_op xdrs = XDR_DECODE" "n + 4 \<le> k" "k \<le> length (unread xdrs)"
  obtains u where "get_unit (skip k xdrs) (Some (x_data xdrs + n)) v = (True, skip k xdrs, Some (x_data xdrs + (n + 4)), u)"
    "get_unit (skip n xdrs) None w = (True, skip (n + 4) xdrs, None, u)"
proof
  have "xdr_wf (skip n xdrs)"
    using assms by (intro skip_wf) auto
  then show "get_unit (skip n xdrs) None w = (True, skip (n + 4) xdrs, None, IXDR_GET_U_INT32 xdrs (x_data xdrs + n))"
    using get_unit_None [of "skip n xdrs"] assms by (simp add: IXDR_GET_U_INT32_def)
qed (simp add: get_unit_def IXDR_GET_U_INT32_def BYTES_PER_XDR_UNIT_def)

text \<open>The verdict and the message agree; what is left of the stream agrees when the decoding succeeds.\<close>

definition paths_agree :: "('m \<Rightarrow> bool) \<Rightarrow> bool \<times> XDR \<times> 'm \<Rightarrow> bool \<times> XDR \<times> 'm \<Rightarrow> bool" where
  "paths_agree P r r' \<longleftrightarrow> fst r = fst r' \<and> snd (snd r) = snd (snd r') \<and> (fst r \<longrightarrow> P (snd (snd r)) \<longrightarrow> r = r')"

lemma paths_agree_refl [simp]: "paths_agree P r r"
  by (simp add: paths_agree_def)

lemma paths_agree_fail [simp]: "paths_agree P (False, xdrs, m) (False, xdrs', m)"
  by (simp add: paths_agree_def)

lemma decode_unit_lag:
  assumes "xdr_wf xdrs" "x_op xdrs = XDR_DECODE" "k \<le> length (unread xdrs)" "n' = n + 4" "n' \<le> k"
    and "\<And>v. paths_agree P (kont (Some (x_data xdrs + n')) (skip k xdrs) (upd (\<lambda>_. v) m)) (kont None (skip n' xdrs) (upd (\<lambda>_. v) m))"
  shows "paths_agree P (decode_unit get upd kont (Some (x_data xdrs + n)) (skip k xdrs) m) (decode_unit get upd kont None (skip n xdrs) m)"
proof -
  obtain u where "get_unit (skip k xdrs) (Some (x_data xdrs + n)) (get m) = (True, skip k xdrs, Some (x_data xdrs + n'), u)"
    "get_unit (skip n xdrs) None (get m) = (True, skip n' xdrs, None, u)"
    using get_unit_lag [OF assms(1,2), of n k] assms(3,4,5) by auto
  with assms(6) show ?thesis
    by (simp add: decode_unit_def)
qed


lemma opaque_auth_decode_lag:
  assumes "xdr_wf xdrs" "x_op xdrs = XDR_DECODE" "k = n + 8" "k \<le> length (unread xdrs)"
  shows "xdr_opaque_auth_decode (Some (x_data xdrs + n)) (skip k xdrs) oa = xdr_opaque_auth_decode None (skip n xdrs) oa"
proof -
  obtain f where f: "get_unit (skip k xdrs) (Some (x_data xdrs + n)) (oa_flavor oa) =
      (True, skip k xdrs, Some (x_data xdrs + (n + 4)), f)"
    "get_unit (skip n xdrs) None (oa_flavor oa) = (True, skip (n + 4) xdrs, None, f)"
    using get_unit_lag [OF assms(1,2), of n k] assms(3,4) by auto
  obtain l where "get_unit (skip k xdrs) (Some (x_data xdrs + (n + 4))) (oa_length oa) =
      (True, skip k xdrs, Some (x_data xdrs + (n + 4 + 4)), l)"
    "get_unit (skip (n + 4) xdrs) None (oa_length oa) = (True, skip (n + 4 + 4) xdrs, None, l)"
    using get_unit_lag [OF assms(1,2), of "n + 4" k] assms(3,4) by auto
  with f show ?thesis
    using assms(3) by (simp add: xdr_opaque_auth_decode_def decode_unit_def add.commute)
qed

lemma paths_agree_if:
  "(b \<Longrightarrow> paths_agree P r r') \<Longrightarrow> (\<not> b \<Longrightarrow> paths_agree P s s') \<Longrightarrow>
   paths_agree P (if b then r else s) (if b then r' else s')"
  by simp

lemma call_decode_lag:
  assumes "xdr_wf xdrs" "x_op xdrs = XDR_DECODE" "20 \<le> length (unread xdrs)"
  shows "paths_agree P (xdr_call_decode (Some (x_data xdrs + 8)) (skip 20 xdrs) m) (xdr_call_decode None (skip 8 xdrs) m)"
  unfolding xdr_call_decode_def
  by (rule decode_unit_lag [OF assms, of 12 8], simp, simp, rule paths_agree_if, rule paths_agree_fail, rule decode_unit_lag [OF assms, of 16 12], simp, simp, rule decode_unit_lag [OF assms, of 20 16], simp, simp,
      rule paths_agree_refl)

lemma rejected_decode_lag:
  assumes "xdr_wf xdrs" "x_op xdrs = XDR_DECODE" "20 \<le> length (unread xdrs)"
  shows "paths_agree (\<lambda>m. rj_stat m = RPC_MISMATCH \<or> rj_stat m = AUTH_ERROR)
    (xdr_rejected_decode (Some (x_data xdrs + 12)) (skip 20 xdrs) m) (xdr_rejected_decode None (skip 12 xdrs) m)"
  unfolding xdr_rejected_decode_def
  by (rule decode_unit_lag [OF assms, of 16 12], simp, simp, rule paths_agree_if, rule decode_unit_lag [OF assms, of 20 16], simp, simp, rule paths_agree_refl,
      rule paths_agree_if, rule decode_unit_lag [OF assms, of 20 16], simp, simp, rule paths_agree_refl, simp add: paths_agree_def)

lemma paths_agree_field:
  assumes "paths_agree P (p xdrs (get m)) (q xdrs' (get m))" and "\<And>v. P' (upd (\<lambda>_. v) m) \<Longrightarrow> P v"
  shows "paths_agree P' (xdr_field get upd p xdrs m) (xdr_field get upd q xdrs' m)"
proof -
  obtain b ys v where p: "p xdrs (get m) = (b, ys, v)"
    by (rule prod_cases3)
  obtain b' zs v' where q: "q xdrs' (get m) = (b', zs, v')"
    by (rule prod_cases3)
  have "b' = b" "v' = v" "b \<Longrightarrow> P v \<Longrightarrow> zs = ys"
    using assms(1) unfolding p q paths_agree_def by simp_all
  then show ?thesis
    unfolding xdr_field_def p q paths_agree_def prod.case fst_conv snd_conv using assms(2) [of v] by blast
qed

definition reply_known :: "rpc_msg \<Rightarrow> bool" where
  "reply_known m \<longleftrightarrow>
     (rp_stat m = MSG_DENIED \<longrightarrow> rj_stat (rp_rjct m) = RPC_MISMATCH \<or> rj_stat (rp_rjct m) = AUTH_ERROR)"

lemma reply_decode_lag:
  assumes "xdr_wf xdrs" "x_op xdrs = XDR_DECODE" "20 \<le> length (unread xdrs)"
  shows "paths_agree reply_known
    (xdr_reply_decode (Some (x_data xdrs + 8)) (skip 20 xdrs) m) (xdr_reply_decode None (skip 8 xdrs) m)"
proof -
  have "xdr_opaque_auth_decode (Some (x_data xdrs + 12)) (skip 20 xdrs) = xdr_opaque_auth_decode None (skip 12 xdrs)"
    using assms by (intro ext opaque_auth_decode_lag) simp_all
  then have a: "paths_agree P (xdr_accepted_decode (Some (x_data xdrs + 12)) (skip 20 xdrs) ar) (xdr_accepted_decode None (skip 12 xdrs) ar)" for P ar
    by (simp add: xdr_accepted_decode_def xdr_seq_def xdr_field_def)
  show ?thesis
    unfolding xdr_reply_decode_def
    by (rule decode_unit_lag [OF assms, of 12 8], simp, simp, rule paths_agree_if, rule paths_agree_field, rule a, assumption,
        rule paths_agree_if, rule paths_agree_field, rule rejected_decode_lag [OF assms], simp add: reply_known_def, simp)
qed

lemma reply_decode_direction: "rm_direction (snd (snd (xdr_reply_decode buf xdrs m))) = rm_direction m"
  by (simp add: xdr_reply_decode_def decode_unit_def xdr_field_def Let_def case_prod_unfold)

lemma decode_body_lag:
  assumes "xdr_wf xdrs" "x_op xdrs = XDR_DECODE" "20 \<le> length (unread xdrs)"
  shows "paths_agree (\<lambda>m. rm_direction m = REPLY \<longrightarrow> reply_known m)
    (dplx_decode_body (Some (x_data xdrs)) (skip 20 xdrs) m) (dplx_decode_body None xdrs m)"
proof -
  have r: "paths_agree (\<lambda>m. rm_direction m = REPLY \<longrightarrow> reply_known m)
      (xdr_reply_decode (Some (x_data xdrs + 8)) (skip 20 xdrs) m) (xdr_reply_decode None (skip 8 xdrs) m)"
    if "rm_direction m = REPLY" for m
    using reply_decode_lag [OF assms, of m] unfolding paths_agree_def reply_decode_direction that by blast
  show ?thesis
    unfolding dplx_decode_body_def
    by (rule decode_unit_lag [OF assms, of 4 0, unfolded add_0_right skip_0], simp, simp,
        rule decode_unit_lag [OF assms, of 8 4], simp, simp, rule paths_agree_if, rule call_decode_lag [OF assms],
        rule paths_agree_if, erule r, simp)
qed

lemma dplx_decode_long:
  assumes "xdr_wf xdrs" "x_op xdrs = XDR_DECODE" "20 \<le> length (unread xdrs)"
  shows "paths_agree (\<lambda>m. rm_direction m = REPLY \<longrightarrow> reply_known m) (xdr_dplx_decode xdrs w) (dplx_decode_body None xdrs w)"
proof -
  have "xdr_inline_decode xdrs (5 * BYTES_PER_XDR_UNIT) = (Some (x_data xdrs), skip 20 xdrs)"
    using assms by (auto simp: xdr_inline_decode_def BYTES_PER_XDR_UNIT_def Let_def skip_def length_unread)
  then show ?thesis
    using decode_body_lag [OF assms] by (simp add: xdr_dplx_decode_def)
qed

lemma dplx_decode_short:
  assumes "xdr_wf xdrs" "length (unread xdrs) < 20"
  shows "xdr_dplx_decode xdrs w = dplx_decode_body None xdrs w"
  using assms by (auto simp: xdr_dplx_decode_def xdr_inline_decode_def BYTES_PER_XDR_UNIT_def Let_def length_unread)


section \<open>Decoding any bytes\<close>

text \<open>
  The contract of a routine on a decoding stream, whatever the bytes: it stays inside the
  buffer, takes an object with \<open>pre\<close> to one with \<open>post\<close> when it succeeds, and leaves one with
  \<open>keep\<close> when it fails.
\<close>

locale xdr_reader =
  fixes proc :: "'a xdrproc" and pre post keep :: "'a \<Rightarrow> bool"
  assumes reads: "xdr_wf xdrs \<Longrightarrow> x_op xdrs = XDR_DECODE \<Longrightarrow> pre v \<Longrightarrow> proc xdrs v = (ok, xdrs', v') \<Longrightarrow>
    xdr_moves xdrs xdrs' \<and> (if ok then post v' else keep v')"
begin

lemma stays: "xdr_wf xdrs \<Longrightarrow> x_op xdrs = XDR_DECODE \<Longrightarrow> pre v \<Longrightarrow> proc xdrs v = (ok, xdrs', v') \<Longrightarrow> xdr_moves xdrs xdrs'"
  using reads by blast

lemma accepts: "xdr_wf xdrs \<Longrightarrow> x_op xdrs = XDR_DECODE \<Longrightarrow> pre v \<Longrightarrow> proc xdrs v = (True, xdrs', v') \<Longrightarrow> post v'"
  using reads [of xdrs v True xdrs' v'] by simp

end

lemma moves_op: "xdr_moves a b \<Longrightarrow> x_op b = x_op a"
  by (simp add: xdr_moves_def)

text \<open>A routine that goes on with a reader after a movement of the stream.\<close>

lemma xdr_reader_continue:
  assumes "xdr_reader q Q R K" "xdr_moves xdrs y" "x_op xdrs = XDR_DECODE" "Q u" "q y u = (ok, xdrs', v')"
  shows "xdr_moves xdrs xdrs' \<and> (if ok then R v' else K v')"
  using xdr_reader.reads [OF assms(1) xdr_moves_wf [OF assms(2)] _ assms(4,5)] moves_op [OF assms(2)] assms(3) xdr_moves_trans [OF assms(2)]
  by auto

lemma xdr_reader_seq:
  assumes "xdr_reader p P Q K" "xdr_reader q Q R K"
  shows "xdr_reader (xdr_seq p q) P R K"
proof
  fix xdrs v ok xdrs' v'
  assume wf: "xdr_wf xdrs" "x_op xdrs = XDR_DECODE" "P v" and r: "xdr_seq p q xdrs v = (ok, xdrs', v')"
  obtain b y u where p: "p xdrs v = (b, y, u)"
    by (rule prod_cases3)
  note m = xdr_reader.reads [OF assms(1) wf p]
  show "xdr_moves xdrs xdrs' \<and> (if ok then R v' else K v')"
  proof (cases b)
    case True
    with m r p show ?thesis
      by (intro xdr_reader_continue [OF assms(2), of _ y]) (simp_all add: wf(2) xdr_seq_def)
  qed (use m r p in \<open>simp add: xdr_seq_def\<close>)
qed

lemma xdr_reader_return: "(\<And>v. P v \<Longrightarrow> if b then Q v else K v) \<Longrightarrow> xdr_reader (\<lambda>xdrs v. (b, xdrs, v)) P Q K"
  by unfold_locales auto

lemma xdr_reader_ok: "(\<And>v. P v \<Longrightarrow> Q v) \<Longrightarrow> xdr_reader xdr_ok P Q K"
  by unfold_locales (auto simp: xdr_ok_def)

lemma xdr_reader_field:
  assumes "xdr_reader p P Q K" "\<And>r. P' r \<Longrightarrow> P (get r)" "\<And>r v. P' r \<Longrightarrow> Q v \<Longrightarrow> Q' (upd (\<lambda>_. v) r)"
    "\<And>r v. P' r \<Longrightarrow> K v \<Longrightarrow> K' (upd (\<lambda>_. v) r)"
  shows "xdr_reader (xdr_field get upd p) P' Q' K'"
proof
  fix xdrs v ok xdrs' v'
  assume wf: "xdr_wf xdrs" "x_op xdrs = XDR_DECODE" "P' v" and r: "xdr_field get upd p xdrs v = (ok, xdrs', v')"
  obtain b y u where p: "p xdrs (get v) = (b, y, u)"
    by (rule prod_cases3)
  note m = xdr_reader.reads [OF assms(1) wf(1,2) assms(2) [OF wf(3)] p]
  with r p show "xdr_moves xdrs xdrs' \<and> (if ok then Q' v' else K' v')"
    using assms(3,4) [OF wf(3)] by (auto simp: xdr_field_def split: if_splits)
qed

lemma xdr_reader_decode_unit:
  assumes "\<And>buf. xdr_reader (kont buf) Q R K" "\<And>v m. P m \<Longrightarrow> Q (upd (\<lambda>_. v) m)" "\<And>m. Q m \<Longrightarrow> K m"
  shows "xdr_reader (decode_unit get upd kont buf) P R K"
proof
  fix xdrs v ok xdrs' v'
  assume wf: "xdr_wf xdrs" "x_op xdrs = XDR_DECODE" "P v" and r: "decode_unit get upd kont buf xdrs v = (ok, xdrs', v')"
  obtain b y buf' u where g: "get_unit xdrs buf (get v) = (b, y, buf', u)"
    by (rule prod_cases4)
  have m: "xdr_moves xdrs y"
    using g wf xdr_getuint32_moves(1) [OF wf(1,2)] by (auto simp: get_unit_def split: option.splits prod.splits)
  note q = assms(2) [OF wf(3), of u]
  show "xdr_moves xdrs xdrs' \<and> (if ok then R v' else K v')"
  proof (cases b)
    case True
    with m q r g show ?thesis
      by (intro xdr_reader_continue [OF assms(1), of _ y]) (simp_all add: wf(2) decode_unit_def)
  qed (use m r g assms(3) [OF q] in \<open>auto simp: decode_unit_def\<close>)
qed

lemma xdr_reader_inline:
  assumes "\<And>buf. xdr_reader (kont buf) P Q K"
  shows "xdr_reader (\<lambda>xdrs v. case xdr_inline_decode xdrs n of (buf, xdrs) \<Rightarrow> kont buf xdrs v) P Q K"
proof
  fix xdrs v ok xdrs' v'
  assume wf: "xdr_wf xdrs" "x_op xdrs = XDR_DECODE" "P v"
    and r: "(case xdr_inline_decode xdrs n of (buf, xdrs) \<Rightarrow> kont buf xdrs v) = (ok, xdrs', v')"
  obtain buf y where i: "xdr_inline_decode xdrs n = (buf, y)"
    by (cases "xdr_inline_decode xdrs n")
  have "xdr_moves xdrs y"
    using i wf by (auto simp: xdr_inline_decode_def Let_def skip_def [symmetric] length_unread intro!: skip_moves split: if_splits)
  with r i wf show "xdr_moves xdrs xdrs' \<and> (if ok then Q v' else K v')"
    by (intro xdr_reader_continue [OF assms, of _ y]) simp_all
qed

lemma xdr_reader_choice:
  assumes "xdr_reader p (\<lambda>v. P v \<and> c v) Q K" "xdr_reader q (\<lambda>v. P v \<and> \<not> c v) Q K"
  shows "xdr_reader (\<lambda>xdrs v. if c v then p xdrs v else q xdrs v) P Q K"
proof
  fix xdrs v ok xdrs' v'
  assume wf: "xdr_wf xdrs" "x_op xdrs = XDR_DECODE" "P v" and r: "(if c v then p xdrs v else q xdrs v) = (ok, xdrs', v')"
  show "xdr_moves xdrs xdrs' \<and> (if ok then Q v' else K v')"
    using xdr_reader.reads [OF assms(1) wf(1,2), of v ok xdrs' v'] xdr_reader.reads [OF assms(2) wf(1,2), of v ok xdrs' v'] r wf(3)
    by (cases "c v") simp_all
qed

lemma xdr_reader_getuint32: "xdr_reader xdr_getuint32 P (\<lambda>_. True) (\<lambda>_. True)"
  by unfold_locales (simp add: xdr_getuint32_moves(1))

text \<open>The arrays have their 400 bytes before and after every decoding.\<close>

definition auth_room :: "opaque_auth \<Rightarrow> bool" where
  "auth_room oa \<longleftrightarrow> length (oa_body oa) = MAX_AUTH_BYTES"

lemma valid_auth_room [simp]: "valid_auth oa \<Longrightarrow> auth_room oa"
  by (simp add: valid_auth_def auth_room_def)

lemma opaque_decode_length:
  assumes "xdr_opaque_decode xdrs cp cnt = (ok, xdrs', cp')" "unat cnt \<le> length cp" "xdr_wf xdrs" "x_op xdrs = XDR_DECODE"
  shows "length cp' = length cp"
  using assms by (auto simp: xdr_opaque_decode_def xdrmem_getbytes_def Let_def length_overwrite min_def split: if_splits prod.splits bool.splits)

lemma auth_decode_it_reader: "xdr_reader xdr_opaque_auth_decode_it auth_room valid_auth auth_room"
proof
  fix xdrs v ok xdrs' v'
  assume wf: "xdr_wf xdrs" "x_op xdrs = XDR_DECODE" "auth_room v" and r: "xdr_opaque_auth_decode_it xdrs v = (ok, xdrs', v')"
  obtain b y body where d: "xdr_opaque_decode xdrs (oa_body v) (oa_length v) = (b, y, body)"
    by (rule prod_cases3)
  have "xdr_moves xdrs y"
    using xdr_opaque_decode_moves [OF wf(1,2), of "oa_body v" "oa_length v"] d by simp
  moreover have "length body = length (oa_body v)" if "unat (oa_length v) \<le> MAX_AUTH_BYTES"
    using opaque_decode_length [OF d] that wf by (simp add: auth_room_def)
  ultimately show "xdr_moves xdrs xdrs' \<and> (if ok then valid_auth v' else auth_room v')"
    using r d wf by (auto simp: xdr_opaque_auth_decode_it_def auth_room_def valid_auth_def split: if_splits)
qed

lemma xdr_reader_pre: "xdr_reader p P Q K \<Longrightarrow> (\<And>v. P' v \<Longrightarrow> P v) \<Longrightarrow> xdr_reader p P' Q K"
  unfolding xdr_reader_def by blast

lemma auth_decode_reader: "xdr_reader (xdr_opaque_auth_decode buf) auth_room valid_auth auth_room"
  unfolding xdr_opaque_auth_decode_def
  by (rule xdr_reader_decode_unit [where Q = auth_room], rule xdr_reader_decode_unit [where Q = auth_room], rule xdr_reader_choice,
      rule xdr_reader_pre [OF auth_decode_it_reader], simp, rule xdr_reader_return)
     (simp_all add: auth_room_def valid_auth_def)

definition msg_room :: "rpc_msg \<Rightarrow> bool" where
  "msg_room m \<longleftrightarrow> auth_room (cb_cred m) \<and> auth_room (cb_verf m) \<and> auth_room (ar_verf (rp_acpt m))"

definition msg_wf :: "rpc_msg \<Rightarrow> bool" where
  "msg_wf m \<longleftrightarrow> msg_room m \<and>
     (rm_direction m = CALL \<and> valid_call m \<or>
      rm_direction m = REPLY \<and> (rp_stat m = MSG_ACCEPTED \<and> valid_auth (ar_verf (rp_acpt m)) \<or> rp_stat m = MSG_DENIED))"

lemma call_decode_reader: "xdr_reader (xdr_call_decode buf) (\<lambda>m. msg_room m \<and> rm_direction m = CALL) msg_wf msg_room"
proof -
  let ?P = "\<lambda>m. msg_room m \<and> rm_direction m = CALL"
  let ?R = "\<lambda>m. msg_room m \<and> rm_direction m = CALL \<and> cb_rpcvers m = RPC_MSG_VERSION"
  have a: "xdr_reader (xdr_all [xdr_field cb_cred cb_cred_update (xdr_opaque_auth_decode buf),
      xdr_field cb_verf cb_verf_update (xdr_opaque_auth_decode None)]) ?R msg_wf msg_room" for buf
    unfolding xdr_all.simps
    by (rule xdr_reader_seq [where Q = "\<lambda>m. ?R m \<and> valid_auth (cb_cred m)"], rule xdr_reader_field [OF auth_decode_reader])
       (simp_all add: msg_room_def,
        rule xdr_reader_seq [where Q = "\<lambda>m. ?R m \<and> valid_auth (cb_cred m) \<and> valid_auth (cb_verf m)"],
        rule xdr_reader_field [OF auth_decode_reader], simp_all add: msg_room_def, rule xdr_reader_ok,
        simp add: msg_room_def msg_wf_def valid_call_def)
  show ?thesis
    unfolding xdr_call_decode_def
    by (rule xdr_reader_decode_unit [where Q = ?P], rule xdr_reader_choice, rule xdr_reader_return, simp,
        rule xdr_reader_decode_unit [where Q = ?R], rule xdr_reader_decode_unit [where Q = ?R], rule xdr_reader_inline,
        rule xdr_reader_decode_unit [where Q = ?R], rule a) (simp_all add: msg_room_def)
qed

lemma xdr_reader_any_field:
  "xdr_reader p (\<lambda>_. True) (\<lambda>_. True) (\<lambda>_. True) \<Longrightarrow> xdr_reader (xdr_field get upd p) P (\<lambda>_. True) (\<lambda>_. True)"
  by (rule xdr_reader_field) simp_all

lemma versions_reader:
  "xdr_reader (xdr_seq (xdr_field vers_low vers_low_update xdr_getuint32) (xdr_field vers_high vers_high_update xdr_getuint32))
     P (\<lambda>_. True) (\<lambda>_. True)"
  by (intro xdr_reader_seq [where Q = "\<lambda>_. True"] xdr_reader_any_field xdr_reader_getuint32)

lemma accepted_decode_reader:
  "xdr_reader (xdr_accepted_decode buf) (\<lambda>a. auth_room (ar_verf a)) (\<lambda>a. valid_auth (ar_verf a)) (\<lambda>a. auth_room (ar_verf a))"
proof -
  let ?Q = "\<lambda>a. valid_auth (ar_verf a)" and ?K = "\<lambda>a. auth_room (ar_verf a)"
  have e: "xdr_getenum = xdr_getuint32"
    by (rule ext)+ (simp add: xdr_getenum_def xdr_getint32_def)
  have "xdr_reader (xdr_switch ar_stat (\<lambda>stat. if stat = PROG_MISMATCH then xdr_field ar_vers ar_vers_update
      (xdr_seq (xdr_field vers_low vers_low_update xdr_getuint32) (xdr_field vers_high vers_high_update xdr_getuint32))
      else xdr_ok)) ?Q ?Q ?K"
    unfolding xdr_switch_def if_distribR
    by (rule xdr_reader_choice, rule xdr_reader_field [OF versions_reader [of "\<lambda>_. True"]], simp_all) (rule xdr_reader_ok, simp)
  then show ?thesis
    unfolding xdr_accepted_decode_def e
    by (intro xdr_reader_seq [where Q = ?Q] xdr_reader_field [OF auth_decode_reader]
        xdr_reader_field [OF xdr_reader_getuint32, of _ "\<lambda>_. True"]) simp_all
qed

lemma rejected_decode_reader: "xdr_reader (xdr_rejected_decode buf) P (\<lambda>_. True) (\<lambda>_. True)"
proof -
  have u: "xdr_reader (decode_unit get upd kont buf) P' (\<lambda>_. True) (\<lambda>_. True)"
    if "\<And>buf. xdr_reader (kont buf) (\<lambda>_. True) (\<lambda>_. True) (\<lambda>_. True)"
    for get upd buf P' and kont :: "nat option \<Rightarrow> rejected_reply xdrproc"
    by (rule xdr_reader_decode_unit [OF that]) simp_all
  show ?thesis
    unfolding xdr_rejected_decode_def
    by (rule u, rule xdr_reader_choice, rule u, rule xdr_reader_any_field, rule xdr_reader_any_field, rule xdr_reader_getuint32,
        rule xdr_reader_choice, rule u, rule xdr_reader_ok, simp, rule xdr_reader_return, simp)
qed

lemma reply_decode_reader: "xdr_reader (xdr_reply_decode buf) (\<lambda>m. msg_room m \<and> rm_direction m = REPLY) msg_wf msg_room"
proof -
  let ?P = "\<lambda>m. msg_room m \<and> rm_direction m = REPLY"
  have "xdr_reader (xdr_field rp_acpt rp_acpt_update (xdr_accepted_decode buf)) (\<lambda>m. ?P m \<and> rp_stat m = MSG_ACCEPTED) msg_wf msg_room" for buf
    by (rule xdr_reader_field [OF accepted_decode_reader]) (simp_all add: msg_room_def msg_wf_def)
  moreover have "xdr_reader (xdr_field rp_rjct rp_rjct_update (xdr_rejected_decode buf))
      (\<lambda>m. (?P m \<and> rp_stat m \<noteq> MSG_ACCEPTED) \<and> rp_stat m = MSG_DENIED) msg_wf msg_room" for buf
    by (rule xdr_reader_field [OF rejected_decode_reader [where P = "\<lambda>_. True"]]) (simp_all add: msg_room_def msg_wf_def)
  ultimately show ?thesis
    unfolding xdr_reply_decode_def
    by (intro xdr_reader_decode_unit [where Q = ?P] xdr_reader_choice xdr_reader_return) (simp_all add: msg_room_def)
qed

lemma dplx_decode_body_reader: "xdr_reader (dplx_decode_body buf) msg_room msg_wf msg_room"
  unfolding dplx_decode_body_def
  by (rule xdr_reader_decode_unit [where Q = msg_room], rule xdr_reader_decode_unit [where Q = msg_room], rule xdr_reader_choice,
      rule call_decode_reader, rule xdr_reader_choice, rule xdr_reader_pre [OF reply_decode_reader], simp, rule xdr_reader_return)
     (simp_all add: msg_room_def)

interpretation message: xdr_reader xdr_dplx_decode msg_room msg_wf msg_room
  unfolding xdr_dplx_decode_def by (rule xdr_reader_inline [OF dplx_decode_body_reader])

section \<open>A sample message\<close>

definition sample_auth :: opaque_auth where
  "sample_auth = \<lparr>oa_flavor = AUTH_NONE, oa_length = 0, oa_body = replicate 400 0\<rparr>"

definition sample_msg :: "uint32 \<Rightarrow> uint32 \<Rightarrow> rpc_msg" where
  "sample_msg prog proc =
     \<lparr>cb_prog = prog, cb_vers = 3, cb_proc = proc, cb_cred = sample_auth, cb_verf = sample_auth, rm_xid = 7, rm_direction = CALL,
      cb_rpcvers = 2, rp_stat = 0,
      rp_acpt = \<lparr>ar_stat = 0, ar_vers = \<lparr>vers_low = 0, vers_high = 0\<rparr>, ar_results = (\<lambda>xdrs. (True, xdrs)), ar_verf = sample_auth\<rparr>,
      rp_rjct = \<lparr>rj_stat = 0, rj_vers = \<lparr>vers_low = 0, vers_high = 0\<rparr>, rj_why = 0\<rparr>\<rparr>"

lemma sample_auth_valid [simp]: "valid_auth sample_auth" "auth_room sample_auth" "oa_flavor sample_auth = AUTH_NONE"
  by (simp_all add: sample_auth_def valid_auth_def auth_room_def nfs_consts)

lemma sample_msg_fields [simp]:
  "cb_cred (sample_msg prog proc) = sample_auth" "cb_verf (sample_msg prog proc) = sample_auth" "cb_prog (sample_msg prog proc) = prog"
  "cb_vers (sample_msg prog proc) = 3" "cb_proc (sample_msg prog proc) = proc" "rm_xid (sample_msg prog proc) = 7"
  "rm_direction (sample_msg prog proc) = CALL"
  by (simp_all add: sample_msg_def)

lemma sample_msg_valid [simp]: "valid_call (sample_msg prog proc)"
  by (simp add: valid_call_def) (simp add: sample_msg_def nfs_consts)

section \<open>Correctness of the decoding\<close>



text \<open>
  C24: the two ways of reading a message agree, for every buffer: whether the header is reserved and
  read through a pointer or unit by unit, the verdict and the message are the same, and so is
  the rest of the stream when the message is accepted, except behind a denied reply whose reason is
  unknown.
\<close>

theorem decode_paths_agree:
  assumes "xdr_wf xdrs" "x_op xdrs = XDR_DECODE"
  shows "case (xdr_dplx_decode xdrs w, dplx_decode_body None xdrs w) of ((ok, xdrs', m), (ok', ys, m')) \<Rightarrow>
    ok = ok' \<and> m = m' \<and>
    (ok \<longrightarrow> xdrs' = ys \<or>
      rm_direction m = REPLY \<and> rp_stat m = MSG_DENIED \<and> rj_stat (rp_rjct m) \<noteq> RPC_MISMATCH \<and> rj_stat (rp_rjct m) \<noteq> AUTH_ERROR)"
proof (cases "20 \<le> length (unread xdrs)")
  case True
  show ?thesis
    using dplx_decode_long [OF assms True, of w] by (auto simp: paths_agree_def reply_known_def split: prod.splits)
next
  case False
  then show ?thesis
    using dplx_decode_short [OF assms(1), of w] by (simp split: prod.splits)
qed

theorem decode_paths_agree_witness:
  "\<exists>d. xdrmem_ncreate 0 (replicate 24 0) 24 XDR_DECODE = Some d \<and>
     fst (xdr_dplx_decode d (sample_msg 0 0)) = fst (dplx_decode_body None d (sample_msg 0 0))"
proof -
  obtain d where d: "xdrmem_ncreate 0 (replicate 24 0) 24 XDR_DECODE = Some d"
    by (simp add: xdrmem_ncreate_def)
  have "xdr_wf d" "x_op d = XDR_DECODE"
    using d by (auto simp: xdrmem_ncreate_def xdr_wf_def)
  from decode_paths_agree [OF this, of "sample_msg 0 0"] d show ?thesis
    by (auto split: prod.splits)
qed

end
