(* ===== verification/Rpc_Wire.thy ===== *)
theory Rpc_Wire
  imports Rpc_Read
begin

text \<open>
  The format of RPC messages, and that the routines on both sides implement it: what is encoded is
  decoded again, up to what the client reports for the reply of the server.
\<close>

section \<open>The format of a message\<close>

text \<open>
  The bytes that pad a body to a multiple of four are not zeroed by the inline path: they are
  what the buffer held.  The format therefore leaves them open.
\<close>

definition wire_units :: "uint32 list \<Rightarrow> byte list" where
  "wire_units us = concat (map htonl_bytes us)"

definition auth_body :: "opaque_auth \<Rightarrow> byte list" where
  "auth_body oa = take (unat (oa_length oa)) (oa_body oa)"

definition wire_auth :: "opaque_auth \<Rightarrow> byte list \<Rightarrow> byte list" where
  "wire_auth oa pad = wire_units [oa_flavor oa, oa_length oa] @ auth_body oa @ pad"

definition pads :: "opaque_auth \<Rightarrow> byte list \<Rightarrow> bool" where
  "pads oa pad \<longleftrightarrow> length pad = pad_len (unat (oa_length oa))"

lemma length_wire_units [simp]: "length (wire_units us) = 4 * length us"
  by (induction us) (simp_all add: wire_units_def)

lemma wire_units_append: "wire_units (us @ vs) = wire_units us @ wire_units vs"
  by (simp add: wire_units_def)

lemma wire_units_Nil [simp]: "wire_units [] = []"
  by (simp add: wire_units_def)

lemma wire_units_Cons: "wire_units (u # us) = htonl_bytes u @ wire_units us"
  by (simp add: wire_units_def)

lemma length_auth_body [simp]: "valid_auth oa \<Longrightarrow> length (auth_body oa) = unat (oa_length oa)"
  by (simp add: auth_body_def valid_auth_def)

lemma length_wire_auth [simp]:
  "valid_auth oa \<Longrightarrow> pads oa pad \<Longrightarrow> length (wire_auth oa pad) = 8 + unat (RNDUP (oa_length oa))"
  using unat_RNDUP [of "oa_length oa"] by (simp add: wire_auth_def pads_def valid_auth_def nfs_consts auth_body_def)

section \<open>What the encoding routines write\<close>

lemma put_unit:
  "p + (length w + 4) \<le> length b \<Longrightarrow>
   IXDR_PUT_INT32 v (overwrite p w b, p + length w) = (overwrite p (w @ htonl_bytes v) b, p + length (w @ htonl_bytes v))"
  using overwrite_append [of p w "htonl_bytes v" b] by (simp add: IXDR_PUT_INT32_def BYTES_PER_XDR_UNIT_def)

lemma put_units_fold:
  "p + (length w + 4 * length us) \<le> length b \<Longrightarrow>
   fold IXDR_PUT_INT32 us (overwrite p w b, p + length w) = (overwrite p (w @ wire_units us) b, p + length (w @ wire_units us))"
proof (induction us arbitrary: w)
  case (Cons u us)
  have "p + (length w + 4) \<le> length b"
    using Cons.prems by simp
  note p = put_unit [OF this, of u]
  show ?case
    unfolding fold.simps o_apply p using Cons.IH [of "w @ htonl_bytes u"] Cons.prems by (simp add: wire_units_Cons)
qed simp

text \<open>What is skipped stays.\<close>

lemma overwrite_keep:
  "p + length w + n \<le> length b \<Longrightarrow> overwrite p w b = overwrite p (w @ take n (drop (p + length w) b)) b"
proof -
  assume "p + length w + n \<le> length b"
  then have "length (take n (drop (p + length w) b)) = n"
    by simp
  moreover have "drop (p + length w) b = take n (drop (p + length w) b) @ drop (p + (length w + n)) b"
    by (metis append_take_drop_id drop_drop add.assoc add.commute)
  ultimately show ?thesis
    unfolding overwrite_def by simp
qed

lemma put_auth:
  assumes "valid_auth oa" "p + (length w + 8 + unat (RNDUP (oa_length oa))) \<le> length b"
  obtains pad where "pads oa pad"
    "put_auth oa (overwrite p w b, p + length w) = (overwrite p (w @ wire_auth oa pad) b, p + length (w @ wire_auth oa pad))"
proof -
  define w1 where "w1 = w @ wire_units [oa_flavor oa, oa_length oa]"
  have n: "unat (RNDUP (oa_length oa)) = unat (oa_length oa) + pad_len (unat (oa_length oa))"
    using assms(1) by (intro unat_RNDUP) (simp add: valid_auth_def nfs_consts)
  have l: "length w1 = length w + 8"
    by (simp add: w1_def)
  have f: "fold IXDR_PUT_INT32 [oa_flavor oa, oa_length oa] (overwrite p w b, p + length w) = (overwrite p w1 b, p + length w1)"
    using put_units_fold [of p w "[oa_flavor oa, oa_length oa]" b] assms(2) by (simp add: w1_def)
  define pad where "pad = take (pad_len (unat (oa_length oa))) (drop (p + length (w1 @ auth_body oa)) b)"
  have "length pad = pad_len (unat (oa_length oa))"
    using assms l n by (simp add: pad_def)
  moreover have "overwrite (p + length w1) (auth_body oa) (overwrite p w1 b) = overwrite p ((w1 @ auth_body oa) @ pad) b"
    using overwrite_append [of p w1 "auth_body oa" b] assms l n
      overwrite_keep [of p "w1 @ auth_body oa" "pad_len (unat (oa_length oa))" b] by (simp add: pad_def)
  moreover have "auth_body oa = []" "pad = []" if "oa_length oa = 0"
    using that by (simp_all add: auth_body_def pad_def)
  ultimately have "put_auth oa (overwrite p w b, p + length w) = (overwrite p (w1 @ auth_body oa @ pad) b, p + length (w1 @ auth_body oa @ pad))"
    unfolding put_auth_def f put_body_def fst_conv snd_conv auth_body_def [symmetric]
    using n assms(1) by (cases "oa_length oa = 0") simp_all
  then show thesis
    using that [of pad] \<open>length pad = _\<close> by (simp add: pads_def wire_auth_def w1_def)
qed

definition wire_call :: "rpc_msg \<Rightarrow> byte list \<Rightarrow> byte list \<Rightarrow> byte list" where
  "wire_call m pc pv =
     wire_units [rm_xid m, rm_direction m, cb_rpcvers m, cb_prog m, cb_vers m, cb_proc m] @
     wire_auth (cb_cred m) pc @ wire_auth (cb_verf m) pv"

definition wire_reply :: "rpc_msg \<Rightarrow> byte list \<Rightarrow> byte list" where
  "wire_reply m pad =
     wire_units [rm_xid m, rm_direction m, rp_stat m] @
     (if rp_stat m = MSG_ACCEPTED
      then wire_auth (ar_verf (rp_acpt m)) pad @ wire_units [ar_stat (rp_acpt m)] @
        (if ar_stat (rp_acpt m) = PROG_MISMATCH
         then wire_units [vers_low (ar_vers (rp_acpt m)), vers_high (ar_vers (rp_acpt m))] else [])
      else wire_units [rj_stat (rp_rjct m)] @
        (if rj_stat (rp_rjct m) = RPC_MISMATCH
         then wire_units [vers_low (rj_vers (rp_rjct m)), vers_high (rj_vers (rp_rjct m))]
         else wire_units [rj_why (rp_rjct m)]))"

definition valid_reply :: "rpc_msg \<Rightarrow> bool" where
  "valid_reply m \<longleftrightarrow> rm_direction m = REPLY \<and>
     (rp_stat m = MSG_ACCEPTED \<and> valid_auth (ar_verf (rp_acpt m)) \<or>
      rp_stat m = MSG_DENIED \<and> (rj_stat (rp_rjct m) = RPC_MISMATCH \<or> rj_stat (rp_rjct m) = AUTH_ERROR))"

definition call_size :: "rpc_msg \<Rightarrow> nat" where
  "call_size m = 40 + unat (RNDUP (oa_length (cb_cred m))) + unat (RNDUP (oa_length (cb_verf m)))"

definition reply_size :: "rpc_msg \<Rightarrow> nat" where
  "reply_size m =
     (if rp_stat m = MSG_ACCEPTED
      then 24 + unat (RNDUP (oa_length (ar_verf (rp_acpt m)))) + (if ar_stat (rp_acpt m) = PROG_MISMATCH then 8 else 0)
      else if rj_stat (rp_rjct m) = RPC_MISMATCH then 24 else 20)"

lemma length_wire_call: "valid_call m \<Longrightarrow> pads (cb_cred m) pc \<Longrightarrow> pads (cb_verf m) pv \<Longrightarrow> length (wire_call m pc pv) = call_size m"
  by (simp add: wire_call_def call_size_def valid_call_def)

lemma length_wire_reply:
  "valid_reply m \<Longrightarrow> (rp_stat m = MSG_ACCEPTED \<Longrightarrow> pads (ar_verf (rp_acpt m)) pad) \<Longrightarrow> length (wire_reply m pad) = reply_size m"
  by (auto simp: wire_reply_def reply_size_def valid_reply_def nfs_consts)

lemma tail_update_select [simp]:
  "x_buf (xdr_tail_update xdrs) = x_buf xdrs" "x_data (xdr_tail_update xdrs) = x_data xdrs"
  "x_op (xdr_tail_update xdrs) = x_op xdrs" "xv_wrap (xdr_tail_update xdrs) = xv_wrap xdrs"
  "room (xdr_tail_update xdrs) = room xdrs"
  by (simp_all add: xdr_tail_update_def room_def)

lemma tail_update_wf: "xdr_wf xdrs \<Longrightarrow> xdr_wf (xdr_tail_update xdrs)"
  by (auto simp: xdr_tail_update_def xdr_wf_def)

lemma emit_emit_tail:
  assumes "xdr_wf xdrs" "length (as @ bs) \<le> room xdrs"
  shows "xdr_tail_update (emit bs (xdr_tail_update (emit as xdrs))) = xdr_tail_update (emit (as @ bs) xdrs)"
  unfolding emit_emit [OF assms, symmetric] by (auto simp: xdr_tail_update_def emit_def)

lemma inline_encode_reserve:
  assumes "xdr_wf xdrs" "n = length w" "n \<le> room xdrs"
  shows "\<exists>s. xdr_inline_encode xdrs n = (Some (x_data xdrs), s) \<and> x_buf s = x_buf xdrs \<and>
    s\<lparr>x_buf := overwrite (x_data xdrs) w (x_buf xdrs)\<rparr> = xdr_tail_update (emit w xdrs)"
  using assms by (auto simp: xdr_inline_encode_def Let_def room_def xdr_wf_def xdr_tail_update_def emit_def)

lemma put_units_emit:
  assumes "xdr_wf xdrs" "4 * length us \<le> room xdrs"
  shows "put_units us xdrs = (True, xdr_tail_update (emit (wire_units us) xdrs))"
proof -
  obtain s where "xdr_inline_encode xdrs (4 * length us) = (Some (x_data xdrs), s)" "x_buf s = x_buf xdrs"
    "s\<lparr>x_buf := overwrite (x_data xdrs) (wire_units us) (x_buf xdrs)\<rparr> = xdr_tail_update (emit (wire_units us) xdrs)"
    using inline_encode_reserve [OF assms(1), of "4 * length us" "wire_units us"] assms by auto
  moreover have "fst (fold IXDR_PUT_INT32 us (x_buf xdrs, x_data xdrs)) = overwrite (x_data xdrs) (wire_units us) (x_buf xdrs)"
    using put_units_fold [of "x_data xdrs" "[]" us "x_buf xdrs"] assms by (auto simp: room_def xdr_wf_def)
  ultimately show ?thesis
    by (simp add: put_units_def BYTES_PER_XDR_UNIT_def mult.commute)
qed

lemma call_encode_wire:
  assumes "xdr_wf xdrs" "valid_call m" "call_size m \<le> room xdrs"
  obtains pc pv where "pads (cb_cred m) pc" "pads (cb_verf m) pv"
    "xdr_call_encode xdrs m = (True, xdr_tail_update (emit (wire_call m pc pv) xdrs))"
proof -
  let ?us = "[rm_xid m, rm_direction m, cb_rpcvers m]" and ?vs = "[cb_prog m, cb_vers m, cb_proc m]"
  let ?p = "x_data xdrs" and ?b = "x_buf xdrs"
  have v: "valid_auth (cb_cred m)" "valid_auth (cb_verf m)" "cb_rpcvers m = RPC_MSG_VERSION"
    using assms(2) by (simp_all add: valid_call_def)
  have len: "?p + call_size m \<le> length ?b"
    using assms(1,3) by (auto simp: room_def xdr_wf_def)
  have w1: "fold IXDR_PUT_INT32 ?us (?b, ?p) = (overwrite ?p (wire_units ?us) ?b, ?p + length (wire_units ?us))"
    using put_units_fold [of ?p "[]" ?us ?b] len by (simp add: call_size_def)
  have w2: "fold IXDR_PUT_INT32 ?vs (overwrite ?p (wire_units ?us) ?b, ?p + length (wire_units ?us)) =
      (overwrite ?p (wire_units (?us @ ?vs)) ?b, ?p + length (wire_units (?us @ ?vs)))"
    using put_units_fold [of ?p "wire_units ?us" ?vs ?b] len unfolding wire_units_append by (simp add: call_size_def)
  obtain pc where pc: "pads (cb_cred m) pc"
    "put_auth (cb_cred m) (overwrite ?p (wire_units (?us @ ?vs)) ?b, ?p + length (wire_units (?us @ ?vs))) =
     (overwrite ?p (wire_units (?us @ ?vs) @ wire_auth (cb_cred m) pc) ?b, ?p + length (wire_units (?us @ ?vs) @ wire_auth (cb_cred m) pc))"
    using put_auth [OF v(1), of ?p "wire_units (?us @ ?vs)" ?b] len by (auto simp: call_size_def)
  obtain pv where pv: "pads (cb_verf m) pv"
    "put_auth (cb_verf m) (overwrite ?p (wire_units (?us @ ?vs) @ wire_auth (cb_cred m) pc) ?b, ?p + length (wire_units (?us @ ?vs) @ wire_auth (cb_cred m) pc)) =
     (overwrite ?p ((wire_units (?us @ ?vs) @ wire_auth (cb_cred m) pc) @ wire_auth (cb_verf m) pv) ?b,
      ?p + length ((wire_units (?us @ ?vs) @ wire_auth (cb_cred m) pc) @ wire_auth (cb_verf m) pv))"
    using put_auth [OF v(2), of ?p "wire_units (?us @ ?vs) @ wire_auth (cb_cred m) pc" ?b] len v(1) pc(1) by (auto simp: call_size_def)
  have w: "(wire_units (?us @ ?vs) @ wire_auth (cb_cred m) pc) @ wire_auth (cb_verf m) pv = wire_call m pc pv"
    by (simp add: wire_call_def)
  obtain s where s: "xdr_inline_encode xdrs (call_size m) = (Some ?p, s)" "x_buf s = ?b"
    "s\<lparr>x_buf := overwrite ?p (wire_call m pc pv) ?b\<rparr> = xdr_tail_update (emit (wire_call m pc pv) xdrs)"
    using inline_encode_reserve [OF assms(1), of "call_size m" "wire_call m pc pv"] length_wire_call [OF assms(2) pc(1) pv(1)] assms(3) by auto
  have n: "8 * BYTES_PER_XDR_UNIT + unat (RNDUP (oa_length (cb_cred m))) + 2 * BYTES_PER_XDR_UNIT + unat (RNDUP (oa_length (cb_verf m))) = call_size m"
    by (simp add: call_size_def BYTES_PER_XDR_UNIT_def)
  have "xdr_call_encode xdrs m = (True, xdr_tail_update (emit (wire_call m pc pv) xdrs))"
    unfolding xdr_call_encode_def n s(1) option.case prod.case Let_def s(2) w1 w2 pc(2) pv(2) w fst_conv
    using v s(3) by (simp add: valid_auth_def)
  with pc(1) pv(1) that show thesis
    by blast
qed

lemma reply_header_wire:
  assumes "xdr_wf xdrs" "valid_auth oa" "n = 24 + unat (RNDUP (oa_length oa))" "n \<le> room xdrs"
  obtains pad where "pads oa pad"
    "\<exists>s. xdr_inline_encode xdrs n = (Some (x_data xdrs), s) \<and>
      s\<lparr>x_buf := fst (IXDR_PUT_INT32 stat (put_auth oa (fold IXDR_PUT_INT32 [a, b, c] (x_buf s, x_data xdrs))))\<rparr> =
      xdr_tail_update (emit (wire_units [a, b, c] @ wire_auth oa pad @ wire_units [stat]) xdrs)"
proof -
  let ?p = "x_data xdrs" and ?b = "x_buf xdrs" and ?us = "wire_units [a, b, c]"
  have len: "?p + n \<le> length ?b"
    using assms(1,4) by (auto simp: room_def xdr_wf_def)
  have w1: "fold IXDR_PUT_INT32 [a, b, c] (?b, ?p) = (overwrite ?p ?us ?b, ?p + length ?us)"
    using put_units_fold [of ?p "[]" "[a, b, c]" ?b] len assms(3) by simp
  obtain pad where pad: "pads oa pad"
    "put_auth oa (overwrite ?p ?us ?b, ?p + length ?us) = (overwrite ?p (?us @ wire_auth oa pad) ?b, ?p + length (?us @ wire_auth oa pad))"
    using put_auth [OF assms(2), of ?p ?us ?b] len assms(3) by auto
  have w2: "IXDR_PUT_INT32 stat (overwrite ?p (?us @ wire_auth oa pad) ?b, ?p + length (?us @ wire_auth oa pad)) =
      (overwrite ?p ((?us @ wire_auth oa pad) @ htonl_bytes stat) ?b, ?p + length ((?us @ wire_auth oa pad) @ htonl_bytes stat))"
    using len assms(2,3) pad(1) by (intro put_unit) simp
  obtain s where "xdr_inline_encode xdrs n = (Some ?p, s)" "x_buf s = ?b"
    "s\<lparr>x_buf := overwrite ?p (?us @ wire_auth oa pad @ wire_units [stat]) ?b\<rparr> =
      xdr_tail_update (emit (?us @ wire_auth oa pad @ wire_units [stat]) xdrs)"
    using inline_encode_reserve [OF assms(1), of n "?us @ wire_auth oa pad @ wire_units [stat]"] assms(2-4) pad(1) by auto
  with w1 w2 pad that show thesis
    by (simp add: wire_units_Cons)
qed

lemma reply_encode_accepted:
  assumes "xdr_wf xdrs" "x_op xdrs = XDR_ENCODE" "valid_reply m" "reply_size m \<le> room xdrs" "rp_stat m = MSG_ACCEPTED"
  obtains pad where "pads (ar_verf (rp_acpt m)) pad"
    "xdr_reply_encode xdrs m = (True, xdr_tail_update (emit (wire_reply m pad) xdrs))"
proof -
  let ?oa = "ar_verf (rp_acpt m)" and ?stat = "ar_stat (rp_acpt m)"
  let ?n = "24 + unat (RNDUP (oa_length ?oa))"
  have v: "valid_auth ?oa"
    using assms(3) assms(5) by (simp add: valid_reply_def nfs_consts)
  have n: "6 * BYTES_PER_XDR_UNIT + unat (RNDUP (oa_length ?oa)) = ?n" "?n \<le> room xdrs"
    using assms(4) assms(5) by (simp_all add: reply_size_def BYTES_PER_XDR_UNIT_def)
  obtain pad s where pad: "pads ?oa pad" and s: "xdr_inline_encode xdrs ?n = (Some (x_data xdrs), s)"
    "s\<lparr>x_buf := fst (IXDR_PUT_INT32 ?stat (put_auth ?oa (fold IXDR_PUT_INT32 [rm_xid m, rm_direction m, rp_stat m] (x_buf s, x_data xdrs))))\<rparr> =
      xdr_tail_update (emit (wire_units [rm_xid m, rm_direction m, rp_stat m] @ wire_auth ?oa pad @ wire_units [?stat]) xdrs)"
    using reply_header_wire [OF assms(1) v refl n(2)] by metis
  define h where "h = wire_units [rm_xid m, rm_direction m, rp_stat m] @ wire_auth ?oa pad @ wire_units [?stat]"
  have h: "length h = ?n"
    using v pad by (simp add: h_def)
  have wf: "xdr_wf (xdr_tail_update (emit h xdrs))"
    using assms(1,2) n(2) h by (intro tail_update_wf emit_wf) simp_all
  let ?vs = "[vers_low (ar_vers (rp_acpt m)), vers_high (ar_vers (rp_acpt m))]"
  have "put_units ?vs (xdr_tail_update (emit h xdrs)) = (True, xdr_tail_update (emit (h @ wire_units ?vs) xdrs))"
    if "?stat = PROG_MISMATCH"
    using put_units_emit [OF wf, of ?vs] emit_emit_tail [OF assms(1), of h "wire_units ?vs"] that assms(5) assms(4) h
    by (simp add: reply_size_def)
  moreover have "xdr_reply_encode xdrs m =
      (if ?stat = PROG_MISMATCH then put_units ?vs (xdr_tail_update (emit h xdrs)) else (True, xdr_tail_update (emit h xdrs)))"
    unfolding xdr_reply_encode_def Let_def n(1) s(1) option.case prod.case s(2) h_def
    using assms(5) v by (simp add: valid_auth_def)
  moreover have "wire_reply m pad = h @ (if ?stat = PROG_MISMATCH then wire_units ?vs else [])"
    using assms(5) by (simp add: wire_reply_def h_def)
  ultimately have "xdr_reply_encode xdrs m = (True, xdr_tail_update (emit (wire_reply m pad) xdrs))"
    by simp
  with pad that show thesis
    by blast
qed

lemma reply_encode_denied:
  assumes "xdr_wf xdrs" "x_op xdrs = XDR_ENCODE" "valid_reply m" "reply_size m \<le> room xdrs" "rp_stat m \<noteq> MSG_ACCEPTED"
  shows "xdr_reply_encode xdrs m = (True, xdr_tail_update (emit (wire_reply m []) xdrs))"
proof -
  let ?h = "[rm_xid m, rm_direction m, rp_stat m]"
  define us where "us = (if rj_stat (rp_rjct m) = RPC_MISMATCH
    then [rj_stat (rp_rjct m), vers_low (rj_vers (rp_rjct m)), vers_high (rj_vers (rp_rjct m))]
    else [rj_stat (rp_rjct m), rj_why (rp_rjct m)])"
  have d: "rp_stat m = MSG_DENIED" "rj_stat (rp_rjct m) = RPC_MISMATCH \<or> rj_stat (rp_rjct m) = AUTH_ERROR"
    using assms(3) assms(5) by (auto simp: valid_reply_def)
  have w: "wire_reply m [] = wire_units ?h @ wire_units us"
    using assms(5) by (simp add: wire_reply_def us_def wire_units_Cons)
  have l: "12 + 4 * length us \<le> room xdrs"
    using assms(4) assms(5) by (auto simp: reply_size_def us_def split: if_splits)
  have wf: "xdr_wf (xdr_tail_update (emit (wire_units ?h) xdrs))"
    using assms(1,2) l by (intro tail_update_wf emit_wf) simp_all
  have "xdr_reply_encode xdrs m = put_units us (xdr_tail_update (emit (wire_units ?h) xdrs))"
    using assms(5) d put_units_emit [OF assms(1), of ?h] l by (auto simp: xdr_reply_encode_def us_def nfs_consts Let_def)
  also have "\<dots> = (True, xdr_tail_update (emit (wire_reply m []) xdrs))"
    using put_units_emit [OF wf, of us] emit_emit_tail [OF assms(1), of "wire_units ?h" "wire_units us"] l by (simp add: w)
  finally show ?thesis .
qed

lemma reply_encode_wire:
  assumes "xdr_wf xdrs" "x_op xdrs = XDR_ENCODE" "valid_reply m" "reply_size m \<le> room xdrs"
  obtains pad where "rp_stat m = MSG_ACCEPTED \<Longrightarrow> pads (ar_verf (rp_acpt m)) pad"
    "xdr_reply_encode xdrs m = (True, xdr_tail_update (emit (wire_reply m pad) xdrs))"
  using reply_encode_accepted [OF assms] reply_encode_denied [OF assms] by metis

section \<open>What the decoding routines read\<close>

text \<open>The field after a value has been received into it: the array keeps its bytes behind the body.\<close>

definition recv_auth :: "opaque_auth \<Rightarrow> opaque_auth \<Rightarrow> opaque_auth" where
  "recv_auth oa w = w\<lparr>oa_flavor := oa_flavor oa, oa_length := oa_length oa, oa_body := overwrite 0 (auth_body oa) (oa_body w)\<rparr>"

lemma recv_auth_body: "valid_auth oa \<Longrightarrow> auth_body (recv_auth oa w) = auth_body oa"
  by (simp add: recv_auth_def auth_body_def overwrite_def valid_auth_def min_def)

lemma recv_auth_valid: "valid_auth oa \<Longrightarrow> length (oa_body w) = MAX_AUTH_BYTES \<Longrightarrow> valid_auth (recv_auth oa w)"
  by (simp add: recv_auth_def valid_auth_def)

lemma recv_auth_full:
  "valid_auth oa \<Longrightarrow> length (oa_body w) = MAX_AUTH_BYTES \<Longrightarrow> oa_length oa = of_nat MAX_AUTH_BYTES \<Longrightarrow> recv_auth oa w = oa"
  by (simp add: recv_auth_def valid_auth_def auth_body_def overwrite_def nfs_consts)

lemma decode_unit_None:
  assumes "xdr_wf xdrs" "unread xdrs = htonl_bytes v @ rest"
  shows "decode_unit get upd kont None xdrs m = kont None (skip 4 xdrs) (upd (\<lambda>_. v) m)"
proof -
  have "4 \<le> length (unread xdrs)"
    using assms(2) by simp
  moreover have "IXDR_GET_U_INT32 xdrs (x_data xdrs) = v"
    using ntohl_unread [OF assms(2)] by (simp add: IXDR_GET_U_INT32_def)
  ultimately show ?thesis
    using get_unit_None [OF assms(1)] by (simp add: decode_unit_def)
qed

lemma opaque_decode_padded:
  assumes "xdr_wf xdrs" "x_op xdrs = XDR_DECODE" "unread xdrs = bs @ pad @ rest" "unat cnt = length bs" "length pad = pad_len (length bs)"
  shows "xdr_opaque_decode xdrs cp cnt = (True, skip (length bs + length pad) xdrs, overwrite 0 bs cp)"
proof (cases "cnt = 0")
  case True
  then show ?thesis
    using assms(4,5) by (simp add: xdr_opaque_decode_def)
next
  case False
  have wf': "xdr_wf (skip (length bs) xdrs)"
    using assms(1-3) by (intro skip_wf) auto
  show ?thesis
    using False assms by (simp add: xdr_opaque_decode_padded xdrmem_getbytes_skip wf')
qed

lemma auth_decode:
  assumes "xdr_wf xdrs" "x_op xdrs = XDR_DECODE" "valid_auth oa" "pads oa pad" "unread xdrs = wire_auth oa pad @ rest"
  shows "xdr_opaque_auth_decode None xdrs w = (True, skip (length (wire_auth oa pad)) xdrs, recv_auth oa w)"
proof -
  let ?t = "auth_body oa @ pad @ rest"
  have u: "unread xdrs = htonl_bytes (oa_flavor oa) @ htonl_bytes (oa_length oa) @ ?t"
    using assms(5) by (simp add: wire_auth_def wire_units_Cons)
  have wf: "xdr_wf (skip 4 xdrs)" "xdr_wf (skip 8 xdrs)"
    using assms(1,2) u by (intro skip_wf; simp)+
  have d: "decode_unit get upd kont None (skip 4 xdrs) m = kont None (skip 8 xdrs) (upd (\<lambda>_. oa_length oa) m)"
    for get upd kont and m :: opaque_auth
    using decode_unit_None [OF wf(1), of "oa_length oa" ?t] u by simp
  have "xdr_opaque_decode (skip 8 xdrs) (oa_body w) (oa_length oa) =
      (True, skip (length (auth_body oa) + length pad) (skip 8 xdrs), overwrite 0 (auth_body oa) (oa_body w))"
    using wf(2) assms(2,3,4) u by (intro opaque_decode_padded) (auto simp: pads_def)
  moreover have "auth_body oa = []" "pad = []" if "oa_length oa = 0"
    using that assms(4) by (simp_all add: auth_body_def pads_def)
  ultimately show ?thesis
    unfolding xdr_opaque_auth_decode_def decode_unit_None [OF assms(1) u] d
    using assms(3) by (cases "oa_length oa = 0")
      (simp_all add: Let_def xdr_opaque_auth_decode_it_def recv_auth_def wire_auth_def valid_auth_def not_less add.assoc)
qed

definition recv_call :: "rpc_msg \<Rightarrow> rpc_msg \<Rightarrow> rpc_msg" where
  "recv_call m w = w\<lparr>rm_xid := rm_xid m, rm_direction := rm_direction m, cb_rpcvers := cb_rpcvers m, cb_prog := cb_prog m,
     cb_vers := cb_vers m, cb_proc := cb_proc m, cb_cred := recv_auth (cb_cred m) (cb_cred w),
     cb_verf := recv_auth (cb_verf m) (cb_verf w)\<rparr>"

lemma auth_fields_decode:
  assumes "xdr_wf xdrs" "x_op xdrs = XDR_DECODE" "valid_auth c" "pads c pc" "valid_auth v" "pads v pv"
    and "unread xdrs = wire_auth c pc @ wire_auth v pv @ rest"
  shows "xdr_all [xdr_field cb_cred cb_cred_update (xdr_opaque_auth_decode None),
      xdr_field cb_verf cb_verf_update (xdr_opaque_auth_decode None)] xdrs (w :: rpc_msg) =
    (True, skip (length (wire_auth c pc @ wire_auth v pv)) xdrs,
     w\<lparr>cb_cred := recv_auth c (cb_cred w), cb_verf := recv_auth v (cb_verf w)\<rparr>)"
proof -
  have "xdr_wf (skip (length (wire_auth c pc)) xdrs)"
    using assms(1,2,7) by (intro skip_wf) auto
  from auth_decode [OF this _ assms(5,6), of rest] auth_decode [OF assms(1-4,7)] assms(2,7) show ?thesis
    by (simp add: xdr_seq_def xdr_field_def xdr_ok_def)
qed

lemma call_decode_tail:
  assumes "xdr_wf xdrs" "x_op xdrs = XDR_DECODE" "valid_auth c" "pads c pc" "valid_auth v" "pads v pv"
    and u: "unread xdrs = htonl_bytes proc @ wire_auth c pc @ wire_auth v pv @ rest"
  shows "(case xdr_inline_decode xdrs (3 * BYTES_PER_XDR_UNIT) of (buf, xdrs) \<Rightarrow>
      decode_unit cb_proc cb_proc_update (\<lambda>buf.
        xdr_all [xdr_field cb_cred cb_cred_update (xdr_opaque_auth_decode buf),
                 xdr_field cb_verf cb_verf_update (xdr_opaque_auth_decode None)]) buf xdrs (w :: rpc_msg)) =
    (True, skip (4 + length (wire_auth c pc @ wire_auth v pv)) xdrs,
     w\<lparr>cb_proc := proc, cb_cred := recv_auth c (cb_cred w), cb_verf := recv_auth v (cb_verf w)\<rparr>)"
proof -
  have l: "12 \<le> length (unread xdrs)"
    using u assms(3-6) by simp
  have i: "xdr_inline_decode xdrs 12 = (Some (x_data xdrs), skip 12 xdrs)"
    using l assms(1) by (auto simp: xdr_inline_decode_def BYTES_PER_XDR_UNIT_def Let_def skip_def length_unread)
  have p: "IXDR_GET_U_INT32 (skip 12 xdrs) (x_data xdrs) = proc"
    using ntohl_unread [OF u] by (simp add: IXDR_GET_U_INT32_def)
  have a: "xdr_opaque_auth_decode (Some (x_data xdrs + 4)) (skip 12 xdrs) = xdr_opaque_auth_decode None (skip 4 xdrs)"
    using assms(1,2) l by (intro ext opaque_auth_decode_lag) simp_all
  have "xdr_wf (skip 4 xdrs)"
    using assms(1,2) l by (intro skip_wf) auto
  from auth_fields_decode [OF this _ assms(3-6), of rest "w\<lparr>cb_proc := proc\<rparr>"] u assms(2) show ?thesis
    by (simp add: i decode_unit_def get_unit_def p BYTES_PER_XDR_UNIT_def Let_def xdr_seq_def xdr_field_def a)
qed

lemma call_decode_wire:
  assumes wf: "xdr_wf xdrs" "x_op xdrs = XDR_DECODE" and v: "valid_call m" "pads (cb_cred m) pc" "pads (cb_verf m) pv"
    and u: "unread xdrs = wire_call m pc pv @ rest"
  shows "dplx_decode_body None xdrs w = (True, skip (call_size m) xdrs, recv_call m w)"
proof -
  let ?t = "wire_auth (cb_cred m) pc @ wire_auth (cb_verf m) pv"
  have va: "valid_auth (cb_cred m)" "valid_auth (cb_verf m)" "rm_direction m = CALL" "cb_rpcvers m = RPC_MSG_VERSION"
    using v(1) by (simp_all add: valid_call_def)
  have u': "unread xdrs = htonl_bytes (rm_xid m) @ htonl_bytes (rm_direction m) @ htonl_bytes (cb_rpcvers m) @
      htonl_bytes (cb_prog m) @ htonl_bytes (cb_vers m) @ htonl_bytes (cb_proc m) @ ?t @ rest"
    using u by (simp add: wire_call_def wire_units_Cons)
  have n: "call_size m = 24 + length ?t"
    using va v by (simp add: call_size_def)
  have w: "xdr_wf (skip 4 xdrs)" "xdr_wf (skip 8 xdrs)" "xdr_wf (skip 12 xdrs)" "xdr_wf (skip 16 xdrs)" "xdr_wf (skip 20 xdrs)"
    using wf u' by (intro skip_wf; simp)+
  note d = decode_unit_None [OF wf(1) u'] decode_unit_None [OF w(1)] decode_unit_None [OF w(2)] decode_unit_None [OF w(3)]
    decode_unit_None [OF w(4)]
  note t = call_decode_tail [OF w(5) _ va(1) v(2) va(2) v(3), of "cb_proc m" rest]
  show ?thesis
    unfolding dplx_decode_body_def xdr_call_decode_def
    using va(3,4) u' t wf(2)
    by (simp add: d(1) d(2) [where rest = "htonl_bytes (cb_rpcvers m) @ htonl_bytes (cb_prog m) @ htonl_bytes (cb_vers m) @ htonl_bytes (cb_proc m) @ ?t @ rest"]
        d(3) [where rest = "htonl_bytes (cb_prog m) @ htonl_bytes (cb_vers m) @ htonl_bytes (cb_proc m) @ ?t @ rest"]
        d(4) [where rest = "htonl_bytes (cb_vers m) @ htonl_bytes (cb_proc m) @ ?t @ rest"]
        d(5) [where rest = "htonl_bytes (cb_proc m) @ ?t @ rest"] recv_call_def n)
qed

definition recv_accepted :: "accepted_reply \<Rightarrow> accepted_reply \<Rightarrow> accepted_reply" where
  "recv_accepted a w = w\<lparr>ar_verf := recv_auth (ar_verf a) (ar_verf w), ar_stat := ar_stat a,
     ar_vers := (if ar_stat a = PROG_MISMATCH then ar_vers a else ar_vers w)\<rparr>"

definition recv_rejected :: "rejected_reply \<Rightarrow> rejected_reply \<Rightarrow> rejected_reply" where
  "recv_rejected r w = w\<lparr>rj_stat := rj_stat r,
     rj_vers := (if rj_stat r = RPC_MISMATCH then rj_vers r else rj_vers w),
     rj_why := (if rj_stat r = AUTH_ERROR then rj_why r else rj_why w)\<rparr>"

definition recv_reply :: "rpc_msg \<Rightarrow> rpc_msg \<Rightarrow> rpc_msg" where
  "recv_reply m w = w\<lparr>rm_xid := rm_xid m, rm_direction := rm_direction m, rp_stat := rp_stat m,
     rp_acpt := (if rp_stat m = MSG_ACCEPTED then recv_accepted (rp_acpt m) (rp_acpt w) else rp_acpt w),
     rp_rjct := (if rp_stat m = MSG_ACCEPTED then rp_rjct w else recv_rejected (rp_rjct m) (rp_rjct w))\<rparr>"

lemma unit_at:
  assumes "xdr_wf xdrs" "x_op xdrs = XDR_DECODE" "unread xdrs = pre @ htonl_bytes v @ rest" "n = length pre"
  shows "xdr_getuint32 (skip n xdrs) x = (True, skip (n + 4) xdrs, v)"
    and "decode_unit get upd kont None (skip n xdrs) m = kont None (skip (n + 4) xdrs) (upd (\<lambda>_. v) m)"
proof -
  have wf: "xdr_wf (skip n xdrs)"
    using assms by (intro skip_wf) auto
  have u: "unread (skip n xdrs) = htonl_bytes v @ rest"
    using assms by simp
  show "decode_unit get upd kont None (skip n xdrs) m = kont None (skip (n + 4) xdrs) (upd (\<lambda>_. v) m)"
    using decode_unit_None [OF wf u] by simp
  show "xdr_getuint32 (skip n xdrs) x = (True, skip (n + 4) xdrs, v)"
    using ntohl_unread [OF u] by (simp add: xdr_getuint32_def Let_def skip_def)
qed

lemma accepted_decode:
  assumes wf: "xdr_wf xdrs" "x_op xdrs = XDR_DECODE" and va: "valid_auth (ar_verf a)" "pads (ar_verf a) pad"
    and u: "unread xdrs = wire_auth (ar_verf a) pad @ wire_units [ar_stat a] @
      (if ar_stat a = PROG_MISMATCH then wire_units [vers_low (ar_vers a), vers_high (ar_vers a)] else []) @ rest"
  shows "xdr_accepted_decode None xdrs w =
    (True, skip (length (wire_auth (ar_verf a) pad) + 4 + (if ar_stat a = PROG_MISMATCH then 8 else 0)) xdrs, recv_accepted a w)"
proof -
  let ?n = "length (wire_auth (ar_verf a) pad)"
  note at = unit_at(1) [OF wf]
  have d: "xdr_getuint32 (skip ?n xdrs) x = (True, skip (?n + 4) xdrs, ar_stat a)" for x
    using u by (intro at) (simp_all add: wire_units_Cons)
  have "xdr_getuint32 (skip (?n + 4) xdrs) x = (True, skip (?n + 4 + 4) xdrs, vers_low (ar_vers a))"
    "xdr_getuint32 (skip (?n + 4 + 4) xdrs) x = (True, skip (?n + 4 + 4 + 4) xdrs, vers_high (ar_vers a))"
    if "ar_stat a = PROG_MISMATCH" for x
    using u that by (intro at [of "wire_auth (ar_verf a) pad @ wire_units [ar_stat a]"]
      at [of "wire_auth (ar_verf a) pad @ wire_units [ar_stat a, vers_low (ar_vers a)]"]; simp add: wire_units_Cons)+
  then show ?thesis
    using auth_decode [OF wf va u, of "ar_verf w"] d
    by (cases "ar_stat a = PROG_MISMATCH")
       (simp_all add: xdr_accepted_decode_def xdr_seq_def xdr_field_def xdr_getenum_def xdr_getint32_def xdr_switch_def
        recv_accepted_def xdr_ok_def)
qed

lemma rejected_decode:
  assumes wf: "xdr_wf xdrs" "x_op xdrs = XDR_DECODE" "rj_stat r = RPC_MISMATCH \<or> rj_stat r = AUTH_ERROR"
    and u: "unread xdrs = wire_units [rj_stat r] @
      (if rj_stat r = RPC_MISMATCH then wire_units [vers_low (rj_vers r), vers_high (rj_vers r)] else wire_units [rj_why r]) @ rest"
  shows "xdr_rejected_decode None xdrs w =
    (True, skip (if rj_stat r = RPC_MISMATCH then 12 else 8) xdrs, recv_rejected r w)"
proof -
  note at = unit_at [OF wf(1,2)]
  have d1: "decode_unit get upd kont None xdrs m = kont None (skip 4 xdrs) (upd (\<lambda>_. rj_stat r) m)" for get upd kont and m :: rejected_reply
    using u by (intro decode_unit_None [OF wf(1)]) (simp add: wire_units_Cons)
  show ?thesis
  proof (cases "rj_stat r = RPC_MISMATCH")
    case True
    have d2: "decode_unit get upd kont None (skip 4 xdrs) m = kont None (skip (4 + 4) xdrs) (upd (\<lambda>_. vers_low (rj_vers r)) m)"
      for get upd kont and m :: rejected_reply
      using u True by (intro at(2) [of "wire_units [rj_stat r]"]) (simp_all add: wire_units_Cons)
    have "xdr_getuint32 (skip 8 xdrs) x = (True, skip (8 + 4) xdrs, vers_high (rj_vers r))" for x
      using u True by (intro at(1) [of "wire_units [rj_stat r, vers_low (rj_vers r)]"]) (simp_all add: wire_units_Cons)
    with True show ?thesis
      by (simp add: xdr_rejected_decode_def d1 d2 xdr_field_def recv_rejected_def nfs_consts)
  next
    case False
    have "decode_unit get upd kont None (skip 4 xdrs) m = kont None (skip (4 + 4) xdrs) (upd (\<lambda>_. rj_why r) m)"
      for get upd kont and m :: rejected_reply
      using u False by (intro at(2) [of "wire_units [rj_stat r]"]) (simp_all add: wire_units_Cons)
    with False wf(3) show ?thesis
      by (simp add: xdr_rejected_decode_def d1 xdr_ok_def recv_rejected_def nfs_consts)
  qed
qed

lemma reply_decode_wire:
  assumes wf: "xdr_wf xdrs" "x_op xdrs = XDR_DECODE" and v: "valid_reply m" "rp_stat m = MSG_ACCEPTED \<Longrightarrow> pads (ar_verf (rp_acpt m)) pad"
    and u: "unread xdrs = wire_reply m pad @ rest"
  shows "dplx_decode_body None xdrs w = (True, skip (reply_size m) xdrs, recv_reply m w)"
proof -
  define t where "t = drop 12 (wire_reply m pad)"
  have u': "unread xdrs = htonl_bytes (rm_xid m) @ htonl_bytes (rm_direction m) @ htonl_bytes (rp_stat m) @ t @ rest"
    using u by (simp add: wire_reply_def wire_units_Cons t_def)
  have w: "xdr_wf (skip 4 xdrs)" "xdr_wf (skip 8 xdrs)" "xdr_wf (skip 12 xdrs)"
    using wf u' by (intro skip_wf; simp)+
  have r: "rm_direction m = REPLY"
    using v(1) by (simp add: valid_reply_def)
  have c: "REPLY \<noteq> CALL"
    by (simp add: nfs_consts)
  have d: "dplx_decode_body None xdrs w = (let m' = w\<lparr>rm_xid := rm_xid m, rm_direction := rm_direction m, rp_stat := rp_stat m\<rparr> in
      if rp_stat m = MSG_ACCEPTED then xdr_field rp_acpt rp_acpt_update (xdr_accepted_decode None) (skip 12 xdrs) m'
      else if rp_stat m = MSG_DENIED then xdr_field rp_rjct rp_rjct_update (xdr_rejected_decode None) (skip 12 xdrs) m'
      else (False, skip 12 xdrs, m'))"
    unfolding dplx_decode_body_def xdr_reply_decode_def
    using u' r by (simp add: decode_unit_None [OF wf(1) u'] c Let_def
        decode_unit_None [OF w(1), of "rm_direction m" "htonl_bytes (rp_stat m) @ t @ rest"]
        decode_unit_None [OF w(2), of "rp_stat m" "t @ rest"])
  show ?thesis
  proof (cases "rp_stat m = MSG_ACCEPTED")
    case True
    then have "valid_auth (ar_verf (rp_acpt m))"
      using v(1) by (simp add: valid_reply_def nfs_consts)
    with True v(2) show ?thesis
      unfolding d using accepted_decode [OF w(3) _ _ v(2), of rest "rp_acpt w"] u' wf(2)
      by (simp add: t_def wire_reply_def Let_def xdr_field_def recv_reply_def reply_size_def)
  next
    case False
    then have "rp_stat m = MSG_DENIED" "rj_stat (rp_rjct m) = RPC_MISMATCH \<or> rj_stat (rp_rjct m) = AUTH_ERROR"
      using v(1) by (auto simp: valid_reply_def)
    with False show ?thesis
      unfolding d using rejected_decode [OF w(3), of "rp_rjct m" rest "rp_rjct w"] u' wf(2)
      by (simp add: t_def wire_reply_def Let_def xdr_field_def recv_reply_def reply_size_def)
  qed
qed
lemma dplx_decode_call:
  assumes "xdr_wf xdrs" "x_op xdrs = XDR_DECODE" "valid_call m" "pads (cb_cred m) pc" "pads (cb_verf m) pv"
    and "unread xdrs = wire_call m pc pv @ rest"
  shows "xdr_dplx_decode xdrs w = (True, skip (call_size m) xdrs, recv_call m w)"
proof -
  have "20 \<le> length (unread xdrs)"
    using assms(6) length_wire_call [OF assms(3-5)] by (simp add: call_size_def)
  moreover have "rm_direction (recv_call m w) \<noteq> REPLY"
    using assms(3) by (simp add: recv_call_def valid_call_def nfs_consts)
  ultimately show ?thesis
    using dplx_decode_long [OF assms(1,2), of w] call_decode_wire [OF assms, of w] by (auto simp: paths_agree_def)
qed

lemma dplx_decode_reply:
  assumes "xdr_wf xdrs" "x_op xdrs = XDR_DECODE" "valid_reply m" "rp_stat m = MSG_ACCEPTED \<Longrightarrow> pads (ar_verf (rp_acpt m)) pad"
    and "unread xdrs = wire_reply m pad @ rest"
  shows "xdr_dplx_decode xdrs w = (True, skip (reply_size m) xdrs, recv_reply m w)"
proof -
  have "20 \<le> length (unread xdrs)"
    using assms(5) length_wire_reply [OF assms(3,4)] by (simp add: reply_size_def split: if_splits)
  moreover have "reply_known (recv_reply m w)"
    using assms(3) by (auto simp: reply_known_def recv_reply_def valid_reply_def recv_rejected_def nfs_consts)
  ultimately show ?thesis
    using dplx_decode_long [OF assms(1,2), of w] reply_decode_wire [OF assms, of w] by (auto simp: paths_agree_def)
qed

text \<open>
  The members a message of either direction carries.
\<close>

definition auth_view :: "opaque_auth \<Rightarrow> enum_t \<times> byte list" where
  "auth_view oa = (oa_flavor oa, auth_body oa)"

lemma auth_view_recv [simp]: "valid_auth oa \<Longrightarrow> auth_view (recv_auth oa w) = auth_view oa"
  by (simp add: auth_view_def recv_auth_body) (simp add: recv_auth_def)

definition call_view :: "rpc_msg \<Rightarrow> uint32 list \<times> (enum_t \<times> byte list) \<times> (enum_t \<times> byte list)" where
  "call_view m = ([rm_xid m, rm_direction m, cb_rpcvers m, cb_prog m, cb_vers m, cb_proc m],
     auth_view (cb_cred m), auth_view (cb_verf m))"

definition reply_view :: "rpc_msg \<Rightarrow> uint32 list \<times> (enum_t \<times> byte list) option" where
  "reply_view m =
     (if rp_stat m = MSG_ACCEPTED
      then ([rm_xid m, rm_direction m, rp_stat m, ar_stat (rp_acpt m)] @
        (if ar_stat (rp_acpt m) = PROG_MISMATCH
         then [vers_low (ar_vers (rp_acpt m)), vers_high (ar_vers (rp_acpt m))] else []), Some (auth_view (ar_verf (rp_acpt m))))
      else ([rm_xid m, rm_direction m, rp_stat m, rj_stat (rp_rjct m)] @
        (if rj_stat (rp_rjct m) = RPC_MISMATCH
         then [vers_low (rj_vers (rp_rjct m)), vers_high (rj_vers (rp_rjct m))]
         else [rj_why (rp_rjct m)]), None))"

lemma recv_call_direction [simp]:
  "rm_direction (recv_call m w) = rm_direction m" "rm_direction (recv_reply m w) = rm_direction m"
  by (simp_all add: recv_call_def recv_reply_def)

lemma call_view_recv [simp]: "valid_call m \<Longrightarrow> call_view (recv_call m w) = call_view m"
  by (simp add: call_view_def recv_call_def valid_call_def)

lemma reply_view_recv [simp]: "valid_reply m \<Longrightarrow> reply_view (recv_reply m w) = reply_view m"
  by (auto simp: reply_view_def recv_reply_def valid_reply_def recv_accepted_def recv_rejected_def nfs_consts)

text \<open>A message in a fresh buffer.\<close>

lemma emitted_unread:
  assumes "xdrmem_ncreate addr buf sz XDR_ENCODE = Some e" "sz \<le> length buf" "length w \<le> sz"
    and "xdrmem_ncreate addr' (x_buf (xdr_tail_update (emit w e))) sz XDR_DECODE = Some d"
  shows "xdr_wf d" "x_op d = XDR_DECODE" "\<exists>rest. unread d = w @ rest"
proof -
  have e: "x_buf e = buf" "x_data e = 0"
    using assms(1) by (auto simp: xdrmem_ncreate_def split: if_splits)
  then have b: "x_buf (xdr_tail_update (emit w e)) = w @ drop (length w) buf"
    by (simp add: overwrite_def)
  have d: "d = \<lparr>x_op = XDR_DECODE, x_buf = w @ drop (length w) buf, x_data = 0,
      x_v = \<lparr>vio_base = 0, vio_head = 0, vio_tail = sz, vio_wrap = sz\<rparr>, x_public = None\<rparr>"
    using assms(4) unfolding b by (auto simp: xdrmem_ncreate_def split: if_splits)
  show "xdr_wf d" "x_op d = XDR_DECODE"
    using assms(2,3) by (simp_all add: d xdr_wf_def)
  show "\<exists>rest. unread d = w @ rest"
    using assms(3) by (simp add: d unread_def)
qed

lemma fresh_encoder:
  "xdrmem_ncreate addr buf sz XDR_ENCODE = Some e \<Longrightarrow> sz \<le> length buf \<Longrightarrow> xdr_wf e \<and> x_op e = XDR_ENCODE \<and> room e = sz"
  by (auto simp: xdrmem_ncreate_def xdr_wf_def room_def split: if_splits)

section \<open>Correctness of the messages\<close>

lemma sample_pads [simp]: "pads sample_auth []"
  by (simp add: pads_def sample_auth_def)

text \<open>
  C11: a call message, or a reply message of any kind, that is encoded into a buffer with room for
  it is decoded from that buffer with the same members, whatever the buffer and the target held
  before: the padding that the encoder leaves unwritten does not matter.
\<close>

theorem message_round_trip:
  assumes "valid_call m \<or> valid_reply m" "(if rm_direction m = CALL then call_size m else reply_size m) \<le> sz" "sz \<le> length buf"
    and "xdrmem_ncreate addr buf sz XDR_ENCODE = Some e"
  shows "\<exists>e'. xdr_dplx_msg e m = (True, e', m) \<and>
    (\<forall>d. xdrmem_ncreate addr' (x_buf e') sz XDR_DECODE = Some d \<longrightarrow>
      (\<exists>d' m'. xdr_dplx_msg d w = (True, d', m') \<and> rm_direction m' = rm_direction m \<and>
        (if rm_direction m = CALL then call_view m' = call_view m else reply_view m' = reply_view m)))"
proof -
  note f = fresh_encoder [OF assms(4,3)]
  show ?thesis
  proof (cases "rm_direction m = CALL")
    case True
    then have v: "valid_call m" "call_size m \<le> room e"
      using assms(1,2) f by (auto simp: valid_reply_def nfs_consts)
    obtain pc pv where p: "pads (cb_cred m) pc" "pads (cb_verf m) pv"
      "xdr_call_encode e m = (True, xdr_tail_update (emit (wire_call m pc pv) e))"
      using call_encode_wire [of e m] f v by blast
    have l: "length (wire_call m pc pv) \<le> sz"
      using length_wire_call [OF v(1) p(1,2)] v(2) f by simp
    have "xdr_dplx_msg d w = (True, skip (call_size m) d, recv_call m w)"
      if "xdrmem_ncreate addr' (x_buf (xdr_tail_update (emit (wire_call m pc pv) e))) sz XDR_DECODE = Some d" for d
      using emitted_unread [OF assms(4,3) l that] dplx_decode_call [OF _ _ v(1) p(1,2), of d] by (auto simp: xdr_dplx_msg_def)
    with p(3) f v(1) True show ?thesis
      by (simp add: xdr_dplx_msg_def [of e])
  next
    case False
    then have v: "valid_reply m" "reply_size m \<le> room e" "rm_direction m = REPLY"
      using assms(1,2) f by (auto simp: valid_call_def valid_reply_def)
    obtain pad where p: "rp_stat m = MSG_ACCEPTED \<Longrightarrow> pads (ar_verf (rp_acpt m)) pad"
      "xdr_reply_encode e m = (True, xdr_tail_update (emit (wire_reply m pad) e))"
      using reply_encode_wire [of e m] f v by blast
    have l: "length (wire_reply m pad) \<le> sz"
      using length_wire_reply [OF v(1) p(1)] v(2) f by simp
    have "xdr_dplx_msg d w = (True, skip (reply_size m) d, recv_reply m w)"
      if "xdrmem_ncreate addr' (x_buf (xdr_tail_update (emit (wire_reply m pad) e))) sz XDR_DECODE = Some d" for d
      using emitted_unread [OF assms(4,3) l that] dplx_decode_reply [OF _ _ v(1) p(1), of d] by (auto simp: xdr_dplx_msg_def)
    with p(2) f v False show ?thesis
      by (simp add: xdr_dplx_msg_def [of e])
  qed
qed

theorem message_round_trip_witness:
  "\<exists>e e' d d' m'. xdrmem_ncreate 0 (replicate 100 1) 100 XDR_ENCODE = Some e \<and>
     xdr_dplx_msg e (sample_msg 100003 1) = (True, e', sample_msg 100003 1) \<and>
     xdrmem_ncreate 0 (x_buf e') 100 XDR_DECODE = Some d \<and> xdr_dplx_msg d (sample_msg 0 0) = (True, d', m') \<and>
     call_view m' = call_view (sample_msg 100003 1)"
proof -
  obtain e where e: "xdrmem_ncreate 0 (replicate 100 1) 100 XDR_ENCODE = Some e"
    by (simp add: xdrmem_ncreate_def)
  have s: "rm_direction (sample_msg 100003 1) = CALL" "call_size (sample_msg 100003 1) \<le> 100"
    by (simp_all add: call_size_def sample_auth_def RNDUP_def)
  obtain e' where e': "xdr_dplx_msg e (sample_msg 100003 1) = (True, e', sample_msg 100003 1)"
    "\<forall>d. xdrmem_ncreate 0 (x_buf e') 100 XDR_DECODE = Some d \<longrightarrow>
      (\<exists>d' m'. xdr_dplx_msg d (sample_msg 0 0) = (True, d', m') \<and> call_view m' = call_view (sample_msg 100003 1))"
    using message_round_trip [OF _ _ _ e, of "sample_msg 100003 1" 0 "sample_msg 0 0"] s
    by (simp del: sample_msg_fields) blast
  obtain d where "xdrmem_ncreate 0 (x_buf e') 100 XDR_DECODE = Some d"
    by (simp add: xdrmem_ncreate_def)
  with e e' show ?thesis
    by blast
qed

lemma reply_reported:
  assumes "valid_reply m"
  shows "seterr_reply (recv_reply m w) err = seterr_reply m err"
  using assms
  by (auto simp: seterr_reply_def recv_reply_def recv_accepted_def recv_rejected_def valid_reply_def accepted_def rejected_def
      Let_def nfs_consts)

lemma reply_message_reported:
  assumes v: "valid_reply r" "reply_size r \<le> sz" "sz \<le> length buf" "xdrmem_ncreate addr buf sz XDR_ENCODE = Some e"
  shows "\<exists>e'. xdr_reply_encode e r = (True, e') \<and>
    (\<forall>d. xdrmem_ncreate addr' (x_buf e') sz XDR_DECODE = Some d \<longrightarrow>
      (\<exists>d' m'. xdr_dplx_decode d w = (True, d', m') \<and> rm_xid m' = rm_xid r \<and> seterr_reply m' err = seterr_reply r err))"
proof -
  note f = fresh_encoder [OF v(4,3)]
  obtain pad where p: "rp_stat r = MSG_ACCEPTED \<Longrightarrow> pads (ar_verf (rp_acpt r)) pad"
    "xdr_reply_encode e r = (True, xdr_tail_update (emit (wire_reply r pad) e))"
    using reply_encode_wire [of e r] f v by auto
  have l: "length (wire_reply r pad) \<le> sz"
    using length_wire_reply [OF v(1) p(1)] v(2) by simp
  have "xdr_dplx_decode d w = (True, skip (reply_size r) d, recv_reply r w)"
    if "xdrmem_ncreate addr' (x_buf (xdr_tail_update (emit (wire_reply r pad) e))) sz XDR_DECODE = Some d" for d
    using emitted_unread [OF v(4,3) l that] dplx_decode_reply [OF _ _ v(1) p(1), of d] by auto
  moreover have "rm_xid (recv_reply r w) = rm_xid r"
    by (simp add: recv_reply_def)
  ultimately show ?thesis
    using p(2) by (simp add: reply_reported [OF v(1)])
qed

lemmas svcerr_defs = svc_sendreply_def svcerr_noprog_def svcerr_noproc_def svcerr_decode_def svcerr_systemerr_def
  svcerr_progvers_def svcerr_auth_def accept_with_def

text \<open>
  The status a reply routine of the server sets is the one the client finds: the reply is
  encoded, sent, decoded and judged, and the client's error carries the status, the versions of a
  version mismatch and the reason of an authentication error.
\<close>

theorem error_reply_reported:
  assumes "(r, st) \<in> set [(svc_sendreply m, RPC_SUCCESS), (svcerr_noprog m, RPC_PROGUNAVAIL), (svcerr_noproc m, RPC_PROCUNAVAIL),
      (svcerr_decode m, RPC_CANTDECODEARGS), (svcerr_systemerr m, RPC_SYSTEMERROR), (svcerr_progvers low high m, RPC_PROGVERSMISMATCH),
      (svcerr_auth why m, RPC_AUTHERROR)]"
    and "valid_auth (ar_verf (rp_acpt m))" "reply_size r \<le> sz" "sz \<le> length buf" "xdrmem_ncreate addr buf sz XDR_ENCODE = Some e"
  shows "\<exists>e'. xdr_reply_encode e r = (True, e') \<and>
    (\<forall>d. xdrmem_ncreate addr' (x_buf e') sz XDR_DECODE = Some d \<longrightarrow>
      (\<exists>d' m'. xdr_dplx_decode d w = (True, d', m') \<and> rm_xid m' = rm_xid m \<and> re_status (seterr_reply m' err) = st \<and>
        (st = RPC_PROGVERSMISMATCH \<longrightarrow> re_vers (seterr_reply m' err) = \<lparr>vers_low = low, vers_high = high\<rparr>) \<and>
        (st = RPC_AUTHERROR \<longrightarrow> re_why (seterr_reply m' err) = auth_stat_num why)))"
proof -
  have v: "valid_reply r"
    using assms(1,2) by (auto simp: valid_reply_def svcerr_defs nfs_consts)
  have s: "rm_xid r = rm_xid m" "re_status (seterr_reply r err) = st"
    "st = RPC_PROGVERSMISMATCH \<Longrightarrow> re_vers (seterr_reply r err) = \<lparr>vers_low = low, vers_high = high\<rparr>"
    "st = RPC_AUTHERROR \<Longrightarrow> re_why (seterr_reply r err) = auth_stat_num why"
    using assms(1) by (auto simp: seterr_reply_def accepted_def rejected_def svcerr_defs nfs_consts Let_def)
  with reply_message_reported [OF v assms(3-5), of addr' w err] show ?thesis
    by fastforce
qed

definition sample_err :: rpc_err where
  "sample_err = \<lparr>re_why = 0, re_vers = \<lparr>vers_low = 0, vers_high = 0\<rparr>, re_lb = (0, 0), re_status = RPC_SUCCESS\<rparr>"

theorem error_reply_reported_witness:
  "\<exists>e e' d d' m'. xdrmem_ncreate 0 (replicate 40 1) 40 XDR_ENCODE = Some e \<and>
     xdr_reply_encode e (svcerr_auth AUTH_BADCRED (sample_msg 0 0)) = (True, e') \<and>
     xdrmem_ncreate 0 (x_buf e') 40 XDR_DECODE = Some d \<and> xdr_dplx_decode d (sample_msg 1 1) = (True, d', m') \<and>
     re_status (seterr_reply m' sample_err) = RPC_AUTHERROR \<and> re_why (seterr_reply m' sample_err) = 1"
proof -
  let ?r = "svcerr_auth AUTH_BADCRED (sample_msg 0 0)"
  obtain e where e: "xdrmem_ncreate 0 (replicate 40 1) 40 XDR_ENCODE = Some e"
    by (simp add: xdrmem_ncreate_def)
  have z: "reply_size ?r \<le> 40" "valid_auth (ar_verf (rp_acpt (sample_msg 0 0)))"
    by (simp_all add: reply_size_def svcerr_auth_def nfs_consts sample_msg_def)
  obtain e' where e': "xdr_reply_encode e ?r = (True, e')"
    "\<forall>d. xdrmem_ncreate 0 (x_buf e') 40 XDR_DECODE = Some d \<longrightarrow>
      (\<exists>d' m'. xdr_dplx_decode d (sample_msg 1 1) = (True, d', m') \<and> rm_xid m' = rm_xid (sample_msg 0 0) \<and>
        re_status (seterr_reply m' sample_err) = RPC_AUTHERROR \<and>
        (RPC_AUTHERROR = RPC_PROGVERSMISMATCH \<longrightarrow> re_vers (seterr_reply m' sample_err) = \<lparr>vers_low = 0, vers_high = 0\<rparr>) \<and>
        (RPC_AUTHERROR = RPC_AUTHERROR \<longrightarrow> re_why (seterr_reply m' sample_err) = auth_stat_num AUTH_BADCRED))"
    using error_reply_reported [OF _ z(2,1) _ e, of RPC_AUTHERROR 0 0 AUTH_BADCRED 0 "sample_msg 1 1" sample_err] by auto
  obtain d where "xdrmem_ncreate 0 (x_buf e') 40 XDR_DECODE = Some d"
    by (simp add: xdrmem_ncreate_def)
  with e e' show ?thesis
    by auto
qed

end
