(* ===== verification/Nfs_Dispatch.thy ===== *)
theory Nfs_Dispatch
  imports Nfs_Name_Procs Nfs_Io_Procs Nfs_Dir_Procs Mnt_Procs Rpc_Wire
begin

text \<open>
  From a call message to its reply: the unions of arguments and results
  (\<open>include/dnfsd/dnfs_meta_data.h\<close>), the table of procedures
  (\<open>include/nfs/nfs_base.h\<close>), the choice of the procedure (\<open>src/nfs/nfs_init.cpp\<close>) and
  the processing of a request (\<open>src/dnfsd/dnfs_ntirpc.cpp\<close>).  A union is a record of
  its members; a procedure uses one member only.
\<close>

section \<open>Arguments and results\<close>

record nfs_arg_t =
  arg_getattr3 :: GETATTR3args
  arg_setattr3 :: SETATTR3args
  arg_lookup3 :: LOOKUP3args
  arg_access3 :: ACCESS3args
  arg_readlink3 :: READLINK3args
  arg_read3 :: READ3args
  arg_write3 :: WRITE3args
  arg_create3 :: CREATE3args
  arg_mkdir3 :: MKDIR3args
  arg_symlink3 :: SYMLINK3args
  arg_mknod3 :: MKNOD3args
  arg_remove3 :: REMOVE3args
  arg_rmdir3 :: RMDIR3args
  arg_rename3 :: RENAME3args
  arg_link3 :: LINK3args
  arg_readdir3 :: READDIR3args
  arg_readdirplus3 :: READDIRPLUS3args
  arg_fsstat3 :: FSSTAT3args
  arg_fsinfo3 :: FSINFO3args
  arg_pathconf3 :: PATHCONF3args
  arg_commit3 :: COMMIT3args
  arg_mnt :: mnt3_dirpath

record nfs_res_t =
  res_getattr3 :: GETATTR3res
  res_setattr3 :: SETATTR3res
  res_lookup3 :: LOOKUP3res
  res_access3 :: ACCESS3res
  res_readlink3 :: READLINK3res
  res_read3 :: READ3res
  res_write3 :: WRITE3res
  res_create3 :: CREATE3res
  res_mkdir3 :: MKDIR3res
  res_symlink3 :: SYMLINK3res
  res_mknod3 :: MKNOD3res
  res_remove3 :: REMOVE3res
  res_rmdir3 :: RMDIR3res
  res_rename3 :: RENAME3res
  res_link3 :: LINK3res
  res_readdir3 :: READDIR3res
  res_readdirplus3 :: READDIRPLUS3res
  res_fsstat3 :: FSSTAT3res
  res_fsinfo3 :: FSINFO3res
  res_pathconf3 :: PATHCONF3res
  res_commit3 :: COMMIT3res
  res_mnt3 :: mountres3
  res_dump :: mountlist
  res_mntexport :: mnt3_exports

text \<open>The memory of the arguments is cleared before they are decoded.\<close>

definition zero_diropargs3 :: diropargs3 where
  "zero_diropargs3 = \<lparr>doa_dir = zero_fh3, doa_name = None\<rparr>"

definition zero_verf :: "byte list" where
  "zero_verf = replicate 8 0"

definition zero_arg :: nfs_arg_t where
  "zero_arg =
     \<lparr>arg_getattr3 = \<lparr>geta_object = zero_fh3\<rparr>,
      arg_setattr3 = \<lparr>seta_object = zero_fh3, seta_new_attributes = zero_sattr3,
                      seta_guard = \<lparr>check = 0, obj_ctime = zero_time3\<rparr>\<rparr>,
      arg_lookup3 = \<lparr>look_what = zero_diropargs3\<rparr>,
      arg_access3 = \<lparr>acc_object = zero_fh3, acc_access = 0\<rparr>,
      arg_readlink3 = \<lparr>rlnk_symlink = zero_fh3\<rparr>,
      arg_read3 = \<lparr>rd_file = zero_fh3, rd_offset = 0, rd_count = 0\<rparr>,
      arg_write3 = \<lparr>wr_file = zero_fh3, wr_offset = 0, wr_count = 0, wr_stable = 0,
                    wr_data = \<lparr>io_data_len = 0, io_data_val = None\<rparr>\<rparr>,
      arg_create3 = \<lparr>cre_where = zero_diropargs3,
                     cre_how = \<lparr>how_mode = 0, how_obj_attributes = zero_sattr3, how_verf = zero_verf\<rparr>\<rparr>,
      arg_mkdir3 = \<lparr>mkd_where = zero_diropargs3, mkd_attributes = zero_sattr3\<rparr>,
      arg_symlink3 = \<lparr>sym_where = zero_diropargs3,
                      sym_symlink = \<lparr>symlink_attributes = zero_sattr3, symlink_data = None\<rparr>\<rparr>,
      arg_mknod3 = \<lparr>mkn_where = zero_diropargs3,
                    mkn_what = \<lparr>mkn_type = 0,
                                mkn_device = \<lparr>dev_attributes = zero_sattr3,
                                              dev_spec = \<lparr>specdata1 = 0, specdata2 = 0\<rparr>\<rparr>\<rparr>\<rparr>,
      arg_remove3 = \<lparr>rem_object = zero_diropargs3\<rparr>,
      arg_rmdir3 = \<lparr>rmd_object = zero_diropargs3\<rparr>,
      arg_rename3 = \<lparr>ren_from = zero_diropargs3, ren_to = zero_diropargs3\<rparr>,
      arg_link3 = \<lparr>lnk_file = zero_fh3, lnk_link = zero_diropargs3\<rparr>,
      arg_readdir3 = \<lparr>rdir_dir = zero_fh3, rdir_cookie = 0, rdir_cookieverf = zero_verf,
                      rdir_count = 0\<rparr>,
      arg_readdirplus3 = \<lparr>rdp_dir = zero_fh3, rdp_cookie = 0, rdp_cookieverf = zero_verf,
                          rdp_dircount = 0, rdp_maxcount = 0\<rparr>,
      arg_fsstat3 = \<lparr>fst_fsroot = zero_fh3\<rparr>,
      arg_fsinfo3 = \<lparr>fsi_fsroot = zero_fh3\<rparr>,
      arg_pathconf3 = \<lparr>pc_object = zero_fh3\<rparr>,
      arg_commit3 = \<lparr>com_file = zero_fh3, com_offset = 0, com_count = 0\<rparr>,
      arg_mnt = None\<rparr>"

section \<open>The procedures\<close>

text \<open>
  What a handler depends on besides its arguments: the operating system, the
  configuration, and what the stack and the heap hold where the code reads memory it
  has not initialised.
\<close>

record 'os env =
  env_sys :: "'os posix"
  env_core :: core_param
  env_stack_ts :: "timespec \<times> timespec"
  env_beyond :: "byte list"
  env_cookies :: "nat \<Rightarrow> uint64"
  env_nodes :: "uint32 \<Rightarrow> entryplus3_members"

type_synonym 'os state = "'os \<times> FsalHandle"

definition in_member ::
  "(('m \<Rightarrow> 'm) \<Rightarrow> nfs_res_t \<Rightarrow> nfs_res_t) \<Rightarrow> nfs_res_t \<Rightarrow> ('s, 'm) reply \<Rightarrow> ('s, nfs_res_t) reply" where
  "in_member upd res r = map_option (\<lambda>(st, m, rc). (st, upd (\<lambda>_. m) res, rc)) r"

definition with_os ::
  "('os \<Rightarrow> ('os, 'm) reply) \<Rightarrow> 'os state \<Rightarrow> ('os state, 'm) reply" where
  "with_os h st = map_option (\<lambda>(s, m, rc). ((s, snd st), m, rc)) (h (fst st))"

definition NOTHING_SPECIAL :: uint32 where [nfs_consts]: "NOTHING_SPECIAL = 0x0000"
definition MAKES_WRITE :: uint32 where [nfs_consts]: "MAKES_WRITE = 0x0001"
definition NEEDS_CRED :: uint32 where [nfs_consts]: "NEEDS_CRED = 0x0002"
definition CAN_BE_DUP :: uint32 where [nfs_consts]: "CAN_BE_DUP = 0x0004"
definition SUPPORTS_GSS :: uint32 where [nfs_consts]: "SUPPORTS_GSS = 0x0008"
definition MAKES_IO :: uint32 where [nfs_consts]: "MAKES_IO = 0x0010"

record 'os nfs_function_desc =
  service_function :: "'os env \<Rightarrow> rpc_call \<Rightarrow> 'os state \<Rightarrow> nfs_arg_t \<Rightarrow> nfs_res_t \<Rightarrow> ('os state, nfs_res_t) reply"
  xdr_decode_func :: "nfs_arg_t xdrproc"
  xdr_encode_func :: "nfs_res_t xdrproc"
  funcname :: string
  dispatch_behaviour :: uint32

definition nfs3_func_desc :: "'os nfs_function_desc list" where
  "nfs3_func_desc =
     [\<lparr>service_function = (\<lambda>E req st arg res.
         map_option (\<lambda>(st, _, rc). (st, res, rc)) (nfs_null st)),
       xdr_decode_func = xdr_void, xdr_encode_func = xdr_void,
       funcname = ''NFS3_NULL'', dispatch_behaviour = NOTHING_SPECIAL\<rparr>,
      \<lparr>service_function = (\<lambda>E req st arg res. in_member res_getattr3_update res
         (with_os (\<lambda>s. nfs3_getattr (env_sys E) s (arg_getattr3 arg) (res_getattr3 res)) st)),
       xdr_decode_func = xdr_field arg_getattr3 arg_getattr3_update xdr_GETATTR3args,
       xdr_encode_func = xdr_field res_getattr3 res_getattr3_update xdr_GETATTR3res,
       funcname = ''NFS3_GETATTR'', dispatch_behaviour = NEEDS_CRED OR SUPPORTS_GSS\<rparr>,
      \<lparr>service_function = (\<lambda>E req st arg res. in_member res_setattr3_update res
         (with_os (\<lambda>s. nfs3_setattr (env_sys E) (env_stack_ts E) s (arg_setattr3 arg) (res_setattr3 res)) st)),
       xdr_decode_func = xdr_field arg_setattr3 arg_setattr3_update xdr_SETATTR3args,
       xdr_encode_func = xdr_field res_setattr3 res_setattr3_update xdr_SETATTR3res,
       funcname = ''NFS3_SETATTR'', dispatch_behaviour = MAKES_WRITE OR NEEDS_CRED OR CAN_BE_DUP OR SUPPORTS_GSS\<rparr>,
      \<lparr>service_function = (\<lambda>E req st arg res. in_member res_lookup3_update res
         (with_os (\<lambda>s. nfs3_lookup (env_sys E) s (arg_lookup3 arg) (res_lookup3 res)) st)),
       xdr_decode_func = xdr_field arg_lookup3 arg_lookup3_update xdr_LOOKUP3args,
       xdr_encode_func = xdr_field res_lookup3 res_lookup3_update xdr_LOOKUP3res,
       funcname = ''NFS3_LOOKUP'', dispatch_behaviour = NEEDS_CRED OR SUPPORTS_GSS\<rparr>,
      \<lparr>service_function = (\<lambda>E req st arg res. in_member res_access3_update res
         (with_os (\<lambda>s. nfs3_access (env_sys E) s (arg_access3 arg) (res_access3 res)) st)),
       xdr_decode_func = xdr_field arg_access3 arg_access3_update xdr_ACCESS3args,
       xdr_encode_func = xdr_field res_access3 res_access3_update xdr_ACCESS3res,
       funcname = ''NFS3_ACCESS'', dispatch_behaviour = NEEDS_CRED OR SUPPORTS_GSS\<rparr>,
      \<lparr>service_function = (\<lambda>E req st arg res. in_member res_readlink3_update res
         (with_os (\<lambda>s. nfs3_readlink (env_sys E) (env_beyond E) s (arg_readlink3 arg) (res_readlink3 res)) st)),
       xdr_decode_func = xdr_field arg_readlink3 arg_readlink3_update xdr_READLINK3args,
       xdr_encode_func = xdr_field res_readlink3 res_readlink3_update xdr_READLINK3res,
       funcname = ''NFS3_READLINK'', dispatch_behaviour = NEEDS_CRED OR SUPPORTS_GSS\<rparr>,
      \<lparr>service_function = (\<lambda>E req st arg res. in_member res_read3_update res
         (with_os (\<lambda>s. nfs3_read (env_sys E) s (arg_read3 arg) (res_read3 res)) st)),
       xdr_decode_func = xdr_field arg_read3 arg_read3_update xdr_READ3args,
       xdr_encode_func = xdr_field res_read3 res_read3_update xdr_READ3res,
       funcname = ''NFS3_READ'', dispatch_behaviour = NEEDS_CRED OR SUPPORTS_GSS OR MAKES_IO\<rparr>,
      \<lparr>service_function = (\<lambda>E req st arg res. in_member res_write3_update res
         (nfs3_write (env_sys E) st (arg_write3 arg) (res_write3 res))),
       xdr_decode_func = xdr_field arg_write3 arg_write3_update xdr_WRITE3args,
       xdr_encode_func = xdr_field res_write3 res_write3_update xdr_WRITE3res,
       funcname = ''NFS3_WRITE'', dispatch_behaviour = MAKES_WRITE OR NEEDS_CRED OR CAN_BE_DUP OR SUPPORTS_GSS OR MAKES_IO\<rparr>,
      \<lparr>service_function = (\<lambda>E req st arg res. in_member res_create3_update res
         (with_os (\<lambda>s. nfs3_create (env_sys E) s (arg_create3 arg) (res_create3 res)) st)),
       xdr_decode_func = xdr_field arg_create3 arg_create3_update xdr_CREATE3args,
       xdr_encode_func = xdr_field res_create3 res_create3_update xdr_CREATE3res,
       funcname = ''NFS3_CREATE'', dispatch_behaviour = MAKES_WRITE OR NEEDS_CRED OR CAN_BE_DUP OR SUPPORTS_GSS\<rparr>,
      \<lparr>service_function = (\<lambda>E req st arg res. in_member res_mkdir3_update res
         (with_os (\<lambda>s. nfs3_mkdir (env_sys E) s (arg_mkdir3 arg) (res_mkdir3 res)) st)),
       xdr_decode_func = xdr_field arg_mkdir3 arg_mkdir3_update xdr_MKDIR3args,
       xdr_encode_func = xdr_field res_mkdir3 res_mkdir3_update xdr_MKDIR3res,
       funcname = ''NFS3_MKDIR'', dispatch_behaviour = MAKES_WRITE OR NEEDS_CRED OR CAN_BE_DUP OR SUPPORTS_GSS\<rparr>,
      \<lparr>service_function = (\<lambda>E req st arg res. in_member res_symlink3_update res
         (with_os (\<lambda>s. nfs3_symlink (env_sys E) s (arg_symlink3 arg) (res_symlink3 res)) st)),
       xdr_decode_func = xdr_field arg_symlink3 arg_symlink3_update xdr_SYMLINK3args,
       xdr_encode_func = xdr_field res_symlink3 res_symlink3_update xdr_SYMLINK3res,
       funcname = ''NFS3_SYMLINK'', dispatch_behaviour = MAKES_WRITE OR NEEDS_CRED OR CAN_BE_DUP OR SUPPORTS_GSS\<rparr>,
      \<lparr>service_function = (\<lambda>E req st arg res. in_member res_mknod3_update res
         (with_os (\<lambda>s. nfs3_mknod (env_sys E) (env_stack_ts E) s (arg_mknod3 arg) (res_mknod3 res)) st)),
       xdr_decode_func = xdr_field arg_mknod3 arg_mknod3_update xdr_MKNOD3args,
       xdr_encode_func = xdr_field res_mknod3 res_mknod3_update xdr_MKNOD3res,
       funcname = ''NFS3_MKNOD'', dispatch_behaviour = MAKES_WRITE OR NEEDS_CRED OR CAN_BE_DUP OR SUPPORTS_GSS\<rparr>,
      \<lparr>service_function = (\<lambda>E req st arg res. in_member res_remove3_update res
         (with_os (\<lambda>s. nfs3_remove (env_sys E) s (arg_remove3 arg) (res_remove3 res)) st)),
       xdr_decode_func = xdr_field arg_remove3 arg_remove3_update xdr_REMOVE3args,
       xdr_encode_func = xdr_field res_remove3 res_remove3_update xdr_REMOVE3res,
       funcname = ''NFS3_REMOVE'', dispatch_behaviour = MAKES_WRITE OR NEEDS_CRED OR CAN_BE_DUP OR SUPPORTS_GSS\<rparr>,
      \<lparr>service_function = (\<lambda>E req st arg res. in_member res_rmdir3_update res
         (with_os (\<lambda>s. nfs3_rmdir (env_sys E) s (arg_rmdir3 arg) (res_rmdir3 res)) st)),
       xdr_decode_func = xdr_field arg_rmdir3 arg_rmdir3_update xdr_RMDIR3args,
       xdr_encode_func = xdr_field res_rmdir3 res_rmdir3_update xdr_RMDIR3res,
       funcname = ''NFS3_RMDIR'', dispatch_behaviour = MAKES_WRITE OR NEEDS_CRED OR CAN_BE_DUP OR SUPPORTS_GSS\<rparr>,
      \<lparr>service_function = (\<lambda>E req st arg res. in_member res_rename3_update res
         (with_os (\<lambda>s. nfs3_rename (env_sys E) s (arg_rename3 arg) (res_rename3 res)) st)),
       xdr_decode_func = xdr_field arg_rename3 arg_rename3_update xdr_RENAME3args,
       xdr_encode_func = xdr_field res_rename3 res_rename3_update xdr_RENAME3res,
       funcname = ''NFS3_RENAME'', dispatch_behaviour = MAKES_WRITE OR NEEDS_CRED OR CAN_BE_DUP OR SUPPORTS_GSS\<rparr>,
      \<lparr>service_function = (\<lambda>E req st arg res. in_member res_link3_update res
         (with_os (\<lambda>s. nfs3_link (env_sys E) s (arg_link3 arg) (res_link3 res)) st)),
       xdr_decode_func = xdr_field arg_link3 arg_link3_update xdr_LINK3args,
       xdr_encode_func = xdr_field res_link3 res_link3_update xdr_LINK3res,
       funcname = ''NFS3_LINK'', dispatch_behaviour = MAKES_WRITE OR NEEDS_CRED OR CAN_BE_DUP OR SUPPORTS_GSS\<rparr>,
      \<lparr>service_function = (\<lambda>E req st arg res. in_member res_readdir3_update res
         (with_os (\<lambda>s. nfs3_readdir (env_sys E) (env_cookies E) s (arg_readdir3 arg) (res_readdir3 res)) st)),
       xdr_decode_func = xdr_field arg_readdir3 arg_readdir3_update xdr_READDIR3args,
       xdr_encode_func = xdr_field res_readdir3 res_readdir3_update xdr_READDIR3res,
       funcname = ''NFS3_READDIR'', dispatch_behaviour = NEEDS_CRED OR SUPPORTS_GSS\<rparr>,
      \<lparr>service_function = (\<lambda>E req st arg res. in_member res_readdirplus3_update res
         (with_os (\<lambda>s. nfs3_readdirplus (env_sys E) (env_core E) (env_nodes E) s (arg_readdirplus3 arg) (res_readdirplus3 res)) st)),
       xdr_decode_func = xdr_field arg_readdirplus3 arg_readdirplus3_update xdr_READDIRPLUS3args,
       xdr_encode_func = xdr_field res_readdirplus3 res_readdirplus3_update xdr_READDIRPLUS3res,
       funcname = ''NFS3_READDIRPLUS'', dispatch_behaviour = NEEDS_CRED OR SUPPORTS_GSS\<rparr>,
      \<lparr>service_function = (\<lambda>E req st arg res. in_member res_fsstat3_update res
         (with_os (\<lambda>s. nfs3_fsstat (env_sys E) s (arg_fsstat3 arg) (res_fsstat3 res)) st)),
       xdr_decode_func = xdr_field arg_fsstat3 arg_fsstat3_update xdr_FSSTAT3args,
       xdr_encode_func = xdr_field res_fsstat3 res_fsstat3_update xdr_FSSTAT3res,
       funcname = ''NFS3_FSSTAT'', dispatch_behaviour = NEEDS_CRED OR SUPPORTS_GSS\<rparr>,
      \<lparr>service_function = (\<lambda>E req st arg res. in_member res_fsinfo3_update res
         (with_os (\<lambda>s. nfs3_fsinfo (env_sys E) s (arg_fsinfo3 arg) (res_fsinfo3 res)) st)),
       xdr_decode_func = xdr_field arg_fsinfo3 arg_fsinfo3_update xdr_FSINFO3args,
       xdr_encode_func = xdr_field res_fsinfo3 res_fsinfo3_update xdr_FSINFO3res,
       funcname = ''NFS3_FSINFO'', dispatch_behaviour = NEEDS_CRED\<rparr>,
      \<lparr>service_function = (\<lambda>E req st arg res. in_member res_pathconf3_update res
         (with_os (\<lambda>s. nfs3_pathconf (env_sys E) s (arg_pathconf3 arg) (res_pathconf3 res)) st)),
       xdr_decode_func = xdr_field arg_pathconf3 arg_pathconf3_update xdr_PATHCONF3args,
       xdr_encode_func = xdr_field res_pathconf3 res_pathconf3_update xdr_PATHCONF3res,
       funcname = ''NFS3_PATHCONF'', dispatch_behaviour = NEEDS_CRED OR SUPPORTS_GSS\<rparr>,
      \<lparr>service_function = (\<lambda>E req st arg res. in_member res_commit3_update res
         (nfs3_commit (env_sys E) st (arg_commit3 arg) (res_commit3 res))),
       xdr_decode_func = xdr_field arg_commit3 arg_commit3_update xdr_COMMIT3args,
       xdr_encode_func = xdr_field res_commit3 res_commit3_update xdr_COMMIT3res,
       funcname = ''NFS3_COMMIT'', dispatch_behaviour = MAKES_WRITE OR NEEDS_CRED OR SUPPORTS_GSS\<rparr>]"

definition mnt3_func_desc :: "'os nfs_function_desc list" where
  "mnt3_func_desc =
     [\<lparr>service_function = (\<lambda>E req st arg res.
         map_option (\<lambda>(st, _, rc). (st, res, rc)) (mnt_null st)),
       xdr_decode_func = xdr_void, xdr_encode_func = xdr_void,
       funcname = ''MNT_NULL'', dispatch_behaviour = NOTHING_SPECIAL\<rparr>,
      \<lparr>service_function = (\<lambda>E req st arg res. in_member res_mnt3_update res
         (mnt_mnt (cb_vers req) st (arg_mnt arg) (res_mnt3 res))),
       xdr_decode_func = xdr_field arg_mnt arg_mnt_update xdr_dirpath,
       xdr_encode_func = xdr_field res_mnt3 res_mnt3_update xdr_mountres3,
       funcname = ''MNT_MNT'', dispatch_behaviour = NOTHING_SPECIAL\<rparr>,
      \<lparr>service_function = (\<lambda>E req st arg res. in_member res_dump_update res
         (mnt_dump st (res_dump res))),
       xdr_decode_func = xdr_void,
       xdr_encode_func = xdr_field res_dump res_dump_update xdr_mountlist,
       funcname = ''MNT_DUMP'', dispatch_behaviour = NOTHING_SPECIAL\<rparr>,
      \<lparr>service_function = (\<lambda>E req st arg res.
         map_option (\<lambda>(st, _, rc). (st, res, rc)) (mnt_umnt st (arg_mnt arg))),
       xdr_decode_func = xdr_field arg_mnt arg_mnt_update xdr_dirpath, xdr_encode_func = xdr_void,
       funcname = ''MNT_UMNT'', dispatch_behaviour = NOTHING_SPECIAL\<rparr>,
      \<lparr>service_function = (\<lambda>E req st arg res.
         map_option (\<lambda>(st, _, rc). (st, res, rc)) (mnt_umntAll st)),
       xdr_decode_func = xdr_void, xdr_encode_func = xdr_void,
       funcname = ''MNT_UMNTALL'', dispatch_behaviour = NOTHING_SPECIAL\<rparr>,
      \<lparr>service_function = (\<lambda>E req st arg res. in_member res_mntexport_update res
         (mnt_export st (res_mntexport res))),
       xdr_decode_func = xdr_void,
       xdr_encode_func = xdr_field res_mntexport res_mntexport_update xdr_exports,
       funcname = ''MNT_EXPORT'', dispatch_behaviour = NOTHING_SPECIAL\<rparr>]"

section \<open>A call and its reply\<close>

definition NFS_PROGRAM :: uint32 where [nfs_consts]: "NFS_PROGRAM = 100003"
definition NFS_V3 :: uint32 where [nfs_consts]: "NFS_V3 = 3"
definition NFSPROC3_COMMIT :: uint32 where [nfs_consts]: "NFSPROC3_COMMIT = 21"
definition MNT_PROGRAM :: uint32 where [nfs_consts]: "MNT_PROGRAM = 100005"
definition MOUNTPROC3_EXPORT :: uint32 where [nfs_consts]: "MOUNTPROC3_EXPORT = 5"
definition NFSPROC_NULL :: uint32 where [nfs_consts]: "NFSPROC_NULL = 0"

text \<open>
  What happens to a call: an error reply of the RPC layer, no reply, or a reply whose
  results were encoded into the stream (\<open>Replied ok out\<close>; \<open>svc_sendreply\<close> fails when
  the results cannot be encoded).
\<close>

datatype outcome =
  Noprog | Progvers uint32 uint32 | Noproc | Auth_error auth_stat | Decode_error
| Dropped | Suspended | Replied bool XDR

definition nfs_rpc_noprog :: outcome where
  "nfs_rpc_noprog = Noprog"

definition nfs_rpc_novers :: outcome where
  "nfs_rpc_novers = Progvers NFS_V3 NFS_V3"

definition nfs_rpc_noproc :: outcome where
  "nfs_rpc_noproc = Noproc"

definition complete_request ::
  "'os nfs_function_desc \<Rightarrow> nfs_req_result \<Rightarrow> XDR \<Rightarrow> nfs_res_t \<Rightarrow> outcome" where
  "complete_request reqdesc rc out res =
     (if rc = NFS_REQ_DROP then Dropped
      else case xdr_encode_func reqdesc out res of (ok, out, _) \<Rightarrow> Replied ok out)"

text \<open>
  The result structure is fresh memory, \<open>res\<close>.  The service function is not called for
  the NULL procedure.
\<close>

definition nfs_rpc_process_request ::
  "'os env \<Rightarrow> 'os state \<Rightarrow> 'os nfs_function_desc \<Rightarrow> rpc_call \<Rightarrow> XDR \<Rightarrow> XDR \<Rightarrow> nfs_res_t \<Rightarrow>
   ('os state \<times> outcome) option" where
  "nfs_rpc_process_request E st reqdesc msg xdrs out res =
     do {
       auth_rc \<leftarrow> svc_auth_authenticate (cb_cred msg);
       if auth_rc \<noteq> AUTH_OK then Some (st, Auth_error auth_rc)
       else
       case xdr_decode_func reqdesc xdrs zero_arg of
         (False, _, _) \<Rightarrow> Some (st, Decode_error)
       | (True, xdrs, arg_nfs) \<Rightarrow>
           do {
             (st, res, rc) \<leftarrow>
               (if cb_proc msg \<noteq> NFSPROC_NULL then service_function reqdesc E msg st arg_nfs res
                else Some (st, res, NFS_REQ_OK));
             if rc = NFS_REQ_ASYNC_WAIT then Some (st, Suspended)
             else Some (st, complete_request reqdesc rc out res)
           }
     }"

definition nfs_rpc_valid_NFS ::
  "'os env \<Rightarrow> 'os state \<Rightarrow> rpc_call \<Rightarrow> XDR \<Rightarrow> XDR \<Rightarrow> nfs_res_t \<Rightarrow> ('os state \<times> outcome) option" where
  "nfs_rpc_valid_NFS E st msg xdrs out res =
     (if cb_prog msg \<noteq> NFS_PROGRAM then Some (st, nfs_rpc_noprog)
      else if cb_vers msg = NFS_V3
      then (if cb_proc msg \<le> NFSPROC3_COMMIT
            then nfs_rpc_process_request E st (nfs3_func_desc ! unat (cb_proc msg)) msg xdrs out res
            else Some (st, nfs_rpc_noproc))
      else Some (st, nfs_rpc_novers))"

definition nfs_rpc_valid_MNT ::
  "'os env \<Rightarrow> 'os state \<Rightarrow> rpc_call \<Rightarrow> XDR \<Rightarrow> XDR \<Rightarrow> nfs_res_t \<Rightarrow> ('os state \<times> outcome) option" where
  "nfs_rpc_valid_MNT E st msg xdrs out res =
     (if cb_prog msg \<noteq> MNT_PROGRAM then Some (st, nfs_rpc_noprog)
      else if cb_vers msg = MOUNT_V3
      then (if cb_proc msg \<le> MOUNTPROC3_EXPORT
            then nfs_rpc_process_request E st (mnt3_func_desc ! unat (cb_proc msg)) msg xdrs out res
            else Some (st, nfs_rpc_noproc))
      else Some (st, nfs_rpc_novers))"

section \<open>The dispatch table\<close>

lemma table_length [simp]: "length nfs3_func_desc = 22"
  by (simp add: nfs3_func_desc_def)

lemma table_routines_safe:
  "d \<in> set nfs3_func_desc \<Longrightarrow> xdr_safe (xdr_decode_func d) \<and> xdr_safe (xdr_encode_func d)"
proof -
  have "\<forall>d\<in>set nfs3_func_desc. xdr_safe (xdr_decode_func d) \<and> xdr_safe (xdr_encode_func d)"
    unfolding nfs3_func_desc_def by (simp, intro conjI) (rule xdr_safe_intros)+
  then show "d \<in> set nfs3_func_desc \<Longrightarrow> xdr_safe (xdr_decode_func d) \<and> xdr_safe (xdr_encode_func d)"
    by blast
qed

lemma mount_routines_safe:
  "d \<in> set mnt3_func_desc \<Longrightarrow> xdr_safe (xdr_decode_func d) \<and> xdr_safe (xdr_encode_func d)"
proof -
  have "\<forall>d\<in>set mnt3_func_desc. xdr_safe (xdr_decode_func d) \<and> xdr_safe (xdr_encode_func d)"
    unfolding mnt3_func_desc_def xdr_dirpath_def
    by (simp, intro conjI)
       (rule xdr_safe_intros mountres3.xdr_safe_axioms mountlist.loop_safe exports.loop_safe)+
  then show "d \<in> set mnt3_func_desc \<Longrightarrow> xdr_safe (xdr_decode_func d) \<and> xdr_safe (xdr_encode_func d)"
    by blast
qed

lemma table_entry: "cb_proc msg \<le> NFSPROC3_COMMIT \<Longrightarrow> nfs3_func_desc ! unat (cb_proc msg) \<in> set nfs3_func_desc"
  by (rule nth_mem) (simp add: NFSPROC3_COMMIT_def word_le_nat_alt)

text \<open>A service function that works on the operating system alone leaves the table.\<close>

lemma in_member_Some:
  "in_member upd res r = Some (st, m, rc) \<longleftrightarrow> (\<exists>x. r = Some (st, x, rc) \<and> m = upd (\<lambda>_. x) res)"
  by (auto simp: in_member_def)

lemma with_os_table: "with_os h st = Some (st', m, rc) \<Longrightarrow> snd st' = snd st"
  by (auto simp: with_os_def)

lemma service_resting:
  assumes "d \<in> set nfs3_func_desc" "table_resting T n" "n < 2 ^ 31"
    and "service_function d E msg (s, T) arg res = Some ((s', T'), r, rc)"
  shows "table_resting T' (Suc n)"
  using assms(1,4) write_table [OF assms(2,3)] commit_table [OF assms(2)] table_resting_mono [OF assms(2), of "Suc n"]
  unfolding nfs3_func_desc_def
  by (auto simp: in_member_Some nfs_null_def dest!: with_os_table)


lemma process_request_resting:
  assumes "d \<in> set nfs3_func_desc" "table_resting T n" "n < 2 ^ 31"
    and "nfs_rpc_process_request E (s, T) d msg xdrs out res = Some ((s', T'), oc)"
  shows "table_resting T' (Suc n)"
  using assms(4) service_resting [OF assms(1-3)] table_resting_mono [OF assms(2), of "Suc n"]
  by (auto simp: nfs_rpc_process_request_def split: bind_splits if_splits prod.splits bool.splits)

lemma valid_NFS_resting:
  assumes "table_resting T n" "n < 2 ^ 31"
    and "nfs_rpc_valid_NFS E (s, T) msg xdrs out res = Some ((s', T'), oc)"
  shows "table_resting T' (Suc n)"
  using assms(3) process_request_resting [OF table_entry assms(1,2)] table_resting_mono [OF assms(1), of "Suc n"]
  by (auto simp: nfs_rpc_valid_NFS_def split: if_splits)

text \<open>The MOUNT procedures change nothing on the server.\<close>

lemma mount_service_state:
  "d \<in> set mnt3_func_desc \<Longrightarrow> service_function d E msg st arg res = Some (st', r, rc) \<Longrightarrow> st' = st"
  by (auto simp: mnt3_func_desc_def in_member_Some mnt_null_def mnt_mnt_def mnt_dump_def mnt_umnt_def mnt_umntAll_def
      mnt_export_def split: if_splits option.splits)

lemma mount_entry: "cb_proc msg \<le> MOUNTPROC3_EXPORT \<Longrightarrow> mnt3_func_desc ! unat (cb_proc msg) \<in> set mnt3_func_desc"
  by (rule nth_mem) (simp add: MOUNTPROC3_EXPORT_def word_le_nat_alt mnt3_func_desc_def)

lemma valid_MNT_state:
  assumes "nfs_rpc_valid_MNT E st msg xdrs out res = Some (st', oc)"
  shows "st' = st"
  using assms mount_service_state [OF mount_entry, of msg E msg st]
  by (auto simp: nfs_rpc_valid_MNT_def nfs_rpc_process_request_def split: bind_splits if_splits prod.splits bool.splits)

text \<open>
  The runs of the server: any calls of either program, one after the other, and any change of the operating
  system by others in between.
\<close>

inductive serving :: "'os env \<Rightarrow> nat \<Rightarrow> 'os state \<Rightarrow> bool" for E where
  serving_start: "serving E 0 (s, FsalHandle_init)"
| serving_call: "serving E n st \<Longrightarrow> nfs_rpc_valid_NFS E st msg xdrs out res = Some (st', oc) \<Longrightarrow>
    serving E (Suc n) st'"
| serving_mount: "serving E n st \<Longrightarrow> nfs_rpc_valid_MNT E st msg xdrs out res = Some (st', oc) \<Longrightarrow>
    serving E (Suc n) st'"
| serving_other: "serving E n (s, T) \<Longrightarrow> serving E n (s', T)"


lemma serving_resting: "serving E n st \<Longrightarrow> n \<le> 2 ^ 31 \<Longrightarrow> table_resting (snd st) n"
proof (induction rule: serving.induct)
  case (serving_call n st msg xdrs out res st' oc)
  then show ?case
    by (cases st; cases st') (auto intro: valid_NFS_resting)
next
  case (serving_mount n st msg xdrs out res st' oc)
  then show ?case
    using valid_MNT_state [of E st msg xdrs out res st' oc] table_resting_mono [of "snd st" n "Suc n"] by simp
qed (simp_all add: table_resting_init)

lemma table_GETATTR: "cb_proc msg = 1 \<Longrightarrow> nfs3_func_desc ! unat (cb_proc msg) =
    \<lparr>service_function = (\<lambda>E req st arg res. in_member res_getattr3_update res
         (with_os (\<lambda>s. nfs3_getattr (env_sys E) s (arg_getattr3 arg) (res_getattr3 res)) st)),
       xdr_decode_func = xdr_field arg_getattr3 arg_getattr3_update xdr_GETATTR3args,
       xdr_encode_func = xdr_field res_getattr3 res_getattr3_update xdr_GETATTR3res,
       funcname = ''NFS3_GETATTR'', dispatch_behaviour = NEEDS_CRED OR SUPPORTS_GSS\<rparr>"
  by (simp add: nfs3_func_desc_def)


text \<open>A call whose arguments decode, served by an entry of the table.\<close>

lemma call_served:
  assumes "cb_prog msg = NFS_PROGRAM" "cb_vers msg = NFS_V3" "cb_proc msg \<le> NFSPROC3_COMMIT" "cb_proc msg \<noteq> 0"
    and "svc_auth_authenticate (cb_cred msg) = Some AUTH_OK"
    and "d = nfs3_func_desc ! unat (cb_proc msg)"
    and "xdr_decode_func d xdrs zero_arg = (True, xdrs', arg)"
    and "service_function d E msg st arg res = Some (st', r, rc)" "rc = NFS_REQ_OK \<or> rc = NFS_REQ_ERROR"
    and "xdr_encode_func d out r = (ok, out', r')"
  shows "nfs_rpc_valid_NFS E st msg xdrs out res = Some (st', Replied ok out')"
  using assms
  by (auto simp: nfs_rpc_valid_NFS_def nfs_rpc_process_request_def complete_request_def NFSPROC_NULL_def)

text \<open>A handle decoded into zeroed memory is the handle sent.\<close>

lemma dec_handle_zero:
  assumes "valid_nfs_fh3 fh" "data_len fh \<noteq> 0"
  shows "data_len (dec_nfs_fh3 fh zero_fh3) = data_len fh"
    "get_file_handle fh = Some p \<Longrightarrow> get_file_handle (dec_nfs_fh3 fh zero_fh3) = Some p"
  using assms
  by (auto simp: dec_nfs_fh3_def fh3_data_update_def fh3_data_def zero_fh3_def get_file_handle_def valid_nfs_fh3_def
      block_def overwrite_def)

lemma length_wire_fattr3: "length (wire_fattr3 a) = 84"
  by (simp add: wire_fattr3_def wire_defs)

definition sample_call :: "uint32 \<Rightarrow> rpc_call" where
  "sample_call proc = \<lparr>cb_prog = NFS_PROGRAM, cb_vers = NFS_V3, cb_proc = proc,
     cb_cred = \<lparr>oa_flavor = AUTH_NONE, oa_length = 0, oa_body = replicate 400 0\<rparr>\<rparr>"

definition sample_in :: "byte list \<Rightarrow> XDR" where
  "sample_in bs = \<lparr>x_op = XDR_DECODE, x_buf = bs, x_data = 0,
     x_v = \<lparr>vio_base = 0, vio_head = 0, vio_tail = length bs, vio_wrap = length bs\<rparr>, x_public = None\<rparr>"

definition sample_out :: "nat \<Rightarrow> XDR" where
  "sample_out n = \<lparr>x_op = XDR_ENCODE, x_buf = replicate n 0, x_data = 0,
     x_v = \<lparr>vio_base = 0, vio_head = 0, vio_tail = 0, vio_wrap = n\<rparr>, x_public = None\<rparr>"

lemma sample_streams [simp]:
  "xdr_wf (sample_in bs)" "x_op (sample_in bs) = XDR_DECODE" "unread (sample_in bs) = bs"
  "xdr_wf (sample_out n)" "x_op (sample_out n) = XDR_ENCODE" "room (sample_out n) = n"
  "x_data (sample_in bs) = 0" "x_buf (sample_in bs) = bs" "xv_wrap (sample_in bs) = length bs"
  by (simp_all add: sample_in_def sample_out_def xdr_wf_def unread_def room_def)

lemma sample_accepted [simp]: "svc_auth_authenticate (cb_cred (sample_call proc)) = Some AUTH_OK"
  by (simp add: sample_call_def svc_auth_authenticate_def svcauth_none_def)

lemma sample_call_fields [simp]:
  "cb_prog (sample_call proc) = NFS_PROGRAM" "cb_vers (sample_call proc) = NFS_V3" "cb_proc (sample_call proc) = proc"
  by (simp_all add: sample_call_def)

definition sample_env :: "nat env" where
  "sample_env =
     \<lparr>env_sys = sample_sys, env_core = sample_config,
      env_stack_ts = (\<lparr>ts_sec = 0, ts_nsec = 0\<rparr>, \<lparr>ts_sec = 0, ts_nsec = 0\<rparr>), env_beyond = [0],
      env_cookies = (\<lambda>_. 0), env_nodes = (\<lambda>_. chain_body zero_entryplus3)\<rparr>"

lemma sample_env_sys [simp]: "env_sys sample_env = sample_sys"
  by (simp add: sample_env_def)

lemma sample_valid_fh [simp]: "valid_nfs_fh3 (sample_fh sample_file)" "valid_nfs_fh3 (sample_fh sample_dir)"
  by (simp_all add: sample_fh_def valid_set_file_handle)

text \<open>A routine that fails on a stream whatever it is to fill.\<close>

definition xdr_stuck :: "XDR \<Rightarrow> 'a xdrproc \<Rightarrow> bool" where
  "xdr_stuck xdrs p \<longleftrightarrow> (\<forall>v. \<not> fst (p xdrs v))"

lemma xdr_stuck_field: "xdr_stuck xdrs p \<Longrightarrow> xdr_stuck xdrs (xdr_field get upd p)"
  by (simp add: xdr_stuck_def xdr_field_def case_prod_unfold)

lemma xdr_stuck_seq: "xdr_stuck xdrs p \<Longrightarrow> xdr_stuck xdrs (xdr_seq p q)"
  by (simp add: xdr_stuck_def xdr_seq_def case_prod_unfold)

lemma xdr_stuck_all: "xdr_stuck xdrs p \<Longrightarrow> xdr_stuck xdrs (xdr_all (p # ps))"
  by (simp add: xdr_stuck_seq)

lemmas xdr_stuck_intros = xdr_stuck_all xdr_stuck_field

lemma xdr_stuck_handle:
  assumes "xdr_wf xdrs" "x_op xdrs = XDR_DECODE" "unread xdrs = htonl_bytes n @ rest" "n > 64"
  shows "xdr_stuck xdrs xdr_nfs_fh3"
proof -
  have "xdr_getuint32 xdrs 0 = (True, skip 4 xdrs, n)"
    using assms ntohl_unread [OF assms(3)] by (simp add: xdr_getuint32_skip)
  with assms(2,4) show ?thesis
    by (simp add: xdr_stuck_def xdr_nfs_fh3_def xdr_field_def xdr_bytes.simps xdr_bytes_decode_def fh3_data_def)
qed

lemma xdr_stuck_WRITE3args: "xdr_stuck xdrs xdr_WRITE3args_members \<Longrightarrow> xdr_stuck xdrs xdr_WRITE3args"
  by (simp add: xdr_stuck_def xdr_WRITE3args_def case_prod_unfold)

lemma xdr_stuck_CREATE3args: "xdr_stuck xdrs xdr_CREATE3args_members \<Longrightarrow> xdr_stuck xdrs xdr_CREATE3args"
  by (simp add: xdr_stuck_def xdr_CREATE3args_def case_prod_unfold)

lemmas args_defs =
  xdr_GETATTR3args_def xdr_SETATTR3args_def xdr_LOOKUP3args_def xdr_ACCESS3args_def xdr_READLINK3args_def
  xdr_READ3args_def xdr_WRITE3args_members_def xdr_CREATE3args_members_def xdr_MKDIR3args_def xdr_SYMLINK3args_def
  xdr_MKNOD3args_def xdr_REMOVE3args_def xdr_RMDIR3args_def xdr_RENAME3args_def xdr_LINK3args_def
  xdr_READDIR3args_def xdr_READDIRPLUS3args_def xdr_FSSTAT3args_def xdr_FSINFO3args_def xdr_PATHCONF3args_def
  xdr_COMMIT3args_def xdr_diropargs3_def

lemma table_stuck:
  assumes h: "xdr_stuck xdrs xdr_nfs_fh3"
  shows "\<forall>d\<in>set (tl nfs3_func_desc). xdr_stuck xdrs (xdr_decode_func d)"
  unfolding nfs3_func_desc_def
  by (simp add: args_defs del: xdr_all.simps, intro conjI)
     (rule h xdr_stuck_intros xdr_stuck_WRITE3args [unfolded args_defs] xdr_stuck_CREATE3args [unfolded args_defs])+

lemma query_state:
  "nfs3_getattr P s ga gr = Some (s', gr', rc) \<Longrightarrow> s' = s"
  "nfs3_lookup P s la lr = Some (s', lr', rc) \<Longrightarrow> s' = s"
  "nfs3_access P s aa ar = Some (s', ar', rc) \<Longrightarrow> s' = s"
  "nfs3_fsstat P s fa fr = Some (s', fr', rc) \<Longrightarrow> s' = s"
  "nfs3_fsinfo P s ia ir = Some (s', ir', rc) \<Longrightarrow> s' = s"
  "nfs3_pathconf P s pa pr = Some (s', pr', rc) \<Longrightarrow> s' = s"
  by (auto simp: nfs3_getattr_def nfs3_lookup_def nfs3_access_def nfs3_fsstat_def nfs3_fsinfo_def nfs3_pathconf_def
      Let_def split: bind_splits if_splits prod.splits option.splits)

lemma with_os_query:
  "with_os h st = Some (st', m, rc) \<Longrightarrow> (\<And>s s' m rc. h s = Some (s', m, rc) \<Longrightarrow> s' = s) \<Longrightarrow> st' = st"
  by (cases st) (auto simp: with_os_def)

text \<open>An exact block: the memory behind a counted buffer is just its bytes.\<close>

definition exact_handle :: "nfs_fh3 \<Rightarrow> bool" where
  "exact_handle fh \<longleftrightarrow> data_len fh \<noteq> 0 \<and> (\<exists>bs. data_val fh = Some bs \<and> length bs = unat (data_len fh))"

definition exact_data :: "io_data \<Rightarrow> bool" where
  "exact_data d \<longleftrightarrow> io_data_len d \<noteq> 0 \<and> (\<exists>bs. io_data_val d = Some bs \<and> length bs = unat (io_data_len d))"

lemma dec_exact_handle: "exact_handle fh \<Longrightarrow> dec_nfs_fh3 fh zero_fh3 = fh"
  by (cases fh) (auto simp: exact_handle_def dec_nfs_fh3_def fh3_data_update_def fh3_data_def zero_fh3_def block_def overwrite_def)

lemma dec_exact_data: "exact_data d \<Longrightarrow> dec_io_data d \<lparr>io_data_len = 0, io_data_val = None\<rparr> = d"
  by (cases d) (auto simp: exact_data_def dec_io_data_def io_cell_update_def io_cell_def block_def overwrite_def)

definition sample_write_args :: WRITE3args where
  "sample_write_args =
     \<lparr>wr_file = \<lparr>data_len = 3, data_val = Some [0x64, 0x2F, 0x66]\<rparr>, wr_offset = 5, wr_count = 2, wr_stable = FILE_SYNC,
      wr_data = \<lparr>io_data_len = 2, io_data_val = Some [0x21, 0x21]\<rparr>\<rparr>"

lemma sample_write_args_valid:
  "valid_WRITE3args sample_write_args" "exact_handle (wr_file sample_write_args)" "exact_data (wr_data sample_write_args)"
  "length (wire_WRITE3args sample_write_args) \<le> 100"
  by (simp_all add: sample_write_args_def valid_WRITE3args_def valid_nfs_fh3_def fh3_data_def valid_io_data_def io_cell_def
      block_def exact_handle_def exact_data_def wire_WRITE3args_def wire_defs wire_io_data_def nfs_consts
      wire_counted_def length_wire_opaque pad_len_def)

section \<open>Calls served from bytes to bytes\<close>

lemma request_served:
  assumes "svc_auth_authenticate (cb_cred msg) = Some AUTH_OK" "cb_proc msg \<noteq> 0"
    and "xdr_decode_func d xdrs zero_arg = (True, xdrs', arg)"
    and "service_function d E msg st arg res = Some (st', r, rc)" "rc = NFS_REQ_OK \<or> rc = NFS_REQ_ERROR"
    and "xdr_encode_func d out r = (ok, out', r')"
  shows "nfs_rpc_process_request E st d msg xdrs out res = Some (st', Replied ok out')"
  using assms by (auto simp: nfs_rpc_process_request_def complete_request_def NFSPROC_NULL_def)

definition mount_reply :: "byte list \<Rightarrow> byte list" where
  "mount_reply path = htonl_bytes MNT3_OK @ wire_counted path @ htonl_bytes 1 @ htonl_bytes AUTH_NONE"

lemma table_MNT: "cb_proc msg = 1 \<Longrightarrow> mnt3_func_desc ! unat (cb_proc msg) =
    \<lparr>service_function = (\<lambda>E req st arg res. in_member res_mnt3_update res
         (mnt_mnt (cb_vers req) st (arg_mnt arg) (res_mnt3 res))),
       xdr_decode_func = xdr_field arg_mnt arg_mnt_update xdr_dirpath,
       xdr_encode_func = xdr_field res_mnt3 res_mnt3_update xdr_mountres3,
       funcname = ''MNT_MNT'', dispatch_behaviour = NOTHING_SPECIAL\<rparr>"
  by (simp add: mnt3_func_desc_def)

definition mounted :: "byte list \<Rightarrow> mountres3" where
  "mounted path =
     \<lparr>fhs_status = MNT3_OK,
      mountinfo = \<lparr>fhandle = \<lparr>fhandle3_len = of_nat (length path), fhandle3_val = Some (path @ [0])\<rparr>,
                   auth_flavors_len = 1, auth_flavors_val = Some [AUTH_NONE]\<rparr>\<rparr>"

lemma mounted_valid: "length path \<le> 64 \<Longrightarrow> valid_mountres3 (mounted path)"
  by (simp add: valid_mountres3_def mounted_def valid_mountres3_ok_def valid_fhandle3_def fhandle3_cell_def flavors_cell_def
      block_def elems_block_def word_le_nat_alt nfs_consts unsigned_of_nat take_bit_nat_eq_self)

lemma mounted_wire: "length path \<le> 64 \<Longrightarrow> wire_mountres3 (mounted path) = mount_reply path"
  by (simp add: mounted_def wire_mountres3_def wire_mountres3_ok_def wire_fhandle3_def fhandle3_cell_def flavors_cell_def
      wire_array_def elems_block_def block_def mount_reply_def unsigned_of_nat take_bit_nat_eq_self)

lemma mounted_long:
  assumes "64 < length path" "length path \<le> 1024" "x_op out = XDR_ENCODE"
  shows "\<not> fst (xdr_mountres3 out (mounted path))"
proof -
  have n: "(of_nat (length path) :: uint32) > 64"
    using assms by (simp add: word_less_nat_alt unsigned_of_nat take_bit_nat_eq_self)
  obtain ok out' v where e: "xdr_enum out MNT3_OK = (ok, out', v)"
    by (cases "xdr_enum out MNT3_OK") auto
  have v: "v = MNT3_OK" and o: "x_op out' = XDR_ENCODE"
    using e assms(3) by (auto simp: xdr_enum_def xdr_access_defs Let_def split: prod.splits if_splits)
  have "\<not> fst (xdr_fhandle3 out' (fhandle (mountinfo (mounted path))))"
    using n o by (simp add: xdr_fhandle3_def mounted_def xdr_field_def fhandle3_cell_def xdr_bytes_encode_def case_prod_unfold)
  then have "\<not> fst (xdr_mountres3_ok out' (mountinfo (mounted path)))"
    by (simp add: xdr_mountres3_ok_def xdr_seq_def xdr_field_def case_prod_unfold)
  moreover have "fhs_status (mounted path) = MNT3_OK"
    by (simp add: mounted_def)
  ultimately show ?thesis
    using e v by (cases ok) (simp_all add: xdr_mountres3_def xdr_mountstat3_def xdr_tagged_def xdr_seq_def xdr_field_def
        xdr_switch_def case_prod_unfold)
qed

lemma mount_served:
  assumes call: "cb_prog msg = MNT_PROGRAM" "cb_vers msg = MOUNT_V3" "cb_proc msg = 1"
    "svc_auth_authenticate (cb_cred msg) = Some AUTH_OK"
    and req: "xdr_wf xdrs" "x_op xdrs = XDR_DECODE" "unread xdrs = wire_counted path @ rest"
      "0 \<notin> set path" "length path \<le> 1024"
    and reply: "xdr_mountres3 out (mounted path) = (ok, out', r)"
  shows "nfs_rpc_valid_MNT E st msg xdrs out res = Some (st, Replied ok out')"
proof -
  let ?d = "mnt3_func_desc ! unat (cb_proc msg)"
  note d = table_MNT [OF call(3)]
  have c: "c_str (path @ [0]) = path"
    using req(4) by (simp add: c_str_no_zero)
  have l: "ucast (strlen (path @ [0])) = (of_nat (length path) :: uint32)"
    using req(5) by (simp add: strlen_def c word_eq_iff_unsigned unsigned_ucast_eq unsigned_of_nat take_bit_nat_eq_self)
  have "xdr_string MNTPATHLEN xdrs None = (True, skip (length (wire_counted path)) xdrs, Some (path @ [0]))"
    using string.decode [OF req(1,2), of MNTPATHLEN "Some (path @ [0])" rest None] req(3,5)
    by (simp add: string_valid_def string_dec_def block_def overwrite_def c MNTPATHLEN_def)
  then have "xdr_decode_func ?d xdrs zero_arg =
      (True, skip (length (wire_counted path)) xdrs, zero_arg\<lparr>arg_mnt := Some (path @ [0])\<rparr>)"
    by (simp add: d xdr_field_result xdr_dirpath_def zero_arg_def)
  moreover have "service_function ?d E msg st (zero_arg\<lparr>arg_mnt := Some (path @ [0])\<rparr>) res =
      Some (st, res\<lparr>res_mnt3 := mounted path\<rparr>, NFS_REQ_OK)"
    by (simp add: d in_member_def mnt_mnt_def call(2) mounted_def l)
  moreover have "xdr_encode_func ?d out (res\<lparr>res_mnt3 := mounted path\<rparr>) = (ok, out', res\<lparr>res_mnt3 := r\<rparr>)"
    using reply by (simp add: d xdr_field_result)
  ultimately have "nfs_rpc_process_request E st ?d msg xdrs out res = Some (st, Replied ok out')"
    using call by (intro request_served) auto
  then show ?thesis
    using call by (simp add: nfs_rpc_valid_MNT_def MOUNTPROC3_EXPORT_def)
qed

lemma getattr_served:
  assumes call: "cb_prog msg = NFS_PROGRAM" "cb_vers msg = NFS_V3" "cb_proc msg = 1"
    "svc_auth_authenticate (cb_cred msg) = Some AUTH_OK"
    and req: "xdr_wf xdrs" "x_op xdrs = XDR_DECODE" "valid_GETATTR3args args"
      "unread xdrs = wire_GETATTR3args args @ rest" "data_len (geta_object args) \<noteq> 0"
    and f: "get_file_handle (geta_object args) = Some p" "sys_lstat (env_sys E) s p = Inr st"
      "ftype_of_mode (st_mode st) = Some t"
    and reply: "xdr_wf out" "x_op out = XDR_ENCODE" "88 \<le> room out"
  shows "nfs_rpc_valid_NFS E (s, T) msg xdrs out res =
    Some ((s, T), Replied True (emit (htonl_bytes NFS3_OK @ wire_fattr3 (fattr3_of_stat st t zero_fattr3)) out))"
proof -
  let ?d = "nfs3_func_desc ! unat (cb_proc msg)"
  let ?r = "(res_getattr3 res)\<lparr>getar_status := NFS3_OK,
    getar_u := \<lparr>getar_obj_attributes = fattr3_of_stat st t zero_fattr3\<rparr>\<rparr>"
  let ?arg = "dec_GETATTR3args args (arg_getattr3 zero_arg)"
  note d = table_GETATTR [OF call(3)]
  have z: "geta_object (arg_getattr3 zero_arg) = zero_fh3"
    by (simp add: zero_arg_def)
  have v: "valid_nfs_fh3 (geta_object args)"
    using req(3) by (simp add: valid_GETATTR3args_def)
  have dec: "xdr_decode_func ?d xdrs zero_arg =
      (True, skip (length (wire_GETATTR3args args)) xdrs, zero_arg\<lparr>arg_getattr3 := ?arg\<rparr>)"
    using GETATTR3args.decode [OF req(1-4)] by (simp add: d xdr_field_result)
  have enc: "xdr_encode_func ?d out (res\<lparr>res_getattr3 := ?r\<rparr>) =
      (True, emit (wire_GETATTR3res ?r) out, res\<lparr>res_getattr3 := ?r\<rparr>)"
    using GETATTR3res.encode_fits [OF reply(1,2), of ?r] reply(3)
    by (simp add: d xdr_field_result valid_GETATTR3res_def wire_GETATTR3res_def length_wire_fattr3)
  have "nfs3_getattr (env_sys E) s ?arg (res_getattr3 res) = Some (s, ?r, NFS_REQ_OK)"
    using dec_handle_zero [OF v req(5)] f req(5)
    by (simp add: nfs3_getattr_def dec_GETATTR3args_def z nfs_set_post_op_attr_def zero_post_op_attr_def)
  then have "service_function ?d E msg (s, T) (zero_arg\<lparr>arg_getattr3 := ?arg\<rparr>) res =
      Some ((s, T), res\<lparr>res_getattr3 := ?r\<rparr>, NFS_REQ_OK)"
    by (simp add: d in_member_def with_os_def)
  from call_served [OF call(1,2) _ _ call(4) refl dec this _ enc] call(3) show ?thesis
    by (simp add: NFSPROC3_COMMIT_def wire_GETATTR3res_def)
qed


text \<open>The file handle a client takes from the reply of MNT.\<close>

definition client_handle :: "mountres3 \<Rightarrow> nfs_fh3" where
  "client_handle r = \<lparr>data_len = fhandle3_len (fhandle (mountinfo r)), data_val = fhandle3_val (fhandle (mountinfo r))\<rparr>"

definition written :: "XDR \<Rightarrow> XDR \<Rightarrow> byte list" where
  "written out out' = drop (x_data out) (take (x_data out') (x_buf out'))"

lemma written_emit:
  assumes "xdr_wf out" "x_op out = XDR_ENCODE" "length bs \<le> room out"
  shows "written out (emit bs out) = bs"
  using assms by (simp add: written_def emit_def xdr_wf_def room_def overwrite_def)

lemma client_handle_mounted:
  assumes "path \<noteq> []" "length path \<le> 64" "fhandle3_val (fhandle (mountinfo w)) = None"
  shows "client_handle (dec_mountres3 (mounted path) w) = \<lparr>data_len = of_nat (length path), data_val = Some path\<rparr>"
proof -
  have n: "unat (of_nat (length path) :: uint32) = length path" "(of_nat (length path) :: uint32) \<noteq> 0"
    using assms by (simp_all add: unsigned_of_nat take_bit_nat_eq_self unat_eq_0 [symmetric] del: unat_eq_0)
  with assms show ?thesis
    by (simp add: client_handle_def dec_mountres3_def mounted_def dec_mountres3_ok_def dec_fhandle3_def fhandle3_cell_def
        fhandle3_cell_update_def flavors_cell_update_def flavors_cell_def block_def overwrite_def split: prod.split)
qed

definition sample_mount :: rpc_call where
  "sample_mount = (sample_call 1)\<lparr>cb_prog := MNT_PROGRAM, cb_vers := MOUNT_V3\<rparr>"

lemma sample_mount_fields [simp]:
  "cb_prog sample_mount = MNT_PROGRAM" "cb_vers sample_mount = MOUNT_V3" "cb_proc sample_mount = 1"
  "svc_auth_authenticate (cb_cred sample_mount) = Some AUTH_OK"
  using sample_accepted [of 1] by (simp_all add: sample_mount_def)

end
