(* ===== verification/Rpc_Server.thy ===== *)
theory Rpc_Server
  imports Nfs_Dispatch
begin

text \<open>
  A request on a connection, from the bytes of its message to those of the reply:
  \<open>svc_vc_decode\<close> and \<open>svc_vc_reply\<close> of \<open>libntirpc/src/svc_vc.c\<close> around the processing of the
  call in \<open>src/dnfsd/dnfs_ntirpc.cpp\<close>.  The message is decoded into a request the transport
  has allocated; what the memory of its fields held is the argument \<open>m0\<close>.
\<close>

section \<open>The transport\<close>

type_synonym 'os process =
  "'os env \<Rightarrow> 'os state \<Rightarrow> rpc_call \<Rightarrow> XDR \<Rightarrow> XDR \<Rightarrow> nfs_res_t \<Rightarrow> ('os state \<times> outcome) option"

datatype delivery =
  Destroyed | Client_reply rpc_msg | Silent | Died | Sent XDR

text \<open>
  The verifier of the reply: authentication clears it and copies the flavour of the
  credential; AUTH\_SYS then copies the verifier of the call.
\<close>

definition set_verifier :: "rpc_msg \<Rightarrow> rpc_msg" where
  "set_verifier msg =
     msg\<lparr>rp_acpt := (rp_acpt msg)\<lparr>ar_verf :=
       (if oa_flavor (cb_cred msg) = AUTH_SYS then cb_verf msg
        else null_auth\<lparr>oa_flavor := oa_flavor (cb_cred msg)\<rparr>)\<rparr>\<rparr>"

text \<open>
  The header of a reply, and for an accepted call the results behind it.
\<close>

definition svc_vc_reply :: "XDR \<Rightarrow> rpc_msg \<Rightarrow> delivery" where
  "svc_vc_reply xioq msg =
     (case xdr_reply_encode xioq msg of
        (False, xioq) \<Rightarrow> Died
      | (True, xioq) \<Rightarrow>
          (let xioq = xdr_tail_update xioq in
           if rp_stat msg = MSG_ACCEPTED \<and> ar_stat (rp_acpt msg) = SUCCESS
           then (case ar_results (rp_acpt msg) xioq of
                   (False, xioq) \<Rightarrow> Died
                 | (True, xioq) \<Rightarrow> Sent (xdr_tail_update xioq))
           else Sent (xdr_tail_update xioq)))"

text \<open>
  The processing encodes its results into the stream it is given: that is the stream behind
  the header of the accepted reply, \<open>ar_results\<close> then stands for what it has written.  The call
  is judged before it is authenticated, so that a refusal has the verifier of a fresh
  message.
\<close>

definition deliver :: "rpc_msg \<Rightarrow> XDR \<Rightarrow> outcome \<Rightarrow> delivery" where
  "deliver msg xioq oc =
     (case oc of
        Noprog \<Rightarrow> svc_vc_reply xioq (svcerr_noprog msg)
      | Progvers low high \<Rightarrow> svc_vc_reply xioq (svcerr_progvers low high msg)
      | Noproc \<Rightarrow> svc_vc_reply xioq (svcerr_noproc msg)
      | Auth_error why \<Rightarrow> svc_vc_reply xioq (svcerr_auth why msg)
      | Decode_error \<Rightarrow> svc_vc_reply xioq (svcerr_decode (set_verifier msg))
      | Dropped \<Rightarrow> Silent
      | Suspended \<Rightarrow> Silent
      | Replied ok out \<Rightarrow>
          svc_vc_reply xioq (svc_sendreply (set_verifier
            (msg\<lparr>rp_acpt := (rp_acpt msg)\<lparr>ar_results := (\<lambda>_. (ok, out))\<rparr>\<rparr>))))"

definition results_stream :: "rpc_msg \<Rightarrow> XDR \<Rightarrow> XDR" where
  "results_stream msg xioq = xdr_tail_update (snd (xdr_reply_encode xioq (svc_sendreply (set_verifier msg))))"

definition svc_vc_decode ::
  "'os process \<Rightarrow> 'os env \<Rightarrow> 'os state \<Rightarrow> rpc_msg \<Rightarrow> XDR \<Rightarrow> XDR \<Rightarrow> nfs_res_t \<Rightarrow> ('os state \<times> delivery) option" where
  "svc_vc_decode process_cb E st m0 xdrs xioq res =
     (case xdr_dplx_decode (xdrs\<lparr>x_op := XDR_DECODE\<rparr>) (rpc_msg_init m0) of
        (False, _, _) \<Rightarrow> Some (st, Destroyed)
      | (True, xdrs, msg) \<Rightarrow>
          if rm_direction msg = CALL
          then map_option (\<lambda>(st, oc). (st, deliver msg xioq oc))
                 (process_cb E st (rpc_call.truncate msg) xdrs (results_stream msg xioq) res)
          else if rm_direction msg = REPLY then Some (st, Client_reply msg)
          else Some (st, Destroyed))"

section \<open>Any message\<close>

lemma truncate_fields [simp]:
  "cb_prog (rpc_call.truncate m) = cb_prog m" "cb_vers (rpc_call.truncate m) = cb_vers m"
  "cb_proc (rpc_call.truncate m) = cb_proc m" "cb_cred (rpc_call.truncate m) = cb_cred m"
  by (simp_all add: rpc_call.truncate_def)

lemma init_room: "auth_room (cb_cred m) \<Longrightarrow> auth_room (cb_verf m) \<Longrightarrow> msg_room (rpc_msg_init m)"
  by (simp add: msg_room_def rpc_msg_init_def null_auth_def auth_room_def)

lemma authenticate_in_bounds: "valid_auth cred \<Longrightarrow> svc_auth_authenticate cred \<noteq> None"
  using svcauth_unix_in_bounds [of cred] by (auto simp: svc_auth_authenticate_def valid_auth_def)

text \<open>A request is processed unless its service function crashes.\<close>

lemma process_request_total:
  assumes "svc_auth_authenticate (cb_cred msg) \<noteq> None" "nfs_rpc_process_request E st d msg xdrs out res = None"
  obtains arg where "service_function d E msg st arg res = None"
  using assms by (auto simp: nfs_rpc_process_request_def bind_eq_None_conv split: if_splits prod.splits bool.splits option.splits)

lemma dispatch_total:
  fixes E :: "'os env"
  assumes "svc_auth_authenticate (cb_cred msg) \<noteq> None" "cb \<in> {nfs_rpc_valid_NFS, nfs_rpc_valid_MNT}" "cb E st msg xdrs out res = None"
  shows "\<exists>d\<in>set nfs3_func_desc \<union> set mnt3_func_desc. \<exists>arg. service_function d E msg st arg res = None"
proof -
  have entries: "cb_proc msg \<le> NFSPROC3_COMMIT \<Longrightarrow> nfs3_func_desc ! unat (cb_proc msg) \<in> set (nfs3_func_desc :: 'os nfs_function_desc list)"
    "cb_proc msg \<le> MOUNTPROC3_EXPORT \<Longrightarrow> mnt3_func_desc ! unat (cb_proc msg) \<in> set (mnt3_func_desc :: 'os nfs_function_desc list)"
    by (rule table_entry mount_entry; assumption)+
  obtain d where d: "d \<in> set nfs3_func_desc \<union> set mnt3_func_desc" "nfs_rpc_process_request E st d msg xdrs out res = None"
    using assms(2,3) entries by (auto simp: nfs_rpc_valid_NFS_def nfs_rpc_valid_MNT_def split: if_splits; blast)
  obtain arg where "service_function d E msg st arg res = None"
    by (rule process_request_total [OF assms(1) d(2)])
  with d(1) show ?thesis
    by blast
qed

lemma decode_call:
  assumes "xdr_wf xdrs" "x_op xdrs = XDR_DECODE" "valid_call m" "pads (cb_cred m) pc" "pads (cb_verf m) pv"
    and "unread xdrs = wire_call m pc pv @ rest"
  shows "svc_vc_decode cb E st m0 xdrs xioq res =
    (let msg = recv_call m (rpc_msg_init m0) in
     map_option (\<lambda>(st, oc). (st, deliver msg xioq oc))
       (cb E st (rpc_call.truncate msg) (skip (call_size m) xdrs) (results_stream msg xioq) res))"
proof -
  have "xdrs\<lparr>x_op := XDR_DECODE\<rparr> = xdrs"
    using assms(2) by simp
  moreover have "rm_direction m = CALL"
    using assms(3) by (simp add: valid_call_def)
  ultimately show ?thesis
    using dplx_decode_call [OF assms] by (simp add: svc_vc_decode_def Let_def)
qed

section \<open>The reply\<close>

lemma tail_update_idem [simp]: "xdr_tail_update (xdr_tail_update xdrs) = xdr_tail_update xdrs"
  by (simp add: xdr_tail_update_def)

lemma null_auth_valid: "valid_auth (null_auth\<lparr>oa_flavor := f\<rparr>)" "oa_length (null_auth\<lparr>oa_flavor := f\<rparr>) = 0"
  by (simp_all add: null_auth_def valid_auth_def)

lemma set_verifier_valid: "valid_auth (cb_verf m) \<Longrightarrow> valid_reply (svc_sendreply (set_verifier m))"
  by (auto simp: set_verifier_def svc_sendreply_def accept_with_def valid_reply_def null_auth_valid)

definition success_size :: "rpc_msg \<Rightarrow> nat" where
  "success_size m = reply_size (svc_sendreply (set_verifier m))"

text \<open>The header does not depend on the results.\<close>

lemma header_results:
  assumes "success_size m \<le> room xioq" "xdr_wf xioq"
  shows "xdr_reply_encode xioq (svc_sendreply (set_verifier (m\<lparr>rp_acpt := (rp_acpt m)\<lparr>ar_results := f\<rparr>\<rparr>))) =
    xdr_reply_encode xioq (svc_sendreply (set_verifier m))"
proof -
  let ?oa = "ar_verf (rp_acpt (set_verifier m))"
  have "\<exists>s. xdr_inline_encode xioq (6 * BYTES_PER_XDR_UNIT + unat (RNDUP (oa_length ?oa))) = (Some (x_data xioq), s)"
    using inline_encode_reserve [OF assms(2), of "success_size m" "replicate (success_size m) 0"] assms(1)
    by (auto simp: success_size_def reply_size_def svc_sendreply_def accept_with_def set_verifier_def nfs_consts BYTES_PER_XDR_UNIT_def)
  then show ?thesis
    by (auto simp: xdr_reply_encode_def svc_sendreply_def accept_with_def set_verifier_def Let_def nfs_consts)
qed

lemma success_delivered:
  assumes "xdr_wf xioq" "x_op xioq = XDR_ENCODE" "valid_auth (cb_verf m)" "success_size m \<le> room xioq"
  obtains pad where "pads (ar_verf (rp_acpt (set_verifier m))) pad"
    "results_stream m xioq = xdr_tail_update (emit (wire_reply (svc_sendreply (set_verifier m)) pad) xioq)"
    "\<And>ok out. deliver m xioq (Replied ok out) = (if ok then Sent (xdr_tail_update out) else Died)"
proof -
  let ?r = "svc_sendreply (set_verifier m)"
  have a: "rp_stat ?r = MSG_ACCEPTED"
    by (simp add: svc_sendreply_def accept_with_def)
  obtain pad where p: "pads (ar_verf (rp_acpt ?r)) pad"
    "xdr_reply_encode xioq ?r = (True, xdr_tail_update (emit (wire_reply ?r pad) xioq))"
    using reply_encode_accepted [OF assms(1,2) set_verifier_valid [OF assms(3)] _ a] assms(4) by (auto simp: success_size_def)
  show thesis
  proof (rule that)
    show "pads (ar_verf (rp_acpt (set_verifier m))) pad"
      using p(1) by (simp add: svc_sendreply_def accept_with_def)
    show "results_stream m xioq = xdr_tail_update (emit (wire_reply ?r pad) xioq)"
      by (simp add: results_stream_def p(2))
    show "deliver m xioq (Replied ok out) = (if ok then Sent (xdr_tail_update out) else Died)" for ok out
      unfolding deliver_def outcome.case svc_vc_reply_def header_results [OF assms(4,1)] p(2)
      by (simp add: svc_sendreply_def accept_with_def set_verifier_def)
  qed
qed

text \<open>
  A GETATTR call is served from the bytes of its RPC message to the bytes of the reply: when
  the received credential authenticates and the handle names an existing object of a known kind,
  the reply that is sent is the header of an accepted reply with the id of the call and the
  verifier of the client's flavour, the status NFS3_OK and the attributes of the object.
\<close>

theorem getattr_message:
  assumes req: "xdr_wf xdrs" "x_op xdrs = XDR_DECODE" "valid_call m" "pads (cb_cred m) pc" "pads (cb_verf m) pv"
      "unread xdrs = wire_call m pc pv @ wire_GETATTR3args args @ rest" "cb_prog m = NFS_PROGRAM" "cb_vers m = NFS_V3" "cb_proc m = 1"
      "valid_GETATTR3args args" "data_len (geta_object args) \<noteq> 0"
    and auth: "auth_room (cb_cred m0)" "auth_room (cb_verf m0)" "svc_auth_authenticate (recv_auth (cb_cred m) (cb_cred m0)) = Some AUTH_OK"
    and f: "get_file_handle (geta_object args) = Some p" "sys_lstat (env_sys E) s p = Inr st" "ftype_of_mode (st_mode st) = Some t"
    and reply: "xdr_wf xioq" "x_op xioq = XDR_ENCODE" "success_size (recv_call m (rpc_msg_init m0)) + 88 \<le> room xioq"
  shows "\<exists>pad. pads (ar_verf (rp_acpt (set_verifier (recv_call m (rpc_msg_init m0))))) pad \<and> svc_vc_decode nfs_rpc_valid_NFS E (s, T) m0 xdrs xioq res =
    Some ((s, T), Sent (xdr_tail_update (emit (wire_reply (svc_sendreply (set_verifier (recv_call m (rpc_msg_init m0)))) pad @
      htonl_bytes NFS3_OK @ wire_fattr3 (fattr3_of_stat st t zero_fattr3)) xioq)))"
proof -
  define msg where "msg = recv_call m (rpc_msg_init m0)"
  let ?out = "results_stream msg xioq" and ?body = "htonl_bytes NFS3_OK @ wire_fattr3 (fattr3_of_stat st t zero_fattr3)"
  let ?hdr = "wire_reply (svc_sendreply (set_verifier msg))"
  have v: "valid_auth (cb_verf msg)"
    using auth(2) req(3) by (simp add: msg_def recv_call_def rpc_msg_init_def recv_auth_valid auth_room_def valid_call_def)
  obtain pad where pad: "pads (ar_verf (rp_acpt (set_verifier msg))) pad" "?out = xdr_tail_update (emit (?hdr pad) xioq)"
    "\<And>ok out. deliver msg xioq (Replied ok out) = (if ok then Sent (xdr_tail_update out) else Died)"
    using success_delivered [OF reply(1,2) v] reply(3) by (auto simp: msg_def)
  have h: "length (?hdr pad) = success_size msg"
    using length_wire_reply [OF set_verifier_valid [OF v], of pad] pad(1) by (simp add: success_size_def svc_sendreply_def accept_with_def)
  have out: "xdr_wf ?out" "x_op ?out = XDR_ENCODE" "88 \<le> room ?out"
    unfolding pad(2) using reply h by (auto intro!: tail_update_wf emit_wf simp: msg_def)
  have n: "length (wire_call m pc pv) = call_size m"
    by (rule length_wire_call [OF req(3-5)])
  have "xdr_wf (skip (call_size m) xdrs)"
    using req(1,2,6) n by (intro skip_wf) auto
  then have "nfs_rpc_valid_NFS E (s, T) (rpc_call.truncate msg) (skip (call_size m) xdrs) ?out res =
      Some ((s, T), Replied True (emit ?body ?out))"
    using req n auth(3) f out
    by (intro getattr_served [where args = args and rest = rest and p = p]) (simp_all add: msg_def recv_call_def rpc_msg_init_def)
  then have "svc_vc_decode nfs_rpc_valid_NFS E (s, T) m0 xdrs xioq res = Some ((s, T), Sent (xdr_tail_update (emit ?body ?out)))"
    using decode_call [OF req(1-6), of nfs_rpc_valid_NFS E "(s, T)" m0 xioq res] pad(3) by (simp add: msg_def Let_def)
  moreover have "xdr_tail_update (emit ?body ?out) = xdr_tail_update (emit (?hdr pad @ ?body) xioq)"
    unfolding pad(2) using reply h by (intro emit_emit_tail) (simp_all add: length_wire_fattr3 msg_def)
  ultimately show ?thesis
    using pad(1) unfolding msg_def by auto
qed

lemma message_total:
  assumes "xdr_wf xdrs" "x_op xdrs = XDR_DECODE" "auth_room (cb_cred m0)" "auth_room (cb_verf m0)"
    and "cb \<in> {nfs_rpc_valid_NFS, nfs_rpc_valid_MNT}" "svc_vc_decode cb E st m0 xdrs xioq res = None"
  shows "\<exists>d\<in>set nfs3_func_desc \<union> set mnt3_func_desc. \<exists>msg arg. service_function d E msg st arg res = None"
proof -
  have x: "xdrs\<lparr>x_op := XDR_DECODE\<rparr> = xdrs"
    using assms(2) by simp
  obtain ok ys msg where d: "xdr_dplx_decode xdrs (rpc_msg_init m0) = (ok, ys, msg)"
    by (rule prod_cases3)
  have c: "ok" "rm_direction msg = CALL" "cb E st (rpc_call.truncate msg) ys (results_stream msg xioq) res = None"
    using assms(6) by (auto simp: svc_vc_decode_def x d split: if_splits bool.splits)
  have "valid_auth (cb_cred msg)"
    using message.accepts [OF assms(1,2) init_room [OF assms(3,4)]] d c(1,2) by (auto simp: msg_wf_def valid_call_def nfs_consts)
  then show ?thesis
    using dispatch_total [OF _ assms(5) c(3)] authenticate_in_bounds by auto
qed

lemma error_delivered:
  assumes "rp_stat r \<noteq> MSG_ACCEPTED \<or> ar_stat (rp_acpt r) \<noteq> SUCCESS" "xdr_reply_encode xioq r = (True, out)"
  shows "svc_vc_reply xioq r = Sent (xdr_tail_update out)"
  using assms by (auto simp: svc_vc_reply_def)

definition refusal :: "rpc_msg \<Rightarrow> clnt_stat option" where
  "refusal m =
     (if cb_prog m \<noteq> NFS_PROGRAM then Some RPC_PROGUNAVAIL
      else if cb_vers m \<noteq> NFS_V3 then Some RPC_PROGVERSMISMATCH
      else if cb_proc m > NFSPROC3_COMMIT then Some RPC_PROCUNAVAIL
      else None)"

lemma refused_reply:
  assumes "ar_verf (rp_acpt msg) = null_auth"
  shows "re_status (seterr_reply (svcerr_noprog msg) err) = RPC_PROGUNAVAIL"
    "re_status (seterr_reply (svcerr_progvers low high msg) err) = RPC_PROGVERSMISMATCH"
    "re_status (seterr_reply (svcerr_noproc msg) err) = RPC_PROCUNAVAIL"
    and "r \<in> {svcerr_noprog msg, svcerr_progvers low high msg, svcerr_noproc msg} \<Longrightarrow> valid_reply r \<and> reply_size r \<le> 32 \<and>
      rm_xid r = rm_xid msg \<and> (rp_stat r \<noteq> MSG_ACCEPTED \<or> ar_stat (rp_acpt r) \<noteq> SUCCESS)"
  using assms null_auth_valid [of 0]
  by (auto simp: svcerr_defs seterr_reply_def accepted_def valid_reply_def reply_size_def nfs_consts null_auth_def RNDUP_def)



text \<open>
  C23: a call for a program, a version or a procedure the server does not have is refused, from the
  bytes of its message to what the client reports: the reply that is sent carries the id of the
  call and makes the client report the program unavailable, the version mismatched or the procedure
  unavailable; nothing on the server changes.
\<close>

theorem refusal_reported:
  assumes req: "xdr_wf xdrs" "x_op xdrs = XDR_DECODE" "valid_call m" "pads (cb_cred m) pc" "pads (cb_verf m) pv"
      "unread xdrs = wire_call m pc pv @ rest" "refusal m = Some st"
    and buf: "xdrmem_ncreate addr buf sz XDR_ENCODE = Some xioq" "sz \<le> length buf" "32 \<le> sz"
  shows "\<exists>out. svc_vc_decode nfs_rpc_valid_NFS E srv m0 xdrs xioq res = Some (srv, Sent out) \<and>
    (\<forall>d. xdrmem_ncreate addr' (x_buf out) sz XDR_DECODE = Some d \<longrightarrow>
      (\<exists>d' r. xdr_dplx_decode d w = (True, d', r) \<and> rm_xid r = rm_xid m \<and> re_status (seterr_reply r err) = st))"
proof -
  define msg where "msg = recv_call m (rpc_msg_init m0)"
  have verf: "ar_verf (rp_acpt msg) = null_auth" "rm_xid msg = rm_xid m" "cb_prog msg = cb_prog m" "cb_vers msg = cb_vers m"
    "cb_proc msg = cb_proc m"
    by (simp_all add: msg_def recv_call_def rpc_msg_init_def)
  define oc where "oc = (if cb_prog m \<noteq> NFS_PROGRAM then Noprog else if cb_vers m \<noteq> NFS_V3 then Progvers NFS_V3 NFS_V3 else Noproc)"
  define r where "r = (if cb_prog m \<noteq> NFS_PROGRAM then svcerr_noprog msg
    else if cb_vers m \<noteq> NFS_V3 then svcerr_progvers NFS_V3 NFS_V3 msg else svcerr_noproc msg)"
  have cb: "nfs_rpc_valid_NFS E srv (rpc_call.truncate msg) ys out res = Some (srv, oc)" for ys out
    using req(7) verf by (auto simp: not_le refusal_def nfs_rpc_valid_NFS_def nfs_rpc_noprog_def nfs_rpc_novers_def nfs_rpc_noproc_def oc_def split: if_splits)
  have dl: "deliver msg xioq oc = svc_vc_reply xioq r"
    by (simp add: deliver_def oc_def r_def)
  have st: "re_status (seterr_reply r err) = st"
    using req(7) refused_reply(1-3) [OF verf(1)] by (auto simp: refusal_def r_def split: if_splits)
  have "r \<in> {svcerr_noprog msg, svcerr_progvers NFS_V3 NFS_V3 msg, svcerr_noproc msg}"
    by (simp add: r_def)
  from refused_reply(4) [OF verf(1) this] have r: "valid_reply r" "reply_size r \<le> 32" "rm_xid r = rm_xid m"
    "rp_stat r \<noteq> MSG_ACCEPTED \<or> ar_stat (rp_acpt r) \<noteq> SUCCESS"
    using verf(2) by auto
  obtain out where out: "xdr_reply_encode xioq r = (True, out)"
    "\<forall>d. xdrmem_ncreate addr' (x_buf out) sz XDR_DECODE = Some d \<longrightarrow>
      (\<exists>d' m'. xdr_dplx_decode d w = (True, d', m') \<and> rm_xid m' = rm_xid r \<and> seterr_reply m' err = seterr_reply r err)"
    using reply_message_reported [OF r(1) _ buf(2,1), of addr' w err] r(2) buf(3) by auto
  have "svc_vc_decode nfs_rpc_valid_NFS E srv m0 xdrs xioq res = Some (srv, Sent (xdr_tail_update out))"
    using decode_call [OF req(1-6), of nfs_rpc_valid_NFS E srv m0 xioq res] error_delivered [OF r(4) out(1)] cb dl
    by (simp add: msg_def Let_def)
  with out(2) st r(3) show ?thesis
    by fastforce
qed

theorem refusal_reported_witness:
  "\<exists>xioq. xdrmem_ncreate 0 (replicate 40 0) 40 XDR_ENCODE = Some xioq \<and>
    (\<forall>res w err. \<exists>out. svc_vc_decode nfs_rpc_valid_NFS sample_env (0, FsalHandle_init) (sample_msg 0 0)
        (sample_in (wire_call (sample_msg 100000 1) [] [])) xioq res = Some ((0, FsalHandle_init), Sent out) \<and>
      (\<exists>d d' r. xdrmem_ncreate 0 (x_buf out) 40 XDR_DECODE = Some d \<and> xdr_dplx_decode d w = (True, d', r) \<and>
        rm_xid r = 7 \<and> re_status (seterr_reply r err) = RPC_PROGUNAVAIL))"
proof -
  obtain xioq where x: "xdrmem_ncreate 0 (replicate 40 0) 40 XDR_ENCODE = Some xioq"
    by (simp add: xdrmem_ncreate_def)
  have p: "pads (cb_cred (sample_msg 100000 1)) []" "pads (cb_verf (sample_msg 100000 1)) []"
    "refusal (sample_msg 100000 1) = Some RPC_PROGUNAVAIL"
    by (simp_all add: refusal_def nfs_consts)
  have "\<exists>out. svc_vc_decode nfs_rpc_valid_NFS sample_env (0, FsalHandle_init) (sample_msg 0 0)
        (sample_in (wire_call (sample_msg 100000 1) [] [])) xioq res = Some ((0, FsalHandle_init), Sent out) \<and>
      (\<exists>d d' r. xdrmem_ncreate 0 (x_buf out) 40 XDR_DECODE = Some d \<and> xdr_dplx_decode d w = (True, d', r) \<and>
        rm_xid r = 7 \<and> re_status (seterr_reply r err) = RPC_PROGUNAVAIL)" for res w err
  proof -
    obtain out where o: "svc_vc_decode nfs_rpc_valid_NFS sample_env (0, FsalHandle_init) (sample_msg 0 0)
        (sample_in (wire_call (sample_msg 100000 1) [] [])) xioq res = Some ((0, FsalHandle_init), Sent out)"
      "\<forall>d. xdrmem_ncreate 0 (x_buf out) 40 XDR_DECODE = Some d \<longrightarrow> (\<exists>d' r. xdr_dplx_decode d w = (True, d', r) \<and>
        rm_xid r = rm_xid (sample_msg 100000 1) \<and> re_status (seterr_reply r err) = RPC_PROGUNAVAIL)"
      using refusal_reported [OF _ _ sample_msg_valid p(1,2) _ p(3) x, of "sample_in (wire_call (sample_msg 100000 1) [] [])" "[]"
          sample_env "(0, FsalHandle_init)" "sample_msg 0 0" res 0 w err] by auto
    obtain d where "xdrmem_ncreate 0 (x_buf out) 40 XDR_DECODE = Some d"
      by (simp add: xdrmem_ncreate_def)
    with o show ?thesis
      by auto
  qed
  with x show ?thesis
    by blast
qed

theorem getattr_message_witness:
  "\<forall>res. \<exists>pad. pads (ar_verf (rp_acpt (set_verifier (recv_call (sample_msg NFS_PROGRAM 1) (rpc_msg_init (sample_msg 0 0)))))) pad \<and> svc_vc_decode nfs_rpc_valid_NFS sample_env (0, FsalHandle_init) (sample_msg 0 0)
      (sample_in (wire_call (sample_msg NFS_PROGRAM 1) [] [] @ wire_GETATTR3args \<lparr>geta_object = sample_fh sample_file\<rparr>)) (sample_out 200) res =
    Some ((0, FsalHandle_init), Sent (xdr_tail_update (emit (wire_reply (svc_sendreply (set_verifier
        (recv_call (sample_msg NFS_PROGRAM 1) (rpc_msg_init (sample_msg 0 0))))) pad @
      htonl_bytes NFS3_OK @ wire_fattr3 (fattr3_of_stat (sample_stat 0x81A4) NF3REG zero_fattr3)) (sample_out 200))))"
proof
  fix res
  have "success_size (recv_call (sample_msg NFS_PROGRAM 1) (rpc_msg_init (sample_msg 0 0))) + 88 \<le> room (sample_out 200)"
    "svc_auth_authenticate (recv_auth (cb_cred (sample_msg NFS_PROGRAM 1)) (cb_cred (sample_msg 0 0))) = Some AUTH_OK"
    by (simp_all add: success_size_def reply_size_def svc_sendreply_def accept_with_def set_verifier_def recv_call_def recv_auth_def
        null_auth_def RNDUP_def svc_auth_authenticate_def svcauth_none_def nfs_consts)
  then show "\<exists>pad. pads (ar_verf (rp_acpt (set_verifier (recv_call (sample_msg NFS_PROGRAM 1) (rpc_msg_init (sample_msg 0 0)))))) pad \<and> svc_vc_decode nfs_rpc_valid_NFS sample_env (0, FsalHandle_init) (sample_msg 0 0)
      (sample_in (wire_call (sample_msg NFS_PROGRAM 1) [] [] @ wire_GETATTR3args \<lparr>geta_object = sample_fh sample_file\<rparr>)) (sample_out 200) res =
    Some ((0, FsalHandle_init), Sent (xdr_tail_update (emit (wire_reply (svc_sendreply (set_verifier
        (recv_call (sample_msg NFS_PROGRAM 1) (rpc_msg_init (sample_msg 0 0))))) pad @
      htonl_bytes NFS3_OK @ wire_fattr3 (fattr3_of_stat (sample_stat 0x81A4) NF3REG zero_fattr3)) (sample_out 200))))"
    by (intro getattr_message [where args = "\<lparr>geta_object = sample_fh sample_file\<rparr>" and p = sample_file and rest = "[]"])
       (simp_all add: valid_GETATTR3args_def nfs_consts)
qed

end
