(* ===== verification/Xdr_Ioq.thy ===== *)
theory Xdr_Ioq
  imports Xdr_Stream "HOL-Library.Monad_Syntax"
begin

text \<open>
  XDR streams over a queue of buffers: \<open>libntirpc/src/xdr_ioq.c\<close>.  The transports receive a request
  into such a queue, one buffer for each fragment, and encode a reply into one, a buffer after the other
  as they fill up.  A buffer is its memory with the offsets of its \<open>xdr_vio\<close>; the
  pointer \<open>x_base\<close> is the index of the buffer the stream is in, and the copy \<open>x_v\<close> of
  its \<open>xdr_vio\<close> that the stream keeps is always equal to the original, so only the latter is kept here.

  The queues are those of \<open>svc_vc.c\<close>: their buffers are allocated and freed one by one (\<open>UIO_FLAG_FREE\<close>);
  queues that fetch buffers from a pool or grow a single buffer are not modelled.
\<close>

section \<open>Queues of buffers\<close>

record xdr_ioq_uv =
  uv_mem :: "byte list"
  uv_v :: xdr_vio
  uv_more :: bool

record xdr_ioq =
  ioq_uvq :: "xdr_ioq_uv list"
  ioq_cur :: nat
  ioq_data :: nat
  ioq_plength :: nat
  ioq_pcount :: nat
  ioq_min_bsize :: nat

definition xdr_ioq_uv_create :: "nat \<Rightarrow> bool \<Rightarrow> xdr_ioq_uv" where
  "xdr_ioq_uv_create sz mflag =
     \<lparr>uv_mem = replicate sz 0, uv_v = \<lparr>vio_base = 0, vio_head = 0, vio_tail = 0, vio_wrap = sz\<rparr>, uv_more = mflag\<rparr>"

definition ioquv_length :: "xdr_ioq_uv \<Rightarrow> nat" where
  "ioquv_length uv = vio_tail (uv_v uv) - vio_head (uv_v uv)"

definition ioquv_size :: "xdr_ioq_uv \<Rightarrow> nat" where
  "ioquv_size uv = vio_wrap (uv_v uv) - vio_base (uv_v uv)"

definition cur_uv :: "xdr_ioq \<Rightarrow> xdr_ioq_uv" where
  "cur_uv q = ioq_uvq q ! ioq_cur q"

definition set_cur :: "(xdr_ioq_uv \<Rightarrow> xdr_ioq_uv) \<Rightarrow> xdr_ioq \<Rightarrow> xdr_ioq" where
  "set_cur f q = q\<lparr>ioq_uvq := (ioq_uvq q)[ioq_cur q := f (cur_uv q)]\<rparr>"

definition ioq_tail_update :: "xdr_ioq \<Rightarrow> xdr_ioq" where
  "ioq_tail_update q =
     (if vio_tail (uv_v (cur_uv q)) < ioq_data q
      then set_cur (uv_v_update (vio_tail_update (\<lambda>_. ioq_data q))) q
      else q)"

definition xdr_ioq_uv_reset :: "nat \<Rightarrow> xdr_ioq \<Rightarrow> xdr_ioq" where
  "xdr_ioq_uv_reset i q = q\<lparr>ioq_cur := i, ioq_data := vio_head (uv_v (ioq_uvq q ! i))\<rparr>"

definition xdr_ioq_uv_update :: "nat \<Rightarrow> xdr_ioq \<Rightarrow> xdr_ioq" where
  "xdr_ioq_uv_update i q = (xdr_ioq_uv_reset i q)\<lparr>ioq_pcount := ioq_pcount q + 1\<rparr>"

text \<open>A queue without a buffer has none to reset to.\<close>

definition xdr_ioq_reset :: "nat \<Rightarrow> xdr_ioq \<Rightarrow> xdr_ioq option" where
  "xdr_ioq_reset wh_pos q =
     (case ioq_uvq q of
        [] \<Rightarrow> None
      | uv # uvs \<Rightarrow>
          (let uv = (if wh_pos \<ge> ioquv_size uv then uv
                     else uv\<lparr>uv_v := (uv_v uv)\<lparr>vio_head := vio_base (uv_v uv) + wh_pos\<rparr>\<rparr>) in
           Some (xdr_ioq_uv_reset 0 (q\<lparr>ioq_uvq := uv # uvs, ioq_plength := 0, ioq_pcount := 0\<rparr>))))"

definition xdr_ioq_create :: "nat \<Rightarrow> bool \<Rightarrow> xdr_ioq" where
  "xdr_ioq_create min_bsize bufq =
     (let q = \<lparr>ioq_uvq = [], ioq_cur = 0, ioq_data = 0, ioq_plength = 0, ioq_pcount = 0, ioq_min_bsize = min_bsize\<rparr> in
      if bufq then q
      else the (xdr_ioq_reset 0 (q\<lparr>ioq_uvq := [xdr_ioq_uv_create min_bsize False]\<rparr>)))"

definition xdr_ioq_uv_advance :: "xdr_ioq \<Rightarrow> nat option \<times> xdr_ioq" where
  "xdr_ioq_uv_advance q =
     (let q = ioq_tail_update q;
          q = q\<lparr>ioq_plength := ioq_plength q + ioquv_length (cur_uv q)\<rparr>;
          i = ioq_cur q + 1 in
      (if i < length (ioq_uvq q) then Some i else None, q))"

definition xdr_ioq_uv_append :: "bool \<Rightarrow> xdr_ioq \<Rightarrow> xdr_ioq" where
  "xdr_ioq_uv_append balloc q =
     (let uv = xdr_ioq_uv_create (if balloc then ioq_min_bsize q else 0) False;
          i = length (ioq_uvq q) in
      xdr_ioq_uv_update i (q\<lparr>ioq_uvq := ioq_uvq q @ [uv]\<rparr>))"

text \<open>Move to the next buffer, or to a new one behind the last.\<close>

definition next_buffer :: "xdr_ioq \<Rightarrow> xdr_ioq" where
  "next_buffer q =
     (case xdr_ioq_uv_advance q of
        (Some i, q) \<Rightarrow> xdr_ioq_uv_update i q
      | (None, q) \<Rightarrow> xdr_ioq_uv_append True q)"

section \<open>The operations of the stream\<close>

function xdr_ioq_getunit :: "xdr_ioq \<Rightarrow> uint32 \<Rightarrow> bool \<times> xdr_ioq \<times> uint32" where
  "xdr_ioq_getunit q p =
     (let future = ioq_data q + 4 in
      if future > vio_tail (uv_v (cur_uv q))
      then (if ioq_data q \<noteq> vio_tail (uv_v (cur_uv q)) then (False, q, p)
            else (case xdr_ioq_uv_advance q of
                    (None, q) \<Rightarrow> (False, q, p)
                  | (Some i, q) \<Rightarrow> xdr_ioq_getunit (xdr_ioq_uv_update i q) p))
      else (True, q\<lparr>ioq_data := future\<rparr>, ntohl_bytes (drop (ioq_data q) (uv_mem (cur_uv q)))))"
  by pat_completeness auto
termination
  by (relation "measure (\<lambda>(q, _). length (ioq_uvq q) - ioq_cur q)")
    (auto simp: xdr_ioq_uv_advance_def xdr_ioq_uv_update_def xdr_ioq_uv_reset_def ioq_tail_update_def set_cur_def Let_def split: if_splits)

partial_function (option) xdr_ioq_putunit :: "xdr_ioq \<Rightarrow> uint32 \<Rightarrow> xdr_ioq option" where
  "xdr_ioq_putunit q v =
     (let future = ioq_data q + 4 in
      if future > vio_wrap (uv_v (cur_uv q)) then xdr_ioq_putunit (next_buffer q) v
      else Some ((set_cur (uv_mem_update (overwrite (ioq_data q) (htonl_bytes v))) q)\<lparr>ioq_data := future\<rparr>))"

text \<open>The bytes are those copied to \<open>addr\<close>.\<close>

function xdr_ioq_getbytes :: "xdr_ioq \<Rightarrow> nat \<Rightarrow> bool \<times> xdr_ioq \<times> byte list" where
  "xdr_ioq_getbytes q len =
     (if len > 0 \<and> ioq_pcount q < length (ioq_uvq q)
      then (let delta = vio_tail (uv_v (cur_uv q)) - ioq_data q in
            if delta > len \<or> delta \<noteq> 0
            then (let delta = min delta len;
                      (b, q', bs) = xdr_ioq_getbytes (q\<lparr>ioq_data := ioq_data q + delta\<rparr>) (len - delta) in
                  (b, q', take delta (drop (ioq_data q) (uv_mem (cur_uv q))) @ bs))
            else (case xdr_ioq_uv_advance q of
                    (None, q) \<Rightarrow> (False, q, [])
                  | (Some i, q) \<Rightarrow> xdr_ioq_getbytes (xdr_ioq_uv_update i q) len))
      else (True, q, []))"
  by pat_completeness auto
termination
  by (relation "measure (\<lambda>(q, len). (length (ioq_uvq q) - ioq_cur q) + len)")
    (auto simp: xdr_ioq_uv_advance_def xdr_ioq_uv_update_def xdr_ioq_uv_reset_def ioq_tail_update_def set_cur_def Let_def split: if_splits)

partial_function (option) xdr_ioq_putbytes :: "xdr_ioq \<Rightarrow> byte list \<Rightarrow> nat \<Rightarrow> xdr_ioq option" where
  "xdr_ioq_putbytes q addr len =
     (if len > 0
      then (let delta = vio_wrap (uv_v (cur_uv q)) - ioq_data q in
            if delta > len \<or> delta \<noteq> 0
            then (let delta = min delta len;
                      q = (set_cur (uv_mem_update (overwrite (ioq_data q) (take delta addr))) q)\<lparr>ioq_data := ioq_data q + delta\<rparr> in
                  xdr_ioq_putbytes q (drop delta addr) (len - delta))
            else xdr_ioq_putbytes (next_buffer q) addr len)
      else Some q)"

definition xdr_ioq_getpos :: "xdr_ioq \<Rightarrow> nat \<times> xdr_ioq" where
  "xdr_ioq_getpos q =
     (let q = ioq_tail_update q in
      (ioq_plength q + (ioq_data q - vio_head (uv_v (cur_uv q))), q))"

text \<open>
  The loop over the buffers: \<open>i\<close> is the index of the buffer, \<open>full\<close> the room of the buffer the stream was in.
\<close>

fun setpos_loop :: "nat \<Rightarrow> nat \<Rightarrow> xdr_ioq_uv list \<Rightarrow> nat \<Rightarrow> xdr_ioq \<Rightarrow> bool \<times> xdr_ioq" where
  "setpos_loop full pos [] i q = (False, q)"
| "setpos_loop full pos (uv # uvs) i q =
     (let len = ioquv_length uv in
      if pos < len \<or> uvs = [] \<and> pos \<le> full
      then (True, q\<lparr>ioq_cur := i, ioq_data := vio_head (uv_v uv) + pos\<rparr>)
      else setpos_loop full (pos - len) uvs (i + 1)
             (q\<lparr>ioq_plength := ioq_plength q + len, ioq_pcount := ioq_pcount q + 1\<rparr>))"

definition xdr_ioq_setpos :: "xdr_ioq \<Rightarrow> nat \<Rightarrow> bool \<times> xdr_ioq" where
  "xdr_ioq_setpos q pos =
     (let q = ioq_tail_update q;
          full = vio_wrap (uv_v (cur_uv q)) - vio_head (uv_v (cur_uv q)) in
      setpos_loop full pos (ioq_uvq q) 0 (q\<lparr>ioq_plength := 0, ioq_pcount := 0\<rparr>))"

definition xdr_ioq_newbuf :: "xdr_ioq \<Rightarrow> xdr_ioq" where
  "xdr_ioq_newbuf q = next_buffer q"

text \<open>The number of buffers of a stretch of the stream; -1 when the stream does not have it.\<close>

fun iovcount_loop :: "int \<Rightarrow> nat \<Rightarrow> nat \<Rightarrow> xdr_ioq_uv list \<Rightarrow> int" where
  "iovcount_loop buffers start datalen [] = (if datalen \<noteq> 0 then - 1 else buffers)"
| "iovcount_loop buffers start datalen (uv # uvs) =
     (let len = ioquv_length uv;
          (buffers, start') = (if buffers > 0 then (buffers + 1, start)
                               else if start < len then (1, start)
                               else (buffers, start - len)) in
      if buffers > 0
      then (let buflen = len - start' in
            if buflen \<ge> datalen then buffers
            else iovcount_loop buffers 0 (datalen - buflen) uvs)
      else iovcount_loop buffers start' datalen uvs)"

definition xdr_ioq_iovcount :: "xdr_ioq \<Rightarrow> nat \<Rightarrow> nat \<Rightarrow> int" where
  "xdr_ioq_iovcount q start datalen = iovcount_loop (- 1) start datalen (ioq_uvq (ioq_tail_update q))"

text \<open>The pieces of the buffers of a stretch of the stream, as the bytes they cover.\<close>

fun fillbufs_loop :: "bool \<Rightarrow> nat \<Rightarrow> nat \<Rightarrow> xdr_ioq_uv list \<Rightarrow> byte list list option" where
  "fillbufs_loop found start datalen [] = (if datalen \<noteq> 0 then None else if found then Some [] else None)"
| "fillbufs_loop found start datalen (uv # uvs) =
     (let len = ioquv_length uv;
          (found, start) = (if \<not> found then (if start < len then (True, start) else (False, start - len)) else (True, start)) in
      if found
      then (let bytes = take (len - start) (drop (vio_head (uv_v uv) + start) (uv_mem uv)) in
            if datalen \<le> len - start then Some [take datalen bytes]
            else map_option ((#) bytes) (fillbufs_loop True 0 (datalen - (len - start)) uvs))
      else fillbufs_loop False start datalen uvs)"

definition xdr_ioq_fillbufs :: "xdr_ioq \<Rightarrow> nat \<Rightarrow> nat \<Rightarrow> byte list list option" where
  "xdr_ioq_fillbufs q start datalen = fillbufs_loop False start datalen (ioq_uvq (ioq_tail_update q))"

declare xdr_ioq_getunit.simps [simp del] xdr_ioq_getbytes.simps [simp del]

section \<open>What a queue holds\<close>

definition uv_bytes :: "xdr_ioq_uv \<Rightarrow> byte list" where
  "uv_bytes uv = take (ioquv_length uv) (drop (vio_head (uv_v uv)) (uv_mem uv))"

definition uv_ok :: "xdr_ioq_uv \<Rightarrow> bool" where
  "uv_ok uv \<longleftrightarrow> vio_base (uv_v uv) = 0 \<and> vio_head (uv_v uv) \<le> vio_tail (uv_v uv) \<and> vio_tail (uv_v uv) \<le> vio_wrap (uv_v uv) \<and>
     vio_wrap (uv_v uv) = length (uv_mem uv)"

definition contents :: "xdr_ioq \<Rightarrow> byte list" where
  "contents q = concat (map uv_bytes (ioq_uvq q))"

definition position :: "xdr_ioq \<Rightarrow> nat" where
  "position q = ioq_plength q + (ioq_data q - vio_head (uv_v (cur_uv q)))"

definition ioq_wf :: "xdr_ioq \<Rightarrow> bool" where
  "ioq_wf q \<longleftrightarrow> ioq_cur q < length (ioq_uvq q) \<and> (\<forall>uv\<in>set (ioq_uvq q). uv_ok uv) \<and>
     vio_head (uv_v (cur_uv q)) \<le> ioq_data q \<and> ioq_data q \<le> vio_wrap (uv_v (cur_uv q)) \<and>
     ioq_plength q = sum_list (map ioquv_length (take (ioq_cur q) (ioq_uvq q))) \<and> ioq_pcount q = ioq_cur q"

text \<open>A stream that is read does not run ahead of what the buffers hold.\<close>

definition ioq_reading :: "xdr_ioq \<Rightarrow> bool" where
  "ioq_reading q \<longleftrightarrow> ioq_wf q \<and> ioq_data q \<le> vio_tail (uv_v (cur_uv q))"

definition rest_chunks :: "xdr_ioq \<Rightarrow> byte list list" where
  "rest_chunks q = drop (ioq_data q - vio_head (uv_v (cur_uv q))) (uv_bytes (cur_uv q)) #
     map uv_bytes (drop (Suc (ioq_cur q)) (ioq_uvq q))"

lemma length_uv_bytes [simp]: "uv_ok uv \<Longrightarrow> length (uv_bytes uv) = ioquv_length uv"
  by (auto simp: uv_bytes_def uv_ok_def ioquv_length_def)

lemma uv_okD:
  assumes "uv_ok uv"
  shows "vio_head (uv_v uv) \<le> vio_tail (uv_v uv)" "vio_tail (uv_v uv) \<le> vio_wrap (uv_v uv)"
    "vio_wrap (uv_v uv) = length (uv_mem uv)" "vio_head (uv_v uv) \<le> vio_wrap (uv_v uv)"
    "vio_tail (uv_v uv) \<le> length (uv_mem uv)" "vio_head (uv_v uv) \<le> length (uv_mem uv)"
  using assms by (auto simp: uv_ok_def)

lemma cur_uv_ok: "ioq_wf q \<Longrightarrow> uv_ok (cur_uv q)"
  by (simp add: ioq_wf_def cur_uv_def)

lemma rest_chunks_contents:
  assumes "ioq_reading q"
  shows "concat (rest_chunks q) = drop (position q) (contents q)" "position q \<le> length (contents q)"
proof -
  let ?i = "ioq_cur q" and ?l = "ioq_uvq q"
  have i: "?i < length ?l" "ioq_plength q = sum_list (map ioquv_length (take ?i ?l))" "uv_ok (cur_uv q)"
    using assms by (auto simp: ioq_reading_def ioq_wf_def cur_uv_def)
  have l: "?l = take ?i ?l @ cur_uv q # drop (Suc ?i) ?l"
    using id_take_nth_drop [OF i(1)] by (simp add: cur_uv_def)
  have "map (length \<circ> uv_bytes) (take ?i ?l) = map ioquv_length (take ?i ?l)"
    using assms by (auto simp: ioq_reading_def ioq_wf_def dest: in_set_takeD)
  then have p: "length (concat (map uv_bytes (take ?i ?l))) = ioq_plength q"
    unfolding length_concat map_map i(2) by (rule arg_cong)
  have c: "contents q = concat (map uv_bytes (take ?i ?l)) @ uv_bytes (cur_uv q) @ concat (map uv_bytes (drop (Suc ?i) ?l))"
    unfolding contents_def by (subst l) simp
  have d: "ioq_data q - vio_head (uv_v (cur_uv q)) \<le> length (uv_bytes (cur_uv q))"
    using assms i(3) by (simp add: ioq_reading_def ioquv_length_def diff_le_mono)
  show "concat (rest_chunks q) = drop (position q) (contents q)" "position q \<le> length (contents q)"
    using p d by (simp_all add: c rest_chunks_def position_def)
qed

section \<open>Reading\<close>

fun unit_at :: "byte list list \<Rightarrow> (byte list \<times> byte list list) option" where
  "unit_at [] = None"
| "unit_at (c # cs) =
     (if 4 \<le> length c then Some (take 4 c, drop 4 c # cs)
      else if c = [] \<and> cs \<noteq> [] then unit_at cs else None)"

fun bytes_at :: "nat \<Rightarrow> byte list list \<Rightarrow> (byte list \<times> byte list list) option" where
  "bytes_at n [] = None"
| "bytes_at n (c # cs) =
     (if n \<le> length c then Some (take n c, drop n c # cs)
      else if cs = [] then None
      else map_option (\<lambda>(bs, r). (c @ bs, r)) (bytes_at (n - length c) cs))"

text \<open>A stream at the end of its buffer goes on with the next.\<close>

lemma tail_update_reading: "ioq_reading q \<Longrightarrow> ioq_tail_update q = q"
  by (simp add: ioq_reading_def ioq_tail_update_def)

definition to_next :: "xdr_ioq \<Rightarrow> xdr_ioq" where
  "to_next q = q\<lparr>ioq_plength := ioq_plength q + ioquv_length (cur_uv q), ioq_cur := Suc (ioq_cur q),
     ioq_data := vio_head (uv_v (ioq_uvq q ! Suc (ioq_cur q))), ioq_pcount := ioq_pcount q + 1\<rparr>"

lemma advance_reading:
  assumes "ioq_reading q"
  shows "xdr_ioq_uv_advance q =
    (if Suc (ioq_cur q) < length (ioq_uvq q) then Some (Suc (ioq_cur q)) else None,
     q\<lparr>ioq_plength := ioq_plength q + ioquv_length (cur_uv q)\<rparr>)"
  by (simp add: xdr_ioq_uv_advance_def tail_update_reading [OF assms] Let_def)

lemma update_next:
  "xdr_ioq_uv_update (Suc (ioq_cur q)) (q\<lparr>ioq_plength := ioq_plength q + ioquv_length (cur_uv q)\<rparr>) = to_next q"
  by (simp add: xdr_ioq_uv_update_def xdr_ioq_uv_reset_def to_next_def)

lemma to_next_reading:
  assumes "ioq_reading q" "ioq_data q = vio_tail (uv_v (cur_uv q))" "Suc (ioq_cur q) < length (ioq_uvq q)"
  shows "ioq_reading (to_next q)" "rest_chunks q = [] # rest_chunks (to_next q)" "ioq_uvq (to_next q) = ioq_uvq q"
    "position (to_next q) = position q"
proof -
  let ?i = "Suc (ioq_cur q)"
  have ok: "uv_ok (ioq_uvq q ! ?i)" "uv_ok (cur_uv q)"
    using assms by (auto simp: ioq_reading_def ioq_wf_def cur_uv_def)
  have t: "take ?i (ioq_uvq q) = take (ioq_cur q) (ioq_uvq q) @ [cur_uv q]"
    using assms(3) by (simp add: cur_uv_def take_Suc_conv_app_nth)
  have c: "cur_uv (to_next q) = ioq_uvq q ! ?i"
    by (simp add: cur_uv_def to_next_def)
  show "ioq_reading (to_next q)"
    using assms ok t uv_okD [OF ok(1)] unfolding ioq_reading_def ioq_wf_def c by (simp add: to_next_def)
  have "drop ?i (ioq_uvq q) = ioq_uvq q ! ?i # drop (Suc ?i) (ioq_uvq q)"
    using assms(3) by (rule Cons_nth_drop_Suc [symmetric])
  moreover have "drop (ioq_data q - vio_head (uv_v (cur_uv q))) (uv_bytes (cur_uv q)) = []"
    using ok(2) by (simp add: assms(2) ioquv_length_def)
  ultimately show "rest_chunks q = [] # rest_chunks (to_next q)"
    unfolding rest_chunks_def c by (simp add: to_next_def)
  show "ioq_uvq (to_next q) = ioq_uvq q"
    by (simp add: to_next_def)
  show "position (to_next q) = position q"
    unfolding position_def c by (simp add: to_next_def assms(2) ioquv_length_def)
qed

text \<open>Inside the buffer the position moves and the chunk gets shorter.\<close>

lemma move_reading:
  assumes "ioq_reading q" "ioq_data q + n \<le> vio_tail (uv_v (cur_uv q))"
  shows "ioq_reading (q\<lparr>ioq_data := ioq_data q + n\<rparr>)"
    "rest_chunks (q\<lparr>ioq_data := ioq_data q + n\<rparr>) = drop n (hd (rest_chunks q)) # tl (rest_chunks q)"
    "position (q\<lparr>ioq_data := ioq_data q + n\<rparr>) = position q + n"
proof -
  have ok: "uv_ok (cur_uv q)"
    using assms by (simp add: ioq_reading_def cur_uv_ok)
  show "ioq_reading (q\<lparr>ioq_data := ioq_data q + n\<rparr>)"
    "rest_chunks (q\<lparr>ioq_data := ioq_data q + n\<rparr>) = drop n (hd (rest_chunks q)) # tl (rest_chunks q)"
    "position (q\<lparr>ioq_data := ioq_data q + n\<rparr>) = position q + n"
    using assms uv_okD [OF ok] by (auto simp: ioq_reading_def ioq_wf_def rest_chunks_def position_def cur_uv_def add.commute)
qed

lemma hd_chunk:
  assumes "ioq_reading q"
  shows "length (hd (rest_chunks q)) = vio_tail (uv_v (cur_uv q)) - ioq_data q"
    "take n (drop (ioq_data q) (uv_mem (cur_uv q))) = take n (hd (rest_chunks q)) \<or> vio_tail (uv_v (cur_uv q)) - ioq_data q < n"
proof -
  let ?v = "uv_v (cur_uv q)"
  have ok: "uv_ok (cur_uv q)" "vio_head ?v \<le> ioq_data q" "ioq_data q \<le> vio_tail ?v"
    using assms by (auto simp: ioq_reading_def ioq_wf_def cur_uv_def)
  have h: "hd (rest_chunks q) = take (vio_tail ?v - ioq_data q) (drop (ioq_data q) (uv_mem (cur_uv q)))"
    using ok by (simp add: rest_chunks_def uv_bytes_def ioquv_length_def drop_take)
  show "length (hd (rest_chunks q)) = vio_tail ?v - ioq_data q"
    using ok by (auto simp: h uv_ok_def)
  show "take n (drop (ioq_data q) (uv_mem (cur_uv q))) = take n (hd (rest_chunks q)) \<or> vio_tail ?v - ioq_data q < n"
    by (auto simp: h min_def)
qed

lemma rest_chunks_tl: "ioq_wf q \<Longrightarrow> tl (rest_chunks q) = [] \<longleftrightarrow> \<not> Suc (ioq_cur q) < length (ioq_uvq q)"
  by (auto simp: rest_chunks_def)

lemma ntohl_take: "ntohl_bytes (take 4 bs) = ntohl_bytes bs"
  by (induction bs rule: ntohl_bytes.induct) (simp_all add: numeral_eq_Suc)

lemma getunit_chunks:
  assumes "ioq_reading q"
  shows "case unit_at (rest_chunks q) of
      Some (u, cs) \<Rightarrow> \<exists>q'. xdr_ioq_getunit q p = (True, q', ntohl_bytes u) \<and> ioq_reading q' \<and> rest_chunks q' = cs \<and>
        ioq_uvq q' = ioq_uvq q \<and> position q' = position q + 4
    | None \<Rightarrow> fst (xdr_ioq_getunit q p) = False"
  using assms
proof (induction "length (ioq_uvq q) - ioq_cur q" arbitrary: q rule: less_induct)
  case less
  obtain c cs where r: "rest_chunks q = c # cs"
    by (simp add: rest_chunks_def)
  have c: "length c = vio_tail (uv_v (cur_uv q)) - ioq_data q"
    using hd_chunk(1) [OF less.prems] by (simp add: r)
  show ?case
  proof (cases "4 \<le> length c")
    case True
    then have "4 \<le> length (drop (ioq_data q) (uv_mem (cur_uv q)))"
      using cur_uv_ok [of q] less.prems c by (auto simp: ioq_reading_def uv_ok_def)
    then have "ntohl_bytes (drop (ioq_data q) (uv_mem (cur_uv q))) = ntohl_bytes (take 4 c)"
      using hd_chunk(2) [OF less.prems, of 4] True c r by (metis list.sel(1) ntohl_take linorder_not_less)
    moreover have "ioq_data q + 4 \<le> vio_tail (uv_v (cur_uv q))"
      using True c by simp
    ultimately show ?thesis
      using move_reading [OF less.prems, of 4] True r by (subst xdr_ioq_getunit.simps) (simp add: Let_def)
  next
    case False
    then have f: "vio_tail (uv_v (cur_uv q)) < ioq_data q + 4"
      using c by simp
    have t: "ioq_data q = vio_tail (uv_v (cur_uv q)) \<longleftrightarrow> c = []"
      using c less.prems by (auto simp: ioq_reading_def)
    show ?thesis
    proof (cases "c = [] \<and> cs \<noteq> []")
      case True
      then have n: "Suc (ioq_cur q) < length (ioq_uvq q)" "ioq_data q = vio_tail (uv_v (cur_uv q))"
        using rest_chunks_tl [of q] r t less.prems by (auto simp: ioq_reading_def)
      note tn = to_next_reading [OF less.prems n(2,1)]
      have e: "xdr_ioq_getunit q p = xdr_ioq_getunit (to_next q) p"
        using f n by (subst xdr_ioq_getunit.simps) (simp add: advance_reading [OF less.prems] update_next)
      have "length (ioq_uvq (to_next q)) - ioq_cur (to_next q) < length (ioq_uvq q) - ioq_cur q"
        using n by (simp add: to_next_def)
      from less.hyps [OF this tn(1)] show ?thesis
        using tn True r unfolding e by (auto split: option.splits)
    next
      case ct: False
      then have "fst (xdr_ioq_getunit q p) = False"
        using f t r rest_chunks_tl [of q] less.prems
        by (subst xdr_ioq_getunit.simps) (auto simp: advance_reading [OF less.prems] ioq_reading_def)
      with False ct show ?thesis
        by (simp add: r)
    qed
  qed
qed

lemma getbytes_chunks:
  assumes "ioq_reading q"
  shows "case bytes_at n (rest_chunks q) of
      Some (bs, cs) \<Rightarrow> \<exists>q'. xdr_ioq_getbytes q n = (True, q', bs) \<and> ioq_reading q' \<and> rest_chunks q' = cs \<and>
        ioq_uvq q' = ioq_uvq q \<and> position q' = position q + n
    | None \<Rightarrow> fst (xdr_ioq_getbytes q n) = False"
  using assms
proof (induction "length (ioq_uvq q) - ioq_cur q" arbitrary: q n rule: less_induct)
  case less
  obtain c cs where r: "rest_chunks q = c # cs"
    by (simp add: rest_chunks_def)
  have c: "length c = vio_tail (uv_v (cur_uv q)) - ioq_data q"
    using hd_chunk(1) [OF less.prems] by (simp add: r)
  have pc: "ioq_pcount q < length (ioq_uvq q)"
    using less.prems by (simp add: ioq_reading_def ioq_wf_def)
  define m where "m = min (length c) n"
  let ?q = "q\<lparr>ioq_data := ioq_data q + m\<rparr>"
  have le: "ioq_data q + m \<le> vio_tail (uv_v (cur_uv q))"
    using c less.prems by (auto simp: m_def ioq_reading_def)
  note mv = move_reading [OF less.prems le]
  have step: "xdr_ioq_getbytes q n = (case xdr_ioq_getbytes ?q (n - m) of (b, q', bs) \<Rightarrow> (b, q', take m c @ bs))"
  proof (cases "m = 0")
    case False
    then have "take m (drop (ioq_data q) (uv_mem (cur_uv q))) = take m c"
      using hd_chunk(2) [OF less.prems, of m] r c by (auto simp: m_def)
    then show ?thesis
      using False c pc by (subst xdr_ioq_getbytes.simps) (auto simp: Let_def m_def min_def split: prod.splits)
  qed (simp split: prod.splits)
  show ?case
  proof (cases "n \<le> length c")
    case True
    then have m: "m = n"
      by (simp add: m_def)
    then have "xdr_ioq_getbytes ?q (n - m) = (True, ?q, [])"
      by (subst xdr_ioq_getbytes.simps) simp
    then show ?thesis
      using True m step mv r by simp
  next
    case False
    then have m: "m = length c" "0 < n - m"
      by (auto simp: m_def)
    have t: "ioq_data ?q = vio_tail (uv_v (cur_uv ?q))" "ioq_pcount ?q < length (ioq_uvq ?q)"
      using c m(1) less.prems pc by (auto simp: ioq_reading_def cur_uv_def)
    show ?thesis
    proof (cases "cs = []")
      case True
      then have "\<not> Suc (ioq_cur ?q) < length (ioq_uvq ?q)"
        using rest_chunks_tl [of q] r less.prems by (simp add: ioq_reading_def)
      then have "fst (xdr_ioq_getbytes ?q (n - m)) = False"
        using t m(2) by (subst xdr_ioq_getbytes.simps) (simp add: advance_reading [OF mv(1)])
      then show ?thesis
        using step False True r by (simp split: prod.splits)
    next
      case cs: False
      then have n: "Suc (ioq_cur ?q) < length (ioq_uvq ?q)"
        using rest_chunks_tl [of q] r less.prems by (auto simp: ioq_reading_def)
      note tn = to_next_reading [OF mv(1) t(1) n]
      have e: "xdr_ioq_getbytes ?q (n - m) = xdr_ioq_getbytes (to_next ?q) (n - m)"
        using t m(2) n by (subst xdr_ioq_getbytes.simps) (simp add: advance_reading [OF mv(1)] update_next [of ?q, simplified])
      have l: "length (ioq_uvq (to_next ?q)) - ioq_cur (to_next ?q) < length (ioq_uvq q) - ioq_cur q"
        using n by (simp add: to_next_def)
      have "rest_chunks (to_next ?q) = cs"
        using tn(2) mv(2) r m by simp
      then show ?thesis
        using less.hyps [OF l tn(1), of "n - m"] step e r False cs m tn(3,4) mv(3)
        by (auto split: option.splits prod.splits)
    qed
  qed
qed

lemma bytes_at_concat:
  "cs \<noteq> [] \<Longrightarrow> case bytes_at n cs of
     Some (bs, r) \<Rightarrow> n \<le> length (concat cs) \<and> bs = take n (concat cs) \<and> concat r = drop n (concat cs)
   | None \<Rightarrow> length (concat cs) < n"
  by (induction n cs rule: bytes_at.induct) (auto split: option.splits)

lemma unit_at_concat:
  "unit_at cs = Some (u, r) \<Longrightarrow> 4 \<le> length (concat cs) \<and> u = take 4 (concat cs) \<and> concat r = drop 4 (concat cs)"
  by (induction cs rule: unit_at.induct) (auto split: if_splits)


definition sample_uv :: "byte list \<Rightarrow> xdr_ioq_uv" where
  "sample_uv bs = \<lparr>uv_mem = bs, uv_v = \<lparr>vio_base = 0, vio_head = 0, vio_tail = length bs, vio_wrap = length bs\<rparr>, uv_more = False\<rparr>"

definition sample_ioq :: "byte list list \<Rightarrow> xdr_ioq" where
  "sample_ioq cs = \<lparr>ioq_uvq = map sample_uv cs, ioq_cur = 0, ioq_data = 0, ioq_plength = 0, ioq_pcount = 0, ioq_min_bsize = 8\<rparr>"


text \<open>
  A unit whose bytes lie in two buffers is refused, although they are all there: the stream reads a unit
  only out of a single buffer.
\<close>

theorem straddling_unit_refused:
  assumes "ioq_reading q" "rest_chunks q = c # cs" "c \<noteq> []" "length c < 4"
  shows "\<not> fst (xdr_ioq_getunit q p)"
  using getunit_chunks [OF assms(1), of p] assms(2-) by (auto split: option.splits)

theorem straddling_unit_refused_witness:
  "\<not> fst (xdr_ioq_getunit (sample_ioq [[0, 0], [0, 7]]) 0) \<and> contents (sample_ioq [[0, 0], [0, 7]]) = htonl_bytes 7"
proof -
  have "ioq_reading (sample_ioq [[0, 0], [0, 7]])" "rest_chunks (sample_ioq [[0, 0], [0, 7]]) = [[0, 0], [0, 7]]"
    "contents (sample_ioq [[0, 0], [0, 7]]) = htonl_bytes 7"
    by code_simp+
  then show ?thesis
    using straddling_unit_refused [of "sample_ioq [[0, 0], [0, 7]]" "[0, 0]" "[[0, 7]]" 0] by simp
qed

section \<open>Writing\<close>

text \<open>A stream that is filled is behind everything in its last buffer.\<close>

definition ioq_filling :: "xdr_ioq \<Rightarrow> bool" where
  "ioq_filling q \<longleftrightarrow> ioq_wf q \<and> Suc (ioq_cur q) = length (ioq_uvq q) \<and> vio_tail (uv_v (cur_uv q)) \<le> ioq_data q"

definition chunks :: "xdr_ioq \<Rightarrow> byte list list" where
  "chunks q = map uv_bytes (ioq_uvq (ioq_tail_update q))"

text \<open>Bytes at the end of the last chunk, and some more chunks.\<close>

definition grow :: "byte list list \<Rightarrow> byte list \<Rightarrow> byte list list \<Rightarrow> byte list list" where
  "grow cs x new = butlast cs @ [last cs @ x] @ new"

lemma filling_split:
  assumes "ioq_filling q"
  shows "ioq_uvq q = butlast (ioq_uvq q) @ [cur_uv q]" "ioq_cur q = length (butlast (ioq_uvq q))"
proof -
  have l: "Suc (ioq_cur q) = length (ioq_uvq q)"
    using assms by (simp add: ioq_filling_def)
  then have "cur_uv q = last (ioq_uvq q)"
    by (metis cur_uv_def diff_Suc_1 last_conv_nth length_0_conv nat.distinct(1))
  moreover have "ioq_uvq q \<noteq> []"
    using l by auto
  ultimately show "ioq_uvq q = butlast (ioq_uvq q) @ [cur_uv q]" "ioq_cur q = length (butlast (ioq_uvq q))"
    using l by simp_all
qed

lemma set_cur_last:
  "ioq_uvq q = us @ [cur_uv q] \<Longrightarrow> ioq_cur q = length us \<Longrightarrow> set_cur f q = q\<lparr>ioq_uvq := us @ [f (cur_uv q)]\<rparr>"
  by (simp add: set_cur_def)

definition filled_uv :: "xdr_ioq \<Rightarrow> xdr_ioq_uv" where
  "filled_uv q = uv_v_update (vio_tail_update (\<lambda>_. ioq_data q)) (cur_uv q)"

lemma tail_update_filling:
  assumes "ioq_filling q"
  shows "ioq_tail_update q = q\<lparr>ioq_uvq := butlast (ioq_uvq q) @ [filled_uv q]\<rparr>"
proof (cases "vio_tail (uv_v (cur_uv q)) < ioq_data q")
  case True
  then show ?thesis
    using set_cur_last [OF filling_split [OF assms]] by (simp add: ioq_tail_update_def filled_uv_def)
next
  case False
  then have "filled_uv q = cur_uv q"
    using assms by (simp add: filled_uv_def ioq_filling_def)
  then show ?thesis
    using False filling_split(1) [OF assms] by (simp add: ioq_tail_update_def)
qed

lemma filled_bytes:
  "uv_bytes (filled_uv q) = take (ioq_data q - vio_head (uv_v (cur_uv q))) (drop (vio_head (uv_v (cur_uv q))) (uv_mem (cur_uv q)))"
  by (simp add: uv_bytes_def filled_uv_def ioquv_length_def)

lemma chunks_filling:
  "ioq_filling q \<Longrightarrow> chunks q = map uv_bytes (butlast (ioq_uvq q)) @ [uv_bytes (filled_uv q)]"
  by (simp add: chunks_def tail_update_filling)

lemma fillingD:
  assumes "ioq_filling q"
  shows "uv_ok (cur_uv q)" "vio_head (uv_v (cur_uv q)) \<le> ioq_data q" "ioq_data q \<le> length (uv_mem (cur_uv q))" "ioq_data q \<le> vio_wrap (uv_v (cur_uv q))"
  using assms uv_okD(3) [of "cur_uv q"] cur_uv_ok [of q] by (auto simp: ioq_filling_def ioq_wf_def)

lemma tail_update_ok: "ioq_filling q \<Longrightarrow> \<forall>uv\<in>set (ioq_uvq (ioq_tail_update q)). uv_ok uv"
proof -
  assume f: "ioq_filling q"
  have "uv_ok (filled_uv q)"
    using fillingD [OF f] uv_okD [OF fillingD(1) [OF f]] by (simp add: uv_ok_def filled_uv_def)
  then show ?thesis
    using f by (auto simp: tail_update_filling [OF f] ioq_filling_def ioq_wf_def dest: in_set_butlastD)
qed

lemma put_in_buffer:
  assumes "ioq_filling q" "ioq_data q + length bs \<le> vio_wrap (uv_v (cur_uv q))"
  defines "q' \<equiv> (set_cur (uv_mem_update (overwrite (ioq_data q) bs)) q)\<lparr>ioq_data := ioq_data q + length bs\<rparr>"
  shows "ioq_filling q'" "chunks q' = grow (chunks q) bs []" "ioq_min_bsize q' = ioq_min_bsize q"
proof -
  note d = fillingD [OF assms(1)] and sp = filling_split [OF assms(1)]
  define us where "us = butlast (ioq_uvq q)"
  have q': "ioq_uvq q' = us @ [uv_mem_update (overwrite (ioq_data q) bs) (cur_uv q)]"
    "ioq_data q' = ioq_data q + length bs" "ioq_cur q' = length us" "ioq_plength q' = ioq_plength q" "ioq_pcount q' = ioq_pcount q"
    using set_cur_last [OF sp] sp(2) by (simp_all add: q'_def us_def)
  then have c: "cur_uv q' = uv_mem_update (overwrite (ioq_data q) bs) (cur_uv q)"
    by (simp add: cur_uv_def)
  have l: "length (overwrite (ioq_data q) bs (uv_mem (cur_uv q))) = length (uv_mem (cur_uv q))"
    using assms(2) uv_okD(3) [OF d(1)] by simp
  then have ok: "uv_ok (cur_uv q')"
    using d(1) by (simp add: c uv_ok_def)
  have u: "ioq_uvq q = us @ [cur_uv q]"
    using sp us_def by simp
  show f: "ioq_filling q'"
    using assms(1,2) ok d(2) u unfolding ioq_filling_def ioq_wf_def c
    by (auto simp: q' c)
  show "chunks q' = grow (chunks q) bs []"
    unfolding chunks_filling [OF f] chunks_filling [OF assms(1)] filled_bytes q' c grow_def
    using d(2,3) by (simp add: us_def overwrite_def drop_take)
  show "ioq_min_bsize q' = ioq_min_bsize q"
    by (simp add: q'_def set_cur_def)
qed

lemma next_filling:
  assumes "ioq_filling q"
  shows "ioq_filling (next_buffer q)" "chunks (next_buffer q) = grow (chunks q) [] [[]]" "ioq_min_bsize (next_buffer q) = ioq_min_bsize q"
    "vio_wrap (uv_v (cur_uv (next_buffer q))) - ioq_data (next_buffer q) = ioq_min_bsize q"
proof -
  note d = fillingD [OF assms(1)] and sp = filling_split [OF assms(1)]
  define us where "us = butlast (ioq_uvq q)"
  have u: "ioq_uvq q = us @ [cur_uv q]" "ioq_cur q = length us"
    using sp us_def by simp_all
  let ?b = "xdr_ioq_uv_create (ioq_min_bsize q) False"
  have n: "next_buffer q = q\<lparr>ioq_uvq := us @ [filled_uv q, ?b], ioq_plength := ioq_plength q + ioquv_length (filled_uv q),
      ioq_cur := Suc (length us), ioq_data := 0, ioq_pcount := ioq_pcount q + 1\<rparr>"
  proof -
    have t: "ioq_tail_update q = q\<lparr>ioq_uvq := us @ [filled_uv q]\<rparr>"
      by (simp add: tail_update_filling [OF assms] us_def)
    have "cur_uv (q\<lparr>ioq_uvq := us @ [filled_uv q]\<rparr>) = filled_uv q"
      by (simp add: cur_uv_def u(2))
    then have "xdr_ioq_uv_advance q = (None, q\<lparr>ioq_uvq := us @ [filled_uv q], ioq_plength := ioq_plength q + ioquv_length (filled_uv q)\<rparr>)"
      by (simp add: xdr_ioq_uv_advance_def t Let_def u(2))
    then show ?thesis
      by (simp add: next_buffer_def xdr_ioq_uv_append_def xdr_ioq_uv_update_def xdr_ioq_uv_reset_def Let_def nth_append xdr_ioq_uv_create_def)
  qed
  have ok: "uv_ok (filled_uv q)" "uv_ok ?b"
    using d uv_okD [OF d(1)] d(1) by (simp_all add: uv_ok_def filled_uv_def xdr_ioq_uv_create_def)
  have ok3: "cur_uv (next_buffer q) = ?b"
    unfolding n cur_uv_def by (simp add: nth_append)
  show f: "ioq_filling (next_buffer q)"
    using assms ok u unfolding ioq_filling_def ioq_wf_def ok3 by (auto simp: n xdr_ioq_uv_create_def)
  have "uv_bytes (filled_uv (next_buffer q)) = []"
    unfolding filled_bytes ok3 by (simp add: n xdr_ioq_uv_create_def)
  then show "chunks (next_buffer q) = grow (chunks q) [] [[]]"
    unfolding chunks_filling [OF f] chunks_filling [OF assms] grow_def by (simp add: n butlast_append us_def)
  show "ioq_min_bsize (next_buffer q) = ioq_min_bsize q"
    by (simp add: n)
  show "vio_wrap (uv_v (cur_uv (next_buffer q))) - ioq_data (next_buffer q) = ioq_min_bsize q"
    unfolding ok3 by (simp add: n xdr_ioq_uv_create_def)
qed


lemma chunks_ne [simp]: "ioq_filling q \<Longrightarrow> chunks q \<noteq> []"
  by (simp add: chunks_filling)

lemma grow_next [simp]: "grow (grow cs [] [[]]) x new = grow cs [] (x # new)"
  by (simp add: grow_def butlast_append)

text \<open>A unit goes to the end of the last buffer, or whole into a new one.\<close>

lemma putunit_fills:
  assumes "ioq_filling q" "4 \<le> ioq_min_bsize q"
  shows "\<exists>q' x new. xdr_ioq_putunit q v = Some q' \<and> ioq_filling q' \<and> ioq_min_bsize q' = ioq_min_bsize q \<and>
    chunks q' = grow (chunks q) x new \<and> (x = htonl_bytes v \<and> new = [] \<or> x = [] \<and> new = [htonl_bytes v])"
proof -
  have in_buffer: "\<exists>q'. xdr_ioq_putunit r v = Some q' \<and> ioq_filling q' \<and> ioq_min_bsize q' = ioq_min_bsize r \<and>
      chunks q' = grow (chunks r) (htonl_bytes v) []"
    if "ioq_filling r" "ioq_data r + 4 \<le> vio_wrap (uv_v (cur_uv r))" for r
    using put_in_buffer [of r "htonl_bytes v"] that by (subst xdr_ioq_putunit.simps) (simp add: Let_def)
  show ?thesis
  proof (cases "ioq_data q + 4 \<le> vio_wrap (uv_v (cur_uv q))")
    case True
    from in_buffer [OF assms(1) this] show ?thesis
      by blast
  next
    case False
    note n = next_filling [OF assms(1)]
    have "xdr_ioq_putunit q v = xdr_ioq_putunit (next_buffer q) v"
      using False by (subst xdr_ioq_putunit.simps) (simp add: Let_def)
    moreover have "ioq_data (next_buffer q) + 4 \<le> vio_wrap (uv_v (cur_uv (next_buffer q)))"
      using n(4) assms(2) fillingD(4) [OF n(1)] by linarith
    ultimately show ?thesis
      using in_buffer [OF n(1)] n by fastforce
  qed
qed

text \<open>Bytes fill up the last buffer and as many new ones as it takes, none of them empty.\<close>

lemma putbytes_fills:
  assumes "ioq_filling q" "0 < ioq_min_bsize q"
  shows "\<exists>q' x new. xdr_ioq_putbytes q bs (length bs) = Some q' \<and> ioq_filling q' \<and> ioq_min_bsize q' = ioq_min_bsize q \<and>
    chunks q' = grow (chunks q) x new \<and> bs = x @ concat new \<and> [] \<notin> set new"
  using assms
proof (induction "length bs" arbitrary: q bs rule: less_induct)
  case less
  have go: "\<exists>q' x new. xdr_ioq_putbytes r bs (length bs) = Some q' \<and> ioq_filling q' \<and> ioq_min_bsize q' = ioq_min_bsize r \<and>
      chunks q' = grow (chunks r) x new \<and> bs = x @ concat new \<and> [] \<notin> set new \<and> x \<noteq> []"
    if r: "ioq_filling r" "0 < ioq_min_bsize r" "bs \<noteq> []" "vio_wrap (uv_v (cur_uv r)) - ioq_data r \<noteq> 0" for r
  proof -
    define d where "d = min (vio_wrap (uv_v (cur_uv r)) - ioq_data r) (length bs)"
    let ?r = "(set_cur (uv_mem_update (overwrite (ioq_data r) (take d bs))) r)\<lparr>ioq_data := ioq_data r + d\<rparr>"
    have d: "0 < d" "d \<le> length bs" "length (take d bs) = d" "ioq_data r + d \<le> vio_wrap (uv_v (cur_uv r))"
      using r by (auto simp: d_def)
    note b = put_in_buffer [OF r(1), of "take d bs", unfolded d(3), OF d(4)]
    have e: "xdr_ioq_putbytes r bs (length bs) = xdr_ioq_putbytes ?r (drop d bs) (length (drop d bs))"
      using r(3,4) by (subst xdr_ioq_putbytes.simps) (simp add: Let_def d_def)
    obtain q' x new where q': "xdr_ioq_putbytes ?r (drop d bs) (length (drop d bs)) = Some q'" "ioq_filling q'"
        "ioq_min_bsize q' = ioq_min_bsize ?r" "chunks q' = grow (chunks ?r) x new" "drop d bs = x @ concat new" "[] \<notin> set new"
    proof -
      have "length (drop d bs) < length bs" "0 < ioq_min_bsize ?r"
        using d(1) r(2,3) b(3) by simp_all
      from less.hyps [OF this(1) b(1) this(2)] show thesis
        using that by blast
    qed
    have "chunks q' = grow (chunks r) (take d bs @ x) new"
      unfolding q'(4) b(2) by (simp add: grow_def)
    moreover have "bs = (take d bs @ x) @ concat new" "take d bs @ x \<noteq> []"
      using q'(5) r(3) d(1) append_take_drop_id [of d bs] by auto
    ultimately show ?thesis
      using e q' b(3) by metis
  qed
  show ?case
  proof (cases "bs = []")
    case True
    have "chunks q = grow (chunks q) [] []"
      using less.prems by (simp add: grow_def)
    moreover have "xdr_ioq_putbytes q bs (length bs) = Some q"
      using True by (subst xdr_ioq_putbytes.simps) simp
    ultimately show ?thesis
      using True less.prems by (intro exI [of _ q] exI [of _ "[]"]) simp
  next
    case bs: False
    show ?thesis
    proof (cases "vio_wrap (uv_v (cur_uv q)) - ioq_data q = 0")
      case False
      from go [OF less.prems bs False] show ?thesis
        by blast
    next
      case True
      note n = next_filling [OF less.prems(1)]
      have e: "xdr_ioq_putbytes q bs (length bs) = xdr_ioq_putbytes (next_buffer q) bs (length bs)"
        using True bs by (subst xdr_ioq_putbytes.simps) (simp add: Let_def)
      obtain q' x new where q': "xdr_ioq_putbytes (next_buffer q) bs (length bs) = Some q'" "ioq_filling q'"
          "ioq_min_bsize q' = ioq_min_bsize (next_buffer q)" "chunks q' = grow (chunks (next_buffer q)) x new"
          "bs = x @ concat new" "[] \<notin> set new" "x \<noteq> []"
        using go [OF n(1) _ bs] n(3,4) less.prems(2) by auto
      have "chunks q' = grow (chunks q) [] (x # new)"
        unfolding q'(4) n(2) by simp
      then show ?thesis
        using e q' n(3) by (intro exI [of _ q'] exI [of _ "[]"] exI [of _ "x # new"]) auto
    qed
  qed
qed

text \<open>Positioning the stream leaves it at the chunks behind the position.\<close>

fun chunks_from :: "nat \<Rightarrow> byte list list \<Rightarrow> byte list list" where
  "chunks_from pos [] = []"
| "chunks_from pos (c # cs) = (if pos < length c \<or> cs = [] then drop pos c # cs else chunks_from (pos - length c) cs)"

lemma setpos_loop_reading:
  assumes "ioq_uvq q = us @ uvs" "uvs \<noteq> []" "\<forall>uv\<in>set (ioq_uvq q). uv_ok uv" "ioq_pcount q = length us"
    "ioq_plength q = sum_list (map ioquv_length us)" "pos \<le> sum_list (map ioquv_length uvs)" "ioquv_length (last uvs) \<le> full"
  shows "\<exists>q'. setpos_loop full pos uvs (length us) q = (True, q') \<and> ioq_reading q' \<and> ioq_uvq q' = ioq_uvq q \<and>
    position q' = ioq_plength q + pos \<and> rest_chunks q' = chunks_from pos (map uv_bytes uvs)"
  using assms
proof (induction uvs arbitrary: us pos q)
  case (Cons uv uvs)
  have ok: "uv_ok uv"
    using Cons.prems by simp
  show ?case
  proof (cases "pos < ioquv_length uv \<or> uvs = []")
    case True
    let ?q = "q\<lparr>ioq_cur := length us, ioq_data := vio_head (uv_v uv) + pos\<rparr>"
    have p: "pos \<le> ioquv_length uv" "pos < ioquv_length uv \<or> uvs = [] \<and> pos \<le> full"
      using True Cons.prems by auto
    have c: "cur_uv ?q = uv"
      using Cons.prems(1) by (simp add: cur_uv_def)
    have "ioq_reading ?q"
      using Cons.prems p(1) [unfolded ioquv_length_def] ok uv_okD [OF ok] unfolding ioq_reading_def ioq_wf_def c by auto
    moreover have "position ?q = ioq_plength q + pos" "rest_chunks ?q = drop pos (uv_bytes uv) # map uv_bytes uvs"
      unfolding position_def rest_chunks_def c by (simp_all add: Cons.prems(1))
    ultimately show ?thesis
      using p(2) True ok by (auto simp: Let_def)
  next
    case False
    let ?q = "q\<lparr>ioq_plength := ioq_plength q + ioquv_length uv, ioq_pcount := ioq_pcount q + 1\<rparr>"
    have "\<exists>q'. setpos_loop full (pos - ioquv_length uv) uvs (length (us @ [uv])) ?q = (True, q') \<and> ioq_reading q' \<and> ioq_uvq q' = ioq_uvq ?q \<and>
        position q' = ioq_plength ?q + (pos - ioquv_length uv) \<and> rest_chunks q' = chunks_from (pos - ioquv_length uv) (map uv_bytes uvs)"
      using Cons.prems False by (intro Cons.IH) auto
    then show ?thesis
      using False ok by (auto simp: Let_def)
  qed
qed simp

lemma setpos_filling:
  assumes "ioq_filling q" "pos \<le> length (concat (chunks q))"
  shows "\<exists>q'. xdr_ioq_setpos q pos = (True, q') \<and> ioq_reading q' \<and> contents q' = concat (chunks q) \<and>
    position q' = pos \<and> rest_chunks q' = chunks_from pos (chunks q)"
proof -
  note d = fillingD [OF assms(1)] and sp = filling_split [OF assms(1)]
  define us where "us = butlast (ioq_uvq q) @ [filled_uv q]"
  have t: "ioq_tail_update q = q\<lparr>ioq_uvq := us\<rparr>"
    by (simp add: tail_update_filling [OF assms(1)] us_def)
  have c: "cur_uv (q\<lparr>ioq_uvq := us\<rparr>) = filled_uv q"
    unfolding cur_uv_def us_def using sp(2) by (metis nth_append_length xdr_ioq.select_convs(1,2) xdr_ioq.update_convs(1) xdr_ioq.surjective)
  have ok: "\<forall>uv\<in>set us. uv_ok uv"
    using tail_update_ok [OF assms(1)] by (simp add: t)
  have "map (length \<circ> uv_bytes) us = map ioquv_length us"
    using ok by simp
  then have l: "length (concat (map uv_bytes us)) = sum_list (map ioquv_length us)"
    unfolding length_concat map_map by (rule arg_cong)
  have f: "ioquv_length (last us) \<le> vio_wrap (uv_v (filled_uv q)) - vio_head (uv_v (filled_uv q))"
    using d by (auto simp: us_def ioquv_length_def filled_uv_def)
  have "\<exists>q'. setpos_loop (vio_wrap (uv_v (filled_uv q)) - vio_head (uv_v (filled_uv q))) pos us (length ([] :: xdr_ioq_uv list))
      (q\<lparr>ioq_uvq := us, ioq_plength := 0, ioq_pcount := 0\<rparr>) = (True, q') \<and> ioq_reading q' \<and>
      ioq_uvq q' = ioq_uvq (q\<lparr>ioq_uvq := us, ioq_plength := 0, ioq_pcount := 0\<rparr>) \<and>
      position q' = ioq_plength (q\<lparr>ioq_uvq := us, ioq_plength := 0, ioq_pcount := 0\<rparr>) + pos \<and> rest_chunks q' = chunks_from pos (map uv_bytes us)"
    using assms(2) l f ok by (intro setpos_loop_reading) (auto simp: chunks_def t us_def)
  then show ?thesis
    unfolding xdr_ioq_setpos_def t Let_def c by (auto simp: contents_def chunks_def t)
qed


section \<open>What is written is read back\<close>

datatype ioq_item = IUnit uint32 | IBytes "byte list"

fun ioq_put :: "xdr_ioq \<Rightarrow> ioq_item list \<Rightarrow> xdr_ioq option" where
  "ioq_put q [] = Some q"
| "ioq_put q (IUnit v # is) = do { q \<leftarrow> xdr_ioq_putunit q v; ioq_put q is }"
| "ioq_put q (IBytes bs # is) = do { q \<leftarrow> xdr_ioq_putbytes q bs (length bs); ioq_put q is }"

text \<open>Items of the same shapes are read.\<close>

fun ioq_get :: "xdr_ioq \<Rightarrow> ioq_item list \<Rightarrow> ioq_item list option" where
  "ioq_get q [] = Some []"
| "ioq_get q (IUnit v # is) =
     (case xdr_ioq_getunit q 0 of (b, q, u) \<Rightarrow> if b then map_option ((#) (IUnit u)) (ioq_get q is) else None)"
| "ioq_get q (IBytes bs # is) =
     (case xdr_ioq_getbytes q (length bs) of (b, q, bs) \<Rightarrow> if b then map_option ((#) (IBytes bs)) (ioq_get q is) else None)"

text \<open>The items are the next of the chunks; the result is what is left.\<close>

fun items_at :: "ioq_item list \<Rightarrow> byte list list \<Rightarrow> byte list list option" where
  "items_at [] cs = Some cs"
| "items_at (IUnit v # is) cs = (case unit_at cs of Some (u, cs) \<Rightarrow> if u = htonl_bytes v then items_at is cs else None | None \<Rightarrow> None)"
| "items_at (IBytes bs # is) cs =
     (case bytes_at (length bs) cs of Some (x, cs) \<Rightarrow> if x = bs then items_at is cs else None | None \<Rightarrow> None)"

lemma unit_at_grow: "unit_at cs = Some (u, r) \<Longrightarrow> cs \<noteq> [] \<and> r \<noteq> [] \<and> unit_at (grow cs x new) = Some (u, grow r x new)"
  by (induction cs rule: unit_at.induct) (auto simp: grow_def split: if_splits)

lemma bytes_at_grow: "bytes_at n cs = Some (u, r) \<Longrightarrow> cs \<noteq> [] \<and> r \<noteq> [] \<and> bytes_at n (grow cs x new) = Some (u, grow r x new)"
  by (induction n cs arbitrary: u rule: bytes_at.induct) (auto simp: grow_def split: if_splits)

lemma items_at_grow: "items_at is cs = Some r \<Longrightarrow> cs \<noteq> [] \<Longrightarrow> r \<noteq> [] \<and> items_at is (grow cs x new) = Some (grow r x new)"
proof (induction "is" arbitrary: cs)
  case (Cons i "is")
  show ?case
  proof (cases i)
    case (IUnit v)
    with Cons.prems obtain cs' where c: "unit_at cs = Some (htonl_bytes v, cs')" "items_at is cs' = Some r"
      by (auto split: option.splits prod.splits if_splits)
    then show ?thesis
      using Cons.IH [of cs'] unit_at_grow [OF c(1), of x new] IUnit by simp
  next
    case (IBytes bs)
    with Cons.prems obtain cs' where c: "bytes_at (length bs) cs = Some (bs, cs')" "items_at is cs' = Some r"
      by (auto split: option.splits prod.splits if_splits)
    then show ?thesis
      using Cons.IH [of cs'] bytes_at_grow [OF c(1), of x new] IBytes by simp
  qed
qed simp

lemma items_at_append: "items_at (is @ js) cs = Option.bind (items_at is cs) (items_at js)"
  by (induction "is" cs rule: items_at.induct) (auto split: option.splits prod.splits)

lemma bytes_at_all: "[] \<notin> set new \<Longrightarrow> bytes_at (length (x @ concat new)) (x # new) = Some (x @ concat new, [[]])"
  by (induction new arbitrary: x) (auto simp: add.commute)

lemma items_at_reads:
  "items_at is (rest_chunks q) = Some r \<Longrightarrow> ioq_reading q \<Longrightarrow> ioq_get q is = Some is"
proof (induction "is" arbitrary: q)
  case (Cons i "is")
  then show ?case
  proof (cases i)
    case (IUnit v)
    with Cons show ?thesis
      using getunit_chunks [of q 0] by (auto simp: ntohl_htonl_bytes [of v "[]", simplified] split: option.splits prod.splits if_splits)
  next
    case (IBytes bs)
    with Cons show ?thesis
      using getbytes_chunks [of q "length bs"] by (auto split: option.splits prod.splits if_splits)
  qed
qed simp

text \<open>Everything written so far is read from the chunks, to their end.\<close>

lemma put_items:
  assumes "ioq_filling q" "4 \<le> ioq_min_bsize q" "items_at done (chunks q) = Some [[]]"
  shows "\<exists>q'. ioq_put q is = Some q' \<and> ioq_filling q' \<and> items_at (done @ is) (chunks q') = Some [[]]"
  using assms
proof (induction "is" arbitrary: q "done")
  case (Cons i "is")
  obtain q' x new where q': "ioq_put q (i # is) = ioq_put q' is" "ioq_filling q'" "ioq_min_bsize q' = ioq_min_bsize q"
      "chunks q' = grow (chunks q) x new" "items_at [i] (x # new) = Some [[]]"
  proof (cases i)
    case (IUnit v)
    obtain q' x new where p: "xdr_ioq_putunit q v = Some q'" "ioq_filling q'" "ioq_min_bsize q' = ioq_min_bsize q"
        "chunks q' = grow (chunks q) x new" "x = htonl_bytes v \<and> new = [] \<or> x = [] \<and> new = [htonl_bytes v]"
      using putunit_fills [OF Cons.prems(1,2), of v] by blast
    then show thesis
      using IUnit by (intro that [of q' x new]) auto
  next
    case (IBytes bs)
    obtain q' x new where p: "xdr_ioq_putbytes q bs (length bs) = Some q'" "ioq_filling q'" "ioq_min_bsize q' = ioq_min_bsize q"
        "chunks q' = grow (chunks q) x new" "bs = x @ concat new" "[] \<notin> set new"
      using putbytes_fills [OF Cons.prems(1), of bs] Cons.prems(2) by auto
    then show thesis
      using IBytes bytes_at_all [OF p(6), of x] by (intro that [of q' x new]) (simp_all del: bytes_at.simps)
  qed
  have "items_at done (chunks q') = Some (x # new)"
    using items_at_grow [OF Cons.prems(3) chunks_ne [OF Cons.prems(1)], of x new] q'(4) by (simp add: grow_def)
  then have "items_at (done @ [i]) (chunks q') = Some [[]]"
    using q'(5) by (simp add: items_at_append)
  from Cons.IH [OF q'(2) _ this] show ?case
    using q' Cons.prems(2) by simp
qed simp

lemma items_at_skip: "items_at is ([] # cs) = Some r \<Longrightarrow> cs \<noteq> [] \<Longrightarrow> items_at is cs \<noteq> None"
proof (induction "is")
  case (Cons i "is")
  show ?case
  proof (cases i)
    case (IBytes bs)
    then show ?thesis
      using Cons by (cases bs; cases cs) (auto split: option.splits prod.splits if_splits)
  qed (use Cons in \<open>auto split: option.splits prod.splits if_splits\<close>)
qed simp

lemma items_at_start: "items_at is cs \<noteq> None \<Longrightarrow> items_at is (chunks_from 0 cs) \<noteq> None"
proof (induction cs)
  case (Cons c cs)
  then show ?case
    using items_at_skip [of "is" cs] by (cases "c = [] \<and> cs \<noteq> []") auto
qed simp

lemma create_filling:
  "ioq_filling (xdr_ioq_create b False)" "chunks (xdr_ioq_create b False) = [[]]" "ioq_min_bsize (xdr_ioq_create b False) = b"
  by (simp_all add: xdr_ioq_create_def xdr_ioq_reset_def xdr_ioq_uv_reset_def xdr_ioq_uv_create_def ioq_filling_def ioq_wf_def
      cur_uv_def uv_ok_def ioquv_size_def chunks_def ioq_tail_update_def uv_bytes_def ioquv_length_def Let_def)

text \<open>
  C9: whatever sequence of units and byte strings is written to a new queue, the writes return, and after the
  stream is set back to its start the same sequence is read.  The buffers only have to be as large as a unit: where the items
  were cut by the ends of the buffers, and what was left unused there, does not show.
\<close>

theorem ioq_round_trip:
  assumes "4 \<le> min_bsize"
  shows "\<exists>q q'. ioq_put (xdr_ioq_create min_bsize False) is = Some q \<and> xdr_ioq_setpos q 0 = (True, q') \<and> ioq_get q' is = Some is"
proof -
  obtain q where q: "ioq_put (xdr_ioq_create min_bsize False) is = Some q" "ioq_filling q" "items_at is (chunks q) = Some [[]]"
    using put_items [OF create_filling(1), of min_bsize "[]" "is"] assms by (auto simp: create_filling)
  obtain q' where q': "xdr_ioq_setpos q 0 = (True, q')" "ioq_reading q'" "rest_chunks q' = chunks_from 0 (chunks q)"
    using setpos_filling [OF q(2), of 0] by auto
  obtain r where "items_at is (rest_chunks q') = Some r"
    using items_at_start [of "is" "chunks q"] q(3) q'(3) by auto
  then show ?thesis
    using q(1) q' items_at_reads by blast
qed

theorem ioq_round_trip_witness:
  "(4 :: nat) \<le> 8 \<and>
   (\<exists>q q'. ioq_put (xdr_ioq_create 8 False) [IUnit 7, IBytes [1, 2, 3, 4, 5, 6], IUnit 9] = Some q \<and> xdr_ioq_setpos q 0 = (True, q') \<and>
     ioq_get q' [IUnit 7, IBytes [1, 2, 3, 4, 5, 6], IUnit 9] = Some [IUnit 7, IBytes [1, 2, 3, 4, 5, 6], IUnit 9])"
  using ioq_round_trip [of 8 "[IUnit 7, IBytes [1, 2, 3, 4, 5, 6], IUnit 9]"] by simp

text \<open>
  Setting the position takes the room of the buffer the stream is in for that of the buffer it moves to:
  behind a large buffer the stream is set to a place beyond the end of a small one.
\<close>

lemma setpos_beyond_buffer:
  "\<exists>q'. xdr_ioq_setpos (sample_ioq [[1, 2, 3, 4, 5, 6, 7, 8], [9, 10]]) 14 = (True, q') \<and>
     vio_wrap (uv_v (cur_uv q')) < ioq_data q'"
proof -
  have "(case xdr_ioq_setpos (sample_ioq [[1, 2, 3, 4, 5, 6, 7, 8], [9, 10]]) 14 of (b, q') \<Rightarrow> b \<and> vio_wrap (uv_v (cur_uv q')) < ioq_data q')"
    by code_simp
  then show ?thesis
    by (auto split: prod.splits)
qed

section \<open>The pieces of a stretch of the stream\<close>

lemma iovcount_found:
  assumes "0 < k" "\<forall>uv\<in>set uvs. uv_ok uv" "0 < n" "n \<le> length (concat (map uv_bytes uvs))"
  shows "\<exists>ps. fillbufs_loop True 0 n uvs = Some ps \<and> concat ps = take n (concat (map uv_bytes uvs)) \<and>
    iovcount_loop k 0 n uvs = k + int (length ps)"
  using assms
proof (induction uvs arbitrary: k n)
  case (Cons uv uvs)
  have ok: "length (uv_bytes uv) = ioquv_length uv"
    using Cons.prems by simp
  show ?case
  proof (cases "n \<le> ioquv_length uv")
    case True
    then show ?thesis
      using ok Cons.prems by (simp add: Let_def uv_bytes_def min_def)
  next
    case False
    obtain ps where "fillbufs_loop True 0 (n - ioquv_length uv) uvs = Some ps"
      "concat ps = take (n - ioquv_length uv) (concat (map uv_bytes uvs))"
      "iovcount_loop (k + 1) 0 (n - ioquv_length uv) uvs = k + 1 + int (length ps)"
    proof -
      have "0 < k + 1" "0 < n - ioquv_length uv" "n - ioquv_length uv \<le> length (concat (map uv_bytes uvs))"
        using Cons.prems False ok by (auto simp: le_diff_conv add.commute)
      from Cons.IH [OF this(1) _ this(2,3)] show thesis
        using that Cons.prems by auto
    qed
    then show ?thesis
      using False ok Cons.prems(1) by (simp add: Let_def) (simp add: uv_bytes_def)
  qed
qed simp

lemma fillbufs_contents:
  assumes "\<forall>uv\<in>set uvs. uv_ok uv" "start < length (concat (map uv_bytes uvs))" "0 < n" "start + n \<le> length (concat (map uv_bytes uvs))"
  shows "\<exists>ps. fillbufs_loop False start n uvs = Some ps \<and> concat ps = take n (drop start (concat (map uv_bytes uvs))) \<and>
    iovcount_loop (- 1) start n uvs = int (length ps) \<and> ps \<noteq> [] \<and> hd ps \<noteq> []"
  using assms
proof (induction uvs arbitrary: start)
  case (Cons uv uvs)
  have ok: "length (uv_bytes uv) = ioquv_length uv"
    using Cons.prems by simp
  have b: "take (ioquv_length uv - start) (drop (vio_head (uv_v uv) + start) (uv_mem uv)) = drop start (uv_bytes uv)"
    by (simp add: uv_bytes_def drop_take add.commute)
  show ?case
  proof (cases "start < ioquv_length uv")
    case st: True
    show ?thesis
    proof (cases "n \<le> ioquv_length uv - start")
      case True
      then show ?thesis
        using st ok Cons.prems(3) by (simp add: Let_def b)
    next
      case False
      obtain ps where "fillbufs_loop True 0 (n - (ioquv_length uv - start)) uvs = Some ps"
        "concat ps = take (n - (ioquv_length uv - start)) (concat (map uv_bytes uvs))"
        "iovcount_loop 1 0 (n - (ioquv_length uv - start)) uvs = 1 + int (length ps)"
      proof -
        have "0 < n - (ioquv_length uv - start)" "n - (ioquv_length uv - start) \<le> length (concat (map uv_bytes uvs))"
          using Cons.prems False st ok by auto
        from iovcount_found [OF _ _ this, of 1] show thesis
          using that Cons.prems by auto
      qed
      then show ?thesis
        using st False ok by (simp add: Let_def b)
    qed
  next
    case False
    then show ?thesis
      using Cons ok by (simp add: Let_def)
  qed
qed simp

lemma pieces_filling:
  assumes "ioq_filling q" "0 < n" "start + n \<le> length (concat (chunks q))"
  shows "\<exists>ps. xdr_ioq_fillbufs q start n = Some ps \<and> concat ps = take n (drop start (concat (chunks q))) \<and>
    xdr_ioq_iovcount q start n = int (length ps) \<and> ps \<noteq> [] \<and> hd ps \<noteq> []"
  using fillbufs_contents [OF tail_update_ok [OF assms(1)], of start n] assms(2,3)
  by (auto simp: chunks_def xdr_ioq_fillbufs_def xdr_ioq_iovcount_def)

lemma tail_update_filled:
  assumes "ioq_filling q"
  shows "ioq_filling (ioq_tail_update q)" "chunks (ioq_tail_update q) = chunks q"
    "xdr_ioq_getpos q = (length (concat (chunks q)), ioq_tail_update q)"
proof -
  note d = fillingD [OF assms] and sp = filling_split [OF assms]
  define us where "us = butlast (ioq_uvq q)"
  have t: "ioq_tail_update q = q\<lparr>ioq_uvq := us @ [filled_uv q]\<rparr>"
    by (simp add: tail_update_filling [OF assms] us_def)
  have i: "ioq_cur q = length us"
    using sp(2) by (simp add: us_def)
  then have c: "cur_uv (ioq_tail_update q) = filled_uv q"
    by (simp add: t cur_uv_def)
  have u: "ioq_uvq q = us @ [cur_uv q]"
    using sp us_def by simp
  show f: "ioq_filling (ioq_tail_update q)"
    using assms tail_update_ok [OF assms] d u unfolding ioq_filling_def ioq_wf_def c by (auto simp: t filled_uv_def)
  have "ioq_tail_update (ioq_tail_update q) = ioq_tail_update q"
    by (simp add: ioq_tail_update_def [of "ioq_tail_update q"] c) (simp add: t filled_uv_def)
  then show "chunks (ioq_tail_update q) = chunks q"
    by (simp add: chunks_def)
  have "map (length \<circ> uv_bytes) us = map ioquv_length us"
    using assms u by (auto simp: ioq_filling_def ioq_wf_def)
  then have "length (concat (map uv_bytes us)) = sum_list (map ioquv_length us)"
    unfolding length_concat map_map by (rule arg_cong)
  then have "ioq_plength q = length (concat (map uv_bytes us))"
    using assms u i unfolding ioq_filling_def ioq_wf_def by simp
  moreover have "ioq_data q - vio_head (uv_v (cur_uv q)) = length (uv_bytes (filled_uv q))"
    using d by (simp add: filled_bytes)
  ultimately show "xdr_ioq_getpos q = (length (concat (chunks q)), ioq_tail_update q)"
    unfolding xdr_ioq_getpos_def Let_def c by (simp add: t chunks_def filled_uv_def)
qed

text \<open>
  The pieces handed out for a stretch of a stream that is being written are the bytes of that stretch, in order,
  and the number of pieces is the number that was announced for it.
\<close>

theorem ioq_pieces:
  assumes "ioq_filling q" "0 < n" "start + n \<le> length (concat (chunks q))"
  shows "\<exists>ps. xdr_ioq_fillbufs q start n = Some ps \<and> concat ps = take n (drop start (concat (chunks q))) \<and>
    xdr_ioq_iovcount q start n = int (length ps)"
  using pieces_filling [OF assms] by blast

theorem ioq_pieces_witness:
  "\<exists>ps. xdr_ioq_fillbufs ((sample_ioq [[1, 2, 3], [4, 5]])\<lparr>ioq_cur := 1, ioq_data := 2, ioq_plength := 3, ioq_pcount := 1\<rparr>) 1 3 = Some ps \<and>
     concat ps = [2, 3, 4] \<and> xdr_ioq_iovcount ((sample_ioq [[1, 2, 3], [4, 5]])\<lparr>ioq_cur := 1, ioq_data := 2, ioq_plength := 3, ioq_pcount := 1\<rparr>) 1 3 = int (length ps)"
proof -
  let ?q = "(sample_ioq [[1, 2, 3], [4, 5]])\<lparr>ioq_cur := 1, ioq_data := 2, ioq_plength := 3, ioq_pcount := 1\<rparr>"
  have q: "ioq_filling ?q" "chunks ?q = [[1, 2, 3], [4, 5]]"
    by code_simp+
  show ?thesis
    using ioq_pieces [OF q(1), of 3 1] unfolding q(2) by simp
qed

end
