(* ===== verification/Vc_Recv.thy ===== *)
theory Vc_Recv
  imports Xdr_Ioq
begin

text \<open>
  The receiving side of a stream connection: \<open>svc_vc_recv\<close> of \<open>libntirpc/src/svc_vc.c\<close>, which is called
  for every event of the connection and puts the fragments of the record marking standard together to
  requests.  What is half received stays in the transport until the next event.  The socket and the event
  loop are parameters: \<open>recv\<close>, with and without \<open>MSG_WAITALL\<close>, and \<open>svc_rqst_rearm_events\<close>.

  A store or a load outside of a buffer is the value \<open>None\<close>.
\<close>

section \<open>The transport\<close>

datatype received = Received "byte list" | Recv_error nat

definition EAGAIN :: nat where
  "EAGAIN = 11"

definition EWOULDBLOCK :: nat where
  "EWOULDBLOCK = 11"

text \<open>
  The flag of \<open>sk_recv\<close> is set for \<open>MSG_WAITALL\<close> and not set for \<open>MSG_DONTWAIT\<close>; \<open>sk_rearm\<close> is true when it fails.
\<close>

record 's socket =
  sk_recv :: "nat \<Rightarrow> bool \<Rightarrow> 's \<Rightarrow> received \<times> 's"
  sk_rearm :: "'s \<Rightarrow> bool \<times> 's"

record sockaddr =
  ss_family :: nat
  ss_addr :: "byte list"
  ss_port :: "byte list"

record svc_vc_xprt =
  sx_fbtbc :: uint32
  rec_ioq :: "xdr_ioq list"
  xp_destroyed :: bool
  xp_remote :: sockaddr
  xp_proxy :: sockaddr

datatype xprt_stat = XPRT_IDLE | XPRT_DESTROYED | SVC_REQUEST xdr_ioq

definition SVC_DESTROY :: "svc_vc_xprt \<Rightarrow> svc_vc_xprt" where
  "SVC_DESTROY xd = xd\<lparr>xp_destroyed := True\<rparr>"

definition svc_vc_stat :: "svc_vc_xprt \<Rightarrow> xprt_stat" where
  "svc_vc_stat xd = (if xp_destroyed xd then XPRT_DESTROYED else XPRT_IDLE)"

definition LAST_FRAG :: uint32 where
  "LAST_FRAG = 0x80000000"

definition PP2_SIG_UINT32 :: uint32 where
  "PP2_SIG_UINT32 = 0x0d0a0d0a"

definition PP2_SIG_UINT32_2 :: uint32 where
  "PP2_SIG_UINT32_2 = 0x000d0a51"

definition PP2_SIG_UINT32_3 :: uint32 where
  "PP2_SIG_UINT32_3 = 0x5549540a"

definition PP2_VERSION2_CMD_LOCAL :: byte where
  "PP2_VERSION2_CMD_LOCAL = 0x20"

definition PP2_VERSIOB2_CMD_PROXY :: byte where
  "PP2_VERSIOB2_CMD_PROXY = 0x21"

definition PP2_TRANS_STREAM_FAM_INET :: byte where
  "PP2_TRANS_STREAM_FAM_INET = 0x11"

definition PP2_TRANS_STREAM_FAM_INET6 :: byte where
  "PP2_TRANS_STREAM_FAM_INET6 = 0x21"

definition AF_INET :: nat where
  "AF_INET = 2"

definition AF_INET6 :: nat where
  "AF_INET6 = 10"

text \<open>Wait for the next event, or give up.\<close>

definition rearm :: "'s socket \<Rightarrow> svc_vc_xprt \<Rightarrow> 's \<Rightarrow> svc_vc_xprt \<times> 's" where
  "rearm sk xd s = (case sk_rearm sk s of (failed, s) \<Rightarrow> (if failed then SVC_DESTROY xd else xd, s))"

definition recv_failed :: "'s socket \<Rightarrow> nat \<Rightarrow> svc_vc_xprt \<Rightarrow> 's \<Rightarrow> svc_vc_xprt \<times> 's" where
  "recv_failed sk code xd s =
     (if code = EAGAIN \<or> code = EWOULDBLOCK then rearm sk xd s else (SVC_DESTROY xd, s))"

text \<open>All of a part of the header, or nothing.\<close>

definition recv_exactly :: "'s socket \<Rightarrow> nat \<Rightarrow> 's \<Rightarrow> byte list option \<times> 's" where
  "recv_exactly sk n s =
     (case sk_recv sk n True s of
        (Received bs, s) \<Rightarrow> (if length bs = n then Some bs else None, s)
      | (Recv_error code, s) \<Rightarrow> (None, s))"

text \<open>
  The addresses of a proxied connection.  The block behind \<open>pa\<close> is as long as the header says, the fields are read
  whether they lie inside it or not.
\<close>

definition set_proxied :: "byte \<Rightarrow> byte list \<Rightarrow> svc_vc_xprt \<Rightarrow> svc_vc_xprt option option" where
  "set_proxied fam pa xd =
     (let xd' = xd\<lparr>xp_proxy := xp_remote xd\<rparr> in
      if fam = PP2_TRANS_STREAM_FAM_INET
      then (if length pa < 10 then None
            else Some (Some (xd'\<lparr>xp_remote := \<lparr>ss_family = AF_INET, ss_addr = take 4 pa, ss_port = take 2 (drop 8 pa)\<rparr>\<rparr>)))
      else if fam = PP2_TRANS_STREAM_FAM_INET6
      then (if length pa < 34 then None
            else Some (Some (xd'\<lparr>xp_remote := \<lparr>ss_family = AF_INET6, ss_addr = take 16 pa, ss_port = take 2 (drop 32 pa)\<rparr>\<rparr>)))
      else Some None)"

text \<open>
  The rest of a proxy header behind its first four bytes.  True is the jump back to the next header.
\<close>

definition proxy_header :: "'s socket \<Rightarrow> svc_vc_xprt \<Rightarrow> 's \<Rightarrow> (bool \<times> svc_vc_xprt \<times> 's) option" where
  "proxy_header sk xd s =
     (case recv_exactly sk 8 s of
        (None, s) \<Rightarrow> Some (False, SVC_DESTROY xd, s)
      | (Some rest, s) \<Rightarrow>
          (let xd = (if ntohl_bytes rest \<noteq> PP2_SIG_UINT32_2 \<or> ntohl_bytes (drop 4 rest) \<noteq> PP2_SIG_UINT32_3
                     then SVC_DESTROY xd else xd) in
           case recv_exactly sk 4 s of
             (None, s) \<Rightarrow> Some (False, SVC_DESTROY xd, s)
           | (Some hdr, s) \<Rightarrow>
               (case recv_exactly sk (unat (hdr ! 2) * 256 + unat (hdr ! 3)) s of
                  (None, s) \<Rightarrow> Some (False, SVC_DESTROY xd, s)
                | (Some pa, s) \<Rightarrow>
                    if hdr ! 0 = PP2_VERSIOB2_CMD_PROXY
                    then (case set_proxied (hdr ! 1) pa xd of
                            None \<Rightarrow> None
                          | Some None \<Rightarrow> Some (False, SVC_DESTROY xd, s)
                          | Some (Some xd) \<Rightarrow> Some (True, xd, s))
                    else if hdr ! 0 = PP2_VERSION2_CMD_LOCAL then Some (False, rearm sk xd s)
                    else Some (False, SVC_DESTROY xd, s))))"

text \<open>
  The header of a fragment, behind any number of proxy headers.  \<open>recv\<close> stores what it gets over the bytes of \<open>sx_fbtbc\<close>,
  the least significant one first.
\<close>

partial_function (option) recv_header ::
  "'s socket \<Rightarrow> bool \<Rightarrow> svc_vc_xprt \<Rightarrow> 's \<Rightarrow> (bool \<times> svc_vc_xprt \<times> 's) option" where
  "recv_header sk hap_again xd s =
     (case sk_recv sk BYTES_PER_XDR_UNIT (\<not> hap_again) s of
        (Recv_error code, s) \<Rightarrow> Some (False, recv_failed sk code xd s)
      | (Received bs, s) \<Rightarrow>
          if bs = [] then Some (False, SVC_DESTROY xd, s)
          else (let xd = xd\<lparr>sx_fbtbc := ntohl_bytes (overwrite 0 bs (rev (htonl_bytes (sx_fbtbc xd))))\<rparr> in
                if sx_fbtbc xd \<noteq> PP2_SIG_UINT32 then Some (True, xd, s)
                else (case proxy_header sk xd s of
                        None \<Rightarrow> None
                      | Some (again, xd, s) \<Rightarrow> if again then recv_header sk True xd s else Some (False, xd, s))))"

definition cur_ioq :: "svc_vc_xprt \<Rightarrow> xdr_ioq" where
  "cur_ioq xd = last (rec_ioq xd)"

definition set_ioq :: "xdr_ioq \<Rightarrow> svc_vc_xprt \<Rightarrow> svc_vc_xprt" where
  "set_ioq q xd = xd\<lparr>rec_ioq := butlast (rec_ioq xd) @ [q]\<rparr>"

definition store_tail :: "byte list \<Rightarrow> xdr_ioq_uv \<Rightarrow> xdr_ioq_uv" where
  "store_tail bs uv =
     uv\<lparr>uv_mem := overwrite (vio_tail (uv_v uv)) bs (uv_mem uv), uv_v := (uv_v uv)\<lparr>vio_tail := vio_tail (uv_v uv) + length bs\<rparr>\<rparr>"

text \<open>The bytes of the current fragment that are there.\<close>

definition recv_fragment :: "'s socket \<Rightarrow> svc_vc_xprt \<Rightarrow> 's \<Rightarrow> (svc_vc_xprt \<times> 's \<times> xprt_stat) option" where
  "recv_fragment sk xd s =
     (let xioq = cur_ioq xd in
      if ioq_uvq xioq = [] then None
      else
        (let uv = last (ioq_uvq xioq) in
         case sk_recv sk (unat (sx_fbtbc xd)) False s of
           (Recv_error code, s) \<Rightarrow> (let (xd, s) = recv_failed sk code xd s in Some (xd, s, svc_vc_stat xd))
         | (Received bs, s) \<Rightarrow>
             if bs = [] then Some (SVC_DESTROY xd, s, svc_vc_stat (SVC_DESTROY xd))
             else if vio_tail (uv_v uv) + length bs > vio_wrap (uv_v uv) then None
             else
               (let xioq = xioq\<lparr>ioq_uvq := butlast (ioq_uvq xioq) @ [store_tail bs uv]\<rparr>;
                    xd = (set_ioq xioq xd)\<lparr>sx_fbtbc := sx_fbtbc xd - of_nat (length bs)\<rparr> in
                if sx_fbtbc xd \<noteq> 0 \<or> uv_more uv
                then (let (xd, s) = rearm sk xd s in Some (xd, s, svc_vc_stat xd))
                else
                  (let xd = xd\<lparr>rec_ioq := butlast (rec_ioq xd)\<rparr> in
                   case xdr_ioq_reset 0 xioq of
                     None \<Rightarrow> None
                   | Some xioq \<Rightarrow>
                       (case sk_rearm sk s of
                          (True, s) \<Rightarrow> Some (SVC_DESTROY xd, s, svc_vc_stat (SVC_DESTROY xd))
                        | (False, s) \<Rightarrow> Some (xd, s, SVC_REQUEST xioq))))))"

text \<open>A new fragment has a buffer of its own.\<close>

definition new_fragment :: "svc_vc_xprt \<Rightarrow> svc_vc_xprt" where
  "new_fragment xd =
     (let mflag = (sx_fbtbc xd AND LAST_FRAG = 0);
          len = sx_fbtbc xd AND NOT LAST_FRAG;
          xioq = cur_ioq xd in
      (if len = 0 then SVC_DESTROY xd
       else set_ioq (xioq\<lparr>ioq_uvq := ioq_uvq xioq @ [xdr_ioq_uv_create (unat len) mflag]\<rparr>) xd)\<lparr>sx_fbtbc := len\<rparr>)"

definition svc_vc_recv :: "'s socket \<Rightarrow> nat \<Rightarrow> svc_vc_xprt \<Rightarrow> 's \<Rightarrow> (svc_vc_xprt \<times> 's \<times> xprt_stat) option" where
  "svc_vc_recv sk pagesz xd s =
     (let xd = (if rec_ioq xd = [] then xd\<lparr>rec_ioq := [xdr_ioq_create pagesz True]\<rparr> else xd) in
      if sx_fbtbc xd = 0
      then (case recv_header sk False xd s of
              None \<Rightarrow> None
            | Some (False, xd, s) \<Rightarrow> Some (xd, s, svc_vc_stat xd)
            | Some (True, xd, s) \<Rightarrow>
                (let xd = new_fragment xd in
                 if sx_fbtbc xd = 0 then Some (xd, s, svc_vc_stat xd) else recv_fragment sk xd s))
      else recv_fragment sk xd s)"

text \<open>The requests of so many events; a destroyed transport gets no more of them.\<close>

fun serve :: "'s socket \<Rightarrow> nat \<Rightarrow> nat \<Rightarrow> svc_vc_xprt \<Rightarrow> 's \<Rightarrow> (xdr_ioq list \<times> svc_vc_xprt \<times> 's) option" where
  "serve sk pagesz 0 xd s = Some ([], xd, s)"
| "serve sk pagesz (Suc n) xd s =
     (case svc_vc_recv sk pagesz xd s of
        None \<Rightarrow> None
      | Some (xd, s, XPRT_DESTROYED) \<Rightarrow> Some ([], xd, s)
      | Some (xd, s, XPRT_IDLE) \<Rightarrow> serve sk pagesz n xd s
      | Some (xd, s, SVC_REQUEST q) \<Rightarrow> map_option (\<lambda>(qs, r). (q # qs, r)) (serve sk pagesz n xd s))"

section \<open>Record marking\<close>

definition fragment :: "bool \<Rightarrow> byte list \<Rightarrow> byte list" where
  "fragment final bs = htonl_bytes ((if final then LAST_FRAG else 0) OR of_nat (length bs)) @ bs"

fun marked :: "byte list list \<Rightarrow> byte list" where
  "marked [] = []"
| "marked (f # fs) = fragment (fs = []) f @ marked fs"

definition fragment_ok :: "bool \<Rightarrow> byte list \<Rightarrow> bool" where
  "fragment_ok final bs \<longleftrightarrow> bs \<noteq> [] \<and> length bs < 2 ^ 31 \<and> (final \<or> length bs \<noteq> unat PP2_SIG_UINT32)"

fun record_ok :: "byte list list \<Rightarrow> bool" where
  "record_ok [] = True"
| "record_ok (f # fs) = (fragment_ok (fs = []) f \<and> record_ok fs)"

text \<open>
  What the code relies on of the socket: \<open>stream\<close> is all the peer will still send before it closes its side.
\<close>

definition stream_socket :: "'s socket \<Rightarrow> ('s \<Rightarrow> byte list) \<Rightarrow> bool" where
  "stream_socket sk stream \<longleftrightarrow>
     (\<forall>n all s. case sk_recv sk n all s of
        (Received bs, s') \<Rightarrow> length bs \<le> n \<and> stream s = bs @ stream s' \<and> (bs = [] \<longrightarrow> n = 0 \<or> stream s = []) \<and>
          (all \<longrightarrow> length bs = min n (length (stream s)))
      | (Recv_error code, s') \<Rightarrow> stream s' = stream s \<and> code = EAGAIN) \<and>
     (\<forall>s. \<not> fst (sk_rearm sk s) \<and> stream (snd (sk_rearm sk s)) = stream s)"

section \<open>The records of a stream\<close>

text \<open>A buffer of \<open>n\<close> more bytes than those it got.\<close>

definition part_uv :: "byte list \<Rightarrow> nat \<Rightarrow> bool \<Rightarrow> xdr_ioq_uv" where
  "part_uv got n mflag = \<lparr>uv_mem = got @ replicate n 0,
     uv_v = \<lparr>vio_base = 0, vio_head = 0, vio_tail = length got, vio_wrap = length got + n\<rparr>, uv_more = mflag\<rparr>"

fun record_uvs :: "byte list list \<Rightarrow> xdr_ioq_uv list" where
  "record_uvs [] = []"
| "record_uvs (f # fs) = part_uv f 0 (fs \<noteq> []) # record_uvs fs"

definition queue_of :: "nat \<Rightarrow> xdr_ioq_uv list \<Rightarrow> xdr_ioq" where
  "queue_of pagesz uvs =
     \<lparr>ioq_uvq = uvs, ioq_cur = 0, ioq_data = 0, ioq_plength = 0, ioq_pcount = 0, ioq_min_bsize = pagesz\<rparr>"

definition pending :: "byte list list \<Rightarrow> xdr_ioq_uv list" where
  "pending fs = map (\<lambda>f. part_uv f 0 True) fs"

text \<open>
  Between two fragments: the fragments \<open>fs\<close> of the first record are there, \<open>rest\<close> are to come.  Inside of a
  fragment: of the next one \<open>got\<close> is there and \<open>left\<close> is to come.
\<close>

inductive expects :: "nat \<Rightarrow> svc_vc_xprt \<Rightarrow> byte list \<Rightarrow> byte list list list \<Rightarrow> bool" for pagesz where
  idle: "expects pagesz xd (concat (map marked rs)) rs"
    if "sx_fbtbc xd = 0" "rec_ioq xd \<in> {[], [queue_of pagesz []]}" "\<not> xp_destroyed xd" "\<forall>r\<in>set rs. r \<noteq> [] \<and> record_ok r"
| between: "expects pagesz xd (marked rest @ concat (map marked rs)) ((fs @ rest) # rs)"
    if "sx_fbtbc xd = 0" "rec_ioq xd = [queue_of pagesz (pending fs)]" "\<not> xp_destroyed xd" "rest \<noteq> []" "record_ok rest"
      "\<forall>r\<in>set rs. r \<noteq> [] \<and> record_ok r"
| inside: "expects pagesz xd (left @ marked rest @ concat (map marked rs)) ((fs @ (got @ left) # rest) # rs)"
    if "sx_fbtbc xd = of_nat (length left)" "rec_ioq xd = [queue_of pagesz (pending fs @ [part_uv got (length left) (rest \<noteq> [])])]"
      "\<not> xp_destroyed xd" "left \<noteq> []" "length left < 2 ^ 31" "record_ok rest" "\<forall>r\<in>set rs. r \<noteq> [] \<and> record_ok r"


lemma pending_snoc: "pending (fs @ [f]) = pending fs @ [part_uv f 0 True]"
  by (simp add: pending_def)

lemma record_uvs_snoc: "record_uvs (fs @ [f]) = pending fs @ [part_uv f 0 False]"
  by (induction fs) (auto simp: pending_def)

lemma reset_queue: "xdr_ioq_reset 0 (queue_of pagesz (record_uvs (fs @ [f]))) = Some (queue_of pagesz (record_uvs (fs @ [f])))"
  by (cases fs) (simp_all add: xdr_ioq_reset_def xdr_ioq_uv_reset_def queue_of_def part_uv_def Let_def)

lemma unat_length: "n < 2 ^ 31 \<Longrightarrow> unat (of_nat n :: uint32) = n"
  by (simp add: unsigned_of_nat take_bit_nat_eq_self_iff)

lemma of_nat_length_0: "n < 2 ^ 31 \<Longrightarrow> (of_nat n :: uint32) = 0 \<longleftrightarrow> n = 0"
  using unat_length [of n] unsigned_eq_0_iff [of "of_nat n :: uint32", where ?'a = nat] by simp

lemma part_uv_fields:
  "vio_tail (uv_v (part_uv got n m)) = length got" "vio_wrap (uv_v (part_uv got n m)) = length got + n" "uv_more (part_uv got n m) = m"
  by (simp_all add: part_uv_def)

lemma store_part: "store_tail bs (part_uv got (length bs + n) m) = part_uv (got @ bs) n m"
  by (simp add: store_tail_def part_uv_def overwrite_def)

lemma socketD:
  assumes "stream_socket sk stream"
  shows "sk_recv sk n w s = (Received bs, s') \<Longrightarrow> length bs \<le> n \<and> stream s = bs @ stream s' \<and> (bs = [] \<longrightarrow> n = 0 \<or> stream s = []) \<and>
      (w \<longrightarrow> length bs = min n (length (stream s)))"
    "sk_recv sk n w s = (Recv_error code, s') \<Longrightarrow> stream s' = stream s \<and> code = EAGAIN"
    "sk_rearm sk s = (failed, s') \<Longrightarrow> \<not> failed \<and> stream s' = stream s"
proof -
  note sk = assms [unfolded stream_socket_def]
  have r: "case sk_recv sk n w s of
        (Received bs, s') \<Rightarrow> length bs \<le> n \<and> stream s = bs @ stream s' \<and> (bs = [] \<longrightarrow> n = 0 \<or> stream s = []) \<and>
          (w \<longrightarrow> length bs = min n (length (stream s)))
      | (Recv_error code, s') \<Rightarrow> stream s' = stream s \<and> code = EAGAIN"
    by (rule conjunct1 [OF sk, THEN spec, THEN spec, THEN spec])
  show "length bs \<le> n \<and> stream s = bs @ stream s' \<and> (bs = [] \<longrightarrow> n = 0 \<or> stream s = []) \<and>
      (w \<longrightarrow> length bs = min n (length (stream s)))" if "sk_recv sk n w s = (Received bs, s')"
    by (rule r [unfolded that prod.case received.case])
  show "stream s' = stream s \<and> code = EAGAIN" if "sk_recv sk n w s = (Recv_error code, s')"
    by (rule r [unfolded that prod.case received.case])
  show "sk_rearm sk s = (failed, s') \<Longrightarrow> \<not> failed \<and> stream s' = stream s"
    using sk [THEN conjunct2, THEN spec, of s] by simp
qed

lemma rearm_stream:
  assumes "stream_socket sk stream"
  obtains s' where "rearm sk xd s = (xd, s')" "stream s' = stream s" "sk_rearm sk s = (False, s')"
  using socketD(3) [OF assms, of s] by (cases "sk_rearm sk s") (auto simp: rearm_def)

definition blocks :: "'s socket \<Rightarrow> bool" where
  "blocks sk \<longleftrightarrow> (\<exists>n w s code s'. sk_recv sk n w s = (Recv_error code, s'))"

text \<open>
  What one event does to a stream of records: it takes something of it, unless there is nothing at the moment.
\<close>

definition progress ::
  "nat \<Rightarrow> 's socket \<Rightarrow> nat \<Rightarrow> (svc_vc_xprt \<times> 's \<times> xprt_stat) option \<Rightarrow> ('s \<Rightarrow> byte list) \<Rightarrow> byte list list list \<Rightarrow> bool" where
  "progress pagesz sk len out stream rs \<longleftrightarrow>
     (case out of
        None \<Rightarrow> False
      | Some (xd, s, r) \<Rightarrow>
          length (stream s) \<le> len \<and> (length (stream s) < len \<or> len = 0 \<or> blocks sk) \<and>
          (case r of
             XPRT_IDLE \<Rightarrow> expects pagesz xd (stream s) rs
           | XPRT_DESTROYED \<Rightarrow> rs = [] \<and> stream s = []
           | SVC_REQUEST q \<Rightarrow> rs \<noteq> [] \<and> hd rs \<noteq> [] \<and> q = queue_of pagesz (record_uvs (hd rs)) \<and> expects pagesz xd (stream s) (tl rs)))"

lemma progress_mono:
  assumes "progress pagesz sk len out stream rs" "len \<le> len'" "len \<noteq> 0"
  shows "progress pagesz sk len' out stream rs"
  using assms by (auto simp: progress_def split: option.splits)

lemma fragment_step:
  assumes sk: "stream_socket sk stream" and st: "stream s = left @ marked rest @ concat (map marked rs)"
    and x: "sx_fbtbc xd = of_nat (length left)" "rec_ioq xd = [queue_of pagesz (pending fs @ [part_uv got (length left) (rest \<noteq> [])])]"
      "\<not> xp_destroyed xd" "left \<noteq> []" "length left < 2 ^ 31" "record_ok rest" "\<forall>r\<in>set rs. r \<noteq> [] \<and> record_ok r"
  shows "progress pagesz sk (length (stream s)) (recv_fragment sk xd s) stream ((fs @ (got @ left) # rest) # rs)"
proof -
  let ?rs = "(fs @ (got @ left) # rest) # rs"
  have ex: "expects pagesz xd (stream s) ?rs"
    unfolding st using x by (rule expects.inside)
  have n: "unat (sx_fbtbc xd) = length left"
    using x(1,5) by (simp add: unat_length)
  have q: "cur_ioq xd = queue_of pagesz (pending fs @ [part_uv got (length left) (rest \<noteq> [])])"
    by (simp add: cur_ioq_def x(2))
  obtain out s1 where r: "sk_recv sk (length left) False s = (out, s1)"
    by fastforce
  show ?thesis
  proof (cases out)
    case (Recv_error code)
    then have e: "stream s1 = stream s" "code = EAGAIN"
      using socketD(2) [OF sk] r by auto
    have bl: "blocks sk"
      using r Recv_error unfolding blocks_def by blast
    obtain s2 where "rearm sk xd s1 = (xd, s2)" "stream s2 = stream s1"
      using rearm_stream [OF sk] by metis
    then show ?thesis
      using r Recv_error e ex x(3) bl by (simp add: recv_fragment_def n q queue_of_def recv_failed_def progress_def svc_vc_stat_def Let_def)
  next
    case (Received bs)
    have b: "length bs \<le> length left" "left @ marked rest @ concat (map marked rs) = bs @ stream s1" "bs \<noteq> []"
      using socketD(1) [OF sk r [unfolded Received]] x(4) st by auto
    define left' where "left' = drop (length bs) left"
    have l: "left = bs @ left'" "stream s1 = left' @ marked rest @ concat (map marked rs)"
      using b(1,2) by (auto simp: left'_def append_eq_append_conv_if split: if_splits intro: append_take_drop_id [of "length bs" left, symmetric, THEN trans])
    let ?uvs = "pending fs @ [part_uv (got @ bs) (length left') (rest \<noteq> [])]"
    let ?xd = "xd\<lparr>rec_ioq := [queue_of pagesz ?uvs], sx_fbtbc := of_nat (length left')\<rparr>"
    have z: "(of_nat (length left') :: uint32) = 0 \<longleftrightarrow> left' = []"
      using of_nat_length_0 [of "length left'"] x(5) l(1) by simp
    define m where "m = (rest \<noteq> [])"
    have step: "recv_fragment sk xd s =
      (if left' \<noteq> [] \<or> m then (let (xd, s) = rearm sk ?xd s1 in Some (xd, s, svc_vc_stat xd))
       else (case xdr_ioq_reset 0 (queue_of pagesz ?uvs) of None \<Rightarrow> None
         | Some q \<Rightarrow> (case sk_rearm sk s1 of
             (True, s) \<Rightarrow> Some (SVC_DESTROY (?xd\<lparr>rec_ioq := []\<rparr>), s, svc_vc_stat (SVC_DESTROY (?xd\<lparr>rec_ioq := []\<rparr>)))
           | (False, s) \<Rightarrow> Some (?xd\<lparr>rec_ioq := []\<rparr>, s, SVC_REQUEST q))))"
    proof -
      have "ioq_uvq (cur_ioq xd) = pending fs @ [part_uv got (length bs + length left') m]"
        using l(1) by (simp add: q queue_of_def m_def)
      moreover have "(cur_ioq xd)\<lparr>ioq_uvq := pending fs @ [part_uv (got @ bs) (length left') m]\<rparr> =
          queue_of pagesz (pending fs @ [part_uv (got @ bs) (length left') m])"
        by (simp add: q queue_of_def)
      moreover have "sk_recv sk (length bs + length left') False s = (Received bs, s1)" "unat (sx_fbtbc xd) = length bs + length left'"
        using r Received l(1) n by simp_all
      moreover have "sx_fbtbc xd - of_nat (length bs) = of_nat (length left')"
        using x(1) l(1) by simp
      moreover have "set_ioq a xd = xd\<lparr>rec_ioq := [a]\<rparr>" for a
        by (simp add: set_ioq_def x(2))
      ultimately show ?thesis
        using b(3) z unfolding m_def [symmetric] by (simp add: recv_fragment_def Let_def part_uv_fields store_part split: option.split prod.split bool.split)
    qed
    obtain s2 where s2: "rearm sk ?xd s1 = (?xd, s2)" "stream s2 = stream s1" "sk_rearm sk s1 = (False, s2)"
      by (rule rearm_stream [OF sk])
    have short: "length (stream s2) < length (stream s)"
      using b(3) by (simp add: s2(2) st b(2))
    show ?thesis
    proof (cases "left' = [] \<and> rest = []")
      case True
      then have u: "?uvs = record_uvs (fs @ [got @ left])"
        using l(1) by (simp add: record_uvs_snoc)
      have "expects pagesz (?xd\<lparr>rec_ioq := []\<rparr>) (stream s2) rs"
        unfolding s2(2) l(2) using True x(3,7) by (simp add: expects.idle)
      then show ?thesis
        using True s2(3) u l(1) short unfolding step u reset_queue by (simp add: progress_def m_def)
    next
      case False
      have "expects pagesz ?xd (stream s2) ((fs @ (got @ left) # rest) # rs)"
      proof (cases "left' = []")
        case True
        then have "expects pagesz ?xd (marked rest @ concat (map marked rs)) (((fs @ [got @ left]) @ rest) # rs)"
          using False x(3,6,7) l(1) by (intro expects.between) (simp_all add: pending_snoc)
        then show ?thesis
          using True by (simp add: s2(2) l(2))
      next
        case lf: False
        then have "expects pagesz ?xd (left' @ marked rest @ concat (map marked rs)) ((fs @ ((got @ bs) @ left') # rest) # rs)"
          using x(3,5-7) l(1) by (intro expects.inside) simp_all
        then show ?thesis
          by (simp add: s2(2) l)
      qed
      then show ?thesis
        using False s2(1) x(3) short unfolding step by (auto simp: progress_def m_def svc_vc_stat_def)
    qed
  qed
qed


lemma header_bits:
  fixes final :: bool
  assumes "n < 2 ^ 31"
  shows "((if final then LAST_FRAG else 0) OR (of_nat n :: uint32)) AND NOT LAST_FRAG = of_nat n" (is "?v AND _ = _")
    "((if final then LAST_FRAG else 0) OR (of_nat n :: uint32)) AND LAST_FRAG = 0 \<longleftrightarrow> \<not> final"
proof -
  have lf: "LAST_FRAG = 2 ^ 31"
    by (simp add: LAST_FRAG_def)
  have l: "bit LAST_FRAG k \<longleftrightarrow> k = 31" for k
    unfolding lf bit_exp_iff by auto
  have b: "\<not> bit (of_nat n :: uint32) 31"
    using assms(1) by (simp add: bit_simps) (simp add: bit_iff_odd)
  show "?v AND NOT LAST_FRAG = of_nat n"
    using b by (auto intro!: bit_word_eqI simp: l bit_simps)
  have "bit (?v AND LAST_FRAG) 31 \<longleftrightarrow> final" "\<not> final \<Longrightarrow> ?v AND LAST_FRAG = 0"
    using b by (auto intro!: bit_word_eqI simp: l bit_simps)
  then show "?v AND LAST_FRAG = 0 \<longleftrightarrow> \<not> final"
    by auto
qed

text \<open>An event at the start of a fragment.\<close>

lemma header_step:
  assumes sk: "stream_socket sk stream" and st: "stream s = marked (f # rest) @ concat (map marked rs)"
    and x: "sx_fbtbc xd = 0" "rec_ioq xd = [queue_of pagesz (pending fs)]" "\<not> xp_destroyed xd" "record_ok (f # rest)"
      "\<forall>r\<in>set rs. r \<noteq> [] \<and> record_ok r"
  shows "progress pagesz sk (length (stream s)) (svc_vc_recv sk pagesz xd s) stream ((fs @ f # rest) # rs)"
proof -
  let ?v = "(if rest = [] then LAST_FRAG else 0) OR of_nat (length f) :: uint32"
  have f: "f \<noteq> []" "length f < 2 ^ 31" "rest = [] \<or> length f \<noteq> unat PP2_SIG_UINT32" "record_ok rest"
    using x(4) by (auto simp: fragment_ok_def)
  have ex: "expects pagesz xd (stream s) ((fs @ f # rest) # rs)"
    unfolding st using x by (intro expects.between) auto
  obtain out s1 where r: "sk_recv sk 4 True s = (out, s1)"
    by fastforce
  show ?thesis
  proof (cases out)
    case (Recv_error code)
    then have e: "stream s1 = stream s" "code = EAGAIN"
      using socketD(2) [OF sk] r by auto
    have bl: "blocks sk"
      using r Recv_error unfolding blocks_def by blast
    obtain s2 where "rearm sk xd s1 = (xd, s2)" "stream s2 = stream s1"
      using rearm_stream [OF sk] by metis
    then show ?thesis
      using r Recv_error e ex x(1-3) bl
      by (simp add: svc_vc_recv_def recv_header.simps recv_failed_def progress_def svc_vc_stat_def BYTES_PER_XDR_UNIT_def Let_def)
  next
    case (Received bs)
    have "length bs = 4" "stream s = bs @ stream s1"
      using socketD(1) [OF sk r [unfolded Received]] by (auto simp: st fragment_def)
    then have b: "bs = htonl_bytes ?v" "stream s1 = f @ marked rest @ concat (map marked rs)"
      using st by (auto simp: fragment_def)
    have h: "ntohl_bytes (overwrite 0 bs (rev (htonl_bytes 0))) = ?v"
      unfolding b(1) overwrite_def using ntohl_htonl_bytes [of ?v "[]"] by (simp add: htonl_bytes_def)
    have "?v \<noteq> PP2_SIG_UINT32"
    proof
      assume v: "?v = PP2_SIG_UINT32"
      have "PP2_SIG_UINT32 AND LAST_FRAG = 0" "PP2_SIG_UINT32 AND NOT LAST_FRAG = PP2_SIG_UINT32"
        by (simp_all add: PP2_SIG_UINT32_def LAST_FRAG_def)
      then have "rest \<noteq> []" "of_nat (length f) = PP2_SIG_UINT32"
        using header_bits [OF f(2), of "rest = []"] unfolding v by simp_all
      then show False
        using f(2,3) unat_length by metis
    qed
    then have hd: "recv_header sk False xd s = Some (True, xd\<lparr>sx_fbtbc := ?v\<rparr>, s1)"
      using r Received h b(1) x(1) by (subst recv_header.simps) (auto simp: BYTES_PER_XDR_UNIT_def htonl_bytes_def)
    let ?xd = "xd\<lparr>sx_fbtbc := of_nat (length f), rec_ioq := [queue_of pagesz (pending fs @ [part_uv [] (length f) (rest \<noteq> [])])]\<rparr>"
    have n: "new_fragment (xd\<lparr>sx_fbtbc := ?v\<rparr>) = ?xd"
      using header_bits [OF f(2), of "rest = []"] f(1,2) x(2)
      by (simp add: new_fragment_def Let_def of_nat_length_0 set_ioq_def cur_ioq_def queue_of_def part_uv_def xdr_ioq_uv_create_def unat_length)
    have "progress pagesz sk (length (stream s1)) (recv_fragment sk ?xd s1) stream ((fs @ ([] @ f) # rest) # rs)"
      using sk b(2) f x by (intro fragment_step) simp_all
    then have "progress pagesz sk (length (stream s)) (recv_fragment sk ?xd s1) stream ((fs @ ([] @ f) # rest) # rs)"
      using b(2) f(1) \<open>stream s = bs @ stream s1\<close> by (elim progress_mono) simp_all
    moreover have "svc_vc_recv sk pagesz xd s = recv_fragment sk ?xd s1"
      using f(1,2) x(1,2) by (simp add: svc_vc_recv_def hd n of_nat_length_0)
    ultimately show ?thesis
      by simp
  qed
qed

text \<open>Every event keeps the transport in step with the stream.\<close>

lemma recv_step:
  assumes sk: "stream_socket sk stream" and e: "expects pagesz xd (stream s) rs"
  shows "progress pagesz sk (length (stream s)) (svc_vc_recv sk pagesz xd s) stream rs"
  using e
proof (cases rule: expects.cases)
  case idle
  let ?xd = "xd\<lparr>rec_ioq := [queue_of pagesz []]\<rparr>"
  have q: "svc_vc_recv sk pagesz xd s = svc_vc_recv sk pagesz ?xd s"
  proof (cases "rec_ioq xd = []")
    case False
    then have "?xd = xd"
      using idle(3) by (cases xd) simp
    then show ?thesis
      by simp
  qed (simp add: svc_vc_recv_def xdr_ioq_create_def queue_of_def Let_def)
  show ?thesis
  proof (cases rs)
    case Nil
    obtain out s1 where r: "sk_recv sk 4 True s = (out, s1)"
      by fastforce
    show ?thesis
    proof (cases out)
      case (Recv_error code)
      obtain s2 where s2: "rearm sk ?xd s1 = (?xd, s2)" "stream s2 = stream s1"
        using rearm_stream [OF sk] by metis
      have c: "stream s1 = []" "code = EAGAIN"
        using socketD(2) [OF sk] r Recv_error idle(1) Nil by auto
      have "expects pagesz ?xd (concat (map marked [])) []"
        using idle by (intro expects.idle) simp_all
      then show ?thesis
        using r Recv_error Nil s2 c idle(1,2,4) unfolding q
        by (simp add: svc_vc_recv_def recv_header.simps recv_failed_def progress_def svc_vc_stat_def BYTES_PER_XDR_UNIT_def Let_def)
    next
      case (Received bs)
      then have "bs = []" "stream s1 = []"
        using socketD(1) [OF sk] r idle(1) Nil by auto
      then show ?thesis
        using r Received Nil idle(1,2) unfolding q
        by (simp add: svc_vc_recv_def recv_header.simps progress_def svc_vc_stat_def SVC_DESTROY_def BYTES_PER_XDR_UNIT_def Let_def)
    qed
  next
    case (Cons r rs')
    then obtain f rest where f: "r = f # rest"
      using idle(5) by (cases r) auto
    have "progress pagesz sk (length (stream s)) (svc_vc_recv sk pagesz ?xd s) stream (([] @ f # rest) # rs')"
      using idle Cons f by (intro header_step [OF sk]) (auto simp: pending_def)
    then show ?thesis
      using q Cons f by simp
  qed
next
  case (between fs rest rs')
  then obtain f rest' where f: "rest = f # rest'"
    by (cases rest) auto
  show ?thesis
    unfolding between(2) f using between f by (intro header_step [OF sk]) auto
next
  case (inside left fs got rest rs')
  have "svc_vc_recv sk pagesz xd s = recv_fragment sk xd s"
    using inside(3,4,6,7) by (simp add: svc_vc_recv_def of_nat_length_0)
  moreover have "progress pagesz sk (length (stream s)) (recv_fragment sk xd s) stream ((fs @ (got @ left) # rest) # rs')"
    by (rule fragment_step [OF sk inside(1,3-)])
  ultimately show ?thesis
    by (simp add: inside(2))
qed

text \<open>What is delivered is read as the record.\<close>

lemma record_uvs_ok: "uv \<in> set (record_uvs fs) \<Longrightarrow> uv_ok uv"
  by (induction fs) (auto simp: uv_ok_def part_uv_def)

lemma record_uvs_bytes: "map uv_bytes (record_uvs fs) = fs"
  by (induction fs) (simp_all add: part_uv_def uv_bytes_def ioquv_length_def)

lemma delivered_reading:
  assumes "fs \<noteq> []"
  shows "ioq_reading (queue_of pagesz (record_uvs fs))" "rest_chunks (queue_of pagesz (record_uvs fs)) = fs"
    "contents (queue_of pagesz (record_uvs fs)) = concat fs" "position (queue_of pagesz (record_uvs fs)) = 0"
proof -
  let ?q = "queue_of pagesz (record_uvs fs)"
  obtain f fs' where f: "fs = f # fs'"
    using assms by (cases fs) auto
  have c: "cur_uv ?q = part_uv f 0 (fs' \<noteq> [])"
    by (simp add: cur_uv_def queue_of_def f)
  show "ioq_reading ?q"
    unfolding ioq_reading_def ioq_wf_def c using record_uvs_ok [of _ fs] by (auto simp: queue_of_def f part_uv_def)
  show "rest_chunks ?q = fs" "position ?q = 0"
    unfolding rest_chunks_def position_def c using record_uvs_bytes [of fs] by (simp_all add: queue_of_def f part_uv_def)
  show "contents ?q = concat fs"
    by (simp add: contents_def queue_of_def record_uvs_bytes)
qed

text \<open>The transport of a connection that was just accepted.\<close>

definition fresh :: "svc_vc_xprt \<Rightarrow> bool" where
  "fresh xd \<longleftrightarrow> sx_fbtbc xd = 0 \<and> rec_ioq xd = [] \<and> \<not> xp_destroyed xd"

lemma fragment_ne [simp]: "fragment final f \<noteq> []"
  by (simp add: fragment_def htonl_bytes_def)

lemma expects_nonempty:
  assumes "expects pagesz xd [] rs"
  shows "rs = []"
  using assms
proof (cases rule: expects.cases)
  case idle
  then show ?thesis
    by (cases rs; cases "hd rs") auto
next
  case (between fs rest rs')
  then show ?thesis
    by (cases rest) auto
qed auto

lemma serve_expects:
  assumes sk: "stream_socket sk stream" and "expects pagesz xd (stream s) rs"
  shows "\<exists>don xd' s'. serve sk pagesz n xd s = Some (map (\<lambda>fs. queue_of pagesz (record_uvs fs)) don, xd', s') \<and> prefix don rs \<and>
    (stream s' = [] \<longrightarrow> don = rs) \<and> (\<forall>r\<in>set don. r \<noteq> []) \<and> (\<not> blocks sk \<and> length (stream s) \<le> n \<longrightarrow> stream s' = [])"
  using assms(2)
proof (induction n arbitrary: xd s rs)
  case 0
  then show ?case
    using expects_nonempty [of pagesz xd rs] by (auto intro!: exI [of _ "[]"])
next
  case (Suc n)
  show ?case
  proof (cases "svc_vc_recv sk pagesz xd s")
    case (Some a)
    obtain xd1 s1 out where a: "svc_vc_recv sk pagesz xd s = Some (xd1, s1, out)"
      using Some by (cases a) auto
    note p = recv_step [OF sk Suc.prems, unfolded a progress_def option.case prod.case]
    show ?thesis
    proof (cases out)
      case XPRT_IDLE
      then show ?thesis
      proof -
        have e: "expects pagesz xd1 (stream s1) rs" and l: "\<not> blocks sk \<and> length (stream s) \<le> Suc n \<Longrightarrow> length (stream s1) \<le> n"
          using p XPRT_IDLE by auto
        obtain don xd' s' where "serve sk pagesz n xd1 s1 = Some (map (\<lambda>fs. queue_of pagesz (record_uvs fs)) don, xd', s')" "prefix don rs"
          "stream s' = [] \<longrightarrow> don = rs" "\<forall>r\<in>set don. r \<noteq> []" "\<not> blocks sk \<and> length (stream s1) \<le> n \<longrightarrow> stream s' = []"
          using Suc.IH [OF e] by blast
        then show ?thesis
          using a XPRT_IDLE l by (intro exI [of _ don] exI [of _ xd'] exI [of _ s']) simp
      qed
    next
      case XPRT_DESTROYED
      then show ?thesis
        using p a by simp
    next
      case (SVC_REQUEST q)
      then obtain r rs1 where r: "rs = r # rs1" "r \<noteq> []" "q = queue_of pagesz (record_uvs r)" "expects pagesz xd1 (stream s1) rs1"
        using p by (cases rs) auto
      obtain don xd' s' where "serve sk pagesz n xd1 s1 = Some (map (\<lambda>fs. queue_of pagesz (record_uvs fs)) don, xd', s')" "prefix don rs1"
        "stream s' = [] \<longrightarrow> don = rs1" "\<forall>r\<in>set don. r \<noteq> []" "\<not> blocks sk \<and> length (stream s1) \<le> n \<longrightarrow> stream s' = []"
        using Suc.IH [OF r(4)] by blast
      then show ?thesis
        using a SVC_REQUEST r p by (intro exI [of _ "r # don"] exI [of _ xd'] exI [of _ s']) auto
    qed
  qed (use recv_step [OF sk Suc.prems] in \<open>simp add: progress_def\<close>)
qed

text \<open>All records of a socket that always has something to read.\<close>

lemma serve_queues:
  assumes "stream_socket sk stream" "fresh xd" "\<forall>r\<in>set rs. r \<noteq> [] \<and> record_ok r" "stream s = concat (map marked rs)" "\<not> blocks sk"
  shows "\<exists>xd' s'. serve sk pagesz (length (stream s)) xd s = Some (map (\<lambda>fs. queue_of pagesz (record_uvs fs)) rs, xd', s')"
proof -
  have "expects pagesz xd (stream s) rs"
    unfolding assms(4) using assms(2,3) by (intro expects.idle) (auto simp: fresh_def)
  from serve_expects [OF assms(1) this, of "length (stream s)"] show ?thesis
    using assms(5) by auto
qed

lemma serve_records:
  assumes "stream_socket sk stream" "fresh xd" "\<forall>r\<in>set rs. r \<noteq> [] \<and> record_ok r" "stream s = concat (map marked rs)"
  shows "\<exists>qs xd' s'. serve sk pagesz n xd s = Some (qs, xd', s') \<and> (\<forall>q\<in>set qs. ioq_reading q \<and> position q = 0) \<and>
    prefix (map contents qs) (map concat rs) \<and> (stream s' = [] \<longrightarrow> map contents qs = map concat rs) \<and>
    (\<not> blocks sk \<and> length (stream s) \<le> n \<longrightarrow> stream s' = [])"
proof -
  have "expects pagesz xd (stream s) rs"
    unfolding assms(4) using assms(2,3) by (intro expects.idle) (auto simp: fresh_def)
  then obtain don xd' s' where d: "serve sk pagesz n xd s = Some (map (\<lambda>fs. queue_of pagesz (record_uvs fs)) don, xd', s')"
      "prefix don rs" "stream s' = [] \<longrightarrow> don = rs" "\<forall>r\<in>set don. r \<noteq> []" "\<not> blocks sk \<and> length (stream s) \<le> n \<longrightarrow> stream s' = []"
    using serve_expects [OF assms(1)] by blast
  have c: "map contents (map (\<lambda>fs. queue_of pagesz (record_uvs fs)) don) = map concat don"
    using d(4) by (simp add: delivered_reading)
  have "\<forall>q\<in>set (map (\<lambda>fs. queue_of pagesz (record_uvs fs)) don). ioq_reading q \<and> position q = 0"
    using d(4) by (auto simp: delivered_reading)
  then show ?thesis
    using d(1,5) map_mono_prefix [OF d(2), of concat] d(3) c by metis
qed

text \<open>
  C4: however the network cuts up a stream of records, and wherever the records are cut into fragments, the requests
  handed on are the records, whole and in order: after any number of events they are the first of them, each a queue
  at its start that holds exactly the bytes of its record, and nothing outside of a buffer is touched.  On a socket that always has
  something to read as many events as there are bytes are enough for all records.
\<close>

theorem records_received:
  assumes "stream_socket sk stream" "fresh xd" "\<forall>r\<in>set rs. r \<noteq> [] \<and> record_ok r" "stream s = concat (map marked rs)"
  shows "\<exists>qs xd' s'. serve sk pagesz n xd s = Some (qs, xd', s') \<and> (\<forall>q\<in>set qs. ioq_reading q \<and> position q = 0) \<and>
    prefix (map contents qs) (map concat rs) \<and> (stream s' = [] \<longrightarrow> map contents qs = map concat rs) \<and>
    (\<not> blocks sk \<and> length (stream s) \<le> n \<longrightarrow> stream s' = [])"
  by (rule serve_records [OF assms])

text \<open>A socket that delivers a stream a byte at a time, unless the caller waits for more.\<close>

definition trickle :: "byte list socket" where
  "trickle = \<lparr>sk_recv = (\<lambda>n w s. let k = (if w then n else min n 1) in (Received (take k s), drop k s)), sk_rearm = (\<lambda>s. (False, s))\<rparr>"

lemma trickle_stream: "stream_socket trickle (\<lambda>s. s)" "\<not> blocks trickle"
  by (auto simp: stream_socket_def blocks_def trickle_def Let_def min_def)

definition sample_xprt :: svc_vc_xprt where
  "sample_xprt = \<lparr>sx_fbtbc = 0, rec_ioq = [], xp_destroyed = False,
     xp_remote = \<lparr>ss_family = AF_INET, ss_addr = [10, 0, 0, 1], ss_port = [3, 255]\<rparr>,
     xp_proxy = \<lparr>ss_family = 0, ss_addr = [], ss_port = []\<rparr>\<rparr>"

theorem records_received_witness:
  "\<exists>qs xd' s'. serve trickle 4096 18 sample_xprt [0, 0, 0, 2, 1, 2, 128, 0, 0, 1, 3, 128, 0, 0, 3, 7, 8, 9] = Some (qs, xd', s') \<and>
     map contents qs = [[1, 2, 3], [7, 8, 9]]"
proof -
  let ?s = "[0, 0, 0, 2, 1, 2, 128, 0, 0, 1, 3, 128, 0, 0, 3, 7, 8, 9] :: byte list"
  let ?rs = "[[[1, 2], [3]], [[7, 8, 9]]] :: byte list list list"
  have h: "fresh sample_xprt" "\<forall>r\<in>set ?rs. r \<noteq> [] \<and> record_ok r"
    by (simp_all add: fresh_def sample_xprt_def fragment_ok_def PP2_SIG_UINT32_def)
  have m: "?s = concat (map marked ?rs)"
    by (simp add: fragment_def LAST_FRAG_def htonl_bytes_def)
  show ?thesis
    using records_received [OF trickle_stream(1) h m, of 4096 18] trickle_stream(2) by auto
qed

section \<open>Proxy headers\<close>

definition local_header :: "byte list" where
  "local_header = htonl_bytes PP2_SIG_UINT32 @ htonl_bytes PP2_SIG_UINT32_2 @ htonl_bytes PP2_SIG_UINT32_3 @
     [PP2_VERSION2_CMD_LOCAL, 0, 0, 0]"

lemma recv_stream:
  assumes "stream_socket sk stream" "\<not> blocks sk" "stream s = bs @ r"
  obtains s' where "sk_recv sk (length bs) True s = (Received bs, s')" "stream s' = r"
proof -
  obtain x s' where x: "sk_recv sk (length bs) True s = (Received x, s')"
    using assms(2) unfolding blocks_def by (metis received.exhaust surj_pair)
  have "length x = length bs" "stream s = x @ stream s'"
    using socketD(1) [OF assms(1) x] assms(3) by auto
  with x assms(3) show thesis
    by (intro that [of s']) auto
qed

lemma recv_exactly_stream:
  assumes "stream_socket sk stream" "\<not> blocks sk" "stream s = bs @ r" "length bs = n"
  obtains s' where "recv_exactly sk n s = (Some bs, s')" "stream s' = r"
proof -
  obtain s' where "sk_recv sk (length bs) True s = (Received bs, s')" "stream s' = r"
    by (rule recv_stream [OF assms(1-3)])
  then show thesis
    using assms(4) by (intro that [of s']) (simp_all add: recv_exactly_def)
qed

lemma local_proxy_header:
  assumes sk: "stream_socket sk stream" "\<not> blocks sk" and st: "stream s = drop 4 local_header @ rest"
  obtains s' where "proxy_header sk xd s = Some (False, xd, s')" "stream s' = rest"
proof -
  let ?sig = "htonl_bytes PP2_SIG_UINT32_2 @ htonl_bytes PP2_SIG_UINT32_3" and ?hdr = "[PP2_VERSION2_CMD_LOCAL, 0, 0, 0]"
  have l: "stream s = ?sig @ ?hdr @ rest"
    by (simp add: st local_header_def)
  obtain s1 where s1: "recv_exactly sk 8 s = (Some ?sig, s1)" "stream s1 = ?hdr @ rest"
    by (rule recv_exactly_stream [OF sk l]) simp
  obtain s2 where s2: "recv_exactly sk 4 s1 = (Some ?hdr, s2)" "stream s2 = rest"
    by (rule recv_exactly_stream [OF sk s1(2), of 4]) simp_all
  obtain s3 where s3: "recv_exactly sk 0 s2 = (Some [], s3)" "stream s3 = rest"
    using recv_exactly_stream [OF sk, of s2 "[]" rest 0] s2(2) by auto
  obtain s4 where s4: "rearm sk xd s3 = (xd, s4)" "stream s4 = rest"
    using rearm_stream [OF sk(1), of xd s3] s3(2) by metis
  have n: "ntohl_bytes ?sig = PP2_SIG_UINT32_2" "ntohl_bytes (drop 4 ?sig) = PP2_SIG_UINT32_3"
    using ntohl_htonl_bytes [of PP2_SIG_UINT32_3 "[]"] by simp_all
  have "proxy_header sk xd s = Some (False, xd, s4)"
    using n s1(1) s2(1) s3(1) s4(1)
    by (simp add: proxy_header_def PP2_VERSION2_CMD_LOCAL_def PP2_VERSIOB2_CMD_PROXY_def)
  with s4(2) show thesis
    by (rule that [rotated])
qed

text \<open>
  C37: the header a proxy sends for a connection of its own makes the transport corrupt or crash the server.  The
  event that reads it leaves the first word of the header in \<open>sx_fbtbc\<close>; the next event takes it for the rest of
  a fragment, and stores what comes behind the last complete buffer, or, when there is none, through a null pointer.
\<close>

theorem local_header_crashes:
  assumes "stream_socket sk stream" "\<not> blocks sk" "sx_fbtbc xd = 0" "rec_ioq xd = [queue_of pagesz (pending fs)]" "\<not> xp_destroyed xd"
    and "stream s = local_header @ rest" "rest \<noteq> []"
  shows "\<exists>xd' s'. svc_vc_recv sk pagesz xd s = Some (xd', s', XPRT_IDLE) \<and> svc_vc_recv sk pagesz xd' s' = None"
proof -
  let ?xd = "xd\<lparr>sx_fbtbc := PP2_SIG_UINT32\<rparr>"
  have "stream s = htonl_bytes PP2_SIG_UINT32 @ drop 4 local_header @ rest"
    by (simp add: assms(6) local_header_def)
  from recv_stream [OF assms(1,2) this] obtain s1
    where s1: "sk_recv sk 4 True s = (Received (htonl_bytes PP2_SIG_UINT32), s1)" "stream s1 = drop 4 local_header @ rest"
    by auto
  obtain s2 where s2: "proxy_header sk ?xd s1 = Some (False, ?xd, s2)" "stream s2 = rest"
    by (rule local_proxy_header [OF assms(1,2) s1(2)])
  have "ntohl_bytes (overwrite 0 (htonl_bytes PP2_SIG_UINT32) (rev (htonl_bytes 0))) = PP2_SIG_UINT32"
    using ntohl_htonl_bytes [of PP2_SIG_UINT32 "[]"] by (simp add: overwrite_def htonl_bytes_def)
  then have "recv_header sk False xd s = Some (False, ?xd, s2)"
    using s1(1) s2(1) assms(3) by (subst recv_header.simps) (simp add: BYTES_PER_XDR_UNIT_def htonl_bytes_def)
  then have first: "svc_vc_recv sk pagesz xd s = Some (?xd, s2, XPRT_IDLE)"
    using assms(3-5) by (simp add: svc_vc_recv_def svc_vc_stat_def)
  obtain bs s3 where b: "sk_recv sk (unat PP2_SIG_UINT32) False s2 = (Received bs, s3)"
    using assms(2) unfolding blocks_def by (metis received.exhaust surj_pair)
  have "bs \<noteq> []"
    using socketD(1) [OF assms(1) b] s2(2) assms(7) by (auto simp: PP2_SIG_UINT32_def)
  then have "recv_fragment sk ?xd s2 = None"
    using b assms(4) by (cases fs rule: rev_cases)
      (simp_all add: recv_fragment_def cur_ioq_def queue_of_def pending_snoc part_uv_fields Let_def pending_def)
  then have "svc_vc_recv sk pagesz ?xd s2 = None"
    using assms(4) by (simp add: svc_vc_recv_def PP2_SIG_UINT32_def)
  with first show ?thesis
    by blast
qed

theorem local_header_crashes_witness:
  "\<exists>xd' s'. svc_vc_recv trickle 4096 (sample_xprt\<lparr>rec_ioq := [queue_of 4096 (pending [])]\<rparr>) (local_header @ [128]) = Some (xd', s', XPRT_IDLE) \<and>
     svc_vc_recv trickle 4096 xd' s' = None"
  using local_header_crashes [OF trickle_stream, of "sample_xprt\<lparr>rec_ioq := [queue_of 4096 (pending [])]\<rparr>" 4096 "[]" "local_header @ [128]" "[128]"]
  by (simp add: sample_xprt_def)

end
