(* ===== verification/Vc_Send.thy ===== *)
theory Vc_Send
  imports Vc_Recv
begin

text \<open>
  The sending side of a stream connection: \<open>libntirpc/src/svc_ioq.c\<close>.  Replies wait in the queue of
  the connection, each a queue of buffers with the number of its bytes and of the bytes of its fragment header that are
  out; a socket that takes no more bytes stops the work, and the event that it does again resumes it.
  The socket and the event loop are parameters: \<open>sendmsg\<close>, \<open>svc_rqst_evchan_write\<close> and \<open>svc_rqst_xprt_send_complete\<close>.

  A read outside of a buffer is the value \<open>None\<close>.
\<close>

section \<open>The sending side\<close>

datatype sent = Sent_bytes nat | Send_error nat

record 's out_socket =
  sk_sendmsg :: "byte list list \<Rightarrow> 's \<Rightarrow> sent \<times> 's"
  sk_evchan_write :: "bool \<Rightarrow> 's \<Rightarrow> 's"
  sk_send_complete :: "'s \<Rightarrow> 's"

record svc_ioq =
  out_ioq :: xdr_ioq
  write_start :: nat
  frag_hdr_bytes_sent :: nat
  has_blocked :: bool

definition LAST_FRAG_XDR_UNITS :: nat where
  "LAST_FRAG_XDR_UNITS = 0x7ffffffc"

definition PRESUMED_UIO_MAXIOV :: nat where
  "PRESUMED_UIO_MAXIOV = 1024"

text \<open>
  The call of \<open>sendmsg\<close> with the jump back to it.  \<open>hdr\<close> is the vector in front of the data, if there is one;
  \<open>frag_hdr_size\<close> stays what it was at the first call.
\<close>

partial_function (option) sendmsg_again ::
  "'s out_socket \<Rightarrow> byte list option \<Rightarrow> byte list list \<Rightarrow> nat \<Rightarrow> svc_ioq \<Rightarrow> 's \<Rightarrow> (sent \<times> svc_ioq \<times> 's) option" where
  "sendmsg_again sk hdr data frag_hdr_size x s =
     (case sk_sendmsg sk ((case hdr of None \<Rightarrow> [] | Some h \<Rightarrow> [h]) @ data) s of
        (Send_error code, s) \<Rightarrow> Some (Send_error code, x, s)
      | (Sent_bytes n, s) \<Rightarrow>
          if n < frag_hdr_size
          then (case hdr of
                  None \<Rightarrow> None
                | Some h \<Rightarrow>
                    if length h < n then None
                    else sendmsg_again sk (Some (drop n h)) data frag_hdr_size (x\<lparr>frag_hdr_bytes_sent := frag_hdr_bytes_sent x + n\<rparr>) s)
          else Some (Sent_bytes n, x, s))"

text \<open>
  The results: \<open>Inr True\<close> that everything is out, \<open>Inr False\<close> that the socket takes no more, \<open>Inl\<close> an error.
\<close>

partial_function (option) flush_loop ::
  "'s out_socket \<Rightarrow> nat \<Rightarrow> nat \<Rightarrow> uint32 \<Rightarrow> bool \<Rightarrow> svc_ioq \<Rightarrow> 's \<Rightarrow> ((nat + bool) \<times> svc_ioq \<times> 's) option" where
  "flush_loop sk fbytes remaining last_frag frag_needed x s =
     (if remaining = 0 then Some (Inr True, x, s)
      else
        (let q = out_ioq x;
             iov_count = nat (xdr_ioq_iovcount q (write_start x) fbytes);
             boundary = (write_start x = 0 \<or> write_start x = LAST_FRAG_XDR_UNITS \<or> write_start x = 2 * LAST_FRAG_XDR_UNITS);
             hdr = (if boundary then Some (drop (frag_hdr_bytes_sent x) (htonl_bytes (of_nat fbytes OR last_frag))) else None);
             frag_hdr_size = (if boundary then 4 - frag_hdr_bytes_sent x else 0);
             needed = (if boundary \<or> frag_needed then 1 else 0) in
         if frag_needed \<and> \<not> boundary then None
         else
           (case xdr_ioq_fillbufs q (write_start x) fbytes of
              None \<Rightarrow> Some (Inl 1, x, s)
            | Some vio \<Rightarrow>
                (let iov_count = (if iov_count + needed > PRESUMED_UIO_MAXIOV then PRESUMED_UIO_MAXIOV - needed else iov_count) in
                 case sendmsg_again sk hdr (take iov_count vio) frag_hdr_size x s of
                   None \<Rightarrow> None
                 | Some (Send_error code, x, s) \<Rightarrow>
                     if code = EWOULDBLOCK \<or> code = EAGAIN then Some (Inr False, x\<lparr>has_blocked := True\<rparr>, s)
                     else Some (Inl code, x, s)
                 | Some (Sent_bytes n, x, s) \<Rightarrow>
                     (let n = n - frag_hdr_size;
                          remaining = remaining - n;
                          fbytes = fbytes - n;
                          x = x\<lparr>frag_hdr_bytes_sent := 4, write_start := write_start x + n\<rparr> in
                      if fbytes = 0
                      then flush_loop sk (min remaining LAST_FRAG_XDR_UNITS) remaining last_frag True (x\<lparr>frag_hdr_bytes_sent := 0\<rparr>) s
                      else flush_loop sk fbytes remaining last_frag False x s)))))"

definition svc_ioq_flushv :: "'s out_socket \<Rightarrow> svc_ioq \<Rightarrow> 's \<Rightarrow> ((nat + bool) \<times> svc_ioq \<times> 's) option" where
  "svc_ioq_flushv sk x s =
     (let (end, q) = xdr_ioq_getpos (out_ioq x);
          x = x\<lparr>out_ioq := q\<rparr>;
          start = write_start x;
          remaining = end - start;
          (fbytes, last_frag) =
            (if end > 2 * LAST_FRAG_XDR_UNITS
             then (if start < LAST_FRAG_XDR_UNITS then (LAST_FRAG_XDR_UNITS - start, 0)
                   else if start < 2 * LAST_FRAG_XDR_UNITS then (2 * LAST_FRAG_XDR_UNITS - start, 0)
                   else (end - start, LAST_FRAG))
             else if end > LAST_FRAG_XDR_UNITS
             then (if start < LAST_FRAG_XDR_UNITS then (LAST_FRAG_XDR_UNITS - start, 0)
                   else (end - start, LAST_FRAG))
             else (remaining, LAST_FRAG)) in
      flush_loop sk fbytes remaining last_frag False x s)"

text \<open>
  The queue of a connection is worked off from its head; \<open>running\<close> is false when the pool of the server has no threads.
\<close>

fun svc_ioq_write :: "'s out_socket \<Rightarrow> bool \<Rightarrow> bool \<Rightarrow> svc_ioq list \<Rightarrow> 's \<Rightarrow> (bool \<times> svc_ioq list \<times> 's) option" where
  "svc_ioq_write sk running destroyed [] s = Some (destroyed, [], s)"
| "svc_ioq_write sk running destroyed (x # xs) s =
     (case (if running \<and> \<not> destroyed then svc_ioq_flushv sk x s else Some (Inr True, x, s)) of
        None \<Rightarrow> None
      | Some (Inl code, x', s) \<Rightarrow> Some (True, xs, s)
      | Some (Inr False, x', s) \<Rightarrow> Some (destroyed, x' # xs, sk_evchan_write sk (has_blocked x) s)
      | Some (Inr True, x', s) \<Rightarrow> svc_ioq_write sk running destroyed xs (if has_blocked x' then sk_send_complete sk s else s))"

definition svc_ioq_write_now :: "'s out_socket \<Rightarrow> bool \<Rightarrow> bool \<Rightarrow> svc_ioq \<Rightarrow> svc_ioq list \<Rightarrow> 's \<Rightarrow> (bool \<times> svc_ioq list \<times> 's) option" where
  "svc_ioq_write_now sk running destroyed x writeq s =
     (if writeq = [] then svc_ioq_write sk running destroyed [x] s
      else Some (destroyed, writeq @ [x], s))"

section \<open>What the network gets\<close>

text \<open>
  What the code relies on of the socket: \<open>out\<close> is all it took so far.  A call takes some of the bytes it is given, from
  their start, and at least four of them if it is given so many.
\<close>

definition sending_socket :: "'s out_socket \<Rightarrow> ('s \<Rightarrow> byte list) \<Rightarrow> bool" where
  "sending_socket sk out \<longleftrightarrow>
     (\<forall>iov s. case sk_sendmsg sk iov s of
        (Sent_bytes n, s') \<Rightarrow> min 4 (length (concat iov)) \<le> n \<and> n \<le> length (concat iov) \<and> out s' = out s @ take n (concat iov)
      | (Send_error code, s') \<Rightarrow> out s' = out s) \<and>
     (\<forall>b s. out (sk_evchan_write sk b s) = out s) \<and> (\<forall>s. out (sk_send_complete sk s) = out s)"

lemma out_socketD:
  assumes "sending_socket sk out"
  shows "sk_sendmsg sk iov s = (Sent_bytes n, s') \<Longrightarrow> min 4 (length (concat iov)) \<le> n \<and> n \<le> length (concat iov) \<and> out s' = out s @ take n (concat iov)"
    "sk_sendmsg sk iov s = (Send_error code, s') \<Longrightarrow> out s' = out s"
    "out (sk_evchan_write sk b s) = out s" "out (sk_send_complete sk s) = out s"
proof -
  note sk = assms [unfolded sending_socket_def]
  have r: "case sk_sendmsg sk iov s of
        (Sent_bytes n, s') \<Rightarrow> min 4 (length (concat iov)) \<le> n \<and> n \<le> length (concat iov) \<and> out s' = out s @ take n (concat iov)
      | (Send_error code, s') \<Rightarrow> out s' = out s"
    by (rule conjunct1 [OF sk, THEN spec, THEN spec])
  show "min 4 (length (concat iov)) \<le> n \<and> n \<le> length (concat iov) \<and> out s' = out s @ take n (concat iov)" if "sk_sendmsg sk iov s = (Sent_bytes n, s')"
    by (rule r [unfolded that prod.case sent.case])
  show "out s' = out s" if "sk_sendmsg sk iov s = (Send_error code, s')"
    by (rule r [unfolded that prod.case sent.case])
  show "out (sk_evchan_write sk b s) = out s" "out (sk_send_complete sk s) = out s"
    using sk by blast+
qed

text \<open>
  A reply of one fragment: so many of the bytes of its record are out.
\<close>

definition reply_bytes :: "svc_ioq \<Rightarrow> byte list" where
  "reply_bytes x = concat (chunks (out_ioq x))"

definition reply_ok :: "svc_ioq \<Rightarrow> bool" where
  "reply_ok x \<longleftrightarrow> ioq_filling (out_ioq x) \<and> reply_bytes x \<noteq> [] \<and> length (reply_bytes x) \<le> LAST_FRAG_XDR_UNITS \<and>
     write_start x < length (reply_bytes x) \<and> (frag_hdr_bytes_sent x = 4 \<or> frag_hdr_bytes_sent x = 0 \<and> write_start x = 0)"

definition reply_out :: "svc_ioq \<Rightarrow> byte list" where
  "reply_out x = take (frag_hdr_bytes_sent x + write_start x) (marked [reply_bytes x])"

definition refuses :: "'s out_socket \<Rightarrow> bool" where
  "refuses sk \<longleftrightarrow> (\<exists>iov s code s'. sk_sendmsg sk iov s = (Send_error code, s'))"

lemma length_marked: "length (marked [bs]) = 4 + length bs"
  by (simp add: fragment_def)

text \<open>
  One call of \<open>sendmsg\<close> for a reply of one fragment: an error, or the next bytes of the record.
\<close>

lemma send_step:
  assumes sk: "sending_socket sk out" and x: "reply_ok x"
  defines "bs \<equiv> reply_bytes x" and "p \<equiv> frag_hdr_bytes_sent x + write_start x"
  obtains (failed) code s1 where "refuses sk" "out s1 = out s"
      "flush_loop sk (length bs - write_start x) (length bs - write_start x) LAST_FRAG False x s =
        (if code = EWOULDBLOCK \<or> code = EAGAIN then Some (Inr False, x\<lparr>has_blocked := True\<rparr>, s1) else Some (Inl code, x, s1))"
    | (took) n s1 where "0 < n" "4 \<le> p + n" "p + n \<le> 4 + length bs" "out s1 = out s @ take n (drop p (marked [bs]))"
      "flush_loop sk (length bs - write_start x) (length bs - write_start x) LAST_FRAG False x s =
        (if p + n = 4 + length bs then Some (Inr True, x\<lparr>frag_hdr_bytes_sent := 0, write_start := length bs\<rparr>, s1)
         else flush_loop sk (length bs - (p + n - 4)) (length bs - (p + n - 4)) LAST_FRAG False (x\<lparr>frag_hdr_bytes_sent := 4, write_start := p + n - 4\<rparr>) s1)"
proof -
  let ?k = "write_start x" and ?h = "frag_hdr_bytes_sent x" and ?q = "out_ioq x"
  have k: "?k < length bs" "length bs \<le> LAST_FRAG_XDR_UNITS" "?h = 4 \<or> ?h = 0 \<and> ?k = 0" "ioq_filling ?q" "concat (chunks ?q) = bs"
    using x by (auto simp: reply_ok_def bs_def reply_bytes_def)
  define fb where "fb = length bs - ?k"
  have fb: "0 < fb" "?k + fb = length bs"
    using k(1) by (simp_all add: fb_def)
  obtain ps where ps: "xdr_ioq_fillbufs ?q ?k fb = Some ps" "concat ps = drop ?k bs" "xdr_ioq_iovcount ?q ?k fb = int (length ps)" "ps \<noteq> []" "hd ps \<noteq> []"
    using pieces_filling [OF k(4) fb(1), of ?k] k(5) fb(2) by auto
  define hb where "hb = htonl_bytes (of_nat fb OR LAST_FRAG :: uint32)"
  define boundary where "boundary = (?k = 0 \<or> ?k = LAST_FRAG_XDR_UNITS \<or> ?k = 2 * LAST_FRAG_XDR_UNITS)"
  define needed where "needed = (if boundary then 1 else 0 :: nat)"
  define m where "m = (if length ps + needed > PRESUMED_UIO_MAXIOV then PRESUMED_UIO_MAXIOV - needed else length ps)"
  define hdr where "hdr = (if boundary then Some (drop ?h hb) else None)"
  define fhs where "fhs = (if boundary then 4 - ?h else 0)"
  define iov where "iov = (case hdr of None \<Rightarrow> [] | Some h \<Rightarrow> [h]) @ take m ps"
  have bd: "boundary \<longleftrightarrow> ?k = 0"
    using k(1,2) by (auto simp: boundary_def LAST_FRAG_XDR_UNITS_def)
  have fhs: "fhs = 4 - ?h" "?k \<noteq> 0 \<Longrightarrow> ?h = 4"
    using k(3) by (auto simp: fhs_def bd)
  have m: "take m ps = hd ps # take (m - 1) (tl ps)"
    using ps(4) by (cases ps) (auto simp: m_def needed_def PRESUMED_UIO_MAXIOV_def take_Cons')
  have iov: "concat iov = drop ?h hb @ concat (take m ps)" "concat (take m ps) \<noteq> []" "prefix (concat (take m ps)) (drop ?k bs)"
  proof -
    show "concat iov = drop ?h hb @ concat (take m ps)"
      using fhs(2) by (auto simp: iov_def hdr_def bd hb_def)
    show "concat (take m ps) \<noteq> []"
      unfolding m using ps(5) by simp
    show "prefix (concat (take m ps)) (drop ?k bs)"
      using ps(2) by (metis append_take_drop_id concat_append prefixI)
  qed
  have T: "drop p (marked [bs]) = drop ?h hb @ drop ?k bs"
    using k(3) by (auto simp: p_def fragment_def hb_def fb_def or.commute)
  obtain r s1 where r: "sk_sendmsg sk iov s = (r, s1)"
    by fastforce
  have loop: "flush_loop sk fb fb LAST_FRAG False x s =
      (case sendmsg_again sk hdr (take m ps) fhs x s of
         None \<Rightarrow> None
       | Some (Send_error code, x, s) \<Rightarrow>
           if code = EWOULDBLOCK \<or> code = EAGAIN then Some (Inr False, x\<lparr>has_blocked := True\<rparr>, s) else Some (Inl code, x, s)
       | Some (Sent_bytes n, x, s) \<Rightarrow>
           (let n = n - fhs; remaining = fb - n; fbytes = fb - n;
                x = x\<lparr>frag_hdr_bytes_sent := 4, write_start := write_start x + n\<rparr> in
            if fbytes = 0
            then flush_loop sk (min remaining LAST_FRAG_XDR_UNITS) remaining LAST_FRAG True (x\<lparr>frag_hdr_bytes_sent := 0\<rparr>) s
            else flush_loop sk fbytes remaining LAST_FRAG False x s))"
    using fb(1) by (subst flush_loop.simps) (simp only: Let_def nat_int ps(1,3) boundary_def [symmetric] hb_def [symmetric] simp_thms if_False
        option.case needed_def [symmetric] m_def [symmetric] hdr_def [symmetric] fhs_def [symmetric] gr_implies_not0)
  show thesis
  proof (cases r)
    case (Send_error code)
    then have "sendmsg_again sk hdr (take m ps) fhs x s = Some (Send_error code, x, s1)"
      using r by (subst sendmsg_again.simps) (simp add: iov_def)
    moreover have "refuses sk"
      using r Send_error unfolding refuses_def by blast
    ultimately show thesis
      using out_socketD(2) [OF sk] r Send_error loop by (intro failed [of s1 code]) (simp_all add: fb_def)
  next
    case (Sent_bytes n)
    obtain c where len: "length (concat iov) = fhs + c" "0 < c"
      using iov(1,2) fhs(1) by (metis append.assoc hb_def length_append length_drop length_greater_0_conv length_htonl_bytes)
    have n: "min 4 (length (concat iov)) \<le> n" "n \<le> length (concat iov)" "out s1 = out s @ take n (concat iov)"
      using out_socketD(1) [OF sk] r Sent_bytes by auto
    have fn: "fhs \<le> n" "0 < n" "4 \<le> p + n"
      using n(1) len k(3) fhs(1) by (auto simp: p_def)
    have "sendmsg_again sk hdr (take m ps) fhs x s = Some (Sent_bytes n, x, s1)"
      using r Sent_bytes fn(1) by (subst sendmsg_again.simps) (simp add: iov_def)
    note l = loop [unfolded this option.case prod.case sent.case Let_def]
    have pre: "prefix (concat iov) (drop p (marked [bs]))"
      using iov(1,3) T by simp
    have pn: "p + n \<le> 4 + length bs"
      using prefix_length_le [OF pre] n(2) fn(2) length_marked [of bs] by simp
    have "take n (concat iov) = take n (drop p (marked [bs]))"
      using pre n(2) by (auto elim!: prefixE)
    moreover have w: "?k + (n - fhs) = p + n - 4" "fb - (n - fhs) = length bs - (p + n - 4)"
      using fn fhs(1) k(3) by (auto simp: p_def fb_def)
    moreover have "fb - (n - fhs) = 0 \<longleftrightarrow> p + n = 4 + length bs"
      using w(2) pn fn(3) by auto
    moreover have fin: "flush_loop sk 0 0 LAST_FRAG True y s1 = Some (Inr True, y, s1)" for y
      by (simp add: flush_loop.simps [of sk 0 0])
    ultimately show thesis
      using l n(3) fn pn by (intro took [of n s1]) (simp_all add: fb_def fin)
  qed
qed

text \<open>What is out after a call, and what is still to be sent.\<close>

definition todo :: "svc_ioq \<Rightarrow> byte list" where
  "todo x = drop (frag_hdr_bytes_sent x + write_start x) (marked [reply_bytes x])"

definition flushed :: "'s out_socket \<Rightarrow> ('s \<Rightarrow> byte list) \<Rightarrow> svc_ioq \<Rightarrow> 's \<Rightarrow> ((nat + bool) \<times> svc_ioq \<times> 's) option \<Rightarrow> bool" where
  "flushed sk out x s r \<longleftrightarrow>
     (case r of
        None \<Rightarrow> False
      | Some (Inr True, x', s') \<Rightarrow> out s' = out s @ todo x
      | Some (Inr False, x', s') \<Rightarrow> refuses sk \<and> reply_ok x' \<and> (\<exists>d. out s' = out s @ d \<and> todo x = d @ todo x')
      | Some (Inl code, x', s') \<Rightarrow> refuses sk \<and> (\<exists>d. out s' = out s @ d \<and> prefix d (todo x)))"

lemma flushed_trans:
  assumes "flushed sk out x' s' r" "out s' = out s @ d" "todo x = d @ todo x'"
  shows "flushed sk out x s r"
proof (cases r)
  case (Some a)
  obtain res y t where a: "r = Some (res, y, t)"
    using Some by (cases a) auto
  show ?thesis
  proof (cases res)
    case (Inl code)
    then obtain e where "refuses sk" "out t = out s' @ e" "prefix e (todo x')"
      using assms(1) a by (auto simp: flushed_def)
    then show ?thesis
      using assms(2,3) a Inl by (simp add: flushed_def)
  next
    case (Inr b)
    show ?thesis
    proof (cases b)
      case True
      then show ?thesis
        using assms a Inr by (simp add: flushed_def)
    next
      case False
      then obtain e where "refuses sk" "reply_ok y" "out t = out s' @ e" "todo x' = e @ todo y"
        using assms(1) a Inr by (auto simp: flushed_def)
      then show ?thesis
        using assms(2,3) a Inr False by (simp add: flushed_def)
    qed
  qed
qed (use assms in \<open>simp add: flushed_def\<close>)

lemma flush_loop_sends:
  assumes sk: "sending_socket sk out" and x: "reply_ok x"
  shows "flushed sk out x s (flush_loop sk (length (reply_bytes x) - write_start x) (length (reply_bytes x) - write_start x) LAST_FRAG False x s)"
  using x
proof (induction "length (todo x)" arbitrary: x s rule: less_induct)
  case less
  let ?bs = "reply_bytes x" and ?p = "frag_hdr_bytes_sent x + write_start x"
  show ?case
  proof (rule send_step [OF sk less.prems, of s], goal_cases)
    case (1 code s1)
    have "reply_ok (x\<lparr>has_blocked := True\<rparr>)" "todo (x\<lparr>has_blocked := True\<rparr>) = todo x"
      using less.prems by (simp_all add: reply_ok_def todo_def reply_bytes_def)
    then show ?case
      unfolding 1(3) using 1(1,2) by (simp add: flushed_def)
  next
    case (2 n s1)
    show ?case
    proof (cases "?p + n = 4 + length ?bs")
      case True
      have "take n (drop ?p (marked [?bs])) = todo x"
        using length_marked [of ?bs] True by (simp add: todo_def)
      then show ?thesis
        unfolding 2(5) using 2(4) True by (simp add: flushed_def)
    next
      case False
      let ?x = "x\<lparr>frag_hdr_bytes_sent := 4, write_start := ?p + n - 4\<rparr>"
      have b: "reply_bytes ?x = ?bs"
        by (simp add: reply_bytes_def)
      have ok: "reply_ok ?x"
        using less.prems 2(2,3) False by (auto simp: reply_ok_def b)
      have t: "todo x = take n (drop ?p (marked [?bs])) @ todo ?x"
        using 2(2) by (simp add: todo_def b) (metis add.commute append_take_drop_id drop_drop)
      have l: "length (todo ?x) < length (todo x)"
        using 2(1-3) length_marked [of ?bs] by (simp add: todo_def b)
      have "flush_loop sk (length ?bs - write_start x) (length ?bs - write_start x) LAST_FRAG False x s =
          flush_loop sk (length (reply_bytes ?x) - write_start ?x) (length (reply_bytes ?x) - write_start ?x) LAST_FRAG False ?x s1"
        using 2(5) False by (simp add: b)
      then show ?thesis
        using flushed_trans [OF less.hyps [OF l ok] 2(4) t] by simp
    qed
  qed
qed

lemma flushv_sends:
  assumes sk: "sending_socket sk out" and x: "reply_ok x"
  shows "flushed sk out x s (svc_ioq_flushv sk x s)"
proof -
  let ?x = "x\<lparr>out_ioq := ioq_tail_update (out_ioq x)\<rparr>"
  have q: "ioq_filling (out_ioq x)" "length (reply_bytes x) \<le> LAST_FRAG_XDR_UNITS"
    using x by (simp_all add: reply_ok_def)
  note t = tail_update_filled [OF q(1)]
  have b: "reply_bytes ?x = reply_bytes x"
    by (simp add: reply_bytes_def t(2))
  then have o: "reply_ok ?x" "todo ?x = todo x"
    using x t(1) by (simp_all add: reply_ok_def todo_def)
  have "svc_ioq_flushv sk x s =
      flush_loop sk (length (reply_bytes ?x) - write_start ?x) (length (reply_bytes ?x) - write_start ?x) LAST_FRAG False ?x s"
    using q(2) unfolding b svc_ioq_flushv_def t(3) by (simp add: reply_bytes_def LAST_FRAG_XDR_UNITS_def Let_def)
  then show ?thesis
    using flushed_trans [OF flush_loop_sends [OF sk o(1), of s], of s "[]" x] o(2) by simp
qed

lemma write_sends:
  assumes sk: "sending_socket sk out" and "\<forall>x\<in>set xs. reply_ok x"
  shows "\<exists>des xs' s' d. svc_ioq_write sk True False xs s = Some (des, xs', s') \<and> out s' = out s @ d \<and>
    (if des then refuses sk \<and> prefix d (concat (map todo xs)) else concat (map todo xs) = d @ concat (map todo xs') \<and> (xs' \<noteq> [] \<longrightarrow> refuses sk) \<and> (\<forall>x\<in>set xs'. reply_ok x))"
  using assms(2)
proof (induction xs arbitrary: s)
  case (Cons x xs)
  have f: "flushed sk out x s (svc_ioq_flushv sk x s)"
    using Cons.prems by (simp add: flushv_sends [OF sk])
  then obtain r x' s1 where r: "svc_ioq_flushv sk x s = Some (r, x', s1)"
    by (cases "svc_ioq_flushv sk x s") (auto simp: flushed_def)
  show ?case
  proof (cases r)
    case (Inl code)
    then obtain d where "refuses sk" "out s1 = out s @ d" "prefix d (todo x)"
      using f r by (auto simp: flushed_def)
    then show ?thesis
      using r Inl by (intro exI [of _ True] exI [of _ xs] exI [of _ s1] exI [of _ d]) (auto simp: prefix_def)
  next
    case (Inr b)
    show ?thesis
    proof (cases b)
      case True
      define s2 where "s2 = (if has_blocked x' then sk_send_complete sk s1 else s1)"
      have s2: "out s2 = out s @ todo x"
        using f r Inr True out_socketD(4) [OF sk] by (auto simp: s2_def flushed_def)
      have w: "svc_ioq_write sk True False (x # xs) s = svc_ioq_write sk True False xs s2"
        using r Inr True by (simp add: s2_def)
      have "\<forall>x\<in>set xs. reply_ok x"
        using Cons.prems by simp
      from Cons.IH [OF this, of s2] obtain des xs' s' d where d: "svc_ioq_write sk True False xs s2 = Some (des, xs', s')" "out s' = out s2 @ d"
        "if des then refuses sk \<and> prefix d (concat (map todo xs)) else concat (map todo xs) = d @ concat (map todo xs') \<and> (xs' \<noteq> [] \<longrightarrow> refuses sk) \<and> (\<forall>x\<in>set xs'. reply_ok x)"
        by blast
      show ?thesis
        unfolding w d(1) using d(2,3) s2
        by (intro exI [of _ des] exI [of _ xs'] exI [of _ s'] exI [of _ "todo x @ d"]) (simp split: if_splits)
    next
      case False
      then obtain d where "refuses sk" "reply_ok x'" "out s1 = out s @ d" "todo x = d @ todo x'"
        using f r Inr by (auto simp: flushed_def)
      then show ?thesis
        using r Inr False Cons.prems out_socketD(3) [OF sk]
        by (intro exI [of _ False] exI [of _ "x' # xs"] exI [of _ "sk_evchan_write sk (has_blocked x) s1"] exI [of _ d]) simp
    qed
  qed
next
  case Nil
  show ?case
    by (intro exI [of _ False] exI [of _ "[]"] exI [of _ s]) simp
qed

section \<open>Replies and events\<close>

datatype out_event = Reply svc_ioq | Writable

fun out_run :: "'s out_socket \<Rightarrow> out_event list \<Rightarrow> bool \<Rightarrow> svc_ioq list \<Rightarrow> 's \<Rightarrow> (bool \<times> svc_ioq list \<times> 's) option" where
  "out_run sk [] destroyed writeq s = Some (destroyed, writeq, s)"
| "out_run sk (e # es) destroyed writeq s =
     (case (case e of Reply x \<Rightarrow> svc_ioq_write_now sk True destroyed x writeq s | Writable \<Rightarrow> svc_ioq_write sk True destroyed writeq s) of
        None \<Rightarrow> None
      | Some (destroyed, writeq, s) \<Rightarrow> out_run sk es destroyed writeq s)"

fun replies :: "out_event list \<Rightarrow> svc_ioq list" where
  "replies [] = []"
| "replies (Reply x # es) = x # replies es"
| "replies (Writable # es) = replies es"

definition new_reply :: "svc_ioq \<Rightarrow> bool" where
  "new_reply x \<longleftrightarrow> reply_ok x \<and> write_start x = 0 \<and> frag_hdr_bytes_sent x = 0"

lemma write_destroyed:
  assumes "sending_socket sk out"
  shows "\<exists>s'. svc_ioq_write sk running True xs s = Some (True, [], s') \<and> out s' = out s"
proof (induction xs arbitrary: s)
  case (Cons x xs)
  show ?case
    using Cons [of "if has_blocked x then sk_send_complete sk s else s"] out_socketD(4) [OF assms, of s] by auto
qed simp

lemma run_destroyed:
  assumes "sending_socket sk out"
  shows "\<exists>wq' s'. out_run sk es True wq s = Some (True, wq', s') \<and> out s' = out s"
proof (induction es arbitrary: wq s)
  case (Cons e es)
  obtain wq1 s1 where "(case e of Reply x \<Rightarrow> svc_ioq_write_now sk True True x wq s | Writable \<Rightarrow> svc_ioq_write sk True True wq s) = Some (True, wq1, s1)"
    "out s1 = out s"
  proof (cases e)
    case (Reply x)
    then show thesis
      using write_destroyed [OF assms, of True "[x]" s] that [of "[]"] that [of "wq @ [x]" s]
      by (cases "wq = []") (auto simp: svc_ioq_write_now_def simp del: svc_ioq_write.simps)
  next
    case Writable
    then show thesis
      using write_destroyed [OF assms, of True wq s] that by auto
  qed
  then show ?case
    using Cons.IH [of wq1 s1] by auto
qed simp

lemma new_reply_todo: "new_reply x \<Longrightarrow> reply_ok x \<and> todo x = marked [reply_bytes x]"
  by (simp add: new_reply_def todo_def)

lemma run_sends:
  assumes sk: "sending_socket sk out" and "\<forall>x\<in>set (replies es). new_reply x" "\<forall>x\<in>set wq. reply_ok x"
  shows "\<exists>des wq' s' d. out_run sk es False wq s = Some (des, wq', s') \<and> out s' = out s @ d \<and>
    (if des then refuses sk \<and> prefix d (concat (map todo (wq @ replies es)))
     else concat (map todo (wq @ replies es)) = d @ concat (map todo wq') \<and> (wq' \<noteq> [] \<and> wq = [] \<longrightarrow> refuses sk))"
  using assms(2,3)
proof (induction es arbitrary: wq s)
  case Nil
  show ?case
    by (intro exI [of _ False] exI [of _ wq] exI [of _ s]) simp
next
  case (Cons e es)
  define new where "new = (case e of Reply x \<Rightarrow> [x] | Writable \<Rightarrow> [])"
  have ok: "\<forall>x\<in>set (wq @ new). reply_ok x" "\<forall>x\<in>set (replies es). new_reply x" "replies (e # es) = new @ replies es"
    using Cons.prems by (cases e; auto simp: new_def new_reply_def)+
  obtain des wq1 s1 d where st: "(case e of Reply x \<Rightarrow> svc_ioq_write_now sk True False x wq s | Writable \<Rightarrow> svc_ioq_write sk True False wq s) = Some (des, wq1, s1)"
    "out s1 = out s @ d" "if des then refuses sk \<and> prefix d (concat (map todo (wq @ new)))
      else concat (map todo (wq @ new)) = d @ concat (map todo wq1) \<and> (wq1 \<noteq> [] \<and> wq = [] \<longrightarrow> refuses sk) \<and> (\<forall>x\<in>set wq1. reply_ok x)"
  proof (cases "e = Writable \<or> wq = []")
    case True
    then have w: "(case e of Reply x \<Rightarrow> svc_ioq_write_now sk True False x wq s | Writable \<Rightarrow> svc_ioq_write sk True False wq s) =
        svc_ioq_write sk True False (wq @ new) s"
      by (cases e) (auto simp: new_def svc_ioq_write_now_def simp del: svc_ioq_write.simps)
    obtain des wq1 s1 d where "svc_ioq_write sk True False (wq @ new) s = Some (des, wq1, s1)" "out s1 = out s @ d"
      "if des then refuses sk \<and> prefix d (concat (map todo (wq @ new)))
       else concat (map todo (wq @ new)) = d @ concat (map todo wq1) \<and> (wq1 \<noteq> [] \<longrightarrow> refuses sk) \<and> (\<forall>x\<in>set wq1. reply_ok x)"
      using write_sends [OF sk ok(1), of s] by blast
    then show thesis
      by (intro that [of des wq1 s1 d]) (simp_all only: w split: if_splits, auto)
  next
    case False
    then obtain x where x: "e = Reply x" "wq \<noteq> []" "new = [x]"
      by (cases e) (auto simp: new_def)
    then show thesis
      using ok(1) by (intro that [of False "wq @ [x]" s "[]"]) (auto simp: svc_ioq_write_now_def)
  qed
  show ?case
  proof (cases des)
    case True
    obtain wq' s' where "out_run sk es True wq1 s1 = Some (True, wq', s')" "out s' = out s1"
      using run_destroyed [OF sk, of es wq1 s1] by blast
    moreover have "prefix d (concat (map todo (wq @ replies (e # es))))"
      using st(3) True prefix_prefix [of d "concat (map todo (wq @ new))"] by (simp add: ok(3))
    ultimately show ?thesis
      using st True by (intro exI [of _ True] exI [of _ wq'] exI [of _ s'] exI [of _ d]) simp
  next
    case False
    then have w: "\<forall>x\<in>set wq1. reply_ok x" "concat (map todo (wq @ new)) = d @ concat (map todo wq1)" "wq1 \<noteq> [] \<and> wq = [] \<longrightarrow> refuses sk"
      using st(3) by auto
    obtain des' wq' s' d' where r: "out_run sk es False wq1 s1 = Some (des', wq', s')" "out s' = out s1 @ d'"
      "if des' then refuses sk \<and> prefix d' (concat (map todo (wq1 @ replies es)))
       else concat (map todo (wq1 @ replies es)) = d' @ concat (map todo wq') \<and> (wq' \<noteq> [] \<and> wq1 = [] \<longrightarrow> refuses sk)"
      using Cons.IH [OF ok(2) w(1), of s1] by blast
    have "concat (map todo (wq @ replies (e # es))) = d @ concat (map todo (wq1 @ replies es))"
      using w(2) by (simp add: ok(3))
    then show ?thesis
      using r w(3) st(1,2) False
      by (intro exI [of _ des'] exI [of _ wq'] exI [of _ s'] exI [of _ "d @ d'"]) (auto split: if_splits)
  qed
qed

lemma run_records:
  assumes "sending_socket sk out" "\<forall>x\<in>set (replies es). new_reply x"
  shows "\<exists>des wq s'. out_run sk es False [] s = Some (des, wq, s') \<and>
    prefix (out s') (out s @ concat (map (\<lambda>x. marked [reply_bytes x]) (replies es))) \<and>
    (\<not> des \<and> wq = [] \<longrightarrow> out s' = out s @ concat (map (\<lambda>x. marked [reply_bytes x]) (replies es))) \<and>
    (\<not> refuses sk \<longrightarrow> \<not> des \<and> wq = [])"
proof -
  have t: "map todo (replies es) = map (\<lambda>x. marked [reply_bytes x]) (replies es)"
    using assms(2) by (auto simp: new_reply_todo)
  have "\<exists>des wq s' d. out_run sk es False [] s = Some (des, wq, s') \<and> out s' = out s @ d \<and>
    (if des then refuses sk \<and> prefix d (concat (map todo (replies es)))
     else concat (map todo (replies es)) = d @ concat (map todo wq) \<and> (wq \<noteq> [] \<longrightarrow> refuses sk))"
    using run_sends [OF assms, of "[]" s] by (simp only: append_Nil simp_thms list.set(1) ball_empty)
  then obtain des wq s' d where r: "out_run sk es False [] s = Some (des, wq, s')" "out s' = out s @ d"
    "if des then refuses sk \<and> prefix d (concat (map todo (replies es)))
     else concat (map todo (replies es)) = d @ concat (map todo wq) \<and> (wq \<noteq> [] \<longrightarrow> refuses sk)"
    by blast
  have "prefix d (concat (map todo (replies es)))"
    using r(3) by (simp split: if_splits)
  then show ?thesis
    using r unfolding t by (intro exI [of _ des] exI [of _ wq] exI [of _ s']) (auto split: if_splits)
qed

lemma one_reply_sent:
  assumes "sending_socket sk out" "\<not> refuses sk" "new_reply x"
  shows "\<exists>s'. svc_ioq_write_now sk True False x [] s = Some (False, [], s') \<and> out s' = out s @ marked [reply_bytes x]"
proof -
  have ok: "\<forall>x\<in>set [x]. reply_ok x" "concat (map todo [x]) = marked [reply_bytes x]"
    using new_reply_todo [OF assms(3)] by simp_all
  obtain des xs' s' d where "svc_ioq_write sk True False [x] s = Some (des, xs', s')" "out s' = out s @ d"
    "if des then refuses sk \<and> prefix d (concat (map todo [x]))
     else concat (map todo [x]) = d @ concat (map todo xs') \<and> (xs' \<noteq> [] \<longrightarrow> refuses sk) \<and> (\<forall>x\<in>set xs'. reply_ok x)"
    using write_sends [OF assms(1) ok(1), of s] by blast
  then show ?thesis
    using assms(2) unfolding ok(2) svc_ioq_write_now_def by (cases des) auto
qed



definition sample_reply :: "byte list \<Rightarrow> svc_ioq" where
  "sample_reply bs = \<lparr>out_ioq = (sample_ioq [bs])\<lparr>ioq_data := length bs\<rparr>, write_start = 0, frag_hdr_bytes_sent = 0, has_blocked = False\<rparr>"

lemma sample_reply_new: "bs \<noteq> [] \<Longrightarrow> length bs \<le> LAST_FRAG_XDR_UNITS \<Longrightarrow> new_reply (sample_reply bs) \<and> reply_bytes (sample_reply bs) = bs"
  by (simp add: sample_reply_def sample_ioq_def sample_uv_def new_reply_def reply_ok_def reply_bytes_def ioq_filling_def ioq_wf_def cur_uv_def uv_ok_def
      chunks_def ioq_tail_update_def uv_bytes_def ioquv_length_def)

text \<open>A socket that takes at most so many bytes of each call; its state is the bytes and the limits of the next calls.\<close>

definition quota :: "nat \<Rightarrow> byte list out_socket" where
  "quota n = \<lparr>sk_sendmsg = (\<lambda>iov out. (Sent_bytes (min n (length (concat iov))), out @ take n (concat iov))),
     sk_evchan_write = (\<lambda>b s. s), sk_send_complete = (\<lambda>s. s)\<rparr>"

lemma quota_sends: "4 \<le> n \<Longrightarrow> sending_socket (quota n) (\<lambda>s. s)" "\<not> refuses (quota n)"
  by (auto simp: sending_socket_def refuses_def quota_def min_def)



text \<open>
  A socket that takes only a part of a header makes the end of the reply go out twice: the call that goes on counts
  the whole header again.
\<close>

definition limited :: "(byte list \<times> nat list) out_socket" where
  "limited = \<lparr>sk_sendmsg = (\<lambda>iov (out, ls). case ls of
       [] \<Rightarrow> (Sent_bytes (length (concat iov)), out @ concat iov, [])
     | l # ls \<Rightarrow> (Sent_bytes (min l (length (concat iov))), out @ take l (concat iov), ls)),
     sk_evchan_write = (\<lambda>b s. s), sk_send_complete = (\<lambda>s. s)\<rparr>"

theorem short_header_repeats:
  "\<exists>x ls. svc_ioq_flushv limited (sample_reply [1, 2, 3, 4, 5, 6, 7, 8]) ([], [2]) =
     Some (Inr True, x, [128, 0, 0, 8, 1, 2, 3, 4, 5, 6, 7, 8, 7, 8], ls)"
proof -
  let ?bs = "[1, 2, 3, 4, 5, 6, 7, 8] :: byte list" and ?x = "sample_reply [1, 2, 3, 4, 5, 6, 7, 8]"
  have q: "xdr_ioq_getpos (out_ioq ?x) = (8, out_ioq ?x)"
    "xdr_ioq_iovcount (out_ioq ?x) 0 8 = 1" "xdr_ioq_fillbufs (out_ioq ?x) 0 8 = Some [?bs]"
    "xdr_ioq_iovcount (out_ioq ?x) 6 2 = 1" "xdr_ioq_fillbufs (out_ioq ?x) 6 2 = Some [[7, 8]]"
    by code_simp+
  have h: "htonl_bytes (8 OR LAST_FRAG) = [128, 0, 0, 8]"
    by (simp add: LAST_FRAG_def htonl_bytes_def)
  have x: "write_start ?x = 0" "frag_hdr_bytes_sent ?x = 0"
    by (simp_all add: sample_reply_def)
  have a: "sendmsg_again limited (Some [128, 0, 0, 8]) [?bs] 4 ?x ([], [2]) =
      Some (Sent_bytes 10, ?x\<lparr>frag_hdr_bytes_sent := 2\<rparr>, [128, 0, 0, 8, 1, 2, 3, 4, 5, 6, 7, 8], [])"
    by (simp add: sendmsg_again.simps limited_def x)
  have b: "sendmsg_again limited None [[7, 8]] 0 y (out, []) = Some (Sent_bytes 2, y, out @ [7, 8], [])" for y out
    by (simp add: sendmsg_again.simps limited_def)
  have c: "flush_loop limited 0 0 LAST_FRAG True y s = Some (Inr True, y, s)" for y s
    by (simp add: flush_loop.simps)
  have d: "flush_loop limited 2 2 LAST_FRAG False (?x\<lparr>frag_hdr_bytes_sent := 4, write_start := 6\<rparr>) (out, []) =
      Some (Inr True, ?x\<lparr>frag_hdr_bytes_sent := 0, write_start := 8\<rparr>, out @ [7, 8], [])" for out
    by (subst flush_loop.simps) (simp add: q b c Let_def LAST_FRAG_XDR_UNITS_def PRESUMED_UIO_MAXIOV_def)
  have "flush_loop limited 8 8 LAST_FRAG False ?x ([], [2]) =
      Some (Inr True, ?x\<lparr>frag_hdr_bytes_sent := 0, write_start := 8\<rparr>, [128, 0, 0, 8, 1, 2, 3, 4, 5, 6, 7, 8, 7, 8], [])"
    by (subst flush_loop.simps) (simp add: q a h x d Let_def LAST_FRAG_XDR_UNITS_def PRESUMED_UIO_MAXIOV_def)
  then show ?thesis
    by (simp add: svc_ioq_flushv_def q x Let_def LAST_FRAG_XDR_UNITS_def)
qed

end
