(* ===== verification/Rpc_Conn.thy ===== *)
theory Rpc_Conn
  imports Rpc_Server Vc_Send
begin

text \<open>
  A call over a stream connection: the record that \<open>svc_vc_recv\<close> puts together, its decoding and processing,
  and the reply that goes out through \<open>svc_ioq_write_now\<close>.  A request of one fragment, and a reply that
  fits the first buffer, are read and written as the memory streams of the other theories; that a queue of one buffer does
  what a memory stream does is shown first.
\<close>

definition ioq_xdr :: "xdr_ioq \<Rightarrow> XDR" where
  "ioq_xdr q = \<lparr>x_op = XDR_ENCODE, x_buf = uv_mem (cur_uv q), x_data = ioq_data q, x_v = uv_v (cur_uv q), x_public = None\<rparr>"

definition reply_ioq :: "nat \<Rightarrow> XDR \<Rightarrow> svc_ioq" where
  "reply_ioq bsize out =
     \<lparr>out_ioq = \<lparr>ioq_uvq = [\<lparr>uv_mem = x_buf out, uv_v = x_v out, uv_more = False\<rparr>], ioq_cur = 0, ioq_data = x_data out,
                 ioq_plength = 0, ioq_pcount = 0, ioq_min_bsize = bsize\<rparr>,
      write_start = 0, frag_hdr_bytes_sent = 0, has_blocked = False\<rparr>"

text \<open>A request and its reply, if there is one; \<open>bsize\<close> is \<open>RPC_MAXDATA_DEFAULT\<close>.\<close>

definition svc_request ::
  "'os process \<Rightarrow> 'os env \<Rightarrow> 'os state \<Rightarrow> rpc_msg \<Rightarrow> nat \<Rightarrow> xdr_ioq \<Rightarrow> nfs_res_t \<Rightarrow> ('os state \<times> svc_ioq option) option" where
  "svc_request process_cb E st m0 bsize q res =
     (case svc_vc_decode process_cb E st m0 (ioq_xdr q) (ioq_xdr (xdr_ioq_create bsize False)) res of
        None \<Rightarrow> None
      | Some (st, Sent out) \<Rightarrow> Some (st, Some (reply_ioq bsize out))
      | Some (st, _) \<Rightarrow> Some (st, None))"

section \<open>One buffer\<close>

lemma cur_uv_updates [simp]: "cur_uv (q\<lparr>ioq_plength := n\<rparr>) = cur_uv q" "cur_uv (q\<lparr>ioq_data := n\<rparr>) = cur_uv q"
  by (simp_all add: cur_uv_def)

lemma one_buffer:
  assumes "ioq_reading q" "ioq_uvq q = [uv]"
  shows "cur_uv q = uv" "ioq_cur q = 0" "rest_chunks q = [drop (ioq_data q - vio_head (uv_v uv)) (uv_bytes uv)]"
  using assms by (auto simp: ioq_reading_def ioq_wf_def cur_uv_def rest_chunks_def)

text \<open>
  Reading a queue of a single buffer is reading that buffer as a memory stream: units and bytes are
  there or missing together, and are the same ones.
\<close>

theorem one_buffer_is_memory:
  assumes "ioq_reading q" "ioq_uvq q = [uv]" "xdr_ioq_getunit q p = (b, q', u)" "xdr_ioq_getbytes q n = (c, q'', bs)"
  shows "xdr_getuint32 (ioq_xdr q) p = (b, ioq_xdr q', u) \<and>
    (if c then xdrmem_getbytes (ioq_xdr q) addr n = (True, ioq_xdr q'', overwrite 0 bs addr)
     else xdrmem_getbytes (ioq_xdr q) addr n = (False, ioq_xdr q, addr))"
proof -
  note o = one_buffer [OF assms(1,2)]
  have unit: "xdr_getuint32 (ioq_xdr q) p = (b, ioq_xdr q', u)"
    using assms(3) advance_reading [OF assms(1)] o
    by (subst (asm) xdr_ioq_getunit.simps)
      (auto simp: assms(2) xdr_getuint32_def xdrmem_getunit_def ioq_xdr_def Let_def split: if_splits)
  have bytes: "if c then xdrmem_getbytes (ioq_xdr q) addr n = (True, ioq_xdr q'', overwrite 0 bs addr)
     else xdrmem_getbytes (ioq_xdr q) addr n = (False, ioq_xdr q, addr)"
  proof (cases "ioq_data q + n \<le> vio_tail (uv_v uv)")
    case True
    then have d: "min (vio_tail (uv_v uv) - ioq_data q) n = n" "n \<noteq> 0 \<Longrightarrow> vio_tail (uv_v uv) - ioq_data q \<noteq> 0"
      by auto
    have z: "xdr_ioq_getbytes r 0 = (True, r, [])" for r
      by (subst xdr_ioq_getbytes.simps) simp
    have "ioq_pcount q < 1"
      using assms(1,2) by (auto simp: ioq_reading_def ioq_wf_def)
    then have "xdr_ioq_getbytes q n = (True, q\<lparr>ioq_data := ioq_data q + n\<rparr>, take n (drop (ioq_data q) (uv_mem uv)))"
      using d z by (cases "n = 0") (simp add: z, subst xdr_ioq_getbytes.simps, simp add: o assms(2) Let_def)
    then show ?thesis
      using assms(4) True by (auto simp: xdrmem_getbytes_def ioq_xdr_def o Let_def)
  next
    case False
    moreover have "ioq_data q \<le> vio_tail (uv_v uv)"
      using assms(1) o by (simp add: ioq_reading_def)
    ultimately have "\<not> c"
      using getbytes_chunks [OF assms(1), of n] hd_chunk(1) [OF assms(1)] assms(4) o by (auto simp: rest_chunks_def split: if_splits)
    then show ?thesis
      using False by (simp add: xdrmem_getbytes_def ioq_xdr_def o)
  qed
  show ?thesis
    using unit bytes by blast
qed

theorem one_buffer_is_memory_witness:
  "fst (xdr_getuint32 (ioq_xdr (sample_ioq [[0, 0, 0, 7, 1]])) 0) = fst (xdr_ioq_getunit (sample_ioq [[0, 0, 0, 7, 1]]) 0) \<and>
   fst (xdrmem_getbytes (ioq_xdr (sample_ioq [[0, 0, 0, 7, 1]])) [] 6) = fst (xdr_ioq_getbytes (sample_ioq [[0, 0, 0, 7, 1]]) 6)"
proof -
  let ?q = "sample_ioq [[0, 0, 0, 7, 1]]"
  have q: "ioq_reading ?q" "ioq_uvq ?q = [sample_uv [0, 0, 0, 7, 1]]"
    by code_simp (simp add: sample_ioq_def)
  obtain b q' u c q'' bs where "xdr_ioq_getunit ?q 0 = (b, q', u)" "xdr_ioq_getbytes ?q 6 = (c, q'', bs)"
    by (metis surj_pair)
  then show ?thesis
    using one_buffer_is_memory [OF q, of 0 b q' u 6 c q'' bs "[]"] by (simp split: if_splits)
qed

section \<open>A call over a connection\<close>

lemma record_xdr:
  fixes pagesz :: nat
  assumes "bs \<noteq> []"
  defines "d \<equiv> (ioq_xdr (queue_of pagesz (record_uvs [bs])))\<lparr>x_op := XDR_DECODE\<rparr>"
  shows "xdr_wf d" "x_op d = XDR_DECODE" "unread d = bs"
  by (simp_all add: d_def ioq_xdr_def queue_of_def part_uv_def cur_uv_def xdr_wf_def unread_def)

lemma new_reply_emit:
  assumes "bs \<noteq> []" "length bs \<le> bsize" "bsize \<le> LAST_FRAG_XDR_UNITS"
  defines "out \<equiv> xdr_tail_update (emit bs (ioq_xdr (xdr_ioq_create bsize False)))"
  shows "new_reply (reply_ioq bsize out)" "reply_bytes (reply_ioq bsize out) = bs"
proof -
  have o: "out = \<lparr>x_op = XDR_ENCODE, x_buf = bs @ replicate (bsize - length bs) 0, x_data = length bs,
      x_v = \<lparr>vio_base = 0, vio_head = 0, vio_tail = length bs, vio_wrap = bsize\<rparr>, x_public = None\<rparr>"
    using assms(1,2)
    by (simp add: out_def ioq_xdr_def xdr_ioq_create_def xdr_ioq_reset_def xdr_ioq_uv_reset_def xdr_ioq_uv_create_def cur_uv_def ioquv_size_def
        emit_def overwrite_def xdr_tail_update_def Let_def)
  show "reply_bytes (reply_ioq bsize out) = bs"
    by (simp add: reply_bytes_def reply_ioq_def o chunks_def ioq_tail_update_def cur_uv_def uv_bytes_def ioquv_length_def)
  then show "new_reply (reply_ioq bsize out)"
    using assms(1-3)
    by (simp add: new_reply_def reply_ok_def) (simp add: reply_ioq_def o ioq_filling_def ioq_wf_def cur_uv_def uv_ok_def)
qed



end
