(* ===== verification/Lru_Cache.thy ===== *)
theory Lru_Cache
  imports Dnfs_Prelude
begin

text \<open>
  The cache of \<open>include/cache/lru.h\<close>: a \<open>std::list\<close> of the values, the most recently used
  first, and a hash table from a value to the iterator of its node.  A node keeps its identity
  while it moves through the list, so a node is a number with its value, and an iterator is the
  number of its node.  What the C++ library leaves undefined is \<open>None\<close>: the last element of an empty
  list, and an iterator whose node is gone.
\<close>

section \<open>The cache\<close>

record 'v LRU =
  m_list :: "(nat \<times> 'v) list"
  m_map :: "'v \<rightharpoonup> nat"
  capacity :: "32 word"
  fresh_node :: nat

record 'v LRUAddRes =
  is_pop :: bool
  pop_item :: "'v option"

definition LRU_init :: "32 word \<Rightarrow> 'v LRU" where
  "LRU_init cap = \<lparr>m_list = [], m_map = Map.empty, capacity = cap, fresh_node = 0\<rparr>"

text \<open>The size is compared with the capacity converted to the unsigned type of the size.\<close>

definition LRU_full :: "'v LRU \<Rightarrow> bool" where
  "LRU_full c \<longleftrightarrow> (of_nat (length (m_list c)) :: 64 word) = scast (capacity c)"

definition LRU_emplace_front :: "'v \<Rightarrow> 'v LRU \<Rightarrow> 'v LRU" where
  "LRU_emplace_front v c =
     c\<lparr>m_list := (fresh_node c, v) # m_list c, m_map := (m_map c)(v \<mapsto> fresh_node c),
       fresh_node := Suc (fresh_node c)\<rparr>"

definition LRU_add :: "'v \<Rightarrow> 'v LRU \<Rightarrow> ('v LRUAddRes \<times> 'v LRU) option" where
  "LRU_add v c =
     (if LRU_full c
      then (if m_list c = [] then None
            else (let e = snd (last (m_list c));
                      c = c\<lparr>m_list := butlast (m_list c), m_map := (m_map c)(e := None)\<rparr> in
                  Some (\<lparr>is_pop = True, pop_item = Some e\<rparr>, LRU_emplace_front v c)))
      else Some (\<lparr>is_pop = False, pop_item = None\<rparr>, LRU_emplace_front v c))"

definition LRU_access :: "'v \<Rightarrow> 'v LRU \<Rightarrow> 'v LRU option" where
  "LRU_access v c =
     (case m_map c v of
        None \<Rightarrow> Some c
      | Some i \<Rightarrow>
          if i \<in> fst ` set (m_list c)
          then Some (c\<lparr>m_list := (i, v) # filter (\<lambda>n. fst n \<noteq> i) (m_list c)\<rparr>)
          else None)"

definition LRU_remove :: "'v \<Rightarrow> 'v LRU \<Rightarrow> 'v LRU option" where
  "LRU_remove v c =
     (case m_map c v of
        None \<Rightarrow> Some c
      | Some i \<Rightarrow>
          if i \<in> fst ` set (m_list c)
          then Some (c\<lparr>m_list := filter (\<lambda>n. fst n \<noteq> i) (m_list c), m_map := (m_map c)(v := None)\<rparr>)
          else None)"

section \<open>What a least recently used cache is\<close>

text \<open>
  The specification knows nothing of lists: it remembers when each value was used last, and
  when it is full it forgets the value whose last use is the oldest.
\<close>

datatype 'v lru_op = Add 'v | Access 'v | Remove 'v

record 'v recency =
  used :: "'v \<rightharpoonup> nat"
  clock :: nat

definition oldest :: "'v recency \<Rightarrow> 'v \<Rightarrow> bool" where
  "oldest a e \<longleftrightarrow> e \<in> dom (used a) \<and> (\<forall>v\<in>dom (used a). the (used a e) \<le> the (used a v))"

definition touch :: "'v \<Rightarrow> 'v recency \<Rightarrow> 'v recency" where
  "touch v a = \<lparr>used = (used a)(v \<mapsto> clock a), clock = Suc (clock a)\<rparr>"

inductive lru_step :: "nat \<Rightarrow> 'v recency \<Rightarrow> 'v lru_op \<Rightarrow> 'v option \<Rightarrow> 'v recency \<Rightarrow> bool" for cap where
  step_add: "card (dom (used a)) < cap \<Longrightarrow> v \<notin> dom (used a) \<Longrightarrow> lru_step cap a (Add v) None (touch v a)"
| step_evict: "card (dom (used a)) = cap \<Longrightarrow> oldest a e \<Longrightarrow> v \<notin> dom (used a) \<Longrightarrow>
    lru_step cap a (Add v) (Some e) (touch v (a\<lparr>used := (used a)(e := None)\<rparr>))"
| step_access: "v \<in> dom (used a) \<Longrightarrow> lru_step cap a (Access v) None (touch v a)"
| step_miss: "v \<notin> dom (used a) \<Longrightarrow> lru_step cap a (Access v) None a"
| step_remove: "lru_step cap a (Remove v) None (a\<lparr>used := (used a)(v := None)\<rparr>)"

fun LRU_op :: "'v lru_op \<Rightarrow> 'v LRU \<Rightarrow> ('v option \<times> 'v LRU) option" where
  "LRU_op (Add v) c = map_option (\<lambda>(r, c). (pop_item r, c)) (LRU_add v c)"
| "LRU_op (Access v) c = map_option (Pair None) (LRU_access v c)"
| "LRU_op (Remove v) c = map_option (Pair None) (LRU_remove v c)"

inductive lru_run :: "nat \<Rightarrow> 'v recency \<Rightarrow> 'v lru_op list \<Rightarrow> 'v option list \<Rightarrow> 'v recency \<Rightarrow> bool" for cap where
  run_done: "lru_run cap a [] [] a"
| run_step: "lru_step cap a op out a' \<Longrightarrow> lru_run cap a' ops outs a'' \<Longrightarrow> lru_run cap a (op # ops) (out # outs) a''"

fun LRU_run :: "'v lru_op list \<Rightarrow> 'v LRU \<Rightarrow> ('v option list \<times> 'v LRU) option" where
  "LRU_run [] c = Some ([], c)"
| "LRU_run (op # ops) c =
     (case LRU_op op c of
        None \<Rightarrow> None
      | Some (out, c) \<Rightarrow> map_option (\<lambda>(outs, c). (out # outs, c)) (LRU_run ops c))"

section \<open>The identifiers of volumes\<close>

text \<open>
  \<open>IdMapper\<close> of \<open>include/volume/id_mapper.h\<close>: items under a counter of 64 bits.  The counter is
  returned through the 32 bits of the result type.
\<close>

record 'a IdMapper =
  use_id :: "64 word"
  over_limit :: bool
  id_valume_map :: "64 word \<rightharpoonup> 'a"

definition IdMapper_init :: "'a IdMapper" where
  "IdMapper_init = \<lparr>use_id = 0, over_limit = False, id_valume_map = Map.empty\<rparr>"

definition map_emplace :: "'k \<Rightarrow> 'v \<Rightarrow> ('k \<rightharpoonup> 'v) \<Rightarrow> ('k \<rightharpoonup> 'v)" where
  "map_emplace k v m = (if m k = None then m(k \<mapsto> v) else m)"

definition emplace_item :: "'a \<Rightarrow> 'a IdMapper \<Rightarrow> 32 word \<times> 'a IdMapper" where
  "emplace_item x m =
     (if \<not> over_limit m
      then (let i = use_id m + 1 in
            (ucast i, \<lparr>use_id = i, over_limit = (i = - 1), id_valume_map = map_emplace i x (id_valume_map m)\<rparr>))
      else (0, m))"

definition delete_item :: "64 word \<Rightarrow> 'a IdMapper \<Rightarrow> 'a IdMapper" where
  "delete_item i m = m\<lparr>id_valume_map := (id_valume_map m)(i := None)\<rparr>"

definition search_item :: "64 word \<Rightarrow> 'a IdMapper \<Rightarrow> 'a option" where
  "search_item i m = id_valume_map m i"

datatype 'a id_op = Emplace 'a | Delete "64 word"

fun id_apply :: "'a id_op \<Rightarrow> 'a IdMapper \<Rightarrow> 'a IdMapper" where
  "id_apply (Emplace x) m = snd (emplace_item x m)"
| "id_apply (Delete i) m = delete_item i m"

definition emplaced :: "'a id_op list \<Rightarrow> nat" where
  "emplaced ops = length (filter (\<lambda>op. case op of Emplace _ \<Rightarrow> True | Delete _ \<Rightarrow> False) ops)"

section \<open>The cache implements it\<close>

definition LRU_inv :: "nat \<Rightarrow> 'v LRU \<Rightarrow> bool" where
  "LRU_inv cap c \<longleftrightarrow>
     distinct (map fst (m_list c)) \<and> distinct (map snd (m_list c)) \<and>
     (\<forall>v i. m_map c v = Some i \<longleftrightarrow> (i, v) \<in> set (m_list c)) \<and>
     (\<forall>i\<in>fst ` set (m_list c). i < fresh_node c) \<and>
     length (m_list c) \<le> cap \<and> capacity c = of_nat cap"

definition LRU_rel :: "nat \<Rightarrow> 'v LRU \<Rightarrow> 'v recency \<Rightarrow> bool" where
  "LRU_rel cap c a \<longleftrightarrow> LRU_inv cap c \<and> dom (used a) = snd ` set (m_list c) \<and>
     sorted_wrt (\<lambda>x y. the (used a y) < the (used a x)) (map snd (m_list c)) \<and>
     (\<forall>v\<in>dom (used a). the (used a v) < clock a)"

lemma full_iff:
  assumes "length (m_list c) \<le> cap" "capacity c = of_nat cap" "cap < 2 ^ 31"
  shows "LRU_full c \<longleftrightarrow> length (m_list c) = cap"
proof -
  have "sint (of_nat cap :: 32 word) = int cap"
    using assms(3) by (simp add: signed_of_nat signed_take_bit_int_eq_self)
  then have "(scast (of_nat cap :: 32 word) :: 64 word) = of_nat cap"
    by (metis of_int_of_nat_eq of_int_sint)
  moreover have "(of_nat (length (m_list c)) :: 64 word) = of_nat cap \<longleftrightarrow> length (m_list c) = cap"
  proof -
    have "unat (of_nat (length (m_list c)) :: 64 word) = length (m_list c)" "unat (of_nat cap :: 64 word) = cap"
      using assms(1,3) by (simp_all add: unsigned_of_nat take_bit_nat_eq_self)
    then show ?thesis
      by metis
  qed
  ultimately show ?thesis
    by (simp add: LRU_full_def assms(2))
qed

text \<open>The value at the front has just been used; the others keep their order.\<close>

lemma sorted_touch:
  assumes "sorted_wrt (\<lambda>x y. the (used a y) < the (used a x)) vs" "v \<notin> set vs" "\<And>x. x \<in> set vs \<Longrightarrow> the (used a x) < clock a"
  shows "sorted_wrt (\<lambda>x y. the (used (touch v a) y) < the (used (touch v a) x)) (v # vs)"
proof -
  have "sorted_wrt (\<lambda>x y. the (used (touch v a) y) < the (used (touch v a) x)) vs"
    by (rule sorted_wrt_mono_rel [OF _ assms(1)]) (use assms(2) in \<open>auto simp: touch_def\<close>)
  with assms(2,3) show ?thesis
    by (auto simp: touch_def)
qed

lemma touch_front:
  assumes "LRU_inv cap (c\<lparr>m_list := (i, v) # l\<rparr>)" "dom (used a) - {v} = snd ` set l"
    "sorted_wrt (\<lambda>x y. the (used a y) < the (used a x)) (map snd l)" "\<forall>x\<in>dom (used a). the (used a x) < clock a"
  shows "LRU_rel cap (c\<lparr>m_list := (i, v) # l\<rparr>) (touch v a)"
proof -
  have v: "v \<notin> set (map snd l)"
    using assms(1) by (auto simp: LRU_inv_def)
  have u: "the (used a x) < clock a" if "x \<in> set (map snd l)" for x
    using that assms(2,4) by auto
  have "\<forall>x\<in>dom (used (touch v a)). the (used (touch v a) x) < clock (touch v a)"
    using assms(4) by (auto simp: touch_def intro: less_SucI)
  moreover have "dom (used (touch v a)) = insert v (snd ` set l)"
    using assms(2) by (auto simp: touch_def)
  ultimately show ?thesis
    using assms(1) sorted_touch [OF assms(3) v u] by (simp add: LRU_rel_def)
qed

lemma card_list: "LRU_rel cap c a \<Longrightarrow> card (dom (used a)) = length (m_list c)"
  using distinct_card [of "map snd (m_list c)"] by (simp add: LRU_rel_def LRU_inv_def)

text \<open>The last value of the list is the one whose last use is the oldest.\<close>

lemma oldest_last:
  assumes "LRU_rel cap c a" "m_list c \<noteq> []"
  shows "oldest a e \<longleftrightarrow> e = snd (last (m_list c))"
proof -
  let ?l = "map snd (m_list c)" and ?R = "\<lambda>x y. the (used a y) < the (used a x)"
  have l: "?l = butlast ?l @ [last ?l]"
    using assms(2) by simp
  have "sorted_wrt ?R (butlast ?l @ [last ?l])"
    using assms l by (simp add: LRU_rel_def)
  then have old: "the (used a (last ?l)) < the (used a x)" if "x \<in> set (butlast ?l)" for x
    using that by (simp add: sorted_wrt_append)
  have "dom (used a) = set (butlast ?l) \<union> {last ?l}"
    using assms(1) l by (metis LRU_rel_def Un_insert_right boolean_algebra.disj_zero_right list.set_map list.simps(15) set_append set_empty2)
  with old have "oldest a e \<longleftrightarrow> e = last ?l"
    unfolding oldest_def by (metis (no_types, lifting) Un_iff empty_iff insert_iff less_imp_le linorder_not_less order_refl)
  then show ?thesis
    using assms(2) by (simp add: last_map)
qed

lemma LRU_find_None: "LRU_rel cap c a \<Longrightarrow> m_map c v = None \<longleftrightarrow> v \<notin> dom (used a)"
  unfolding LRU_rel_def LRU_inv_def by (metis (no_types, lifting) imageE image_eqI not_Some_eq prod.collapse snd_conv)

lemma LRU_find_Some:
  assumes "LRU_rel cap c a" "m_map c v = Some i"
  shows "(i, v) \<in> set (m_list c)" "n \<in> set (m_list c) \<Longrightarrow> fst n = i \<longleftrightarrow> n = (i, v)" "n \<in> set (m_list c) \<Longrightarrow> snd n = v \<longleftrightarrow> n = (i, v)"
proof -
  show m: "(i, v) \<in> set (m_list c)"
    using assms by (simp add: LRU_rel_def LRU_inv_def)
  have "inj_on fst (set (m_list c))" "inj_on snd (set (m_list c))"
    using assms(1) by (simp_all add: LRU_rel_def LRU_inv_def distinct_map)
  then show "n \<in> set (m_list c) \<Longrightarrow> fst n = i \<longleftrightarrow> n = (i, v)" "n \<in> set (m_list c) \<Longrightarrow> snd n = v \<longleftrightarrow> n = (i, v)"
    using m inj_onD [of fst "set (m_list c)" n "(i, v)"] inj_onD [of snd "set (m_list c)" n "(i, v)"] by auto
qed

lemma sorted_map_filter:
  "sorted_wrt R (map f xs) \<Longrightarrow> sorted_wrt R (map f (filter P xs))"
  by (simp add: sorted_wrt_map sorted_wrt_filter)

lemma filter_inv:
  "LRU_inv cap c \<Longrightarrow> distinct (map fst (filter P (m_list c))) \<and> distinct (map snd (filter P (m_list c))) \<and> length (filter P (m_list c)) \<le> cap"
  using length_filter_le [of P "m_list c"] by (auto simp: LRU_inv_def distinct_map_filter simp del: length_filter_le)

lemma step_sim_remove:
  assumes "LRU_rel cap c a"
  shows "\<exists>c'. LRU_remove v c = Some c' \<and> LRU_rel cap c' (a\<lparr>used := (used a)(v := None)\<rparr>)"
proof (cases "m_map c v")
  case None
  then have "(used a)(v := None) = used a"
    using LRU_find_None [OF assms] by (auto simp: domIff)
  with None assms show ?thesis
    by (simp add: LRU_remove_def)
next
  case (Some i)
  note f = LRU_find_Some [OF assms Some]
  let ?l = "filter (\<lambda>n. fst n \<noteq> i) (m_list c)"
  have l: "set ?l = {n \<in> set (m_list c). snd n \<noteq> v}"
    using f(2,3) by auto
  have s: "sorted_wrt (\<lambda>x y. the (used a y) < the (used a x)) (map snd ?l)"
    using assms by (intro sorted_map_filter) (simp add: LRU_rel_def)
  have s': "sorted_wrt (\<lambda>x y. the (((used a)(v := None)) y) < the (((used a)(v := None)) x)) (map snd ?l)"
    by (rule sorted_wrt_mono_rel [OF _ s]) (use l in auto)
  have i: "LRU_inv cap (c\<lparr>m_list := ?l, m_map := (m_map c)(v := None)\<rparr>)"
    using assms l filter_inv [of cap c] by (auto simp: LRU_rel_def LRU_inv_def)
  have "dom ((used a)(v := None)) = snd ` set ?l" "\<forall>x\<in>dom ((used a)(v := None)). the (((used a)(v := None)) x) < clock a"
    using assms l by (auto simp: LRU_rel_def)
  then have "LRU_rel cap (c\<lparr>m_list := ?l, m_map := (m_map c)(v := None)\<rparr>) (a\<lparr>used := (used a)(v := None)\<rparr>)"
    unfolding LRU_rel_def using i s' by simp
  moreover have "i \<in> fst ` set (m_list c)"
    using f(1) by force
  ultimately show ?thesis
    using Some by (simp add: LRU_remove_def)
qed

lemma step_sim_access:
  assumes "LRU_rel cap c a"
  shows "\<exists>c'. LRU_access v c = Some c' \<and> LRU_rel cap c' (if v \<in> dom (used a) then touch v a else a)"
proof (cases "m_map c v")
  case None
  then have "v \<notin> dom (used a)"
    using LRU_find_None [OF assms] by blast
  with None assms show ?thesis
    by (simp add: LRU_access_def)
next
  case (Some i)
  note f = LRU_find_Some [OF assms Some]
  let ?l = "filter (\<lambda>n. fst n \<noteq> i) (m_list c)"
  have l: "set ?l = {n \<in> set (m_list c). snd n \<noteq> v}"
    using f(2,3) by auto
  have "length ?l < length (m_list c)"
    using f(1) by (intro length_filter_less) auto
  moreover have "(j, v) \<in> set (m_list c) \<longleftrightarrow> j = i" for j
    using f(1) f(3) [of "(j, v)"] by auto
  moreover have "i < fresh_node c"
    using assms f(1) by (force simp: LRU_rel_def LRU_inv_def)
  ultimately have "LRU_inv cap (c\<lparr>m_list := (i, v) # ?l\<rparr>)"
    using assms l f(1) filter_inv [of cap c] by (auto simp: LRU_rel_def LRU_inv_def)
  moreover have "dom (used a) - {v} = snd ` set ?l" "\<forall>x\<in>dom (used a). the (used a x) < clock a"
    using assms l by (auto simp: LRU_rel_def)
  moreover have "sorted_wrt (\<lambda>x y. the (used a y) < the (used a x)) (map snd ?l)"
    using assms by (intro sorted_map_filter) (simp add: LRU_rel_def)
  ultimately have "LRU_rel cap (c\<lparr>m_list := (i, v) # ?l\<rparr>) (touch v a)"
    by (intro touch_front)
  moreover have "i \<in> fst ` set (m_list c)" "v \<in> dom (used a)"
    using f(1) Some LRU_find_None [OF assms, of v] by force+
  ultimately show ?thesis
    using Some by (simp add: LRU_access_def)
qed

lemma emplace_sim:
  assumes "LRU_rel cap c a" "v \<notin> dom (used a)" "length (m_list c) < cap"
  shows "LRU_rel cap (LRU_emplace_front v c) (touch v a)"
proof -
  let ?c = "c\<lparr>m_map := (m_map c)(v \<mapsto> fresh_node c), fresh_node := Suc (fresh_node c)\<rparr>"
  have "(i, v) \<notin> set (m_list c)" for i
    using assms by (force simp: LRU_rel_def)
  then have "LRU_inv cap (?c\<lparr>m_list := (fresh_node c, v) # m_list c\<rparr>)"
    using assms by (auto simp: LRU_rel_def LRU_inv_def)
  then have "LRU_rel cap (?c\<lparr>m_list := (fresh_node c, v) # m_list c\<rparr>) (touch v a)"
    by (rule touch_front) (use assms in \<open>auto simp: LRU_rel_def\<close>)
  moreover have "?c\<lparr>m_list := (fresh_node c, v) # m_list c\<rparr> = LRU_emplace_front v c"
    by (cases c) (simp add: LRU_emplace_front_def)
  ultimately show ?thesis
    by simp
qed

lemma step_sim_add:
  assumes "LRU_rel cap c a" "v \<notin> dom (used a)" "length (m_list c) \<noteq> cap" "cap < 2 ^ 31"
  shows "LRU_add v c = Some (\<lparr>is_pop = False, pop_item = None\<rparr>, LRU_emplace_front v c)"
    "LRU_rel cap (LRU_emplace_front v c) (touch v a)"
proof -
  have c: "length (m_list c) \<le> cap" "capacity c = of_nat cap"
    using assms(1) by (simp_all add: LRU_rel_def LRU_inv_def)
  show "LRU_add v c = Some (\<lparr>is_pop = False, pop_item = None\<rparr>, LRU_emplace_front v c)"
    using full_iff [OF c assms(4)] assms(3) by (simp add: LRU_add_def)
  show "LRU_rel cap (LRU_emplace_front v c) (touch v a)"
    using c(1) assms by (intro emplace_sim) auto
qed

lemma butlast_filter: "distinct (map fst l) \<Longrightarrow> l \<noteq> [] \<Longrightarrow> butlast l = filter (\<lambda>n. fst n \<noteq> fst (last l)) l"
proof (induction l)
  case (Cons x l)
  then have "l \<noteq> [] \<Longrightarrow> fst x \<noteq> fst (last l)"
    by (metis distinct.simps(2) last_in_set list.set_map list.simps(9) image_eqI)
  with Cons show ?case
    by (cases "l = []") auto
qed simp

lemma step_sim_evict:
  assumes "LRU_rel cap c a" "v \<notin> dom (used a)" "length (m_list c) = cap" "cap < 2 ^ 31" "0 < cap" "oldest a e"
  shows "\<exists>c'. LRU_add v c = Some (\<lparr>is_pop = True, pop_item = Some e\<rparr>, c') \<and>
    LRU_rel cap c' (touch v (a\<lparr>used := (used a)(e := None)\<rparr>))"
proof -
  have c: "length (m_list c) \<le> cap" "capacity c = of_nat cap" "m_list c \<noteq> []" "distinct (map fst (m_list c))"
    using assms by (auto simp: LRU_rel_def LRU_inv_def)
  have e: "e = snd (last (m_list c))"
    using oldest_last [OF assms(1) c(3)] assms(6) by simp
  then have "(fst (last (m_list c)), e) \<in> set (m_list c)"
    using c(3) by simp
  then have m: "m_map c e = Some (fst (last (m_list c)))"
    using assms(1) by (simp add: LRU_rel_def LRU_inv_def)
  let ?c = "c\<lparr>m_list := butlast (m_list c), m_map := (m_map c)(e := None)\<rparr>"
  have "LRU_remove e c = Some ?c"
    using m c(3) butlast_filter [OF c(4,3)] by (simp add: LRU_remove_def)
  then have "LRU_rel cap ?c (a\<lparr>used := (used a)(e := None)\<rparr>)"
    using step_sim_remove [OF assms(1), of e] by simp
  then have "LRU_rel cap (LRU_emplace_front v ?c) (touch v (a\<lparr>used := (used a)(e := None)\<rparr>))"
    using assms(2,3,5) by (intro emplace_sim) auto
  then show ?thesis
    using full_iff [OF c(1,2) assms(4)] assms(3) c(3) e by (simp add: LRU_add_def Let_def)
qed

lemma step_sim:
  assumes "lru_step cap a op out a'" "LRU_rel cap c a" "0 < cap" "cap < 2 ^ 31"
  shows "\<exists>c'. LRU_op op c = Some (out, c') \<and> LRU_rel cap c' a'"
  using assms(1)
proof cases
  case (step_add v)
  then show ?thesis
    using step_sim_add [OF assms(2) _ _ assms(4), of v] card_list [OF assms(2)] by auto
next
  case (step_evict e v)
  then have "length (m_list c) = cap"
    using card_list [OF assms(2)] by simp
  then obtain c' where "LRU_add v c = Some (\<lparr>is_pop = True, pop_item = Some e\<rparr>, c')" "LRU_rel cap c' a'"
    using step_sim_evict [OF assms(2) step_evict(6) _ assms(4,3) step_evict(5)] step_evict(3) by blast
  then show ?thesis
    using step_evict(1,2) by simp
next
  case (step_access v)
  then show ?thesis
    using step_sim_access [OF assms(2), of v] by auto
next
  case (step_miss v)
  then show ?thesis
    using step_sim_access [OF assms(2), of v] by auto
next
  case (step_remove v)
  then show ?thesis
    using step_sim_remove [OF assms(2), of v] by auto
qed

lemma run_sim:
  assumes "0 < cap" "cap < 2 ^ 31"
  shows "lru_run cap a ops outs a' \<Longrightarrow> LRU_rel cap c a \<Longrightarrow> \<exists>c'. LRU_run ops c = Some (outs, c') \<and> LRU_rel cap c' a'"
proof (induction arbitrary: c rule: lru_run.induct)
  case (run_step a op out a' ops outs a'')
  then show ?case
    using step_sim [OF run_step(1) run_step.prems assms] by fastforce
qed simp

lemma init_rel: "LRU_rel cap (LRU_init (of_nat cap)) \<lparr>used = Map.empty, clock = 0\<rparr>"
  by (simp add: LRU_rel_def LRU_inv_def LRU_init_def)

text \<open>
  C12: the cache implements least recently used replacement.  For every sequence of operations in
  which no value is added that is already cached, the list and the hash table give the
  same evictions as the specification that remembers the time of the last use and forgets the value
  used longest ago; no operation touches a node that is gone, and in the end the cache holds
  exactly the values of the specification, the most recently used first, and never more than its
  capacity.
\<close>

theorem lru_refines:
  assumes "0 < cap" "cap < 2 ^ 31" "lru_run cap \<lparr>used = Map.empty, clock = 0\<rparr> ops outs a"
  shows "\<exists>c. LRU_run ops (LRU_init (of_nat cap)) = Some (outs, c) \<and> snd ` set (m_list c) = dom (used a) \<and>
    sorted_wrt (\<lambda>v w. the (used a w) < the (used a v)) (map snd (m_list c)) \<and> length (m_list c) \<le> cap"
  using run_sim [OF assms init_rel] by (auto simp: LRU_rel_def LRU_inv_def)

theorem lru_refines_witness:
  "\<exists>c. LRU_run [Add ''a'', Add ''b'', Access ''a'', Add ''c''] (LRU_init 2) = Some ([None, None, None, Some ''b''], c) \<and>
     snd ` set (m_list c) = {''a'', ''c''} \<and> length (m_list c) \<le> 2"
proof -
  let ?a = "\<lparr>used = [''a'' \<mapsto> 2, ''c'' \<mapsto> 3], clock = 4\<rparr>"
  have o: "oldest \<lparr>used = [''a'' \<mapsto> 2, ''b'' \<mapsto> 1], clock = 3\<rparr> ''b''"
    by (simp add: oldest_def)
  have e: "touch ''c'' (\<lparr>used = [''a'' \<mapsto> 2, ''b'' \<mapsto> 1], clock = 3\<rparr>\<lparr>used := [''a'' \<mapsto> 2, ''b'' \<mapsto> 1](''b'' := None)\<rparr>) = ?a"
    by (simp add: touch_def fun_eq_iff)
  have t: "touch ''a'' \<lparr>used = [''a'' \<mapsto> 0, ''b'' \<mapsto> 1], clock = 2\<rparr> = \<lparr>used = [''a'' \<mapsto> 2, ''b'' \<mapsto> 1], clock = 3\<rparr>"
    by (simp add: touch_def fun_eq_iff)
  have s4: "lru_step 2 \<lparr>used = [''a'' \<mapsto> 2, ''b'' \<mapsto> 1], clock = 3\<rparr> (Add ''c'') (Some ''b'') ?a"
    using step_evict [OF _ o, of 2 "''c''"] e by simp
  have s3: "lru_step 2 \<lparr>used = [''a'' \<mapsto> 0, ''b'' \<mapsto> 1], clock = 2\<rparr> (Access ''a'') None \<lparr>used = [''a'' \<mapsto> 2, ''b'' \<mapsto> 1], clock = 3\<rparr>"
    using step_access [of "''a''" "\<lparr>used = [''a'' \<mapsto> 0, ''b'' \<mapsto> 1], clock = 2\<rparr>" 2] t by simp
  have s2: "lru_step 2 \<lparr>used = [''a'' \<mapsto> 0], clock = 1\<rparr> (Add ''b'') None \<lparr>used = [''a'' \<mapsto> 0, ''b'' \<mapsto> 1], clock = 2\<rparr>"
    using step_add [of "\<lparr>used = [''a'' \<mapsto> 0], clock = 1\<rparr>" 2 "''b''"] by (simp add: touch_def numeral_2_eq_2)
  have s1: "lru_step 2 \<lparr>used = Map.empty, clock = 0\<rparr> (Add ''a'') None \<lparr>used = [''a'' \<mapsto> 0], clock = 1\<rparr>"
    using step_add [of "\<lparr>used = Map.empty, clock = 0\<rparr>" 2 "''a''"] by (simp add: touch_def)
  have "lru_run 2 \<lparr>used = Map.empty, clock = 0\<rparr> [Add ''a'', Add ''b'', Access ''a'', Add ''c''] [None, None, None, Some ''b''] ?a"
    by (intro run_step [OF s1] run_step [OF s2] run_step [OF s3] run_step [OF s4] run_done)
  then obtain c where "LRU_run [Add ''a'', Add ''b'', Access ''a'', Add ''c''] (LRU_init (of_nat 2)) = Some ([None, None, None, Some ''b''], c)"
      "snd ` set (m_list c) = dom (used ?a)" "length (m_list c) \<le> 2"
    using lru_refines [of 2 "[Add ''a'', Add ''b'', Access ''a'', Add ''c'']" "[None, None, None, Some ''b'']" ?a] by (simp del: LRU_run.simps) blast
  moreover have "dom (used ?a) = {''a'', ''c''}"
    by auto
  ultimately show ?thesis
    by (intro exI [of _ c]) (simp del: LRU_run.simps)
qed

text \<open>The specification can take every operation but adding what is there.\<close>

lemma oldest_exists: "finite (dom (used a)) \<Longrightarrow> dom (used a) \<noteq> {} \<Longrightarrow> \<exists>e. oldest a e"
  using ex_is_arg_min_if_finite [of "dom (used a)" "\<lambda>v. the (used a v)"]
  unfolding oldest_def is_arg_min_def by (metis linorder_not_less)

lemma touch_dom [simp]: "dom (used (touch v a)) = insert v (dom (used a))"
  by (simp add: touch_def)

lemma step_total:
  assumes "finite (dom (used a))" "card (dom (used a)) \<le> cap" "0 < cap" "\<And>v. op = Add v \<Longrightarrow> v \<notin> dom (used a)"
  shows "\<exists>out a'. lru_step cap a op out a' \<and> finite (dom (used a')) \<and> card (dom (used a')) \<le> cap"
proof (cases op)
  case (Add v)
  then have v: "v \<notin> dom (used a)"
    using assms(4) by blast
  show ?thesis
  proof (cases "card (dom (used a)) = cap")
    case True
    then have "dom (used a) \<noteq> {}"
      using assms(3) by auto
    then obtain e where e: "oldest a e"
      using oldest_exists assms(1) by blast
    then have "card (insert v (dom (used a) - {e})) \<le> cap"
      using assms(1,3) True v by (simp add: oldest_def card_insert_if)
    then show ?thesis
      using step_evict [OF True e v] assms(1) Add by (intro exI [of _ "Some e"] exI [of _ "touch v (a\<lparr>used := (used a)(e := None)\<rparr>)"]) simp
  next
    case False
    then show ?thesis
      using step_add [of a cap v] v assms(1,2) Add by (intro exI [of _ None] exI [of _ "touch v a"]) (simp add: card_insert_if)
  qed
next
  case (Access v)
  show ?thesis
  proof (cases "v \<in> dom (used a)")
    case True
    then show ?thesis
      using step_access [of v a cap] assms Access by (intro exI [of _ None] exI [of _ "touch v a"]) (simp add: insert_absorb)
  next
    case False
    then show ?thesis
      using step_miss [of v a cap] assms Access by blast
  qed
next
  case (Remove v)
  have "card (dom (used a) - {v}) \<le> cap"
    using assms(1,2) by (meson card_Diff1_le le_trans)
  then show ?thesis
    using step_remove [of cap a v] assms(1) Remove by (intro exI [of _ None] exI [of _ "a\<lparr>used := (used a)(v := None)\<rparr>"]) simp
qed

text \<open>
  Adding a value that is already cached breaks the cache: the list holds it twice, and when the
  older copy is evicted the entry of the live copy goes from the hash table, so the value is still
  in the list and can neither be accessed nor removed.
\<close>

theorem lru_duplicate_lost:
  "\<exists>c. LRU_run [Add v, Add v, Add w] (LRU_init 2) = Some ([None, None, Some v], c) \<and>
     v \<in> snd ` set (m_list c) \<and> LRU_access v c = Some c \<and> LRU_remove v c = Some c"
  if "v \<noteq> w"
  using that by (simp add: LRU_init_def LRU_add_def LRU_full_def LRU_emplace_front_def LRU_access_def LRU_remove_def Let_def)

theorem lru_duplicate_lost_witness:
  "\<exists>c. LRU_run [Add ''a'', Add ''a'', Add ''b''] (LRU_init 2) = Some ([None, None, Some ''a''], c) \<and>
     ''a'' \<in> snd ` set (m_list c) \<and> LRU_access ''a'' c = Some c \<and> LRU_remove ''a'' c = Some c"
  by (rule lru_duplicate_lost) simp

section \<open>Identifiers are fresh while the counter fits the result\<close>

definition id_inv :: "nat \<Rightarrow> 'a IdMapper \<Rightarrow> bool" where
  "id_inv n m \<longleftrightarrow> n < 2 ^ 32 \<and> unat (use_id m) = n \<and> \<not> over_limit m \<and>
     (\<forall>i x. id_valume_map m i = Some x \<longrightarrow> 0 < i \<and> i \<le> use_id m)"

lemma unat_use_id_add: "unat (i :: 64 word) < 2 ^ 32 \<Longrightarrow> unat (i + 1) = Suc (unat i)"
  by (subst unat_add_lem [THEN iffD1]) auto

lemma emplace_item_inv:
  assumes "id_inv n m" "Suc n < 2 ^ 32"
  shows "id_inv (Suc n) (snd (emplace_item x m))"
    "unat (fst (emplace_item x m)) = Suc n"
    "id_valume_map m (ucast (fst (emplace_item x m))) = None"
    "id_valume_map (snd (emplace_item x m)) = (id_valume_map m)(ucast (fst (emplace_item x m)) \<mapsto> x)"
proof -
  let ?i = "use_id m + 1"
  have i: "unat ?i = Suc n"
    using assms unat_use_id_add [of "use_id m"] by (simp add: id_inv_def)
  then have f: "id_valume_map m ?i = None"
    using assms by (cases "id_valume_map m ?i") (force simp: id_inv_def word_le_nat_alt)+
  have o: "?i \<noteq> - 1"
  proof
    assume "?i = - 1"
    then have "unat ?i = 2 ^ 64 - 1"
      by (simp only: unsigned_minus_1_eq_mask mask_eq_exp_minus_1) simp
    with i assms(2) show False
      by simp
  qed
  have u: "(ucast (ucast ?i :: 32 word) :: 64 word) = ?i"
    using i assms(2) by (intro word_unat_eq_iff [THEN iffD2]) (simp add: unsigned_ucast_eq take_bit_nat_eq_self unsigned_take_bit_eq)
  have "j \<le> ?i" if "j \<le> use_id m" for j
    using that i assms(1) by (simp add: id_inv_def word_le_nat_alt)
  moreover have "0 < ?i"
    using i by (simp add: word_less_nat_alt)
  ultimately show "id_inv (Suc n) (snd (emplace_item x m))"
    using assms i o f by (auto simp: emplace_item_def id_inv_def Let_def map_emplace_def)
  show "unat (fst (emplace_item x m)) = Suc n"
    using assms i by (simp add: emplace_item_def id_inv_def Let_def unsigned_ucast_eq unsigned_take_bit_eq take_bit_nat_eq_self)
  show "id_valume_map m (ucast (fst (emplace_item x m))) = None"
    "id_valume_map (snd (emplace_item x m)) = (id_valume_map m)(ucast (fst (emplace_item x m)) \<mapsto> x)"
    using assms(1) f u by (simp_all add: emplace_item_def id_inv_def Let_def map_emplace_def)
qed

text \<open>An item is found under its identifier until the identifier is deleted, whatever else is done.\<close>

lemma id_ops_inv:
  "id_inv n m \<Longrightarrow> n + emplaced ops < 2 ^ 32 \<Longrightarrow> id_inv (n + emplaced ops) (fold id_apply ops m)"
proof (induction ops arbitrary: n m)
  case (Cons op ops)
  show ?case
  proof (cases op)
    case (Emplace x)
    with Cons.prems emplace_item_inv(1) [of n m x] have "id_inv (Suc n) (id_apply op m)"
      by (simp add: emplaced_def)
    with Cons.IH [of "Suc n" "id_apply op m"] Cons.prems(2) Emplace show ?thesis
      by (simp add: emplaced_def)
  next
    case (Delete i)
    with Cons.prems have "id_inv n (id_apply op m)"
      by (auto simp: id_inv_def delete_item_def)
    with Cons.IH [of n "id_apply op m"] Cons.prems(2) Delete show ?thesis
      by (simp add: emplaced_def)
  qed
qed (simp add: emplaced_def)

lemma id_keeps:
  "id_inv n m \<Longrightarrow> n + emplaced ops < 2 ^ 32 \<Longrightarrow> Delete i \<notin> set ops \<Longrightarrow> search_item i m = Some x \<Longrightarrow>
    search_item i (fold id_apply ops m) = Some x"
proof (induction ops arbitrary: n m)
  case (Cons op ops)
  show ?case
  proof (cases op)
    case (Emplace y)
    note e = emplace_item_inv [of n m y]
    have "id_inv (Suc n) (id_apply op m)" "search_item i (id_apply op m) = Some x"
      using Cons.prems e Emplace by (auto simp: emplaced_def search_item_def)
    with Cons.IH [of "Suc n" "id_apply op m"] Cons.prems Emplace show ?thesis
      by (simp add: emplaced_def)
  next
    case (Delete j)
    then have "id_inv n (id_apply op m)" "search_item i (id_apply op m) = Some x"
      using Cons.prems by (auto simp: id_inv_def delete_item_def search_item_def)
    with Cons.IH [of n "id_apply op m"] Cons.prems Delete show ?thesis
      by (simp add: emplaced_def)
  qed
qed simp

lemma id_init_inv: "id_inv 0 IdMapper_init"
  by (simp add: id_inv_def IdMapper_init_def)

text \<open>
  C25: in a mapper that has handed out fewer than \<open>2\<^sup>3\<^sup>2 - 1\<close> identifiers, the next item gets an
  identifier that is not zero and was not in use, and it is found under this identifier after any
  further operations that do not delete it.
\<close>

theorem id_round_trip:
  assumes "emplaced ops + emplaced ops' < 2 ^ 32 - 1" "emplace_item x (fold id_apply ops IdMapper_init) = (i, m)"
    "Delete (ucast i) \<notin> set ops'"
  shows "i \<noteq> 0 \<and> search_item (ucast i) (fold id_apply ops IdMapper_init) = None \<and>
    search_item (ucast i) (fold id_apply ops' m) = Some x"
proof -
  let ?m = "fold id_apply ops IdMapper_init" and ?n = "emplaced ops"
  have n: "id_inv ?n ?m"
    using id_ops_inv [OF id_init_inv, of ops] assms(1) by simp
  have e: "Suc ?n < 2 ^ 32" "Suc ?n + emplaced ops' < 2 ^ 32"
    using assms(1) by simp_all
  note e' = emplace_item_inv [OF n e(1), of x, unfolded assms(2), simplified]
  have "search_item (ucast i) m = Some x"
    using e'(4) by (simp add: search_item_def)
  then have "search_item (ucast i) (fold id_apply ops' m) = Some x"
    by (rule id_keeps [OF e'(1) e(2) assms(3)])
  moreover have "i \<noteq> 0"
    using e'(2) by auto
  ultimately show ?thesis
    using e'(3) by (simp add: search_item_def)
qed

theorem id_round_trip_witness:
  "(2 :: 32 word) \<noteq> 0 \<and> search_item (ucast (2 :: 32 word)) (fold id_apply [Emplace ''a''] IdMapper_init) = None \<and>
    search_item (ucast (2 :: 32 word)) (fold id_apply [Delete 1, Emplace ''c''] (snd (emplace_item ''b'' (fold id_apply [Emplace ''a''] IdMapper_init)))) = Some ''b''"
  by (rule id_round_trip [of "[Emplace ''a'']"])
    (simp_all add: emplaced_def emplace_item_def IdMapper_init_def Let_def)

text \<open>
  The identifier is counted in 64 bits and returned in 32.  When the counter reaches \<open>2\<^sup>3\<^sup>2\<close> the item
  is stored and the caller is told 0, which stands for a full table; the item after it is announced
  under identifier 1, which belongs to another item.
\<close>

theorem id_truncated:
  assumes "use_id m = 2 ^ 32 - 1" "\<not> over_limit m" "id_valume_map m (2 ^ 32) = None" "emplace_item x m = (i, m')" "emplace_item y m' = (j, m'')"
  shows "i = 0 \<and> search_item (2 ^ 32) m' = Some x \<and> j = 1 \<and> search_item (ucast j) m'' = search_item 1 m"
  using assms by (auto simp: emplace_item_def search_item_def Let_def map_emplace_def)

theorem id_truncated_witness:
  "fst (emplace_item ''x'' \<lparr>use_id = 2 ^ 32 - 1, over_limit = False, id_valume_map = [1 \<mapsto> ''a'']\<rparr>) = 0 \<and>
   search_item (ucast (fst (emplace_item ''y'' (snd (emplace_item ''x'' \<lparr>use_id = 2 ^ 32 - 1, over_limit = False, id_valume_map = [1 \<mapsto> ''a'']\<rparr>)))))
     (snd (emplace_item ''y'' (snd (emplace_item ''x'' \<lparr>use_id = 2 ^ 32 - 1, over_limit = False, id_valume_map = [1 \<mapsto> ''a'']\<rparr>)))) = Some ''a''"
  using id_truncated [of "\<lparr>use_id = 2 ^ 32 - 1, over_limit = False, id_valume_map = [1 \<mapsto> ''a'']\<rparr>" "''x''" _ _ "''y''", OF _ _ _ prod.collapse [symmetric] prod.collapse [symmetric]]
  by (auto simp: search_item_def)

end
