(* ===== verification/City_Hash.thy ===== *)
theory City_Hash
  imports Dnfs_Prelude "HOL-Library.Monad_Syntax"
begin

unbundle bit_operations_syntax

text \<open>
  The hash functions of \<open>src/utils/city_hash.cpp\<close> and \<open>include/utils/city_hash.h\<close>, on a
  little-endian machine.  The string is the block of memory it is in; a pointer into it is an
  offset, and a read that leaves the block is \<open>None\<close>.  Lengths are \<open>size_t\<close>, that is words of
  64 bits.  The loops are written as they are, without a bound of their own: \<open>None\<close> also stands for a loop that
  does not end.
\<close>

type_synonym uint128 = "uint64 \<times> uint64"

section \<open>Reading the string\<close>

definition char_at :: "byte list \<Rightarrow> int \<Rightarrow> byte option" where
  "char_at m p = (if 0 \<le> p \<and> p < int (length m) then Some (m ! nat p) else None)"

primrec le_word :: "byte list \<Rightarrow> 'a::len word" where
  "le_word [] = 0"
| "le_word (b # bs) = ucast b OR push_bit 8 (le_word bs)"

definition Fetch64 :: "byte list \<Rightarrow> int \<Rightarrow> uint64 option" where
  "Fetch64 m p = (if 0 \<le> p \<and> p + 8 \<le> int (length m) then Some (le_word (take 8 (drop (nat p) m))) else None)"

definition Fetch32 :: "byte list \<Rightarrow> int \<Rightarrow> 32 word option" where
  "Fetch32 m p = (if 0 \<le> p \<and> p + 4 \<le> int (length m) then Some (le_word (take 4 (drop (nat p) m))) else None)"

definition bswap_32 :: "32 word \<Rightarrow> 32 word" where
  "bswap_32 x = drop_bit 24 x OR (drop_bit 8 x AND 0xff00) OR (push_bit 8 x AND 0xff0000) OR push_bit 24 x"

definition bswap_64 :: "uint64 \<Rightarrow> uint64" where
  "bswap_64 x = push_bit 32 (ucast (bswap_32 (ucast x))) OR ucast (bswap_32 (ucast (drop_bit 32 x)))"

definition k0 :: uint64 where "k0 = 0xc3a5c85c97cb3127"
definition k1 :: uint64 where "k1 = 0xb492b66fbe98f273"
definition k2 :: uint64 where "k2 = 0x9ae16a3b2f90404f"
definition c1 :: "32 word" where "c1 = 0xcc9e2d51"
definition c2 :: "32 word" where "c2 = 0x1b873593"
definition kMul :: uint64 where "kMul = 0x9ddfea08eb382d69"

section \<open>Thirty-two bits\<close>

definition fmix :: "32 word \<Rightarrow> 32 word" where
  "fmix h =
     (let h = h XOR drop_bit 16 h;
          h = h * 0x85ebca6b;
          h = h XOR drop_bit 13 h;
          h = h * 0xc2b2ae35 in
      h XOR drop_bit 16 h)"

definition Rotate32 :: "32 word \<Rightarrow> nat \<Rightarrow> 32 word" where
  "Rotate32 val shift = (if shift = 0 then val else drop_bit shift val OR push_bit (32 - shift) val)"

definition Mur :: "32 word \<Rightarrow> 32 word \<Rightarrow> 32 word" where
  "Mur a h =
     (let a = a * c1;
          a = Rotate32 a 17;
          a = a * c2;
          h = h XOR a;
          h = Rotate32 h 19 in
      h * 5 + 0xe6546b64)"

definition Hash32Len13to24 :: "byte list \<Rightarrow> int \<Rightarrow> uint64 \<Rightarrow> 32 word option" where
  "Hash32Len13to24 m s len = do {
     a \<leftarrow> Fetch32 m (s - 4 + uint (drop_bit 1 len));
     b \<leftarrow> Fetch32 m (s + 4);
     c \<leftarrow> Fetch32 m (s + uint len - 8);
     d \<leftarrow> Fetch32 m (s + uint (drop_bit 1 len));
     e \<leftarrow> Fetch32 m s;
     f \<leftarrow> Fetch32 m (s + uint len - 4);
     let h = ucast len;
     Some (fmix (Mur f (Mur e (Mur d (Mur c (Mur b (Mur a h)))))))
   }"

primrec hash32_bytes :: "byte list \<Rightarrow> int \<Rightarrow> nat \<Rightarrow> 32 word \<Rightarrow> 32 word \<Rightarrow> (32 word \<times> 32 word) option" where
  "hash32_bytes m s 0 b c = Some (b, c)"
| "hash32_bytes m s (Suc n) b c = do {
     v \<leftarrow> char_at m s;
     let b = b * c1 + scast v;
     let c = c XOR b;
     hash32_bytes m (s + 1) n b c
   }"

definition Hash32Len0to4 :: "byte list \<Rightarrow> int \<Rightarrow> uint64 \<Rightarrow> 32 word option" where
  "Hash32Len0to4 m s len = do {
     (b, c) \<leftarrow> hash32_bytes m s (unat len) 0 9;
     Some (fmix (Mur b (Mur (ucast len) c)))
   }"

definition Hash32Len5to12 :: "byte list \<Rightarrow> int \<Rightarrow> uint64 \<Rightarrow> 32 word option" where
  "Hash32Len5to12 m s len = do {
     let a = ucast len; let b = a * 5; let c = 9; let d = b;
     x \<leftarrow> Fetch32 m s;
     let a = a + x;
     y \<leftarrow> Fetch32 m (s + uint len - 4);
     let b = b + y;
     z \<leftarrow> Fetch32 m (s + uint (drop_bit 1 len AND 4));
     let c = c + z;
     Some (fmix (Mur c (Mur b (Mur a d))))
   }"

text \<open>The steps that the long hash of 32 bits repeats.\<close>

definition mix32 :: "32 word \<Rightarrow> nat \<Rightarrow> 32 word" where
  "mix32 h r = Rotate32 h r * 5 + 0xe6546b64"

definition scramble :: "32 word \<Rightarrow> 32 word" where
  "scramble x = Rotate32 (x * c1) 17 * c2"

text \<open>\<open>PERMUTE3\<close> swaps the first two values, then the first and the third.\<close>

definition PERMUTE3 :: "'a \<times> 'a \<times> 'a \<Rightarrow> 'a \<times> 'a \<times> 'a" where
  "PERMUTE3 = (\<lambda>(a, b, c). (c, a, b))"

definition city32_round :: "byte list \<Rightarrow> int \<Rightarrow> 32 word \<times> 32 word \<times> 32 word \<Rightarrow> (32 word \<times> 32 word \<times> 32 word) option" where
  "city32_round m s = (\<lambda>(h, g, f). do {
     x0 \<leftarrow> Fetch32 m s;
     let a0 = scramble x0;
     a1 \<leftarrow> Fetch32 m (s + 4);
     x2 \<leftarrow> Fetch32 m (s + 8);
     let a2 = scramble x2;
     x3 \<leftarrow> Fetch32 m (s + 12);
     let a3 = scramble x3;
     a4 \<leftarrow> Fetch32 m (s + 16);
     let h = mix32 (h XOR a0) 18;
     let f = f + a1;
     let f = Rotate32 f 19;
     let f = f * c1;
     let g = mix32 (g + a2) 18;
     let h = mix32 (h XOR (a3 + a1)) 19;
     let g = g XOR a4;
     let g = bswap_32 g * 5;
     let h = h + a4 * 5;
     let h = bswap_32 h;
     let f = f + a0;
     let (f, h, g) = PERMUTE3 (f, h, g);
     Some (h, g, f)
   })"

text \<open>\<open>do ... while (--iters != 0)\<close> with \<open>s += 20\<close>.\<close>

partial_function (option) city32_loop ::
  "byte list \<Rightarrow> int \<Rightarrow> uint64 \<Rightarrow> 32 word \<times> 32 word \<times> 32 word \<Rightarrow> (32 word \<times> 32 word \<times> 32 word) option" where
  "city32_loop m s iters st = do {
     st \<leftarrow> city32_round m s st;
     if iters - 1 \<noteq> 0 then city32_loop m (s + 20) (iters - 1) st else Some st
   }"

definition CityHash32 :: "byte list \<Rightarrow> int \<Rightarrow> uint64 \<Rightarrow> 32 word option" where
  "CityHash32 m s len =
     (if len \<le> 24
      then (if len \<le> 12 then (if len \<le> 4 then Hash32Len0to4 m s len else Hash32Len5to12 m s len)
            else Hash32Len13to24 m s len)
      else do {
        let h = ucast len; let g = c1 * h; let f = g;
        x0 \<leftarrow> Fetch32 m (s + uint len - 4); let a0 = scramble x0;
        x1 \<leftarrow> Fetch32 m (s + uint len - 8); let a1 = scramble x1;
        x2 \<leftarrow> Fetch32 m (s + uint len - 16); let a2 = scramble x2;
        x3 \<leftarrow> Fetch32 m (s + uint len - 12); let a3 = scramble x3;
        x4 \<leftarrow> Fetch32 m (s + uint len - 20); let a4 = scramble x4;
        let h = mix32 (h XOR a0) 19;
        let h = mix32 (h XOR a2) 19;
        let g = mix32 (g XOR a1) 19;
        let g = mix32 (g XOR a3) 19;
        let f = mix32 (f + a4) 19;
        (h, g, f) \<leftarrow> city32_loop m s ((len - 1) div 20) (h, g, f);
        let g = Rotate32 g 11 * c1;
        let g = Rotate32 g 17 * c1;
        let f = Rotate32 f 11 * c1;
        let f = Rotate32 f 17 * c1;
        let h = mix32 (h + g) 19;
        let h = Rotate32 h 17 * c1;
        let h = mix32 (h + f) 19;
        let h = Rotate32 h 17 * c1;
        Some h
      })"

section \<open>Sixty-four bits\<close>

definition Rotate :: "uint64 \<Rightarrow> nat \<Rightarrow> uint64" where
  "Rotate val shift = (if shift = 0 then val else drop_bit shift val OR push_bit (64 - shift) val)"

definition ShiftMix :: "uint64 \<Rightarrow> uint64" where
  "ShiftMix val = val XOR drop_bit 47 val"

definition Hash128to64 :: "uint128 \<Rightarrow> uint64" where
  "Hash128to64 x =
     (let a = (fst x XOR snd x) * kMul;
          a = a XOR drop_bit 47 a;
          b = (snd x XOR a) * kMul;
          b = b XOR drop_bit 47 b in
      b * kMul)"

definition HashLen16 :: "uint64 \<Rightarrow> uint64 \<Rightarrow> uint64" where
  "HashLen16 u v = Hash128to64 (u, v)"

definition HashLen16_mul :: "uint64 \<Rightarrow> uint64 \<Rightarrow> uint64 \<Rightarrow> uint64" where
  "HashLen16_mul u v mul =
     (let a = (u XOR v) * mul;
          a = a XOR drop_bit 47 a;
          b = (v XOR a) * mul;
          b = b XOR drop_bit 47 b in
      b * mul)"

definition HashLen0to16 :: "byte list \<Rightarrow> int \<Rightarrow> uint64 \<Rightarrow> uint64 option" where
  "HashLen0to16 m s len =
     (if len \<ge> 8 then do {
        let mul = k2 + len * 2;
        x \<leftarrow> Fetch64 m s;
        let a = x + k2;
        b \<leftarrow> Fetch64 m (s + uint len - 8);
        let c = Rotate b 37 * mul + a;
        let d = (Rotate a 25 + b) * mul;
        Some (HashLen16_mul c d mul)
      } else if len \<ge> 4 then do {
        let mul = k2 + len * 2;
        x \<leftarrow> Fetch32 m s;
        let a = (ucast x :: uint64);
        y \<leftarrow> Fetch32 m (s + uint len - 4);
        Some (HashLen16_mul (len + push_bit 3 a) (ucast y) mul)
      } else if len > 0 then do {
        a \<leftarrow> char_at m s;
        b \<leftarrow> char_at m (s + uint (drop_bit 1 len));
        c \<leftarrow> char_at m (s + uint len - 1);
        let y = (ucast a + push_bit 8 (ucast b) :: 32 word);
        let z = (ucast len + push_bit 2 (ucast c) :: 32 word);
        Some (ShiftMix ((ucast y * k2) XOR (ucast z * k0)) * k2)
      } else Some k2)"

definition HashLen17to32 :: "byte list \<Rightarrow> int \<Rightarrow> uint64 \<Rightarrow> uint64 option" where
  "HashLen17to32 m s len = do {
     let mul = k2 + len * 2;
     x \<leftarrow> Fetch64 m s;
     let a = x * k1;
     b \<leftarrow> Fetch64 m (s + 8);
     y \<leftarrow> Fetch64 m (s + uint len - 8);
     let c = y * mul;
     z \<leftarrow> Fetch64 m (s + uint len - 16);
     let d = z * k2;
     Some (HashLen16_mul (Rotate (a + b) 43 + Rotate c 30 + d) (a + Rotate (b + k2) 18 + c) mul)
   }"

definition weak_hash :: "uint64 \<Rightarrow> uint64 \<Rightarrow> uint64 \<Rightarrow> uint64 \<Rightarrow> uint64 \<Rightarrow> uint64 \<Rightarrow> uint128" where
  "weak_hash w x y z a b =
     (let a = a + w;
          b = Rotate (b + a + z) 21;
          c = a;
          a = a + x;
          a = a + y;
          b = b + Rotate a 44 in
      (a + z, b + c))"

definition WeakHashLen32WithSeeds :: "byte list \<Rightarrow> int \<Rightarrow> uint64 \<Rightarrow> uint64 \<Rightarrow> uint128 option" where
  "WeakHashLen32WithSeeds m s a b = do {
     w \<leftarrow> Fetch64 m s;
     x \<leftarrow> Fetch64 m (s + 8);
     y \<leftarrow> Fetch64 m (s + 16);
     z \<leftarrow> Fetch64 m (s + 24);
     Some (weak_hash w x y z a b)
   }"

definition HashLen33to64 :: "byte list \<Rightarrow> int \<Rightarrow> uint64 \<Rightarrow> uint64 option" where
  "HashLen33to64 m s len = do {
     let mul = k2 + len * 2;
     x \<leftarrow> Fetch64 m s; let a = x * k2;
     b \<leftarrow> Fetch64 m (s + 8);
     c \<leftarrow> Fetch64 m (s + uint len - 24);
     d \<leftarrow> Fetch64 m (s + uint len - 32);
     x \<leftarrow> Fetch64 m (s + 16); let e = x * k2;
     x \<leftarrow> Fetch64 m (s + 24); let f = x * 9;
     g \<leftarrow> Fetch64 m (s + uint len - 8);
     x \<leftarrow> Fetch64 m (s + uint len - 16); let h = x * mul;
     let u = Rotate (a + g) 43 + (Rotate b 30 + c) * 9;
     let v = ((a + g) XOR d) + f + 1;
     let w = bswap_64 ((u + v) * mul) + h;
     let x = Rotate (e + f) 42 + c;
     let y = (bswap_64 ((v + w) * mul) + g) * mul;
     let z = e + f + c;
     let a = bswap_64 ((x + z) * mul + y) + b;
     let b = ShiftMix ((z + a) * mul + d + h) * mul;
     Some (b + x)
   }"

text \<open>The 56 bytes of state of the long hashes.\<close>

record city_state =
  cx :: uint64
  cy :: uint64
  cz :: uint64
  cv :: uint128
  cw :: uint128

definition city64_round :: "byte list \<Rightarrow> int \<Rightarrow> city_state \<Rightarrow> city_state option" where
  "city64_round m s st = do {
     let x = cx st; let y = cy st; let z = cz st; let v = cv st; let w = cw st;
     f8 \<leftarrow> Fetch64 m (s + 8);
     let x = Rotate (x + y + fst v + f8) 37 * k1;
     f48 \<leftarrow> Fetch64 m (s + 48);
     let y = Rotate (y + snd v + f48) 42 * k1;
     let x = x XOR snd w;
     f40 \<leftarrow> Fetch64 m (s + 40);
     let y = y + (fst v + f40);
     let z = Rotate (z + fst w) 33 * k1;
     v \<leftarrow> WeakHashLen32WithSeeds m s (snd v * k1) (x + fst w);
     f16 \<leftarrow> Fetch64 m (s + 16);
     w \<leftarrow> WeakHashLen32WithSeeds m (s + 32) (z + snd w) (y + f16);
     Some \<lparr>cx = z, cy = y, cz = x, cv = v, cw = w\<rparr>
   }"

text \<open>\<open>s += 64; len -= 64\<close> while \<open>len != 0\<close>.\<close>

partial_function (option) city64_loop :: "byte list \<Rightarrow> int \<Rightarrow> uint64 \<Rightarrow> city_state \<Rightarrow> city_state option" where
  "city64_loop m s len st = do {
     st \<leftarrow> city64_round m s st;
     if len - 64 \<noteq> 0 then city64_loop m (s + 64) (len - 64) st else Some st
   }"

definition CityHash64 :: "byte list \<Rightarrow> int \<Rightarrow> uint64 \<Rightarrow> uint64 option" where
  "CityHash64 m s len =
     (if len \<le> 32 then (if len \<le> 16 then HashLen0to16 m s len else HashLen17to32 m s len)
      else if len \<le> 64 then HashLen33to64 m s len
      else do {
        x \<leftarrow> Fetch64 m (s + uint len - 40);
        y1 \<leftarrow> Fetch64 m (s + uint len - 16);
        y2 \<leftarrow> Fetch64 m (s + uint len - 56);
        let y = y1 + y2;
        z1 \<leftarrow> Fetch64 m (s + uint len - 48);
        z2 \<leftarrow> Fetch64 m (s + uint len - 24);
        let z = HashLen16 (z1 + len) z2;
        v \<leftarrow> WeakHashLen32WithSeeds m (s + uint len - 64) len z;
        w \<leftarrow> WeakHashLen32WithSeeds m (s + uint len - 32) (y + k1) x;
        f0 \<leftarrow> Fetch64 m s;
        let x = x * k1 + f0;
        st \<leftarrow> city64_loop m s ((len - 1) AND NOT 63) \<lparr>cx = x, cy = y, cz = z, cv = v, cw = w\<rparr>;
        Some (HashLen16 (HashLen16 (fst (cv st)) (fst (cw st)) + ShiftMix (cy st) * k1 + cz st)
                (HashLen16 (snd (cv st)) (snd (cw st)) + cx st))
      })"

definition CityHash64WithSeeds :: "byte list \<Rightarrow> int \<Rightarrow> uint64 \<Rightarrow> uint64 \<Rightarrow> uint64 \<Rightarrow> uint64 option" where
  "CityHash64WithSeeds m s len seed0 seed1 =
     map_option (\<lambda>h. HashLen16 (h - seed0) seed1) (CityHash64 m s len)"

definition CityHash64WithSeed :: "byte list \<Rightarrow> int \<Rightarrow> uint64 \<Rightarrow> uint64 \<Rightarrow> uint64 option" where
  "CityHash64WithSeed m s len seed = CityHash64WithSeeds m s len k2 seed"

section \<open>A hundred and twenty-eight bits\<close>

partial_function (option) murmur_loop ::
  "byte list \<Rightarrow> int \<Rightarrow> uint64 \<Rightarrow> uint64 \<times> uint64 \<times> uint64 \<times> uint64 \<Rightarrow> (uint64 \<times> uint64 \<times> uint64 \<times> uint64) option" where
  "murmur_loop m s len st = do {
     let (a, b, c, d) = st;
     x \<leftarrow> Fetch64 m s;
     let a = a XOR (ShiftMix (x * k1) * k1);
     let a = a * k1;
     let b = b XOR a;
     y \<leftarrow> Fetch64 m (s + 8);
     let c = c XOR (ShiftMix (y * k1) * k1);
     let c = c * k1;
     let d = d XOR c;
     if len - 16 > 16 then murmur_loop m (s + 16) (len - 16) (a, b, c, d) else Some (a, b, c, d)
   }"

definition CityMurmur :: "byte list \<Rightarrow> int \<Rightarrow> uint64 \<Rightarrow> uint128 \<Rightarrow> uint128 option" where
  "CityMurmur m s len seed = do {
     let a = fst seed; let b = snd seed;
     (a, b, c, d) \<leftarrow>
       (if len \<le> 16 then do {
          let a = ShiftMix (a * k1) * k1;
          h \<leftarrow> HashLen0to16 m s len;
          let c = b * k1 + h;
          x \<leftarrow> (if len \<ge> 8 then Fetch64 m s else Some c);
          let d = ShiftMix (a + x);
          Some (a, b, c, d)
        } else do {
          x \<leftarrow> Fetch64 m (s + uint len - 8);
          let c = HashLen16 (x + k1) a;
          y \<leftarrow> Fetch64 m (s + uint len - 16);
          let d = HashLen16 (b + len) (c + y);
          let a = a + d;
          murmur_loop m s len (a, b, c, d)
        });
     let a = HashLen16 a c;
     let b = HashLen16 d b;
     Some (a XOR b, HashLen16 b a)
   }"

text \<open>One turn of the loop, the inner loop of \<^const>\<open>CityHash64\<close> written out twice.\<close>

definition city128_round :: "byte list \<Rightarrow> int \<Rightarrow> city_state \<Rightarrow> city_state option" where
  "city128_round m s st = do {
     let x = cx st; let y = cy st; let z = cz st; let v = cv st; let w = cw st;
     f8 \<leftarrow> Fetch64 m (s + 8);
     let x = Rotate (x + y + fst v + f8) 37 * k1;
     f48 \<leftarrow> Fetch64 m (s + 48);
     let y = Rotate (y + snd v + f48) 42 * k1;
     let x = x XOR snd w;
     f40 \<leftarrow> Fetch64 m (s + 40);
     let y = y + (fst v + f40);
     let z = Rotate (z + fst w) 33 * k1;
     v \<leftarrow> WeakHashLen32WithSeeds m s (snd v * k1) (x + fst w);
     f16 \<leftarrow> Fetch64 m (s + 16);
     w \<leftarrow> WeakHashLen32WithSeeds m (s + 32) (z + snd w) (y + f16);
     let (z, x) = (x, z);
     let s = s + 64;
     f8 \<leftarrow> Fetch64 m (s + 8);
     let x = Rotate (x + y + fst v + f8) 37 * k1;
     f48 \<leftarrow> Fetch64 m (s + 48);
     let y = Rotate (y + snd v + f48) 42 * k1;
     let x = x XOR snd w;
     f40 \<leftarrow> Fetch64 m (s + 40);
     let y = y + (fst v + f40);
     let z = Rotate (z + fst w) 33 * k1;
     v \<leftarrow> WeakHashLen32WithSeeds m s (snd v * k1) (x + fst w);
     f16 \<leftarrow> Fetch64 m (s + 16);
     w \<leftarrow> WeakHashLen32WithSeeds m (s + 32) (z + snd w) (y + f16);
     let (z, x) = (x, z);
     Some \<lparr>cx = x, cy = y, cz = z, cv = v, cw = w\<rparr>
   }"

text \<open>The pointer and the length behind the last turn come out with the state.\<close>

partial_function (option) city128_loop ::
  "byte list \<Rightarrow> int \<Rightarrow> uint64 \<Rightarrow> city_state \<Rightarrow> (int \<times> uint64 \<times> city_state) option" where
  "city128_loop m s len st = do {
     st \<leftarrow> city128_round m s st;
     if len - 128 \<ge> 128 then city128_loop m (s + 128) (len - 128) st else Some (s + 128, len - 128, st)
   }"

text \<open>The tail: a turn hashes the 32 bytes at \<open>p = s + len - tail_done\<close>.\<close>

definition city128_chunk :: "byte list \<Rightarrow> int \<Rightarrow> city_state \<Rightarrow> city_state option" where
  "city128_chunk m p st = do {
     let x = cx st; let y = cy st; let z = cz st; let v = cv st; let w = cw st;
     let y = Rotate (x + y) 42 * k0 + snd v;
     f16 \<leftarrow> Fetch64 m (p + 16);
     let w = (fst w + f16, snd w);
     let x = x * k0 + fst w;
     f0 \<leftarrow> Fetch64 m p;
     let z = z + (snd w + f0);
     let w = (fst w, snd w + fst v);
     v \<leftarrow> WeakHashLen32WithSeeds m p (fst v + z) (snd v);
     let v = (fst v * k0, snd v);
     Some \<lparr>cx = x, cy = y, cz = z, cv = v, cw = w\<rparr>
   }"

partial_function (option) city128_tail ::
  "byte list \<Rightarrow> int \<Rightarrow> uint64 \<Rightarrow> uint64 \<Rightarrow> city_state \<Rightarrow> city_state option" where
  "city128_tail m s len tail_done st =
     (if tail_done < len then do {
        st \<leftarrow> city128_chunk m (s + uint len - uint (tail_done + 32)) st;
        city128_tail m s len (tail_done + 32) st
      } else Some st)"

definition CityHash128WithSeed :: "byte list \<Rightarrow> int \<Rightarrow> uint64 \<Rightarrow> uint128 \<Rightarrow> uint128 option" where
  "CityHash128WithSeed m s len seed =
     (if len < 128 then CityMurmur m s len seed
      else do {
        let x = fst seed; let y = snd seed; let z = len * k1;
        f0 \<leftarrow> Fetch64 m s;
        let v1 = Rotate (y XOR k1) 49 * k1 + f0;
        f8 \<leftarrow> Fetch64 m (s + 8);
        let v2 = Rotate v1 42 * k1 + f8;
        let w1 = Rotate (y + z) 35 * k1 + x;
        f88 \<leftarrow> Fetch64 m (s + 88);
        let w2 = Rotate (x + f88) 53 * k1;
        (s, len, st) \<leftarrow> city128_loop m s len \<lparr>cx = x, cy = y, cz = z, cv = (v1, v2), cw = (w1, w2)\<rparr>;
        let x = cx st; let y = cy st; let z = cz st; let v = cv st; let w = cw st;
        let x = x + Rotate (fst v + z) 49 * k0;
        let y = y * k0 + Rotate (snd w) 37;
        let z = z * k0 + Rotate (fst w) 27;
        let w = (fst w * 9, snd w);
        let v = (fst v * k0, snd v);
        st \<leftarrow> city128_tail m s len 0 \<lparr>cx = x, cy = y, cz = z, cv = v, cw = w\<rparr>;
        let x = cx st; let y = cy st; let z = cz st; let v = cv st; let w = cw st;
        let x = HashLen16 x (fst v);
        let y = HashLen16 (y + z) (fst w);
        Some (HashLen16 (x + snd v) (snd w) + y, HashLen16 (x + snd w) (y + snd v))
      })"

definition CityHash128 :: "byte list \<Rightarrow> int \<Rightarrow> uint64 \<Rightarrow> uint128 option" where
  "CityHash128 m s len =
     (if len \<ge> 16 then do {
        f0 \<leftarrow> Fetch64 m s;
        f8 \<leftarrow> Fetch64 m (s + 8);
        CityHash128WithSeed m (s + 16) (len - 16) (f0, f8 + k0)
      } else CityHash128WithSeed m s len (k0, k1))"

section \<open>Every read is inside the string\<close>

text \<open>
  A computation returns when all its reads are inside the block and all its loops end.  The rules
  of this collection go through a computation step by step and leave the bounds of its reads.
\<close>

definition returns :: "'a option \<Rightarrow> bool" where
  "returns x \<longleftrightarrow> x \<noteq> None"

named_theorems returns_intros

lemma returns_Some [returns_intros]: "returns (Some x)"
  by (simp add: returns_def)

lemma returns_bind [returns_intros]: "returns x \<Longrightarrow> (\<And>v. x = Some v \<Longrightarrow> returns (f v)) \<Longrightarrow> returns (x \<bind> f)"
  by (auto simp: returns_def)

lemma returns_Let [returns_intros]: "(\<And>v. returns (f v)) \<Longrightarrow> returns (Let x f)"
  by (simp add: Let_def)

lemma returns_case_prod [returns_intros]: "(\<And>a b. x = (a, b) \<Longrightarrow> returns (f a b)) \<Longrightarrow> returns (case x of (a, b) \<Rightarrow> f a b)"
  by (cases x) simp

lemma returns_Fetch64 [returns_intros]: "0 \<le> p \<Longrightarrow> p + 8 \<le> int (length m) \<Longrightarrow> returns (Fetch64 m p)"
  by (simp add: returns_def Fetch64_def)

lemma returns_Fetch32 [returns_intros]: "0 \<le> p \<Longrightarrow> p + 4 \<le> int (length m) \<Longrightarrow> returns (Fetch32 m p)"
  by (simp add: returns_def Fetch32_def)

lemma returns_char_at [returns_intros]: "0 \<le> p \<Longrightarrow> p < int (length m) \<Longrightarrow> returns (char_at m p)"
  by (simp add: returns_def char_at_def)

lemma returns_weak [returns_intros]: "0 \<le> p \<Longrightarrow> p + 32 \<le> int (length m) \<Longrightarrow> returns (WeakHashLen32WithSeeds m p a b)"
  unfolding WeakHashLen32WithSeeds_def by (intro returns_intros) simp_all

lemma uint_half: "uint (drop_bit (Suc 0) (len :: uint64)) = uint len div 2"
proof -
  have "take_bit 64 (uint len) = uint len"
    using uint_range_size [of len] by (intro take_bit_int_eq_self) (simp_all add: word_size)
  then show ?thesis
    unfolding unsigned_drop_bit_eq by (simp add: drop_bit_eq_div)
qed

lemmas length_bounds = word_le_def word_less_def uint_half

text \<open>Strings of up to 64 bytes.\<close>

lemma returns_bytes: "0 \<le> s \<Longrightarrow> s + int n \<le> int (length m) \<Longrightarrow> returns (hash32_bytes m s n b c)"
proof (induction n arbitrary: s b c)
  case (Suc n)
  then show ?case
    unfolding hash32_bytes.simps by (intro returns_intros Suc.IH) simp_all
qed (simp add: returns_def)

lemma returns_0to4:
  "0 \<le> s \<Longrightarrow> s + uint len \<le> int (length m) \<Longrightarrow> returns (Hash32Len0to4 m s len)"
  unfolding Hash32Len0to4_def by (intro returns_intros returns_bytes) simp_all

lemma returns_5to12:
  assumes "0 \<le> s" "s + uint len \<le> int (length m)" "4 < len"
  shows "returns (Hash32Len5to12 m s len)"
proof -
  let ?h = "uint len div 2"
  have e: "uint (drop_bit 1 len AND 4) = ?h AND 4"
    by (simp add: unsigned_and_eq uint_half)
  have "uint (drop_bit 1 len AND 4) + 4 \<le> uint len"
  proof (cases "bit ?h 2")
    case True
    then have "4 \<le> ?h"
      by (cases "?h < 4") (auto simp: bit_iff_odd)
    moreover have "?h AND 4 \<le> 4"
      by (rule AND_upper2) simp
    ultimately show ?thesis
      unfolding e by linarith
  next
    case False
    then show ?thesis
      using e assms(3) and_exp_eq_0_iff_not_bit [of ?h 2] by (simp add: word_less_def)
  qed
  then show ?thesis
    unfolding Hash32Len5to12_def using assms by (intro returns_intros) (simp_all add: length_bounds)
qed

lemma returns_13to24:
  "0 \<le> s \<Longrightarrow> s + uint len \<le> int (length m) \<Longrightarrow> 12 < len \<Longrightarrow> returns (Hash32Len13to24 m s len)"
  unfolding Hash32Len13to24_def by (intro returns_intros) (simp_all add: length_bounds)

lemma returns_0to16:
  "0 \<le> s \<Longrightarrow> s + uint len \<le> int (length m) \<Longrightarrow> returns (HashLen0to16 m s len)"
  unfolding HashLen0to16_def by (auto intro!: returns_intros simp: length_bounds)

lemma returns_17to32:
  "0 \<le> s \<Longrightarrow> s + uint len \<le> int (length m) \<Longrightarrow> 16 < len \<Longrightarrow> returns (HashLen17to32 m s len)"
  unfolding HashLen17to32_def by (intro returns_intros) (simp_all add: length_bounds)

lemma returns_33to64:
  "0 \<le> s \<Longrightarrow> s + uint len \<le> int (length m) \<Longrightarrow> 32 < len \<Longrightarrow> returns (HashLen33to64 m s len)"
  unfolding HashLen33to64_def by (intro returns_intros) (simp_all add: length_bounds)

text \<open>The loops.\<close>

lemma returns_round32: "0 \<le> s \<Longrightarrow> s + 20 \<le> int (length m) \<Longrightarrow> returns (city32_round m s st)"
  unfolding city32_round_def by (intro returns_intros) simp_all

lemma returns_round64: "0 \<le> s \<Longrightarrow> s + 64 \<le> int (length m) \<Longrightarrow> returns (city64_round m s st)"
  unfolding city64_round_def by (intro returns_intros) simp_all

text \<open>The loop of \<^const>\<open>CityHash128WithSeed\<close> takes two turns of the loop of \<^const>\<open>CityHash64\<close> at once.\<close>

lemma round128_unrolled: "city128_round m s st = city64_round m s st \<bind> city64_round m (s + 64)"
  by (simp add: city128_round_def city64_round_def bind_assoc Let_def)

lemma returns_round128: "0 \<le> s \<Longrightarrow> s + 128 \<le> int (length m) \<Longrightarrow> returns (city128_round m s st)"
  unfolding round128_unrolled by (intro returns_bind returns_round64) simp_all

lemma uint_minus_lower: "k \<le> (len :: uint64) \<Longrightarrow> uint (len - k) = uint len - uint k"
  by (simp add: uint_sub_lem word_le_def)

lemma unat_decreases: "0 < k \<Longrightarrow> k \<le> (len :: uint64) \<Longrightarrow> unat (len - k) < unat len"
  by (simp add: unat_sub word_le_nat_alt word_less_nat_alt)

lemma returns_loop32:
  "0 < iters \<Longrightarrow> 0 \<le> s \<Longrightarrow> s + 20 * uint iters \<le> int (length m) \<Longrightarrow> returns (city32_loop m s iters st)"
proof (induction "unat iters" arbitrary: s iters st rule: less_induct)
  case less
  then have i: "1 \<le> uint iters" "uint (iters - 1) = uint iters - 1"
    using uint_minus_lower [of 1 iters] by (simp_all add: word_less_def word_le_def)
  show ?case
  proof (subst city32_loop.simps, intro returns_bind)
    show "returns (city32_round m s st)"
      using less.prems i by (intro returns_round32) simp_all
    show "returns (if iters - 1 \<noteq> 0 then city32_loop m (s + 20) (iters - 1) st' else Some st')" for st'
    proof (cases "iters - 1 = 0")
      case False
      then have "0 < iters - 1"
        by (simp only: word_gt_0 not_sym)
      then have "returns (city32_loop m (s + 20) (iters - 1) st')"
        using less.prems i by (intro less.hyps unat_decreases) (simp_all add: word_neq_0_conv word_le_def)
      with False show ?thesis
        by simp
    qed (simp add: returns_Some)
  qed
qed

lemma returns_loop64:
  "0 < len \<Longrightarrow> 64 dvd uint len \<Longrightarrow> 0 \<le> s \<Longrightarrow> s + uint len \<le> int (length m) \<Longrightarrow> returns (city64_loop m s len st)"
proof (induction "unat len" arbitrary: s len st rule: less_induct)
  case less
  then have i: "64 \<le> uint len" 
    by (auto simp: word_less_def dest: zdvd_imp_le)
  then have i': "uint (len - 64) = uint len - 64"
    using uint_minus_lower [of 64 len] by (simp add: word_le_def)
  show ?case
  proof (subst city64_loop.simps, intro returns_bind)
    show "returns (city64_round m s st)"
      using less.prems i by (intro returns_round64) simp_all
    show "returns (if len - 64 \<noteq> 0 then city64_loop m (s + 64) (len - 64) st' else Some st')" for st'
    proof (cases "len - 64 = 0")
      case False
      then have "0 < len - 64"
        by (simp only: word_gt_0 not_sym)
      then have "returns (city64_loop m (s + 64) (len - 64) st')"
        using less.prems i i' by (intro less.hyps unat_decreases) (simp_all add: word_neq_0_conv word_le_def)
      with False show ?thesis
        by simp
    qed (simp add: returns_Some)
  qed
qed

lemma returns_murmur:
  "16 < len \<Longrightarrow> 0 \<le> s \<Longrightarrow> s + uint len \<le> int (length m) \<Longrightarrow> returns (murmur_loop m s len st)"
proof (induction "unat len" arbitrary: s len st rule: less_induct)
  case less
  then have i: "16 < uint len" "uint (len - 16) = uint len - 16"
    using uint_minus_lower [of 16 len] by (simp_all add: word_le_def word_less_def)
  have rest: "returns (if 16 < len - 16 then murmur_loop m (s + 16) (len - 16) st' else Some st')" for st'
  proof (cases "16 < len - 16")
    case True
    then have "returns (murmur_loop m (s + 16) (len - 16) st')"
      using less.prems i by (intro less.hyps unat_decreases) (simp_all add: word_le_def)
    with True show ?thesis
      by simp
  qed (simp add: returns_Some)
  show ?case
    by (subst murmur_loop.simps, intro returns_intros rest) (use less.prems i in simp_all)
qed

lemma loop128:
  assumes "128 \<le> len" "0 \<le> s" "s + uint len \<le> int (length m)"
  shows "\<exists>s' len' st'. city128_loop m s len st = Some (s', len', st') \<and>
    s' + uint len' = s + uint len \<and> s + 128 \<le> s' \<and> len' < 128"
  using assms
proof (induction "unat len" arbitrary: s len st rule: less_induct)
  case less
  then have i: "128 \<le> uint len" "uint (len - 128) = uint len - 128"
    using uint_minus_lower [of 128 len] by (simp_all add: word_le_def word_less_def)
  have "returns (city128_round m s st)"
    using less.prems i by (intro returns_round128) simp_all
  then obtain st1 where st1: "city128_round m s st = Some st1"
    by (auto simp: returns_def)
  show ?case
  proof (cases "128 \<le> len - 128")
    case True
    then have "\<exists>s' len' st'. city128_loop m (s + 128) (len - 128) st1 = Some (s', len', st') \<and>
        s' + uint len' = s + 128 + uint (len - 128) \<and> s + 128 + 128 \<le> s' \<and> len' < 128"
      using less.prems i by (intro less.hyps unat_decreases) (simp_all add: word_le_def)
    then show ?thesis
      using True st1 i(2) by (subst city128_loop.simps) auto
  next
    case False
    then show ?thesis
      using st1 i(2) by (subst city128_loop.simps) auto
  qed
qed

text \<open>The last chunk of the tail may begin before the rest: there are 128 bytes in front of it.\<close>

lemma returns_chunk: "0 \<le> p \<Longrightarrow> p + 32 \<le> int (length m) \<Longrightarrow> returns (city128_chunk m p st)"
  unfolding city128_chunk_def by (intro returns_intros) simp_all

lemma returns_tail:
  "32 \<le> s \<Longrightarrow> s + uint len \<le> int (length m) \<Longrightarrow> len < 128 \<Longrightarrow> td \<le> 160 \<Longrightarrow> returns (city128_tail m s len td st)"
proof (induction "nat (160 - uint td)" arbitrary: td st rule: less_induct)
  case less
  show ?case
  proof (cases "td < len")
    case True
    then have i: "uint td < uint len" "uint len < 128" "uint (td + 32) = uint td + 32"
      using less.prems(3) by (simp_all add: word_less_def uint_add_lem [THEN iffD1])
    have rest: "returns (city128_tail m s len (td + 32) st')" for st'
    proof (rule less.hyps)
      show "nat (160 - uint (td + 32)) < nat (160 - uint td)"
        using i by simp
      show "td + 32 \<le> 160"
        using i by (simp add: word_le_def)
    qed (use less.prems in simp_all)
    show ?thesis
      by (subst city128_tail.simps, simp only: True if_True i(3), intro returns_bind returns_chunk rest)
        (use less.prems(1,2) i(1,2) uint_ge_0 [of td] in linarith)+
  qed (subst city128_tail.simps, simp add: returns_Some)
qed

section \<open>The hashes\<close>

lemma returns_CityHash32:
  assumes "0 \<le> s" "s + uint len \<le> int (length m)"
  shows "returns (CityHash32 m s len)"
proof (cases "len \<le> 24")
  case True
  then show ?thesis
    unfolding CityHash32_def using assms by (simp add: returns_0to4 returns_5to12 returns_13to24)
next
  case False
  then have l: "24 < uint len"
    by (simp add: word_le_def)
  have i: "uint ((len - 1) div 20) = (uint len - 1) div 20"
    using l uint_minus_lower [of 1 len] by (simp add: uint_div_distrib word_le_def)
  have "returns (city32_loop m s ((len - 1) div 20) st)" for st
    using assms l i by (intro returns_loop32) (simp_all add: word_less_def)
  then show ?thesis
    unfolding CityHash32_def using assms l False
    by (simp only: if_False, intro returns_intros) simp_all
qed

lemma uint_chunks:
  assumes "64 < uint (len :: uint64)"
  shows "uint ((len - 1) AND NOT 63) = (uint len - 1) div 64 * 64"
proof -
  let ?w = "len - 1"
  have w: "uint ?w = uint len - 1"
    using assms uint_minus_lower [of 1 len] by (simp add: word_le_def)
  have m: "(63 :: uint64) = mask 6"
    by (simp add: mask_eq_exp_minus_1)
  have "?w AND NOT 63 = push_bit 6 (drop_bit 6 ?w)"
    unfolding m by (rule bit_word_eqI) (auto simp: bit_simps)
  also have "\<dots> = drop_bit 6 ?w * 64"
    by (simp add: push_bit_eq_mult)
  finally have e: "?w AND NOT 63 = drop_bit 6 ?w * 64" .
  have d: "uint (drop_bit 6 ?w) = uint ?w div 64"
    by (simp add: drop_bit_eq_div uint_div_distrib)
  then have "uint (drop_bit 6 ?w) * uint (64 :: uint64) < 2 ^ LENGTH(64)"
    using uint_range_size [of ?w] by (simp add: word_size)
  then have "uint (drop_bit 6 ?w * 64) = uint (drop_bit 6 ?w) * uint (64 :: uint64)"
    by (rule uint_mult_lem [THEN iffD1])
  then have "uint (drop_bit 6 ?w * 64) = uint ?w div 64 * 64"
    by (simp only: d) simp
  then show ?thesis
    by (simp only: e w)
qed

lemma returns_CityHash64:
  assumes "0 \<le> s" "s + uint len \<le> int (length m)"
  shows "returns (CityHash64 m s len)"
proof (cases "len \<le> 64")
  case True
  then show ?thesis
    unfolding CityHash64_def using assms by (simp add: returns_0to16 returns_17to32 returns_33to64)
next
  case False
  then have l: "64 < uint len"
    by (simp add: word_le_def)
  note c = uint_chunks [OF l]
  have loop: "returns (city64_loop m s ((len - 1) AND NOT 63) st)" for st
  proof (rule returns_loop64)
    show "0 < (len - 1) AND NOT 63" "64 dvd uint ((len - 1) AND NOT 63)"
      using l c by (simp_all add: word_less_def)
    show "s + uint ((len - 1) AND NOT 63) \<le> int (length m)"
      unfolding c using assms(2) by linarith
  qed (rule assms)
  have "\<not> len \<le> 32"
    using l by (simp add: word_le_def)
  with False show ?thesis
    unfolding CityHash64_def 
    by (simp only: if_False, intro loop returns_intros) (use assms l in simp_all)
qed

lemma returns_CityMurmur:
  assumes "0 \<le> s" "s + uint len \<le> int (length m)"
  shows "returns (CityMurmur m s len seed)"
  unfolding CityMurmur_def using assms
  by (auto intro!: returns_intros returns_0to16 returns_murmur simp: length_bounds)

lemma returns_CityHash128WithSeed:
  assumes "0 \<le> s" "s + uint len \<le> int (length m)"
  shows "returns (CityHash128WithSeed m s len seed)"
proof (cases "len < 128")
  case True
  then show ?thesis
    using assms by (simp add: CityHash128WithSeed_def returns_CityMurmur)
next
  case False
  then have l: "128 \<le> uint len" "128 \<le> len"
    by (simp_all add: word_le_def word_less_def)
  have tail: "returns (city128_tail m s' len' 0 st')" if "city128_loop m s len st = Some (s', len', st0)" for s' len' st st0 st'
    using loop128 [OF l(2) assms, of st] that assms by (intro returns_tail) auto
  have loop: "returns (city128_loop m s len st)" for st
    using loop128 [OF l(2) assms, of st] by (auto simp: returns_def)
  show ?thesis
    unfolding CityHash128WithSeed_def using False
    by (simp only: if_False, intro returns_intros loop tail) (use assms l in simp_all)
qed

lemma returns_CityHash128:
  assumes "0 \<le> s" "s + uint len \<le> int (length m)"
  shows "returns (CityHash128 m s len)"
proof (cases "16 \<le> len")
  case True
  then have "uint (len - 16) = uint len - 16" "16 \<le> uint len"
    using uint_minus_lower [of 16 len] by (simp_all add: word_le_def)
  then show ?thesis
    unfolding CityHash128_def using True assms
    by (simp only: if_True, intro returns_intros returns_CityHash128WithSeed) simp_all
next
  case False
  then show ?thesis
    using assms by (simp add: CityHash128_def returns_CityHash128WithSeed)
qed

text \<open>
  C26: the hash functions return for every string and read nothing but the string: all fetches,
  also those counted from its end and those of the unrolled loops and of the tail, stay inside it, and
  the loops end.
\<close>

theorem city_hash_in_string:
  assumes "length m < 2 ^ 64"
  shows "(\<exists>h. CityHash32 m 0 (of_nat (length m)) = Some h) \<and> (\<exists>h. CityHash64 m 0 (of_nat (length m)) = Some h) \<and>
    (\<exists>h. CityHash64WithSeed m 0 (of_nat (length m)) seed = Some h) \<and> (\<exists>h. CityHash128 m 0 (of_nat (length m)) = Some h)"
proof -
  let ?n = "of_nat (length m) :: uint64"
  have n: "0 + uint ?n \<le> int (length m)"
    using assms by (simp add: unsigned_of_nat take_bit_nat_eq_self)
  show ?thesis
    using returns_CityHash32 [OF _ n] returns_CityHash64 [OF _ n] returns_CityHash128 [OF _ n]
    by (auto simp: returns_def CityHash64WithSeed_def CityHash64WithSeeds_def)
qed

theorem city_hash_in_string_witness:
  "length (replicate 300 (7 :: byte)) < 2 ^ 64 \<and> (\<exists>h. CityHash128 (replicate 300 7) 0 300 = Some h)"
  using city_hash_in_string [of "replicate 300 7"] by simp

lemma rotate_rotr:
  fixes w :: "'a::len word"
  assumes "shift < LENGTH('a)"
  shows "(if shift = 0 then w else drop_bit shift w OR push_bit (LENGTH('a) - shift) w) = word_rotr shift w"
proof (rule bit_word_eqI)
  fix n
  assume n: "n < LENGTH('a)"
  then have m: "(n + shift) mod LENGTH('a) = (if n + shift < LENGTH('a) then n + shift else n + shift - LENGTH('a))"
    using assms by (auto simp: mod_if)
  show "bit (if shift = 0 then w else drop_bit shift w OR push_bit (LENGTH('a) - shift) w) n \<longleftrightarrow> bit (word_rotr shift w) n"
    using n assms by (auto simp: bit_simps bit_word_rotr_iff m add.commute dest: bit_imp_le_length)
qed

text \<open>
  C27: the hash of 128 bits uses the inner loop of the hash of 64 bits, as the code says: one turn
  of the loop, written out twice, is two turns of the other; and the rotations, written with
  shifts, are the rotation of a word to the right for every distance below its width.
\<close>

theorem city_rounds_agree:
  "city128_round m s st = city64_round m s st \<bind> city64_round m (s + 64) \<and>
   (shift < 64 \<longrightarrow> Rotate w shift = word_rotr shift w) \<and> (shift < 32 \<longrightarrow> Rotate32 u shift = word_rotr shift u)"
proof -
  have "shift < 64 \<longrightarrow> Rotate w shift = word_rotr shift w"
    using rotate_rotr [of shift w] by (cases "shift = 0") (simp_all add: Rotate_def)
  moreover have "shift < 32 \<longrightarrow> Rotate32 u shift = word_rotr shift u"
    using rotate_rotr [of shift u] by (cases "shift = 0") (simp_all add: Rotate32_def)
  ultimately show ?thesis
    using round128_unrolled [of m s st] by blast
qed

theorem city_rounds_agree_witness:
  "Rotate 1 31 = word_rotr 31 1 \<and> Rotate32 1 31 = word_rotr 31 1"
  using city_rounds_agree [of _ _ _ 31 1 1] by simp

end
