(* ===== verification/Spec2Isabelle.thy ===== *)
theory Spec2Isabelle
  imports Rpc_Conn Lru_Cache City_Hash
begin

text \<open>
  This library models \<open>dnfs\<close>, a user space server of the NFS version 3 and MOUNT version 3 protocols, and proves what
  it does.  File names below are relative to the repository.

  \<^bold>\<open>The program.\<close>  A call arrives as a message header and a stream of bytes.  \<open>nfs_rpc_valid_NFS\<close>
  (\<open>src/nfs/nfs_init.cpp\<close>) or \<open>nfs_rpc_valid_MNT\<close> (\<open>src/mnt/mnt_init.cpp\<close>) choose an entry of a table of procedures;
  \<open>nfs_rpc_process_request\<close> (\<open>src/dnfsd/dnfs_ntirpc.cpp\<close>) checks the credential, decodes the arguments by the XDR
  routine of the entry, calls the procedure (\<open>src/nfs\<close>, \<open>src/mnt\<close>) and encodes the results into the reply.  A procedure works on the
  file system by calls of the operating system; a file handle is the path of the file.  WRITE and COMMIT
  use the table of open files (\<open>src/file/fsal_handle.cpp\<close>) and its share reservations
  (\<open>src/nfs/nfs_utils.cpp\<close>).

  \<^bold>\<open>Streams and XDR (library \<open>src/libntirpc\<close>).\<close>
  \<^item> \<open>Dnfs_Prelude\<close>: words, bytes, network byte order and the lemmas on lists and words used everywhere.
  \<^item> \<open>Xdr_Stream\<close>: the record \<open>XDR\<close> of a memory stream (\<open>xdr.h\<close>, \<open>xdr_mem.c\<close>): a buffer, a position, the bounds of the
    window.  An XDR routine is a function from a stream and a value to success, stream and value; its direction is a
    member of the stream, as in the code.  Combinators (\<open>xdr_field\<close>, \<open>xdr_seq\<close>, \<open>xdr_all\<close>, \<open>xdr_switch\<close>,
    \<open>xdr_tagged\<close>) stand for the sequences of calls with early returns.
  \<^item> \<open>Xdr_Prims\<close>, \<open>Xdr_Opaque\<close>, \<open>Xdr_Array\<close>, \<open>Xdr_Chain\<close>, \<open>Xdr_Loop\<close>: integers, booleans, opaque data, counted bytes,
    strings, references, pointers, counted arrays, linked lists handled by recursion (READDIR) and by a loop (MOUNT).
  \<^item> Two locales carry the proofs.  \<open>xdr_safe\<close> says that a routine keeps the stream inside its buffer and changes only
    the bytes it encodes.  \<open>xdr_codec proc enc valid dec\<close> says that it implements a wire format: encoding a valid value
    writes exactly \<open>enc\<close> when there is room and fails otherwise, and decoding those bytes succeeds with the value \<open>dec\<close>
    gives and fails on every proper prefix.  Each routine of the program is an interpretation; round
    trips and prefix freeness follow once, in the locale.  \<open>xdr_list\<close>, \<open>xdr_loop\<close> and \<open>xdr_array_elem\<close> lift both to
    lists and arrays.

  \<^bold>\<open>The NFS protocol.\<close>
  \<^item> \<open>Nfs_Types\<close>, \<open>Nfs_Xdr\<close>, \<open>Nfs_Args\<close>, \<open>Nfs_Dirlist\<close>, \<open>Nfs_Res\<close>: the structures of \<open>include/nfs\<close> as records and one
    definition per XDR routine of \<open>src/nfs\<close>, each with the format it implements.
  \<^item> \<open>Posix_Env\<close>: the operating system as a record of functions on an abstract state, one per system call the code
    makes; nothing is assumed of it beyond what a theorem states.  \<open>Sample_Fs\<close> is a concrete one for the examples.
  \<^item> \<open>Nfs_Utils\<close>: the helpers of \<open>nfs_utils.cpp\<close>.
  \<^item> \<open>Fsal_Share\<close>, \<open>Fsal_Handle\<close>: share counters and the table of open files.  Locks are part of the state and their
    misuse aborts (\<open>None\<close>), as in the code.
  \<^item> \<open>Nfs_Attr_Procs\<close>, \<open>Nfs_Name_Procs\<close>, \<open>Nfs_Io_Procs\<close>, \<open>Nfs_Dir_Procs\<close>: the 22 procedures.  A procedure takes the state of
    the operating system (and the table), its arguments and the memory of its result, and returns them with the code for
    the dispatcher; \<open>None\<close> stands for a crash of the process.  Result memory is not initialised by
    the code, so theorems hold for every initial result.

  \<^bold>\<open>The rest.\<close>  \<open>Svc_Auth\<close> models authentication, \<open>Mnt_Procs\<close> the MOUNT protocol, \<open>Nfs_Dispatch\<close> the unions of arguments and
  results, both tables of procedures and the processing of a call.

  \<^bold>\<open>What is shown.\<close>
  \<^item> Safety of the streams: no routine of either table leaves its buffer, whatever the bytes; malformed calls
    are refused and change nothing; a credential is read inside its array.
  \<^item> Formats: arguments, results, listings, export lists and credentials survive encoding and decoding.
  \<^item> Procedures: what each reply contains in terms of the calls of the operating system, on success and on failure; GETATTR and
    MNT from the bytes of the call to the bytes of the reply.
  \<^item> State: operations in progress on a file never clash, the counters equal their numbers, no lock
    stays held, the table of open files is at rest between calls, and WRITE and the shutdown then return.  The counters are
    signed 32-bit integers, so the invariants hold for up to \<open>2 ^ 31\<close> operations.
  \<^item> Termination: the loop of READDIRPLUS is a partial function (no value when it does not end); it returns for every
    well-formed sequence of directory blocks.  All other loops are total functions.
  \<^item> Where the code does not do what it means to do, the theorem says what it does: COMMIT syncs nothing,
    failures of RENAME and SETATTR are reported as success, a share conflict aborts the server, MNT grants every path.

  \<^bold>\<open>What is not modelled.\<close>  Logging; the functions that free results, and memory as such: a pointer is an
  optional value, a freed node is just gone, allocation does not fail; threads: calls are served one after the
  other, and what the operating system does between two calls is arbitrary; the transports of the library and its message
  headers, which are where a call record comes from; start-up, configuration and the parts of the repository the server does not
  call (caches, binary log, volumes).  A union is the record of its arms, except where the code clears one arm through
  another.
\<close>

section \<open>Properties of the server\<close>

text \<open>
  C2: Whatever NFS and MOUNT calls the server serves, up to \<open>2 ^ 31\<close> of them, and whatever the operating
  system does: the table of open files has no open descriptor and no held lock between two
  calls, a further WRITE on any handle returns instead of aborting, and closing the
  table at shutdown succeeds and empties it.
\<close>

theorem serving_table:
  assumes "serving E n (s, T)" "n < 2 ^ 31"
  shows "table_resting T n \<and>
    (\<forall>args res. get_file_handle (wr_file args) \<noteq> None \<longrightarrow> nfs3_write (env_sys E) (s, T) args res \<noteq> None) \<and>
    (\<exists>s'. close_handles (env_sys E) s T = Some (s', FsalHandle_init))"
proof -
  have T: "table_resting T n"
    using serving_resting [OF assms(1)] assms(2) by simp
  then show ?thesis
    using write_resting [OF T assms(2)] close_handles_resting [OF T] by fastforce
qed

text \<open>
  C1: No procedure reads or writes outside the request and reply buffers.  Decoding the
  arguments of any of the 22 NFS and 6 MOUNT procedures from any bytes moves forward inside the buffer and
  leaves it as it was; encoding the results changes only the bytes between the old and the new
  position of the stream, which stays inside the buffer.
\<close>

theorem routines_stay_in_buffer:
  assumes "d \<in> set nfs3_func_desc \<union> set mnt3_func_desc" "xdr_wf xdrs"
    and "xdr_decode_func d xdrs arg = (ok, xdrs', arg') \<and> x_op xdrs = XDR_DECODE \<or>
         xdr_encode_func d xdrs res = (ok, xdrs', res') \<and> x_op xdrs = XDR_ENCODE"
  shows "x_data xdrs \<le> x_data xdrs' \<and> x_data xdrs' \<le> xv_wrap xdrs \<and> xv_wrap xdrs \<le> length (x_buf xdrs') \<and>
    length (x_buf xdrs') = length (x_buf xdrs) \<and>
    (\<forall>i < length (x_buf xdrs). i < x_data xdrs \<or> x_data xdrs' \<le> i \<or> x_op xdrs = XDR_DECODE \<longrightarrow>
       x_buf xdrs' ! i = x_buf xdrs ! i)"
proof -
  have s: "xdr_safe (xdr_decode_func d) \<and> xdr_safe (xdr_encode_func d)"
    using assms(1) table_routines_safe mount_routines_safe by blast
  have m: "xdr_moves xdrs xdrs'"
    using assms(3) xdr_safe.movesD [OF conjunct1 [OF s] assms(2)] xdr_safe.movesD [OF conjunct2 [OF s] assms(2)]
    by blast
  have "x_buf xdrs' ! i = x_buf xdrs ! i"
    if "i < length (x_buf xdrs)" "i < x_data xdrs \<or> x_data xdrs' \<le> i" for i
    using assms(3) that xdr_safe.buffer_frame [OF conjunct1 [OF s] assms(2)]
      xdr_safe.buffer_frame [OF conjunct2 [OF s] assms(2)]
    by metis
  with m show ?thesis
    by (auto simp: xdr_moves_def xdr_wf_def)
qed


text \<open>
  GETATTR from the bytes of the request to the bytes of the reply.  For an accepted
  credential and a request that holds the handle of a file of a known type, the server
  replies with the 88 bytes of the status NFS3_OK and of the attributes \<open>lstat\<close> returns,
  written at the current position of the reply, and changes nothing else.
\<close>

theorem getattr_end_to_end:
  assumes call: "cb_prog msg = NFS_PROGRAM" "cb_vers msg = NFS_V3" "cb_proc msg = 1"
    "svc_auth_authenticate (cb_cred msg) = Some AUTH_OK"
    and req: "xdr_wf xdrs" "x_op xdrs = XDR_DECODE" "valid_GETATTR3args args"
      "unread xdrs = wire_GETATTR3args args @ rest" "data_len (geta_object args) \<noteq> 0"
    and f: "get_file_handle (geta_object args) = Some p" "sys_lstat (env_sys E) s p = Inr st"
      "ftype_of_mode (st_mode st) = Some t"
    and reply: "xdr_wf out" "x_op out = XDR_ENCODE" "88 \<le> room out"
  shows "nfs_rpc_valid_NFS E (s, T) msg xdrs out res =
    Some ((s, T), Replied True (emit (htonl_bytes NFS3_OK @ wire_fattr3 (fattr3_of_stat st t zero_fattr3)) out))"
  using assms by (rule getattr_served)



theorem routines_stay_in_buffer_witness:
  "\<exists>ok xdrs' arg'. xdr_decode_func (nfs3_func_desc ! 7 :: nat nfs_function_desc) (sample_in [1, 2, 3]) zero_arg =
     (ok, xdrs', arg') \<and> x_data xdrs' \<le> 3 \<and> length (x_buf xdrs') = 3"
proof -
  obtain ok xdrs' arg' where "xdr_decode_func (nfs3_func_desc ! 7 :: nat nfs_function_desc) (sample_in [1, 2, 3]) zero_arg =
     (ok, xdrs', arg')"
    by (metis prod_cases3)
  with routines_stay_in_buffer [of "nfs3_func_desc ! 7 :: nat nfs_function_desc" "sample_in [1, 2, 3]" zero_arg ok xdrs' arg']
  show ?thesis
    by simp
qed


theorem getattr_end_to_end_witness:
  "\<forall>res. nfs_rpc_valid_NFS sample_env (0, FsalHandle_init) (sample_call 1)
      (sample_in (wire_GETATTR3args \<lparr>geta_object = sample_fh sample_file\<rparr>)) (sample_out 88) res =
    Some ((0, FsalHandle_init), Replied True
      (emit (htonl_bytes NFS3_OK @ wire_fattr3 (fattr3_of_stat (sample_stat 0x81A4) NF3REG zero_fattr3)) (sample_out 88)))"
  by (intro allI getattr_end_to_end [where args = "\<lparr>geta_object = sample_fh sample_file\<rparr>" and p = sample_file and rest = "[]"])
     (simp_all add: valid_GETATTR3args_def)

theorem serving_table_witness:
  "\<exists>n T. serving sample_env n (0, T) \<and> 0 < n \<and> table_resting T n \<and>
     (\<exists>s'. close_handles sample_sys 0 T = Some (s', FsalHandle_init))"
proof -
  have "nfs_rpc_valid_NFS sample_env (0, FsalHandle_init) (sample_call 22) xdrs out res =
      Some ((0, FsalHandle_init), Noproc)" for xdrs out res
    by (simp add: nfs_rpc_valid_NFS_def nfs_rpc_noproc_def NFSPROC3_COMMIT_def)
  then have "serving sample_env (Suc 0) (0, FsalHandle_init)"
    using serving_call [OF serving_start] by metis
  from serving_table [OF this] this show ?thesis
    by (intro exI [of _ "Suc 0"] exI [of _ FsalHandle_init]) simp
qed

text \<open>
  C13: The arguments of WRITE, encoded by a client and decoded by the server into zeroed memory, come out as they were:
  handle, offset, count, stability and every byte of the data; and decoding marks the request as a
  write in the look-ahead record of the stream.
\<close>

theorem write_args_round_trip:
  assumes v: "valid_WRITE3args v" "exact_handle (wr_file v)" "exact_data (wr_data v)"
    and b: "length (wire_WRITE3args v) \<le> sz" "sz \<le> length buf" "addr mod 4 = 0"
    and E: "xdrmem_ncreate addr buf sz XDR_ENCODE = Some E"
    and D: "xdrmem_ncreate addr (x_buf (fst (snd (xdr_WRITE3args E v)))) (length (wire_WRITE3args v)) XDR_DECODE = Some D"
    and w: "wr_file w = zero_fh3" "wr_data w = \<lparr>io_data_len = 0, io_data_val = None\<rparr>"
  shows "fst (xdr_WRITE3args E v) \<and>
    xdr_WRITE3args (D\<lparr>x_public := Some l\<rparr>) w =
      (True, (skip (length (wire_WRITE3args v)) D)\<lparr>x_public := Some (lookahead_write l)\<rparr>, v)"
proof -
  have E': "x_public E = None"
    using E by (auto simp: xdrmem_ncreate_def split: if_splits)
  have e: "xdr_WRITE3args_members E v = (True, emit (wire_WRITE3args v) E, v)"
    using v b E by (intro WRITE3args_members.encode_fits) (auto simp: xdrmem_ncreate_def xdr_wf_def room_def)
  have D': "xdr_wf (D\<lparr>x_public := Some l\<rparr>)" "x_op (D\<lparr>x_public := Some l\<rparr>) = XDR_DECODE"
    "unread (D\<lparr>x_public := Some l\<rparr>) = wire_WRITE3args v @ []"
    using D b E e by (auto simp: xdrmem_ncreate_def xdr_wf_def unread_def overwrite_def xdr_WRITE3args_def emit_def)
  have "dec_WRITE3args v w = v"
    using v w by (simp add: dec_WRITE3args_def dec_exact_handle dec_exact_data)
  with WRITE3args_members.decode [OF D'(1,2) v(1) D'(3), of w] e show ?thesis
    by (simp add: xdr_WRITE3args_def skip_def)
qed

theorem write_args_round_trip_witness:
  "\<exists>E D. xdrmem_ncreate 0 (replicate 100 0) 100 XDR_ENCODE = Some E \<and>
     xdrmem_ncreate 0 (x_buf (fst (snd (xdr_WRITE3args E sample_write_args)))) (length (wire_WRITE3args sample_write_args))
       XDR_DECODE = Some D \<and>
     (\<forall>l. snd (snd (xdr_WRITE3args (D\<lparr>x_public := Some l\<rparr>) (arg_write3 zero_arg))) = sample_write_args)"
proof -
  obtain E where E: "xdrmem_ncreate 0 (replicate 100 0) 100 XDR_ENCODE = Some E"
    by (simp add: xdrmem_ncreate_def)
  obtain D where D: "xdrmem_ncreate 0 (x_buf (fst (snd (xdr_WRITE3args E sample_write_args))))
      (length (wire_WRITE3args sample_write_args)) XDR_DECODE = Some D"
    by (simp add: xdrmem_ncreate_def)
  have "snd (snd (xdr_WRITE3args (D\<lparr>x_public := Some l\<rparr>) (arg_write3 zero_arg))) = sample_write_args" for l
    using write_args_round_trip [OF sample_write_args_valid _ _ E D, of "arg_write3 zero_arg" l]
    by (simp add: zero_arg_def)
  with E D show ?thesis by blast
qed

text \<open>
  A handle longer than 64 bytes is refused.  Every procedure but NULL takes a file handle first;
  a call whose first word, the length of that handle, is above 64 is answered with a decoding error, and no
  procedure runs.
\<close>

theorem long_handle_refused:
  fixes E :: "'os env"
  assumes "cb_prog msg = NFS_PROGRAM" "cb_vers msg = NFS_V3" "0 < cb_proc msg" "cb_proc msg \<le> 21"
    and "svc_auth_authenticate (cb_cred msg) = Some AUTH_OK"
    and "xdr_wf xdrs" "x_op xdrs = XDR_DECODE" "unread xdrs = htonl_bytes n @ rest" "n > 64"
  shows "nfs_rpc_valid_NFS E st msg xdrs out res = Some (st, Decode_error)"
proof -
  define d :: "'os nfs_function_desc" where "d = nfs3_func_desc ! unat (cb_proc msg)"
  have "d = tl nfs3_func_desc ! (unat (cb_proc msg) - 1)"
    using assms(3,4) by (simp add: d_def nth_tl word_less_nat_alt word_le_nat_alt)
  then have "d \<in> set (tl nfs3_func_desc)"
    using assms(4) nth_mem [of "unat (cb_proc msg) - 1" "tl nfs3_func_desc"] by (simp add: word_le_nat_alt)
  then have "xdr_stuck xdrs (xdr_decode_func d)"
    using table_stuck [OF xdr_stuck_handle [OF assms(6-9)]] by blast
  then obtain x y where "xdr_decode_func d xdrs zero_arg = (False, x, y)"
    by (cases "xdr_decode_func d xdrs zero_arg") (auto simp: xdr_stuck_def dest: spec [of _ zero_arg])
  with assms(1-5) show ?thesis
    by (simp add: nfs_rpc_valid_NFS_def nfs_rpc_process_request_def NFSPROC3_COMMIT_def d_def)
qed

theorem long_handle_refused_witness:
  "\<forall>res. nfs_rpc_valid_NFS sample_env (0, FsalHandle_init) (sample_call 7) (sample_in (htonl_bytes 65)) (sample_out 0) res =
     Some ((0, FsalHandle_init), Decode_error)"
  by (intro allI long_handle_refused [where n = 65 and rest = "[]"]) simp_all

text \<open>
  C28: The procedures that only ask, NULL, GETATTR, LOOKUP, ACCESS, FSSTAT, FSINFO and PATHCONF, never change the
  file system or the table of open files, whatever the request and the outcome.
\<close>

theorem queries_change_nothing:
  assumes "cb_proc msg \<in> {0, 1, 3, 4, 18, 19, 20}"
    and "nfs_rpc_valid_NFS E st msg xdrs out res = Some (st', oc)"
  shows "st' = st"
proof -
  have "st' = st" if "service_function (nfs3_func_desc ! unat (cb_proc msg)) E msg st arg res = Some (st', r, rc)" for arg r rc
    using assms(1) that
    by (auto simp: nfs3_func_desc_def in_member_Some nfs_null_def dest!: with_os_query query_state)
  then show ?thesis
    using assms(2)
    by (auto simp: nfs_rpc_valid_NFS_def nfs_rpc_process_request_def split: bind_splits if_splits prod.splits bool.splits)
qed

theorem queries_change_nothing_witness:
  "\<forall>res. \<exists>st' oc. nfs_rpc_valid_NFS sample_env (0, FsalHandle_init) (sample_call 0) (sample_in []) (sample_out 0) res =
     Some (st', oc) \<and> st' = (0, FsalHandle_init)"
proof
  fix res
  obtain st' oc where "nfs_rpc_valid_NFS sample_env (0, FsalHandle_init) (sample_call 0) (sample_in []) (sample_out 0) res =
      Some (st', oc)"
    by (simp add: nfs_rpc_valid_NFS_def nfs_rpc_process_request_def nfs3_func_desc_def xdr_void_def NFSPROC_NULL_def
        NFSPROC3_COMMIT_def)
  with queries_change_nothing [OF _ this] show "\<exists>st' oc. nfs_rpc_valid_NFS sample_env (0, FsalHandle_init) (sample_call 0)
      (sample_in []) (sample_out 0) res = Some (st', oc) \<and> st' = (0, FsalHandle_init)"
    by simp
qed

text \<open>
  C29: MNT from the bytes of the request to the bytes of the reply.  Whatever path of at most 1024 bytes a client asks for, and
  whoever the client is, the server grants it without looking at the file system or at the list of exports: the
  reply is the status MNT3_OK, the path itself as the file handle and the one flavour AUTH_NONE.  The reply can be sent when the
  path has at most 64 bytes and the reply fits, and cannot be encoded otherwise; nothing changes on the server.
\<close>

theorem mount_grants_any_path:
  assumes "cb_prog msg = MNT_PROGRAM" "cb_vers msg = MOUNT_V3" "cb_proc msg = 1"
    and "svc_auth_authenticate (cb_cred msg) = Some AUTH_OK"
    and "xdr_wf xdrs" "x_op xdrs = XDR_DECODE" "unread xdrs = wire_counted path @ rest"
    and "0 \<notin> set path" "length path \<le> 1024"
    and "xdr_wf out" "x_op out = XDR_ENCODE"
  shows "if length path \<le> 64 \<and> length (mount_reply path) \<le> room out
    then nfs_rpc_valid_MNT E st msg xdrs out res = Some (st, Replied True (emit (mount_reply path) out))
    else \<exists>out'. nfs_rpc_valid_MNT E st msg xdrs out res = Some (st, Replied False out')"
proof -
  obtain ok out' r where e: "xdr_mountres3 out (mounted path) = (ok, out', r)"
    by (cases "xdr_mountres3 out (mounted path)") auto
  note m = mount_served [OF assms(1-9) e, of E st res]
  show ?thesis
  proof (cases "length path \<le> 64")
    case True
    note v = mounted_valid [OF True] and w = mounted_wire [OF True]
    show ?thesis
      using m e mountres3.encode_fits [OF assms(10,11) v] mountres3.encode_full [OF assms(10,11) v] True
      by (auto simp: w)
  next
    case False
    with m e mounted_long [of path out] assms(9,11) show ?thesis
      by auto
  qed
qed

text \<open>
  C14: A client that mounts a path and asks for the attributes of the handle it was given gets the attributes of that
  path: the handle in the reply of MNT, as the client decodes it, sent back in a GETATTR call, is answered with
  the attributes \<open>lstat\<close> returns for the path that was mounted.
\<close>

theorem mount_then_getattr:
  assumes mnt: "cb_prog mm = MNT_PROGRAM" "cb_vers mm = MOUNT_V3" "cb_proc mm = 1"
      "svc_auth_authenticate (cb_cred mm) = Some AUTH_OK"
    and get: "cb_prog gm = NFS_PROGRAM" "cb_vers gm = NFS_V3" "cb_proc gm = 1"
      "svc_auth_authenticate (cb_cred gm) = Some AUTH_OK"
    and path: "path \<noteq> []" "length path \<le> 64" "0 \<notin> set path"
    and f: "sys_lstat (env_sys E) s path = Inr st" "ftype_of_mode (st_mode st) = Some t"
    and req: "xdr_wf xdrs" "x_op xdrs = XDR_DECODE" "unread xdrs = wire_counted path"
    and reply: "xdr_wf out" "x_op out = XDR_ENCODE" "length (mount_reply path) \<le> room out"
      "xdr_wf outg" "x_op outg = XDR_ENCODE" "88 \<le> room outg"
  shows "\<exists>out'. nfs_rpc_valid_MNT E (s, T) mm xdrs out res = Some ((s, T), Replied True out') \<and>
    (\<forall>D w. xdr_wf D \<and> x_op D = XDR_DECODE \<and> unread D = written out out' \<and> fhandle3_val (fhandle (mountinfo w)) = None \<longrightarrow>
      (\<exists>D' r. xdr_mountres3 D w = (True, D', r) \<and>
        (\<forall>xdrs2 res2. xdr_wf xdrs2 \<and> x_op xdrs2 = XDR_DECODE \<and> unread xdrs2 = wire_nfs_fh3 (client_handle r) \<longrightarrow>
          nfs_rpc_valid_NFS E (s, T) gm xdrs2 outg res2 = Some ((s, T), Replied True
            (emit (htonl_bytes NFS3_OK @ wire_fattr3 (fattr3_of_stat st t zero_fattr3)) outg)))))"
proof -
  let ?fh = "\<lparr>data_len = of_nat (length path), data_val = Some path\<rparr>"
  have n: "unat (of_nat (length path) :: uint32) = length path" "(of_nat (length path) :: uint32) \<noteq> 0"
    using path by (simp_all add: unsigned_of_nat take_bit_nat_eq_self unat_eq_0 [symmetric] del: unat_eq_0)
  note v = mounted_valid [OF path(2)] and w = mounted_wire [OF path(2)]
  have "xdr_mountres3 out (mounted path) = (True, emit (mount_reply path) out, mounted path)"
    using mountres3.encode_fits [OF reply(1,2) v] reply(3) by (simp add: w)
  with mnt req path have m: "nfs_rpc_valid_MNT E (s, T) mm xdrs out res = Some ((s, T), Replied True (emit (mount_reply path) out))"
    by (intro mount_served [where rest = "[]"]) simp_all
  have d: "xdr_mountres3 D w = (True, skip (length (mount_reply path)) D, dec_mountres3 (mounted path) w)"
    if "xdr_wf D" "x_op D = XDR_DECODE" "unread D = mount_reply path" for D w
    using mountres3.decode [OF that(1,2) v, of "[]" w] that(3) by (simp add: w)
  have g: "nfs_rpc_valid_NFS E (s, T) gm xdrs2 outg res2 = Some ((s, T), Replied True
            (emit (htonl_bytes NFS3_OK @ wire_fattr3 (fattr3_of_stat st t zero_fattr3)) outg))"
    if "xdr_wf xdrs2" "x_op xdrs2 = XDR_DECODE" "unread xdrs2 = wire_nfs_fh3 ?fh" for xdrs2 res2
    using that get f n path reply
    by (intro getattr_served [where args = "\<lparr>geta_object = ?fh\<rparr>" and p = path and rest = "[]"])
       (simp_all add: valid_GETATTR3args_def valid_nfs_fh3_def fh3_data_def block_def word_le_nat_alt wire_GETATTR3args_def
         get_file_handle_def c_str_id)
  show ?thesis
    using m d g written_emit [OF reply(1-3)] client_handle_mounted [OF path(1,2)] by auto
qed


theorem mount_grants_any_path_witness:
  "\<forall>res. nfs_rpc_valid_MNT sample_env (0, FsalHandle_init) sample_mount (sample_in (wire_counted [0x2F])) (sample_out 20) res =
     Some ((0, FsalHandle_init), Replied True (emit (mount_reply [0x2F]) (sample_out 20)))"
  using mount_grants_any_path [of sample_mount "sample_in (wire_counted [0x2F])" "[0x2F]" "[]" "sample_out 20"
      sample_env "(0, FsalHandle_init)"]
  by (simp add: mount_reply_def wire_counted_def length_wire_opaque pad_len_def)

theorem mount_then_getattr_witness:
  "\<forall>res. \<exists>out'. nfs_rpc_valid_MNT sample_env (0, FsalHandle_init) sample_mount (sample_in (wire_counted sample_file))
      (sample_out 100) res = Some ((0, FsalHandle_init), Replied True out') \<and>
    (\<exists>D' r. xdr_mountres3 (sample_in (written (sample_out 100) out')) \<lparr>fhs_status = 0, mountinfo =
        \<lparr>fhandle = \<lparr>fhandle3_len = 0, fhandle3_val = None\<rparr>, auth_flavors_len = 0, auth_flavors_val = None\<rparr>\<rparr> = (True, D', r) \<and>
      (\<forall>res2. nfs_rpc_valid_NFS sample_env (0, FsalHandle_init) (sample_call 1) (sample_in (wire_nfs_fh3 (client_handle r)))
        (sample_out 88) res2 = Some ((0, FsalHandle_init), Replied True
          (emit (htonl_bytes NFS3_OK @ wire_fattr3 (fattr3_of_stat (sample_stat 0x81A4) NF3REG zero_fattr3)) (sample_out 88)))))"
proof (intro allI)
  fix res :: nfs_res_t
  have "sample_file \<noteq> []" "length sample_file \<le> 64" "0 \<notin> set sample_file" "length (mount_reply sample_file) \<le> 100"
    by (simp_all add: sample_file_def mount_reply_def wire_counted_def length_wire_opaque pad_len_def)
  then obtain out' where m: "nfs_rpc_valid_MNT sample_env (0, FsalHandle_init) sample_mount (sample_in (wire_counted sample_file))
      (sample_out 100) res = Some ((0, FsalHandle_init), Replied True out')"
    and h: "\<And>D w. xdr_wf D \<and> x_op D = XDR_DECODE \<and> unread D = written (sample_out 100) out' \<and>
        fhandle3_val (fhandle (mountinfo w)) = None \<Longrightarrow>
      \<exists>D' r. xdr_mountres3 D w = (True, D', r) \<and>
        (\<forall>xdrs2 res2. xdr_wf xdrs2 \<and> x_op xdrs2 = XDR_DECODE \<and> unread xdrs2 = wire_nfs_fh3 (client_handle r) \<longrightarrow>
          nfs_rpc_valid_NFS sample_env (0, FsalHandle_init) (sample_call 1) xdrs2 (sample_out 88) res2 =
            Some ((0, FsalHandle_init), Replied True
            (emit (htonl_bytes NFS3_OK @ wire_fattr3 (fattr3_of_stat (sample_stat 0x81A4) NF3REG zero_fattr3)) (sample_out 88))))"
    using mount_then_getattr [where mm = sample_mount and gm = "sample_call 1" and E = sample_env and s = 0 and
      T = FsalHandle_init and xdrs = "sample_in (wire_counted sample_file)" and out = "sample_out 100" and path = sample_file and
      outg = "sample_out 88" and st = "sample_stat 0x81A4" and t = NF3REG and res = res] by auto
  let ?w = "\<lparr>fhs_status = 0, mountinfo = \<lparr>fhandle = \<lparr>fhandle3_len = 0, fhandle3_val = None\<rparr>,
      auth_flavors_len = 0, auth_flavors_val = None\<rparr>\<rparr>"
  obtain D' r where r: "xdr_mountres3 (sample_in (written (sample_out 100) out')) ?w = (True, D', r)"
    and g: "\<And>xdrs2 res2. xdr_wf xdrs2 \<Longrightarrow> x_op xdrs2 = XDR_DECODE \<Longrightarrow> unread xdrs2 = wire_nfs_fh3 (client_handle r) \<Longrightarrow>
          nfs_rpc_valid_NFS sample_env (0, FsalHandle_init) (sample_call 1) xdrs2 (sample_out 88) res2 =
            Some ((0, FsalHandle_init), Replied True
            (emit (htonl_bytes NFS3_OK @ wire_fattr3 (fattr3_of_stat (sample_stat 0x81A4) NF3REG zero_fattr3)) (sample_out 88)))"
    using h [of "sample_in (written (sample_out 100) out')" ?w] by auto
  show "\<exists>out'. nfs_rpc_valid_MNT sample_env (0, FsalHandle_init) sample_mount (sample_in (wire_counted sample_file))
      (sample_out 100) res = Some ((0, FsalHandle_init), Replied True out') \<and>
    (\<exists>D' r. xdr_mountres3 (sample_in (written (sample_out 100) out')) \<lparr>fhs_status = 0, mountinfo =
        \<lparr>fhandle = \<lparr>fhandle3_len = 0, fhandle3_val = None\<rparr>, auth_flavors_len = 0, auth_flavors_val = None\<rparr>\<rparr> = (True, D', r) \<and>
      (\<forall>res2. nfs_rpc_valid_NFS sample_env (0, FsalHandle_init) (sample_call 1) (sample_in (wire_nfs_fh3 (client_handle r)))
        (sample_out 88) res2 = Some ((0, FsalHandle_init), Replied True
          (emit (htonl_bytes NFS3_OK @ wire_fattr3 (fattr3_of_stat (sample_stat 0x81A4) NF3REG zero_fattr3)) (sample_out 88)))))"
    by (intro exI [of _ out'] exI [of _ D'] exI [of _ r] conjI allI m r g) simp_all
qed

end
